(* ===== verification/Go_Prelude.thy ===== *)
theory Go_Prelude
  imports
    Main
    "HOL-Library.Char_ord"
    "HOL-Library.List_Lexorder"
    "HOL-Library.Multiset"
    "HOL-Library.Monad_Syntax"
    "HOL-Library.State_Monad"
begin

text \<open>
  What the program uses of the Go language and its standard library, as pure functions:
  the \<^verbatim>\<open>strings\<close>, \<^verbatim>\<open>strconv\<close>, \<^verbatim>\<open>maps\<close>, \<^verbatim>\<open>filepath\<close> and \<^verbatim>\<open>fmt\<close> operations, error
  values with their \<^verbatim>\<open>%w\<close> chains, contexts with deadlines, and effectful code as a state
  monad over a world that holds the clock, the trace of requests sent so far and whatever is
  outside the program.  A Go \<^verbatim>\<open>map\<close> is an association list, listed in the order in which a
  \<^verbatim>\<open>range\<close> loop happens to visit it; a nil map and an empty map are both the empty list.
\<close>

named_theorems go_str \<open>characterisations of the string operations\<close>
named_theorems wp_simps \<open>weakest preconditions of effectful code\<close>
named_theorems issues_intros \<open>which requests a piece of effectful code may send\<close>

section \<open>Strings\<close>

definition HasPrefix :: "string \<Rightarrow> string \<Rightarrow> bool" where
  "HasPrefix s p \<longleftrightarrow> take (length p) s = p"

definition HasSuffix :: "string \<Rightarrow> string \<Rightarrow> bool" where
  "HasSuffix s p \<longleftrightarrow> length p \<le> length s \<and> drop (length s - length p) s = p"

fun Contains :: "string \<Rightarrow> string \<Rightarrow> bool" where
  "Contains [] sub = (sub = [])"
| "Contains (c # cs) sub = (HasPrefix (c # cs) sub \<or> Contains cs sub)"

definition CutPrefix :: "string \<Rightarrow> string \<Rightarrow> string \<times> bool" where
  "CutPrefix s p = (if HasPrefix s p then (drop (length p) s, True) else (s, False))"

definition TrimSuffix :: "string \<Rightarrow> string \<Rightarrow> string" where
  "TrimSuffix s p = (if HasSuffix s p then take (length s - length p) s else s)"

text \<open>\<^verbatim>\<open>strings.Cut\<close>: the text before and after the first separator, and whether it was found.\<close>

fun Cut :: "string \<Rightarrow> string \<Rightarrow> string \<times> string \<times> bool" where
  "Cut [] sep = ([], [], sep = [])"
| "Cut (c # cs) sep =
     (if HasPrefix (c # cs) sep then ([], drop (length sep) (c # cs), True)
      else case Cut cs sep of (b, a, found) \<Rightarrow> (c # b, a, found))"

lemma Cut_found: "Cut s sep = (b, a, True) \<Longrightarrow> s = b @ sep @ a"
proof (induction s arbitrary: b a)
  case (Cons c cs)
  then show ?case
    by (auto simp: HasPrefix_def split: if_splits prod.splits)
      (metis append_take_drop_id)
qed simp

lemma Cut_not_found: "Cut s sep = (b, a, False) \<Longrightarrow> b = s \<and> a = []"
  by (induction s arbitrary: b a) (auto split: if_splits prod.splits)

text \<open>\<^verbatim>\<open>strings.Split\<close>; an empty separator splits after every character.\<close>

function Split :: "string \<Rightarrow> string \<Rightarrow> string list" where
  "Split s sep =
     (if sep = [] then map (\<lambda>c. [c]) s
      else case Cut s sep of (b, a, found) \<Rightarrow> if found then b # Split a sep else [s])"
  by pat_completeness auto
termination
  by (relation "measure (\<lambda>(s, sep). length s)")
    (auto dest!: Cut_found [OF sym])

declare Split.simps [simp del]

fun Join :: "string list \<Rightarrow> string \<Rightarrow> string" where
  "Join [] sep = []"
| "Join [x] sep = x"
| "Join (x # y # xs) sep = x @ sep @ Join (y # xs) sep"

text \<open>\<^verbatim>\<open>strings.ReplaceAll\<close>; an empty pattern matches before every character and at the end.\<close>

function ReplaceAll :: "string \<Rightarrow> string \<Rightarrow> string \<Rightarrow> string" where
  "ReplaceAll s old new =
     (if old = [] then new @ concat (map (\<lambda>c. c # new) s)
      else case Cut s old of (b, a, found) \<Rightarrow> if found then b @ new @ ReplaceAll a old new else s)"
  by pat_completeness auto
termination
  by (relation "measure (\<lambda>(s, old, new). length s)") (auto dest!: Cut_found [OF sym])

declare ReplaceAll.simps [simp del]

text \<open>\<^verbatim>\<open>strconv.ParseBool\<close>: \<^verbatim>\<open>None\<close> is the syntax error.\<close>

definition ParseBool :: "string \<Rightarrow> bool option" where
  "ParseBool s =
     (if s \<in> {''1'', ''t'', ''T'', ''true'', ''TRUE'', ''True''} then Some True
      else if s \<in> {''0'', ''f'', ''F'', ''false'', ''FALSE'', ''False''} then Some False
      else None)"

definition FormatBool :: "bool \<Rightarrow> string" where
  "FormatBool b = (if b then ''true'' else ''false'')"

text \<open>\<^verbatim>\<open>filepath.Base\<close>: the last element of a path.\<close>

definition Base :: "string \<Rightarrow> string" where
  "Base p =
     (if p = [] then ''.''
      else let q = rev (dropWhile (\<lambda>c. c = CHR ''/'') (rev p));
               b = rev (takeWhile (\<lambda>c. c \<noteq> CHR ''/'') (rev q))
           in if b = [] then ''/'' else b)"

text \<open>The \<^verbatim>\<open>%q\<close> verb (\<^verbatim>\<open>strconv.Quote\<close>); bytes from 0x80 on are taken as printable text.\<close>

definition hex_digit :: "nat \<Rightarrow> char" where
  "hex_digit n = (if n < 10 then char_of (48 + n) else char_of (87 + n))"

definition quote_char :: "char \<Rightarrow> string" where
  "quote_char c =
     (let n = (of_char c :: nat) in
      if n = 34 then [char_of (92::nat), c] else if n = 92 then [c, c]
      else if n = 7 then [char_of (92::nat), CHR ''a''] else if n = 8 then [char_of (92::nat), CHR ''b'']
      else if n = 12 then [char_of (92::nat), CHR ''f''] else if n = 10 then [char_of (92::nat), CHR ''n'']
      else if n = 13 then [char_of (92::nat), CHR ''r''] else if n = 9 then [char_of (92::nat), CHR ''t'']
      else if n = 11 then [char_of (92::nat), CHR ''v'']
      else if n < 32 \<or> n = 127 then [char_of (92::nat), CHR ''x'', hex_digit (n div 16), hex_digit (n mod 16)]
      else [c])"

definition quote :: "string \<Rightarrow> string" where
  "quote s = [char_of (34::nat)] @ concat (map quote_char s) @ [char_of (34::nat)]"

text \<open>The \<^verbatim>\<open>%v\<close> verb on a string slice, and on an integer.\<close>

definition fmt_strings :: "string list \<Rightarrow> string" where
  "fmt_strings xs = ''['' @ Join xs '' '' @ '']''"

fun fmt_nat :: "nat \<Rightarrow> string" where
  "fmt_nat n = (if n < 10 then [char_of (48 + n)] else fmt_nat (n div 10) @ [char_of (48 + n mod 10)])"

declare fmt_nat.simps [simp del]

definition fmt_int :: "int \<Rightarrow> string" where
  "fmt_int i = (if i < 0 then ''-'' @ fmt_nat (nat (- i)) else fmt_nat (nat i))"

definition newline :: string where
  "newline = [char_of (10::nat)]"

subsection \<open>Facts about the string operations\<close>

lemma HasPrefix_iff [go_str]: "HasPrefix s p \<longleftrightarrow> (\<exists>t. s = p @ t)"
  unfolding HasPrefix_def by (metis append_eq_conv_conj append_take_drop_id)

lemma HasPrefix_append [simp]: "HasPrefix (p @ t) p"
  by (auto simp: HasPrefix_iff)

lemma HasPrefix_Nil [simp]: "HasPrefix s []"
  by (simp add: HasPrefix_def)

lemma HasSuffix_iff [go_str]: "HasSuffix s p \<longleftrightarrow> (\<exists>t. s = t @ p)"
proof
  assume "HasSuffix s p"
  then have "s = take (length s - length p) s @ p"
    unfolding HasSuffix_def by (metis append_take_drop_id)
  then show "\<exists>t. s = t @ p" by blast
qed (auto simp: HasSuffix_def)

lemma HasSuffix_append: "HasSuffix s p \<Longrightarrow> HasSuffix (t @ s) p"
  by (force simp: HasSuffix_iff)

lemma Contains_iff [go_str]: "Contains s sub \<longleftrightarrow> (\<exists>u v. s = u @ sub @ v)"
proof (induction s)
  case (Cons c cs)
  show ?case
  proof
    assume "Contains (c # cs) sub"
    then consider t where "c # cs = sub @ t" | u v where "cs = u @ sub @ v"
      using Cons by (auto simp: HasPrefix_iff)
    then show "\<exists>u v. c # cs = u @ sub @ v"
    proof cases
      case 1
      then have "c # cs = [] @ sub @ t" by simp
      then show ?thesis by blast
    next
      case 2
      then have "c # cs = (c # u) @ sub @ v" by simp
      then show ?thesis by blast
    qed
  next
    assume "\<exists>u v. c # cs = u @ sub @ v"
    then obtain u v where uv: "c # cs = u @ sub @ v" by blast
    show "Contains (c # cs) sub"
    proof (cases u)
      case Nil
      with uv show ?thesis by (metis Contains.simps(2) HasPrefix_append append_Nil)
    next
      case (Cons d ds)
      with uv have "cs = ds @ sub @ v" by simp
      then show ?thesis using Cons.IH by auto
    qed
  qed
qed auto

lemma Contains_append: "Contains s sub \<Longrightarrow> Contains (a @ s @ b) sub"
  unfolding Contains_iff by (metis append.assoc)

lemma Contains_trans: "Contains s t \<Longrightarrow> Contains t u \<Longrightarrow> Contains s u"
  unfolding Contains_iff by (metis append.assoc)

lemma Contains_self [simp]: "Contains s s"
  unfolding Contains_iff by (metis append_Nil append_Nil2)

lemma HasSuffix_Contains: "HasSuffix s p \<Longrightarrow> Contains s p"
  unfolding Contains_iff HasSuffix_iff by (metis append_Nil2)

lemma Cut_iff_Contains: "snd (snd (Cut s sep)) = Contains s sep"
  by (induction s) (auto split: prod.splits)

lemma Contains_single [simp]: "Contains s [c] \<longleftrightarrow> c \<in> set s"
  by (induction s) (auto simp: HasPrefix_def)

declare Contains.simps [simp del]

lemma CutPrefix_found: "CutPrefix s p = (r, True) \<longleftrightarrow> s = p @ r"
  by (auto simp: CutPrefix_def HasPrefix_iff)

lemma Cut_single:
  assumes "c \<notin> set b"
  shows "Cut (b @ c # a) [c] = (b, a, True)"
  using assms by (induction b) (auto simp: HasPrefix_def)

lemma Cut_single_absent: "c \<notin> set s \<Longrightarrow> Cut s [c] = (s, [], False)"
  by (induction s) (auto simp: HasPrefix_def)

lemma Cut_single_before: "Cut s [c] = (b, a, f) \<Longrightarrow> c \<notin> set b"
  by (induction s arbitrary: b a f) (auto simp: HasPrefix_def split: if_splits prod.splits)

lemma Split_single_absent: "c \<notin> set s \<Longrightarrow> Split s [c] = [s]"
  by (simp add: Split.simps Cut_single_absent)

lemma Split_single_cons: "c \<notin> set b \<Longrightarrow> Split (b @ c # a) [c] = b # Split a [c]"
  by (subst Split.simps) (simp add: Cut_single)

lemma Split_nonempty: "sep \<noteq> [] \<Longrightarrow> Split s sep \<noteq> []"
  by (subst Split.simps) (auto split: prod.splits)

lemma Join_Cons: "xs \<noteq> [] \<Longrightarrow> Join (x # xs) sep = x @ sep @ Join xs sep"
  by (cases xs) auto

text \<open>Splitting and joining are inverse to each other.\<close>

lemma Join_Split: "sep \<noteq> [] \<Longrightarrow> Join (Split s sep) sep = s"
proof (induction s sep rule: Split.induct)
  case (1 s sep)
  obtain b a f where cut: "Cut s sep = (b, a, f)" by (cases "Cut s sep") auto
  show ?case
  proof (cases f)
    case True
    with cut 1 have IH: "Join (Split a sep) sep = a" by auto
    from True cut have s: "s = b @ sep @ a" by (simp add: Cut_found)
    from True cut 1(2) have "Split s sep = b # Split a sep"
      by (subst Split.simps) simp
    with IH s 1(2) show ?thesis by (simp add: Join_Cons Split_nonempty)
  next
    case False
    with cut 1(2) show ?thesis by (subst Split.simps) simp
  qed
qed

lemma Split_Join:
  assumes "xs \<noteq> []" and "\<forall>x\<in>set xs. c \<notin> set x"
  shows "Split (Join xs [c]) [c] = xs"
  using assms
proof (induction xs "[c]" rule: Join.induct)
  case (2 x)
  then show ?case by (simp add: Split_single_absent)
next
  case (3 x y xs)
  then show ?case by (simp add: Split_single_cons)
qed simp

lemma ParseBool_FormatBool [simp]: "ParseBool (FormatBool b) = Some b"
  by (simp add: ParseBool_def FormatBool_def)

section \<open>Maps\<close>

type_synonym 'v gomap = "(string \<times> 'v) list"

text \<open>Assignment \<^verbatim>\<open>m[k] = v\<close>, and \<^verbatim>\<open>maps.Copy\<close>.\<close>

fun map_set :: "string \<Rightarrow> 'v \<Rightarrow> 'v gomap \<Rightarrow> 'v gomap" where
  "map_set k v [] = [(k, v)]"
| "map_set k v ((k', v') # m) = (if k = k' then (k, v) # m else (k', v') # map_set k v m)"

fun maps_Copy :: "'v gomap \<Rightarrow> 'v gomap \<Rightarrow> 'v gomap" where
  "maps_Copy dst [] = dst"
| "maps_Copy dst ((k, v) # src) = maps_Copy (map_set k v dst) src"

text \<open>\<^verbatim>\<open>m[k]\<close> on a map to strings: the zero value where the key is absent.\<close>

definition get_str :: "string gomap \<Rightarrow> string \<Rightarrow> string" where
  "get_str m k = (case map_of m k of None \<Rightarrow> [] | Some v \<Rightarrow> v)"

definition wf_map :: "'v gomap \<Rightarrow> bool" where
  "wf_map m \<longleftrightarrow> distinct (map fst m)"

lemma map_of_map_set [simp]: "map_of (map_set k v m) = (map_of m)(k \<mapsto> v)"
  by (induction k v m rule: map_set.induct) auto

lemma keys_map_set [simp]: "set (map fst (map_set k v m)) = insert k (fst ` set m)"
  by (induction k v m rule: map_set.induct) auto

lemma fst_image_map_set [simp]: "fst ` set (map_set k v m) = insert k (fst ` set m)"
  by (induction k v m rule: map_set.induct) auto

lemma wf_map_set [simp]: "wf_map m \<Longrightarrow> wf_map (map_set k v m)"
  by (induction k v m rule: map_set.induct) (auto simp: wf_map_def)

lemma wf_map_Copy [simp]: "wf_map m \<Longrightarrow> wf_map (maps_Copy m n)"
  by (induction m n rule: maps_Copy.induct) auto

lemma map_of_maps_Copy_other: "k \<notin> fst ` set n \<Longrightarrow> map_of (maps_Copy m n) k = map_of m k"
  by (induction m n rule: maps_Copy.induct) auto

lemma map_of_maps_Copy:
  assumes "wf_map n"
  shows "map_of (maps_Copy m n) k = (case map_of n k of None \<Rightarrow> map_of m k | Some v \<Rightarrow> Some v)"
  using assms
proof (induction m n rule: maps_Copy.induct)
  case (2 dst k' v src)
  then show ?case
    by (auto simp: wf_map_def map_of_maps_Copy_other image_iff split: option.splits
        dest: map_of_SomeD)
qed simp

lemma keys_maps_Copy: "fst ` set (maps_Copy m n) = fst ` set m \<union> fst ` set n"
  by (induction m n rule: maps_Copy.induct) auto

lemma wf_map_Nil [simp]: "wf_map []"
  by (simp add: wf_map_def)

text \<open>
  The order in which a map is visited does not change what it holds: two association lists
  with the same entries and distinct keys are the same map.
\<close>

lemma wf_map_perm: "mset m = mset n \<Longrightarrow> wf_map m \<Longrightarrow> wf_map n"
  unfolding wf_map_def by (metis mset_eq_imp_distinct_iff mset_map)

lemma map_of_perm:
  assumes "mset m = mset n" and "wf_map m"
  shows "map_of m = map_of n"
  using assms wf_map_perm by (metis map_of_eqI map_of_inject_set mset_eq_setD wf_map_def)

subsection \<open>Entries of a map, decimal numbers\<close>

lemma map_set_new: "k \<notin> fst ` set m \<Longrightarrow> map_set k v m = m @ [(k, v)]"
  by (induction k v m rule: map_set.induct) auto

lemma maps_Copy_new:
  "wf_map n \<Longrightarrow> fst ` set m \<inter> fst ` set n = {} \<Longrightarrow> maps_Copy m n = m @ n"
  by (induction m n rule: maps_Copy.induct) (auto simp: map_set_new wf_map_def)

lemma set_maps_Copy:
  assumes "wf_map n"
  shows "set (maps_Copy m n) \<subseteq> set m \<union> set n"
    and "set n \<subseteq> set (maps_Copy m n)"
    and "{e \<in> set m. fst e \<notin> fst ` set n} \<subseteq> set (maps_Copy m n)"
proof -
  have set_map_set: "set (map_set k v m) \<subseteq> insert (k, v) (set m)" "(k, v) \<in> set (map_set k v m)"
    "e \<in> set m \<Longrightarrow> fst e \<noteq> k \<Longrightarrow> e \<in> set (map_set k v m)" for k v and m :: "'a gomap" and e
    by (induction k v m rule: map_set.induct) auto
  show "set (maps_Copy m n) \<subseteq> set m \<union> set n"
    using set_map_set(1) by (induction m n rule: maps_Copy.induct) fastforce+
  have keeps: "{e \<in> set m. fst e \<notin> fst ` set n} \<subseteq> set (maps_Copy m n)" for m n :: "'a gomap"
    using set_map_set(3) by (induction m n rule: maps_Copy.induct) auto
  then show "{e \<in> set m. fst e \<notin> fst ` set n} \<subseteq> set (maps_Copy m n)" .
  show "set n \<subseteq> set (maps_Copy m n)"
    using assms
  proof (induction m n rule: maps_Copy.induct)
    case (2 dst k v src)
    have "(k, v) \<in> set (maps_Copy (map_set k v dst) src)"
      using keeps [of "map_set k v dst" src, THEN subsetD, of "(k, v)"] set_map_set(2) [of k v dst] 2(2)
      by (simp add: wf_map_def)
    then show ?case using 2 by (auto simp: wf_map_def)
  qed simp
qed

lemma fmt_nat_inj: "fmt_nat m = fmt_nat n \<longleftrightarrow> m = n"
proof
  have digit: "char_of (48 + m mod 10) = (char_of (48 + n mod 10) :: char) \<Longrightarrow> m mod 10 = n mod 10" for m n :: nat
    by (drule arg_cong [where f = "of_char :: char \<Rightarrow> nat"]) (simp add: of_char_of)
  show "fmt_nat m = fmt_nat n \<Longrightarrow> m = n"
  proof (induction m arbitrary: n rule: fmt_nat.induct)
    case (1 m)
    have step: "fmt_nat k = (if k < 10 then [] else fmt_nat (k div 10)) @ [char_of (48 + k mod 10)]" for k
      by (subst fmt_nat.simps) simp
    have some: "fmt_nat k \<noteq> []" for k by (subst step) simp
    from 1(2) have last: "m mod 10 = n mod 10" and init:
      "(if m < 10 then [] else fmt_nat (m div 10)) = (if n < 10 then [] else fmt_nat (n div 10))"
      using step [of m] step [of n] digit by auto
    show ?case
    proof (cases "m < 10")
      case True
      with init some [of "n div 10"] have "n < 10" by (auto split: if_splits)
      with last True show ?thesis by simp
    next
      case False
      with init some [of "m div 10"] have "\<not> n < 10" "fmt_nat (m div 10) = fmt_nat (n div 10)" by (auto split: if_splits)
      with 1(1) False last show ?thesis by (metis div_mult_mod_eq)
    qed
  qed
qed simp

end
