(* ===== verification/Go_Effects.thy ===== *)
theory Go_Effects
  imports Go_Prelude
begin

text \<open>
  Errors and effects.  An error value is the chain that \<^verbatim>\<open>fmt.Errorf("...%w...")\<close> and
  \<^verbatim>\<open>errors.Join\<close> build, with the node that \<^verbatim>\<open>utils.TerminalError\<close> adds; the code reads it
  through its message and through \<^verbatim>\<open>utils.IsTerminalError\<close>.  Effectful code runs in the library's
  state monad over a \<open>world\<close>: the clock, the requests sent so far, and the state of everything
  outside the program (type \<open>'w\<close>), which only the parameters of the model touch.  A call of an
  external operation may take any time and may answer anything.
\<close>

section \<open>Errors\<close>

datatype go_error =
    Err string
  | Wrapf string go_error string
  | Terminal go_error
  | Joined "go_error list"

abbreviation Errorf :: "string \<Rightarrow> go_error \<Rightarrow> go_error" where
  "Errorf pre e \<equiv> Wrapf pre e []"

definition TerminalError :: "go_error \<Rightarrow> go_error" where
  "TerminalError e = Terminal e"

text \<open>\<^verbatim>\<open>err.Error()\<close>\<close>

fun error_msg :: "go_error \<Rightarrow> string" where
  "error_msg (Err m) = m"
| "error_msg (Wrapf pre e post) = pre @ error_msg e @ post"
| "error_msg (Terminal e) = error_msg e"
| "error_msg (Joined es) = Join (map error_msg es) newline"

text \<open>
  \<^verbatim>\<open>errors.As(err, &terminalError{})\<close>: a depth-first search of the chain.  \<^verbatim>\<open>terminalError\<close>
  embeds the \<^verbatim>\<open>error\<close> interface and has no \<^verbatim>\<open>Unwrap\<close>, but the search stops there anyway.
\<close>

fun IsTerminalError :: "go_error \<Rightarrow> bool" where
  "IsTerminalError (Err _) = False"
| "IsTerminalError (Wrapf _ e _) = IsTerminalError e"
| "IsTerminalError (Terminal _) = True"
| "IsTerminalError (Joined es) = list_ex IsTerminalError es"

lemma TerminalError_simps [simp]:
  "IsTerminalError (TerminalError e)" "error_msg (TerminalError e) = error_msg e"
  by (simp_all add: TerminalError_def)

text \<open>What a wrapped message contains, and how it ends.\<close>

lemma Contains_Wrapf: "Contains (error_msg e) m \<Longrightarrow> Contains (error_msg (Wrapf pre e post)) m"
  by (simp add: Contains_append)

lemma HasSuffix_Errorf: "HasSuffix (error_msg e) m \<Longrightarrow> HasSuffix (error_msg (Errorf pre e)) m"
  by (simp add: HasSuffix_append)

section \<open>The world and effectful code\<close>

record ('r, 'w) world =
  clock :: nat
  trace :: "'r list"
  outside :: 'w

type_synonym ('r, 'w, 'a) io = "(('r, 'w) world, 'a) state"
type_synonym ('r, 'w, 'a) io_err = "(('r, 'w) world, go_error + 'a) state"

text \<open>An external operation: it answers, takes some time (milliseconds) and changes the outside.\<close>

type_synonym ('w, 'a) api = "'w \<Rightarrow> 'a \<times> nat \<times> 'w"
type_synonym ('w, 'a) api_err = "'w \<Rightarrow> (go_error + 'a) \<times> nat \<times> 'w"

abbreviation ret :: "'a \<Rightarrow> ('s, 'a) state" where
  "ret \<equiv> State_Monad.return"

definition call :: "'r \<Rightarrow> ('w, 'a) api \<Rightarrow> ('r, 'w, 'a) io" where
  "call r f = State (\<lambda>s. case f (outside s) of (x, d, w) \<Rightarrow>
     (x, s\<lparr>clock := clock s + d, trace := trace s @ [r], outside := w\<rparr>))"

text \<open>\<^verbatim>\<open>x, err := m; if err != nil { return wrap(err) }; k(x)\<close>\<close>

definition guard_err ::
  "('s, go_error + 'a) state \<Rightarrow> (go_error \<Rightarrow> go_error) \<Rightarrow> ('a \<Rightarrow> ('s, go_error + 'b) state)
   \<Rightarrow> ('s, go_error + 'b) state" where
  "guard_err m wrap k =
     do { r \<leftarrow> m; case r of Inl e \<Rightarrow> ret (Inl (wrap e)) | Inr x \<Rightarrow> k x }"

text \<open>A \<^verbatim>\<open>range\<close> loop whose body may return early with an error.\<close>

fun for_each :: "('a \<Rightarrow> ('s, go_error + unit) state) \<Rightarrow> 'a list \<Rightarrow> ('s, go_error + unit) state" where
  "for_each f [] = ret (Inr ())"
| "for_each f (x # xs) = guard_err (f x) id (\<lambda>_. for_each f xs)"

subsection \<open>Contexts and time\<close>

text \<open>
  A context is its deadline.  \<^verbatim>\<open>context.WithTimeout\<close> can only bring it forward.  Cancellation by
  the process shutting down is not modelled.
\<close>

record go_context =
  deadline :: "nat option"

definition Background :: go_context where
  "Background = \<lparr>deadline = None\<rparr>"

definition second :: nat where
  "second = 1000"

definition now :: "('r, 'w, nat) io" where
  "now = State (\<lambda>s. (clock s, s))"

definition with_timeout :: "go_context \<Rightarrow> nat \<Rightarrow> nat \<Rightarrow> go_context" where
  "with_timeout ctx d t =
     ctx\<lparr>deadline := Some (case deadline ctx of None \<Rightarrow> t + d | Some u \<Rightarrow> min u (t + d))\<rparr>"

definition WithTimeout :: "go_context \<Rightarrow> nat \<Rightarrow> ('r, 'w, go_context) io" where
  "WithTimeout ctx d = do { t \<leftarrow> now; ret (with_timeout ctx d t) }"

definition DeadlineExceeded :: go_error where
  "DeadlineExceeded = Err ''context deadline exceeded''"

text \<open>
  \<^verbatim>\<open>select { case <-ctx.Done(): ...; case <-time.After(d): }\<close>: the error of the context when its
  deadline comes first (or at the same time), nothing when the timer fires.
\<close>

definition select_after :: "go_context \<Rightarrow> nat \<Rightarrow> ('r, 'w, go_error option) io" where
  "select_after ctx d = State (\<lambda>s.
     case deadline ctx of
       None \<Rightarrow> (None, s\<lparr>clock := clock s + d\<rparr>)
     | Some t \<Rightarrow> if t \<le> clock s + d then (Some DeadlineExceeded, s\<lparr>clock := max (clock s) t\<rparr>)
                else (None, s\<lparr>clock := clock s + d\<rparr>))"

section \<open>Weakest preconditions\<close>

definition wp :: "('s, 'a) state \<Rightarrow> ('a \<Rightarrow> 's \<Rightarrow> bool) \<Rightarrow> 's \<Rightarrow> bool" where
  "wp m Q s = (case run_state m s of (x, s') \<Rightarrow> Q x s')"

lemma wpD: "wp m Q s \<Longrightarrow> run_state m s = (x, s') \<Longrightarrow> Q x s'"
  by (simp add: wp_def)

lemma wpI: "(\<And>x s'. run_state m s = (x, s') \<Longrightarrow> Q x s') \<Longrightarrow> wp m Q s"
  by (cases "run_state m s") (simp add: wp_def)

lemma wp_ret [wp_simps]: "wp (ret x) Q = Q x"
  by (simp add: wp_def fun_eq_iff)

lemma wp_bind [wp_simps]: "wp (State_Monad.bind m f) Q s = wp m (\<lambda>x. wp (f x) Q) s"
  by (simp add: wp_def split: prod.splits)

lemma wp_guard_err [wp_simps]:
  "wp (guard_err m wrap k) Q s = wp m (\<lambda>r. case r of Inl e \<Rightarrow> Q (Inl (wrap e)) | Inr x \<Rightarrow> wp (k x) Q) s"
proof -
  have "(\<lambda>r. wp (case r of Inl e \<Rightarrow> ret (Inl (wrap e)) | Inr x \<Rightarrow> k x) Q)
        = (\<lambda>r. case r of Inl e \<Rightarrow> Q (Inl (wrap e)) | Inr x \<Rightarrow> wp (k x) Q)"
    by (auto simp: fun_eq_iff wp_ret split: sum.splits)
  then show ?thesis by (simp add: guard_err_def wp_bind)
qed

lemma wp_if [wp_simps]: "wp (if b then m else n) Q s = (if b then wp m Q s else wp n Q s)"
  by simp

lemma wp_call [wp_simps]:
  "wp (call r f) Q s = (case f (outside s) of (x, d, w) \<Rightarrow>
     Q x (s\<lparr>clock := clock s + d, trace := trace s @ [r], outside := w\<rparr>))"
  by (simp add: wp_def call_def split: prod.splits)

lemma wp_now [wp_simps]: "wp now Q s = Q (clock s) s"
  by (simp add: wp_def now_def)

lemma wp_WithTimeout [wp_simps]: "wp (WithTimeout ctx d) Q s = Q (with_timeout ctx d (clock s)) s"
  by (simp add: WithTimeout_def wp_simps)

lemma wp_mono: "wp m P s \<Longrightarrow> (\<And>x s'. P x s' \<Longrightarrow> Q x s') \<Longrightarrow> wp m Q s"
  by (auto simp: wp_def split: prod.splits)

lemma wp_conj: "wp m (\<lambda>x s. P x s \<and> Q x s) s \<longleftrightarrow> wp m P s \<and> wp m Q s"
  by (simp add: wp_def split: prod.splits)

lemma wp_True [simp]: "wp m (\<lambda>_ _. True) s"
  by (simp add: wp_def split: prod.splits)

lemma run_state_guard_err:
  "run_state (guard_err m wrap k) s =
     (case run_state m s of (r, s') \<Rightarrow>
        case r of Inl e \<Rightarrow> (Inl (wrap e), s') | Inr x \<Rightarrow> run_state (k x) s')"
  by (simp add: guard_err_def split: prod.splits sum.splits)

section \<open>Which requests a computation sends\<close>

text \<open>
  \<open>issues P m\<close>: whatever the outside answers, running \<open>m\<close> only appends to the trace, it
  appends only requests that satisfy \<open>P\<close>, and the clock does not go back.
\<close>

definition issues :: "('r \<Rightarrow> bool) \<Rightarrow> ('r, 'w, 'a) io \<Rightarrow> bool" where
  "issues P m \<longleftrightarrow> (\<forall>s. wp m (\<lambda>_ s'. \<exists>rs. trace s' = trace s @ rs \<and> list_all P rs \<and> clock s \<le> clock s') s)"

lemma issuesI:
  assumes "\<And>s. wp m (\<lambda>_ s'. \<exists>rs. trace s' = trace s @ rs \<and> list_all P rs \<and> clock s \<le> clock s') s"
  shows "issues P m"
  using assms by (simp add: issues_def)

lemma issues_run:
  assumes "issues P m" and "run_state m s = (x, s')"
  shows "\<exists>rs. trace s' = trace s @ rs \<and> list_all P rs \<and> clock s \<le> clock s'"
  using assms(1) [unfolded issues_def, THEN spec [of _ s]] assms(2) by (simp add: wp_def)

lemma issuesD:
  "issues P m \<Longrightarrow> run_state m s = (x, s') \<Longrightarrow> \<exists>rs. trace s' = trace s @ rs \<and> list_all P rs"
  using issues_run by fastforce

lemma issues_clock: "issues P m \<Longrightarrow> run_state m s = (x, s') \<Longrightarrow> clock s \<le> clock s'"
  using issues_run by fastforce

lemma issues_mono: "issues P m \<Longrightarrow> (\<And>r. P r \<Longrightarrow> Q r) \<Longrightarrow> issues Q m"
  by (fastforce simp: issues_def list_all_iff elim: wp_mono)

lemma issues_ret [issues_intros]: "issues P (ret x)"
  by (simp add: issues_def wp_simps)

lemma issues_bind [issues_intros]:
  assumes m: "issues P m" and f: "\<And>x. issues P (f x)"
  shows "issues P (State_Monad.bind m f)"
proof (rule issuesI)
  fix s
  show "wp (State_Monad.bind m f) (\<lambda>_ s'. \<exists>rs. trace s' = trace s @ rs \<and> list_all P rs \<and> clock s \<le> clock s') s"
    unfolding wp_bind
  proof (rule wpI)
    fix x s1 assume run: "run_state m s = (x, s1)"
    from issuesD [OF m run] obtain rs where rs: "trace s1 = trace s @ rs" "list_all P rs" by blast
    have c: "clock s \<le> clock s1" by (rule issues_clock [OF m run])
    show "wp (f x) (\<lambda>_ s'. \<exists>rs. trace s' = trace s @ rs \<and> list_all P rs \<and> clock s \<le> clock s') s1"
    proof (rule wpI)
      fix y s2 assume run2: "run_state (f x) s1 = (y, s2)"
      from issuesD [OF f run2] rs issues_clock [OF f run2] c
      show "\<exists>rs. trace s2 = trace s @ rs \<and> list_all P rs \<and> clock s \<le> clock s2" by force
    qed
  qed
qed

lemma issues_guard_err [issues_intros]:
  "issues P m \<Longrightarrow> (\<And>x. issues P (k x)) \<Longrightarrow> issues P (guard_err m wrap k)"
  unfolding guard_err_def by (rule issues_bind) (auto intro: issues_ret split: sum.split)

lemma issues_if [issues_intros]:
  "(b \<Longrightarrow> issues P m) \<Longrightarrow> (\<not> b \<Longrightarrow> issues P n) \<Longrightarrow> issues P (if b then m else n)"
  by simp

lemma issues_call [issues_intros]: "P r \<Longrightarrow> issues P (call r f)"
  by (simp add: issues_def wp_simps split: prod.splits)

lemma issues_now [issues_intros]: "issues P now"
  by (simp add: issues_def wp_simps)

lemma issues_WithTimeout [issues_intros]: "issues P (WithTimeout ctx d)"
  by (simp add: issues_def wp_simps)

lemma issues_select_after [issues_intros]: "issues P (select_after ctx d)"
  by (auto simp: issues_def wp_def select_after_def split: option.splits)

lemma issues_for_each [issues_intros]:
  "(\<And>x. x \<in> set xs \<Longrightarrow> issues P (f x)) \<Longrightarrow> issues P (for_each f xs)"
  by (induction xs) (auto intro!: issues_intros)

lemma issues_case_sum [issues_intros]:
  "(\<And>e. r = Inl e \<Longrightarrow> issues P (f e)) \<Longrightarrow> (\<And>x. r = Inr x \<Longrightarrow> issues P (g x)) \<Longrightarrow>
   issues P (case r of Inl e \<Rightarrow> f e | Inr x \<Rightarrow> g x)"
  by (cases r) auto

lemma issues_case_option [issues_intros]:
  "(r = None \<Longrightarrow> issues P f) \<Longrightarrow> (\<And>x. r = Some x \<Longrightarrow> issues P (g x)) \<Longrightarrow>
   issues P (case r of None \<Rightarrow> f | Some x \<Rightarrow> g x)"
  by (cases r) auto

lemma issues_case_prod [issues_intros]:
  "(\<And>x y. p = (x, y) \<Longrightarrow> issues P (f x y)) \<Longrightarrow> issues P (case p of (x, y) \<Rightarrow> f x y)"
  by (cases p) auto

lemma issues_Let [issues_intros]: "issues P (f x) \<Longrightarrow> issues P (let y = x in f y)"
  by simp

text \<open>The same for what a computation can answer.\<close>

lemma issues_bind_result:
  assumes m: "issues P m" and f: "\<And>x s s'. run_state m s = (x, s') \<Longrightarrow> issues P (f x)"
  shows "issues P (State_Monad.bind m f)"
proof -
  define g where "g x = (if \<exists>s s'. run_state m s = (x, s') then f x else ret undefined)" for x
  have "State_Monad.bind m f = State_Monad.bind m g"
    by (rule State_Monad.state.expand) (auto simp: fun_eq_iff g_def split: prod.split)
  moreover have "issues P (State_Monad.bind m g)"
    by (rule issues_bind [OF m]) (auto simp: g_def intro: f issues_ret)
  ultimately show ?thesis by simp
qed

lemma issues_guard_err_result:
  assumes "issues P m" and "\<And>x s s'. run_state m s = (Inr x, s') \<Longrightarrow> issues P (k x)"
  shows "issues P (guard_err m wrap k)"
  unfolding guard_err_def
  by (rule issues_bind_result [OF assms(1)]) (auto intro: issues_ret assms(2) split: sum.split)

end
