(* ===== verification/Go_Crypto.thy ===== *)
theory Go_Crypto
  imports Go_Prelude "HOL-Library.Word"
begin

text \<open>
  \<^verbatim>\<open>crypto/sha256\<close> and \<^verbatim>\<open>encoding/hex\<close>, from which the name of a load balancer instance and the
  paths of image files are derived.  SHA-256 is written out as FIPS 180-4 has it, on 32-bit
  words; a byte is an 8-bit word.
\<close>

unbundle bit_operations_syntax

type_synonym u32 = "32 word"
type_synonym byte = "8 word"

definition bytes_of_string :: "string \<Rightarrow> byte list" where
  "bytes_of_string s = map (\<lambda>c. word_of_nat (of_char c)) s"

text \<open>
  The constants of the standard are the first 32 bits of the fractional parts of the cube roots of the
  first 64 primes and of the square roots of the first eight; \<open>root_bits k n acc b\<close> finds the integer
  \<open>k\<close>-th root of \<open>n\<close> bit by bit, and the conversion to a word drops the integer part.
\<close>

definition primes64 :: "nat list" where
  "primes64 =
    [2, 3, 5, 7, 11, 13, 17, 19, 23, 29, 31, 37, 41, 43, 47, 53,
     59, 61, 67, 71, 73, 79, 83, 89, 97, 101, 103, 107, 109, 113, 127, 131,
     137, 139, 149, 151, 157, 163, 167, 173, 179, 181, 191, 193, 197, 199, 211, 223,
     227, 229, 233, 239, 241, 251, 257, 263, 269, 271, 277, 281, 283, 293, 307, 311]"

fun root_bits :: "nat \<Rightarrow> nat \<Rightarrow> nat \<Rightarrow> nat \<Rightarrow> nat" where
  "root_bits k n acc 0 = acc"
| "root_bits k n acc (Suc b) =
     (if (acc + 2 ^ b) ^ k \<le> n then root_bits k n (acc + 2 ^ b) b else root_bits k n acc b)"

definition root_fraction :: "nat \<Rightarrow> nat \<Rightarrow> u32" where
  "root_fraction k p = word_of_nat (root_bits k (p * 2 ^ (32 * k)) 0 35)"

definition sha_K :: "u32 list" where
  "sha_K = map (root_fraction 3) primes64"

type_synonym sha_state = "u32 \<times> u32 \<times> u32 \<times> u32 \<times> u32 \<times> u32 \<times> u32 \<times> u32"

definition sha_init :: sha_state where
  "sha_init =
     (root_fraction 2 2, root_fraction 2 3, root_fraction 2 5, root_fraction 2 7,
      root_fraction 2 11, root_fraction 2 13, root_fraction 2 17, root_fraction 2 19)"

definition word_of_bytes :: "byte list \<Rightarrow> u32" where
  "word_of_bytes bs = foldl (\<lambda>w b. push_bit 8 w OR ucast b) 0 bs"

definition bytes_of_word :: "u32 \<Rightarrow> byte list" where
  "bytes_of_word w = [ucast (drop_bit 24 w), ucast (drop_bit 16 w), ucast (drop_bit 8 w), ucast w]"

definition sha_pad :: "byte list \<Rightarrow> byte list" where
  "sha_pad m =
     (let n = length m; z = (119 - n mod 64) mod 64
      in m @ [0x80] @ replicate z 0 @
         map (\<lambda>i. word_of_nat ((8 * n) div 256 ^ (7 - i) mod 256)) [0..<8])"

fun chunks :: "nat \<Rightarrow> 'a list \<Rightarrow> 'a list list" where
  "chunks n xs = (if n = 0 \<or> xs = [] then [] else take n xs # chunks n (drop n xs))"

declare chunks.simps [simp del]

definition rotr :: "nat \<Rightarrow> u32 \<Rightarrow> u32" where
  "rotr n x = drop_bit n x OR push_bit (32 - n) x"

definition sha_extend :: "u32 list \<Rightarrow> nat \<Rightarrow> u32 list" where
  "sha_extend w i =
     (let a = w ! (i - 15); b = w ! (i - 2);
          s0 = rotr 7 a XOR rotr 18 a XOR drop_bit 3 a;
          s1 = rotr 17 b XOR rotr 19 b XOR drop_bit 10 b
      in w @ [w ! (i - 16) + s0 + w ! (i - 7) + s1])"

definition sha_schedule :: "byte list \<Rightarrow> u32 list" where
  "sha_schedule block = foldl sha_extend (map word_of_bytes (chunks 4 block)) [16..<64]"

definition sha_round :: "sha_state \<Rightarrow> u32 \<times> u32 \<Rightarrow> sha_state" where
  "sha_round st kw =
     (case st of (a, b, c, d, e, f, g, h) \<Rightarrow> case kw of (k, w) \<Rightarrow>
      let s1 = rotr 6 e XOR rotr 11 e XOR rotr 25 e;
          ch = (e AND f) XOR (NOT e AND g);
          t1 = h + s1 + ch + k + w;
          s0 = rotr 2 a XOR rotr 13 a XOR rotr 22 a;
          mj = (a AND b) XOR (a AND c) XOR (b AND c)
      in (t1 + (s0 + mj), a, b, c, d + t1, e, f, g))"

definition sha_block :: "sha_state \<Rightarrow> byte list \<Rightarrow> sha_state" where
  "sha_block st block =
     (case st of (a, b, c, d, e, f, g, h) \<Rightarrow>
      case foldl sha_round st (zip sha_K (sha_schedule block)) of (a', b', c', d', e', f', g', h') \<Rightarrow>
      (a + a', b + b', c + c', d + d', e + e', f + f', g + g', h + h'))"

definition Sum256 :: "byte list \<Rightarrow> byte list" where
  "Sum256 m =
     (case foldl sha_block sha_init (chunks 64 (sha_pad m)) of (a, b, c, d, e, f, g, h) \<Rightarrow>
      concat (map bytes_of_word [a, b, c, d, e, f, g, h]))"

definition EncodeToString :: "byte list \<Rightarrow> string" where
  "EncodeToString bs = concat (map (\<lambda>b. [hex_digit (unat b div 16), hex_digit (unat b mod 16)]) bs)"

lemma length_Sum256 [simp]: "length (Sum256 m) = 32"
  by (simp add: Sum256_def bytes_of_word_def split: prod.splits)

lemma length_EncodeToString [simp]: "length (EncodeToString bs) = 2 * length bs"
  by (induction bs) (simp_all add: EncodeToString_def)

lemma hex_digit_range:
  assumes "n < 16"
  shows "hex_digit n \<in> set ''0123456789abcdef''"
proof -
  have "\<forall>n\<in>set [0..<16]. hex_digit n \<in> set ''0123456789abcdef''" by code_simp
  with assms show ?thesis by simp
qed

lemma set_EncodeToString: "set (EncodeToString bs) \<subseteq> set ''0123456789abcdef''"
proof (induction bs)
  case (Cons b bs)
  have "unat b < 256" using unsigned_less [of b] by simp
  then have "hex_digit (unat b div 16) \<in> set ''0123456789abcdef''"
    "hex_digit (unat b mod 16) \<in> set ''0123456789abcdef''"
    by (intro hex_digit_range; simp)+
  with Cons show ?case by (simp add: EncodeToString_def)
qed (simp add: EncodeToString_def)

end
