(* ===== verification/CAPN_API.thy ===== *)
theory CAPN_API
  imports Go_Effects Go_Crypto
begin

text \<open>
  The API objects of \<^verbatim>\<open>api/v1alpha2\<close> (LXCCluster, LXCMachine and the parts of their specs),
  with the methods the controllers call on them, and the fields of the Cluster API and
  Kubernetes objects (Cluster, Machine, Secret, conditions) that the controllers read.
\<close>

section \<open>Objects of Kubernetes and Cluster API\<close>

type_synonym NamespacedName = "string \<times> string"

record OwnerReference =
  or_APIVersion :: string
  or_Kind :: string
  or_Name :: string

record ObjectMeta =
  om_Name :: string
  om_Namespace :: string
  om_Labels :: "string gomap"
  om_Finalizers :: "string list"
  om_OwnerReferences :: "OwnerReference list"
  om_DeletionTimestamp :: "nat option"

record Condition =
  c_Type :: string
  c_Status :: string
  c_Severity :: string
  c_Reason :: string
  c_Message :: string

record V1Condition =
  vc_Type :: string
  vc_Status :: string
  vc_Reason :: string
  vc_Message :: string

definition ConditionSeverityError :: string where "ConditionSeverityError = ''Error''"
definition ConditionSeverityWarning :: string where "ConditionSeverityWarning = ''Warning''"
definition ConditionSeverityInfo :: string where "ConditionSeverityInfo = ''Info''"
definition DeletingReason :: string where "DeletingReason = ''Deleting''"
definition WaitingForControlPlaneAvailableReason :: string where
  "WaitingForControlPlaneAvailableReason = ''WaitingForControlPlaneAvailable''"
definition ControlPlaneInitializedCondition :: string where
  "ControlPlaneInitializedCondition = ''ControlPlaneInitialized''"
definition ReadyCondition :: string where "ReadyCondition = ''Ready''"
definition ClusterNameLabel :: string where
  "ClusterNameLabel = ''cluster.x-k8s.io/cluster-name''"

record MachineAddress =
  addr_Type :: string
  addr_Address :: string

record Secret =
  sec_meta :: ObjectMeta
  sec_Data :: "string gomap"

record Cluster =
  cl_meta :: ObjectMeta
  cl_InfrastructureRef :: "string option"
  cl_PodCIDRBlocks :: "string list option option"
  cl_InfrastructureReady :: bool
  cl_Conditions :: "Condition list"

record Machine =
  ma_meta :: ObjectMeta
  ma_Version :: "string option"
  ma_DataSecretName :: "string option"
  ma_InfrastructureRefName :: string

definition IsZeroTime :: "nat option \<Rightarrow> bool" where
  "IsZeroTime t \<longleftrightarrow> t = None"

section \<open>Condition types and reasons\<close>

definition LoadBalancerAvailableCondition :: string where
  "LoadBalancerAvailableCondition = ''LoadBalancerAvailable''"
definition LoadBalancerProvisioningFailedReason :: string where
  "LoadBalancerProvisioningFailedReason = ''LoadBalancerProvisioningFailed''"
definition LoadBalancerProvisioningAbortedReason :: string where
  "LoadBalancerProvisioningAbortedReason = ''LoadBalancerProvisioningAbortedReason''"
definition InstanceProvisionedCondition :: string where
  "InstanceProvisionedCondition = ''InstanceProvisioned''"
definition WaitingForClusterInfrastructureReason :: string where
  "WaitingForClusterInfrastructureReason = ''WaitingForClusterInfrastructure''"
definition WaitingForBootstrapDataReason :: string where
  "WaitingForBootstrapDataReason = ''WaitingForBootstrapData''"
definition CreatingInstanceReason :: string where
  "CreatingInstanceReason = ''CreatingInstance''"
definition InstanceProvisioningFailedReason :: string where
  "InstanceProvisioningFailedReason = ''InstanceProvisioningFailed''"
definition InstanceProvisioningAbortedReason :: string where
  "InstanceProvisioningAbortedReason = ''InstanceProvisioningAborted''"
definition InstanceDeletedReason :: string where
  "InstanceDeletedReason = ''InstanceDeleted''"

lemmas condition_consts =
  ConditionSeverityError_def ConditionSeverityWarning_def ConditionSeverityInfo_def
  DeletingReason_def WaitingForControlPlaneAvailableReason_def
  LoadBalancerAvailableCondition_def LoadBalancerProvisioningFailedReason_def
  LoadBalancerProvisioningAbortedReason_def InstanceProvisionedCondition_def
  WaitingForClusterInfrastructureReason_def WaitingForBootstrapDataReason_def
  CreatingInstanceReason_def InstanceProvisioningFailedReason_def
  InstanceProvisioningAbortedReason_def InstanceDeletedReason_def

section \<open>LXCMachine\<close>

definition MachineFinalizer :: string where
  "MachineFinalizer = ''lxcmachine.infrastructure.cluster.x-k8s.io''"

record LXCMachineImageSource =
  img_Name :: string
  img_Fingerprint :: string
  img_Server :: string
  img_Protocol :: string

definition IsZero :: "LXCMachineImageSource \<Rightarrow> bool" where
  "IsZero s \<longleftrightarrow> s = \<lparr>img_Name = [], img_Fingerprint = [], img_Server = [], img_Protocol = []\<rparr>"

type_synonym DeviceSpecs = "string list"

record LXCMachineSpec =
  ProviderID :: "string option"
  InstanceType :: string
  Flavor :: string
  Profiles :: "string list"
  Devices :: DeviceSpecs
  Config :: "string gomap"
  m_Image :: LXCMachineImageSource
  Target :: string

record LXCMachineStatus =
  m_Ready :: bool
  LoadBalancerConfigured :: bool
  Addresses :: "MachineAddress list"
  m_Conditions :: "Condition list"
  m_V1Beta2 :: "V1Condition list option"

record LXCMachine =
  m_meta :: ObjectMeta
  m_spec :: LXCMachineSpec
  m_status :: LXCMachineStatus

definition GetConditions_m :: "LXCMachine \<Rightarrow> Condition list" where
  "GetConditions_m c = m_Conditions (m_status c)"

definition SetConditions_m :: "LXCMachine \<Rightarrow> Condition list \<Rightarrow> LXCMachine" where
  "SetConditions_m c conds = c\<lparr>m_status := (m_status c)\<lparr>m_Conditions := conds\<rparr>\<rparr>"

definition GetV1Beta2Conditions_m :: "LXCMachine \<Rightarrow> V1Condition list" where
  "GetV1Beta2Conditions_m c = (case m_V1Beta2 (m_status c) of None \<Rightarrow> [] | Some cs \<Rightarrow> cs)"

definition SetV1Beta2Conditions_m :: "LXCMachine \<Rightarrow> V1Condition list \<Rightarrow> LXCMachine" where
  "SetV1Beta2Conditions_m c conds =
     (let c' = (if m_V1Beta2 (m_status c) = None then c\<lparr>m_status := (m_status c)\<lparr>m_V1Beta2 := Some []\<rparr>\<rparr> else c)
      in c'\<lparr>m_status := (m_status c')\<lparr>m_V1Beta2 := Some conds\<rparr>\<rparr>)"

definition GetInstanceName :: "LXCMachine \<Rightarrow> string" where
  "GetInstanceName c = om_Name (m_meta c)"

definition GetExpectedProviderID :: "LXCMachine \<Rightarrow> string" where
  "GetExpectedProviderID c = ''lxc:///'' @ GetInstanceName c"

subsection \<open>Device specifications\<close>

text \<open>\<^verbatim>\<open>Devices.ToMap\<close>: each entry is \<^verbatim>\<open><device>,<key>=<value>,<key2>=<value2>\<close>.\<close>

fun ToMap_args :: "string \<Rightarrow> string list \<Rightarrow> string gomap \<Rightarrow> go_error + string gomap" where
  "ToMap_args spec [] dev = Inr dev"
| "ToMap_args spec (arg # args) dev =
     (case Cut arg ''='' of (key, v, hasEqual) \<Rightarrow>
        if \<not> hasEqual then Inl (Err (''device argument '' @ quote arg @ '' of device spec '' @ quote spec
              @ '' is not using the expected '' @ quote ''<key>=<value>'' @ '' format''))
        else ToMap_args spec args (map_set key v dev))"

fun ToMap_loop :: "string list \<Rightarrow> string gomap gomap \<Rightarrow> go_error + string gomap gomap" where
  "ToMap_loop [] m = Inr m"
| "ToMap_loop (spec # d) m =
     (case Cut spec '','' of (name, args, hasSeparator) \<Rightarrow>
        if \<not> hasSeparator then Inl (Err (''device spec '' @ quote spec @ '' is not using the expected ''
              @ quote ''<device>,<key>=<value>,<key2>=<value2>'' @ '' format''))
        else
          let dev = (case map_of m name of None \<Rightarrow> [] | Some dev \<Rightarrow> dev)
          in case ToMap_args spec (Split args '','') dev of
               Inl e \<Rightarrow> Inl e
             | Inr dev' \<Rightarrow> ToMap_loop d (map_set name dev' m))"

definition ToMap :: "DeviceSpecs \<Rightarrow> go_error + string gomap gomap" where
  "ToMap d = (if d = [] then Inr [] else ToMap_loop d [])"

section \<open>LXCCluster\<close>

definition ClusterFinalizer :: string where
  "ClusterFinalizer = ''lxccluster.infrastructure.cluster.x-k8s.io''"

record APIEndpoint =
  Host :: string
  Port :: int

record LXCLoadBalancerMachineSpec =
  lb_Flavor :: string
  lb_Profiles :: "string list"
  lb_Image :: LXCMachineImageSource
  lb_Target :: string

record LXCLoadBalancerInstance =
  InstanceSpec :: LXCLoadBalancerMachineSpec
  CustomHAProxyConfigTemplate :: string

record LXCLoadBalancerOVN =
  NetworkName :: string

record LXCLoadBalancerKubeVIP =
  kv_Image :: string
  kv_Interface :: string
  kv_KubeconfigPath :: string
  kv_ManifestPath :: string

record LXCClusterLoadBalancer =
  lb_LXC :: "LXCLoadBalancerInstance option"
  lb_OCI :: "LXCLoadBalancerInstance option"
  lb_OVN :: "LXCLoadBalancerOVN option"
  lb_KubeVIP :: "LXCLoadBalancerKubeVIP option"
  lb_External :: "unit option"

record LXCClusterSpec =
  ControlPlaneEndpoint :: APIEndpoint
  SecretRef_Name :: string
  LoadBalancer :: LXCClusterLoadBalancer
  Unprivileged :: bool
  SkipDefaultKubeadmProfile :: bool

record LXCClusterStatus =
  c_Ready :: bool
  c_Conditions :: "Condition list"
  c_V1Beta2 :: "V1Condition list option"

record LXCCluster =
  c_meta :: ObjectMeta
  c_spec :: LXCClusterSpec
  c_status :: LXCClusterStatus

definition GetConditions_c :: "LXCCluster \<Rightarrow> Condition list" where
  "GetConditions_c c = c_Conditions (c_status c)"

definition SetConditions_c :: "LXCCluster \<Rightarrow> Condition list \<Rightarrow> LXCCluster" where
  "SetConditions_c c conds = c\<lparr>c_status := (c_status c)\<lparr>c_Conditions := conds\<rparr>\<rparr>"

definition GetV1Beta2Conditions_c :: "LXCCluster \<Rightarrow> V1Condition list" where
  "GetV1Beta2Conditions_c c = (case c_V1Beta2 (c_status c) of None \<Rightarrow> [] | Some cs \<Rightarrow> cs)"

definition SetV1Beta2Conditions_c :: "LXCCluster \<Rightarrow> V1Condition list \<Rightarrow> LXCCluster" where
  "SetV1Beta2Conditions_c c conds =
     (let c' = (if c_V1Beta2 (c_status c) = None then c\<lparr>c_status := (c_status c)\<lparr>c_V1Beta2 := Some []\<rparr>\<rparr> else c)
      in c'\<lparr>c_status := (c_status c')\<lparr>c_V1Beta2 := Some conds\<rparr>\<rparr>)"

definition GetLXCSecretNamespacedName :: "LXCCluster \<Rightarrow> NamespacedName" where
  "GetLXCSecretNamespacedName c = (om_Namespace (c_meta c), SecretRef_Name (c_spec c))"

definition GetLoadBalancerInstanceName :: "LXCCluster \<Rightarrow> string" where
  "GetLoadBalancerInstanceName c =
     (let hash = Sum256 (bytes_of_string (om_Namespace (c_meta c)))
      in om_Name (c_meta c) @ ''-'' @ take 5 (EncodeToString (take 3 hash)) @ ''-lb'')"

definition ClusterFirstPodNetworkCIDR :: "Cluster \<Rightarrow> string" where
  "ClusterFirstPodNetworkCIDR inp =
     (case cl_PodCIDRBlocks inp of
        None \<Rightarrow> []
      | Some pods \<Rightarrow> (case pods of
          None \<Rightarrow> []
        | Some blocks \<Rightarrow> (case blocks of [] \<Rightarrow> [] | b # _ \<Rightarrow> b)))"

section \<open>Properties\<close>

subsection \<open>The condition accessors as an interface\<close>

text \<open>
  \<^verbatim>\<open>conditions.Setter\<close> and \<^verbatim>\<open>paused.ConditionSetter\<close>: what the controllers' condition helpers rely
  on of an object: a written list of conditions is read back, the two lists are independent,
  and neither write touches the object's metadata or specification.
\<close>

locale condition_setter =
  fixes get :: "'o \<Rightarrow> Condition list"
    and set_to :: "'o \<Rightarrow> Condition list \<Rightarrow> 'o"
    and get_v :: "'o \<Rightarrow> V1Condition list"
    and set_v :: "'o \<Rightarrow> V1Condition list \<Rightarrow> 'o"
    and frame :: "'o \<Rightarrow> 'f"
  assumes get_set: "get (set_to x cs) = cs"
    and get_v_set_v: "get_v (set_v x vs) = vs"
    and get_set_v: "get (set_v x vs) = get x"
    and get_v_set: "get_v (set_to x cs) = get_v x"
    and frame_set: "frame (set_to x cs) = frame x"
    and frame_set_v: "frame (set_v x vs) = frame x"
begin

lemma writes_commute_on_reads:
  "get (set_v (set_to x cs) vs) = cs" "get_v (set_to (set_v x vs) cs) = vs"
  by (simp_all add: get_set get_v_set_v get_set_v get_v_set)

lemma frame_writes: "frame (set_v (set_to x cs) vs) = frame x"
  by (simp add: frame_set frame_set_v)

end

interpretation machine_conditions: condition_setter
  GetConditions_m SetConditions_m GetV1Beta2Conditions_m SetV1Beta2Conditions_m
  "\<lambda>c. (m_meta c, m_spec c, m_Ready (m_status c), LoadBalancerConfigured (m_status c), Addresses (m_status c))"
  by unfold_locales
    (auto simp: GetConditions_m_def SetConditions_m_def GetV1Beta2Conditions_m_def
      SetV1Beta2Conditions_m_def Let_def)

interpretation cluster_conditions: condition_setter
  GetConditions_c SetConditions_c GetV1Beta2Conditions_c SetV1Beta2Conditions_c
  "\<lambda>c. (c_meta c, c_spec c, c_Ready (c_status c))"
  by unfold_locales
    (auto simp: GetConditions_c_def SetConditions_c_def GetV1Beta2Conditions_c_def
      SetV1Beta2Conditions_c_def Let_def)

lemma GetInstanceName_simps [simp]:
  "GetInstanceName (c\<lparr>m_spec := sp\<rparr>) = GetInstanceName c"
  "GetInstanceName (c\<lparr>m_status := st\<rparr>) = GetInstanceName c"
  "GetExpectedProviderID (c\<lparr>m_spec := sp\<rparr>) = GetExpectedProviderID c"
  "GetExpectedProviderID (c\<lparr>m_status := st\<rparr>) = GetExpectedProviderID c"
  by (simp_all add: GetInstanceName_def GetExpectedProviderID_def)

subsection \<open>Names\<close>

text \<open>
  C40: the name of a load balancer instance is nine characters longer than the cluster's name,
  so that it stays within the 63 characters of an instance name exactly when the cluster's
  name has at most 54; it starts with that name, ends in \<^verbatim>\<open>-lb\<close>, and what it adds in between
  is a dash and five lower-case hexadecimal digits that depend on the namespace alone.
\<close>

theorem GetLoadBalancerInstanceName_shape:
  "\<exists>h. GetLoadBalancerInstanceName c = om_Name (c_meta c) @ ''-'' @ h @ ''-lb''
     \<and> length h = 5 \<and> set h \<subseteq> set ''0123456789abcdef''
     \<and> (length (GetLoadBalancerInstanceName c) \<le> 63 \<longleftrightarrow> length (om_Name (c_meta c)) \<le> 54)
     \<and> (\<forall>c'. om_Namespace (c_meta c') = om_Namespace (c_meta c) \<longrightarrow>
          GetLoadBalancerInstanceName c' = om_Name (c_meta c') @ ''-'' @ h @ ''-lb'')"
proof -
  let ?h = "take 5 (EncodeToString (take 3 (Sum256 (bytes_of_string (om_Namespace (c_meta c))))))"
  have "set ?h \<subseteq> set ''0123456789abcdef''"
    using set_take_subset set_EncodeToString by (rule subset_trans)
  then show ?thesis
    by (intro exI [of _ ?h]) (simp add: GetLoadBalancerInstanceName_def Let_def)
qed

theorem GetLoadBalancerInstanceName_shape_witness:
  "\<exists>h. length h = (5::nat)
     \<and> (\<forall>c'. om_Namespace (c_meta c') = ''default'' \<longrightarrow>
          GetLoadBalancerInstanceName c' = om_Name (c_meta c') @ ''-'' @ h @ ''-lb'')"
  using GetLoadBalancerInstanceName_shape
    [of "\<lparr>c_meta = \<lparr>om_Name = ''c1'', om_Namespace = ''default'', om_Labels = [], om_Finalizers = [],
            om_OwnerReferences = [], om_DeletionTimestamp = None\<rparr>,
          c_spec = undefined, c_status = undefined\<rparr>"]
  by auto

subsection \<open>Device specifications\<close>

text \<open>What a list of device specifications assigns, in order.\<close>

definition spec_entries :: "string \<Rightarrow> ((string \<times> string) \<times> string) list" where
  "spec_entries spec =
     (case Cut spec '','' of (name, args, _) \<Rightarrow>
        map (\<lambda>arg. case Cut arg ''='' of (key, v, _) \<Rightarrow> ((name, key), v)) (Split args '',''))"

definition device_ok :: "string \<Rightarrow> bool" where
  "device_ok spec \<longleftrightarrow>
     (case Cut spec '','' of (name, args, hasSeparator) \<Rightarrow>
        hasSeparator \<and> (\<forall>arg\<in>set (Split args '',''). Contains arg ''=''))"

definition device_lookup :: "string gomap gomap \<Rightarrow> string \<Rightarrow> string \<Rightarrow> string option" where
  "device_lookup m name key = (case map_of m name of None \<Rightarrow> None | Some dev \<Rightarrow> map_of dev key)"

lemma ToMap_args_ok:
  "(\<exists>dev'. ToMap_args spec args dev = Inr dev') \<longleftrightarrow> (\<forall>arg\<in>set args. Contains arg ''='')"
proof (induction spec args dev rule: ToMap_args.induct)
  case (2 spec arg args dev)
  then show ?case
    using Cut_iff_Contains [of arg "''=''"] by (auto split: prod.splits)
qed simp

lemma ToMap_args_lookup:
  "ToMap_args spec args dev = Inr dev' \<Longrightarrow>
   map_of dev' k = (case map_of (rev (map (\<lambda>arg. case Cut arg ''='' of (key, v, _) \<Rightarrow> (key, v)) args)) k of
      None \<Rightarrow> map_of dev k | Some v \<Rightarrow> Some v)"
  by (induction spec args dev rule: ToMap_args.induct)
    (auto simp: map_add_def split: prod.splits if_splits option.splits)

lemma ToMap_loop_ok:
  "(\<exists>m'. ToMap_loop d m = Inr m') \<longleftrightarrow> (\<forall>spec\<in>set d. device_ok spec)"
proof (induction d m rule: ToMap_loop.induct)
  case (2 spec d m)
  obtain name args f where cut: "Cut spec '','' = (name, args, f)" by (cases "Cut spec '',''") auto
  define dev where "dev = (case map_of m name of None \<Rightarrow> [] | Some dev \<Rightarrow> dev)"
  show ?case
  proof (cases "ToMap_args spec (Split args '','') dev")
    case (Inl e)
    then have "\<not> (\<forall>arg\<in>set (Split args '',''). Contains arg ''='')"
      using ToMap_args_ok [of spec "Split args '',''" dev] by auto
    with Inl cut show ?thesis by (simp add: device_ok_def dev_def)
  next
    case (Inr dev')
    then have "\<forall>arg\<in>set (Split args '',''). Contains arg ''=''"
      using ToMap_args_ok [of spec "Split args '',''" dev] by auto
    with "2.IH" [OF cut [symmetric] refl] Inr cut show ?thesis
      by (cases f) (simp_all add: device_ok_def dev_def)
  qed
qed simp

lemma map_of_map_key:
  "map_of (map (\<lambda>(k, v). ((n, k), v)) xs) (n', k') = (if n = n' then map_of xs k' else None)"
  by (induction xs) auto

lemma ToMap_loop_lookup:
  "ToMap_loop d m = Inr m' \<Longrightarrow>
   device_lookup m' n k = (case map_of (rev (concat (map spec_entries d))) (n, k) of
      None \<Rightarrow> device_lookup m n k | Some v \<Rightarrow> Some v)"
proof (induction d m rule: ToMap_loop.induct)
  case (2 spec d m)
  obtain name args f where cut: "Cut spec '','' = (name, args, f)" by (cases "Cut spec '',''") auto
  let ?dev = "case map_of m name of None \<Rightarrow> [] | Some dev \<Rightarrow> dev"
  from "2.prems" cut obtain dev' where f: f
    and dev': "ToMap_args spec (Split args '','') ?dev = Inr dev'"
    and rest: "ToMap_loop d (map_set name dev' m) = Inr m'"
    by (auto split: if_splits sum.splits)
  let ?kvs = "map (\<lambda>arg. case Cut arg ''='' of (key, v, _) \<Rightarrow> (key, v)) (Split args '','')"
  have entries: "spec_entries spec = map (\<lambda>(k, v). ((name, k), v)) ?kvs"
    by (simp add: spec_entries_def cut comp_def split: prod.splits)
  have IH: "device_lookup m' n k = (case map_of (rev (concat (map spec_entries d))) (n, k) of
      None \<Rightarrow> device_lookup (map_set name dev' m) n k | Some v \<Rightarrow> Some v)"
    using "2.IH" [OF cut [symmetric] refl] f dev' rest by simp
  have here: "device_lookup (map_set name dev' m) n k =
      (case map_of (rev (spec_entries spec)) (n, k) of None \<Rightarrow> device_lookup m n k | Some v \<Rightarrow> Some v)"
    unfolding entries rev_map map_of_map_key device_lookup_def
    using ToMap_args_lookup [OF dev', of k]
    by (auto simp: rev_map split: option.splits)
  show ?case
    by (simp add: IH here map_add_def split: option.splits)
qed simp

text \<open>
  \<^verbatim>\<open>Devices.ToMap\<close> accepts a list of device specifications exactly when every entry has a
  device name followed by a comma and all its arguments have an equals sign; the map it then
  returns holds for each device and key the value assigned last, and nothing else.
\<close>

theorem ToMap_correct:
  "((\<exists>m. ToMap d = Inr m) \<longleftrightarrow> (\<forall>spec\<in>set d. device_ok spec))
   \<and> (\<forall>m n k. ToMap d = Inr m \<longrightarrow>
        device_lookup m n k = map_of (rev (concat (map spec_entries d))) (n, k))"
proof (intro conjI allI impI)
  show "(\<exists>m. ToMap d = Inr m) \<longleftrightarrow> (\<forall>spec\<in>set d. device_ok spec)"
    using ToMap_loop_ok [of d "[]"] by (auto simp: ToMap_def)
next
  fix m n k assume "ToMap d = Inr m"
  then show "device_lookup m n k = map_of (rev (concat (map spec_entries d))) (n, k)"
    using ToMap_loop_lookup [of d "[]" m n k]
    by (cases "d = []") (auto simp: ToMap_def device_lookup_def split: option.splits)
qed

theorem ToMap_correct_witness:
  "\<exists>m. ToMap [''eth0,type=nic,network=a'', ''eth0,network=b''] = Inr m
     \<and> device_lookup m ''eth0'' ''network'' = Some ''b''"
proof -
  let ?d = "[''eth0,type=nic,network=a'', ''eth0,network=b'']"
  have "\<forall>spec\<in>set ?d. device_ok spec" by code_simp
  moreover have "map_of (rev (concat (map spec_entries ?d))) (''eth0'', ''network'') = Some ''b''"
    by code_simp
  ultimately show ?thesis using ToMap_correct [of ?d] by metis
qed

text \<open>The inverse direction: how a device is written as a specification.\<close>

definition device_spec :: "string \<times> string gomap \<Rightarrow> string" where
  "device_spec d = (case d of (name, kvs) \<Rightarrow>
     name @ '','' @ Join (map (\<lambda>(k, v). k @ ''='' @ v) kvs) '','')"

definition wf_device :: "string \<times> string gomap \<Rightarrow> bool" where
  "wf_device d = (case d of (name, kvs) \<Rightarrow>
     CHR '','' \<notin> set name \<and> kvs \<noteq> [] \<and> wf_map kvs \<and>
     list_all (\<lambda>(k, v). CHR '','' \<notin> set k \<and> CHR ''='' \<notin> set k \<and> CHR '','' \<notin> set v) kvs)"

lemma ToMap_args_print:
  "list_all (\<lambda>(k, v). CHR ''='' \<notin> set k) kvs \<Longrightarrow>
   ToMap_args spec (map (\<lambda>(k, v). k @ ''='' @ v) kvs) dev = Inr (maps_Copy dev kvs)"
  by (induction kvs arbitrary: dev) (auto simp: Cut_single)

lemma device_spec_cut:
  assumes "wf_device (name, kvs)"
  shows "Cut (device_spec (name, kvs)) '','' = (name, Join (map (\<lambda>(k, v). k @ ''='' @ v) kvs) '','', True)"
    and "Split (Join (map (\<lambda>(k, v). k @ ''='' @ v) kvs) '','') '','' = map (\<lambda>(k, v). k @ ''='' @ v) kvs"
proof -
  show "Cut (device_spec (name, kvs)) '','' = (name, Join (map (\<lambda>(k, v). k @ ''='' @ v) kvs) '','', True)"
    using assms by (simp add: device_spec_def wf_device_def Cut_single)
  show "Split (Join (map (\<lambda>(k, v). k @ ''='' @ v) kvs) '','') '','' = map (\<lambda>(k, v). k @ ''='' @ v) kvs"
    using assms by (intro Split_Join) (fastforce simp: wf_device_def list_all_iff)+
qed

lemma ToMap_loop_print:
  assumes "\<forall>d\<in>set ds. wf_device d" and "wf_map ds" and "fst ` set m \<inter> fst ` set ds = {}"
  shows "ToMap_loop (map device_spec ds) m = Inr (m @ ds)"
  using assms
proof (induction ds arbitrary: m)
  case (Cons d ds)
  obtain name kvs where d: "d = (name, kvs)" by (cases d)
  from Cons.prems d have wf: "wf_device (name, kvs)" and new: "name \<notin> fst ` set m" by auto
  from new have none: "map_of m name = None" by (simp add: map_of_eq_None_iff)
  from wf have "ToMap_args (device_spec (name, kvs)) (map (\<lambda>(k, v). k @ ''='' @ v) kvs) [] = Inr kvs"
    by (subst ToMap_args_print) (auto simp: wf_device_def list_all_iff maps_Copy_new)
  with wf d none have "ToMap_loop (map device_spec (d # ds)) m
      = ToMap_loop (map device_spec ds) (map_set name kvs m)"
    by (simp add: device_spec_cut device_spec_cut(2) [simplified])
  also have "\<dots> = Inr (map_set name kvs m @ ds)"
    using Cons.prems d by (intro Cons.IH) (auto simp: wf_map_def)
  finally show ?case using d new by (simp add: map_set_new)
qed simp

text \<open>
  C38: device maps survive the trip through their textual form: writing every device as
  \<^verbatim>\<open>name,key=value,...\<close> and parsing the list with \<^verbatim>\<open>Devices.ToMap\<close> gives the map back, whenever
  names and values have no comma, keys have no comma and no equals sign, and no device is empty.
\<close>

theorem ToMap_roundtrip:
  assumes "wf_map ds" and "\<forall>d\<in>set ds. wf_device d"
  shows "ToMap (map device_spec ds) = Inr ds"
  using assms ToMap_loop_print [of ds "[]"] by (cases ds) (auto simp: ToMap_def)

theorem ToMap_roundtrip_witness:
  "ToMap (map device_spec [(''eth0'', [(''type'', ''nic''), (''name'', ''a=b'')])])
     = Inr [(''eth0'', [(''type'', ''nic''), (''name'', ''a=b'')])]"
  by (rule ToMap_roundtrip) code_simp+

end
