(* ===== verification/External_API.thy ===== *)
theory External_API
  imports CAPN_API
begin

text \<open>
  The interfaces to code outside the repository: the Incus client library
  (\<^verbatim>\<open>github.com/lxc/incus/v6\<close>), the Kubernetes API client and the Cluster API utilities.  Their data
  types are records with the fields the program reads or writes; their operations are fields of
  a record that every definition using them takes as a parameter.  An operation answers anything,
  takes any time and changes the outside in any way.  Every call leaves its \<open>request\<close> in the
  trace of the world, so that what the program asks for can be stated without assuming anything
  of the answers.
\<close>

section \<open>Data types of the Incus API\<close>

record InstanceStateNetworkAddress =
  a_Family :: string
  a_Address :: string
  a_Netmask :: string
  a_Scope :: string

record InstanceStateNetwork =
  n_Type :: string
  n_HostName :: string
  n_Addresses :: "InstanceStateNetworkAddress list"

record InstanceState =
  st_Status :: string
  st_Pid :: int
  st_Network :: "InstanceStateNetwork gomap"

record InstanceFull =
  i_Name :: string
  i_Type :: string
  i_Config :: "string gomap"
  i_Devices :: "string gomap gomap"
  i_State :: "InstanceState option"

record InstanceSource =
  src_Type :: string
  src_Protocol :: string
  src_Server :: string
  src_Alias :: string
  src_Fingerprint :: string

record ImageSource =
  is_Protocol :: string
  is_Server :: string
  is_Alias :: string

record InstancesPost =
  p_Name :: string
  p_Source :: InstanceSource
  p_Type :: string
  p_InstanceType :: string
  p_Config :: "string gomap"
  p_Devices :: "string gomap gomap"
  p_Profiles :: "string list"

text \<open>
  An operation of the server as the progress handlers see it; \<open>op_return\<close> is the number under
  \<^verbatim>\<open>"return"\<close> of its metadata, cut to an integer.
\<close>

record APIOperation =
  op_ID :: string
  op_Class :: string
  op_Description :: string
  op_Resources :: "string list gomap"
  op_return :: "int option"

record ImageMetadataTemplate =
  t_When :: "string list"
  t_CreateOnly :: bool
  t_Template :: string

record ImageMetadata =
  md_Architecture :: string
  md_Properties :: "string gomap"
  md_Templates :: "ImageMetadataTemplate gomap"

record InstanceFileArgs =
  fa_Content :: string
  fa_Mode :: int
  fa_UID :: int
  fa_GID :: int
  fa_Type :: string
  fa_WriteMode :: string

record InstanceFileResponse =
  fr_Mode :: int
  fr_UID :: int
  fr_GID :: int
  fr_Type :: string

text \<open>The reader of a file: what reading it to the end and closing it answer.\<close>

record FileReader =
  rd_ReadAll :: "go_error + string"
  rd_Close :: "go_error + unit"

text \<open>A directory is answered without a reader: using the reader then panics, as an error here.\<close>

definition read_file :: "FileReader \<times> InstanceFileResponse \<Rightarrow> go_error + string" where
  "read_file = (\<lambda>(reader, resp).
     if fr_Type resp = ''directory'' then Inl (Err ''panic: invalid memory address or nil pointer dereference'')
     else rd_ReadAll reader)"

record NetworkLoadBalancerBackend =
  nb_Name :: string
  nb_TargetPort :: string
  nb_TargetAddress :: string

record NetworkLoadBalancerPort =
  np_ListenPort :: string
  np_Protocol :: string
  np_TargetBackend :: "string list"

record NetworkLoadBalancerPut =
  nl_Config :: "string gomap"
  nl_Backends :: "NetworkLoadBalancerBackend list"
  nl_Ports :: "NetworkLoadBalancerPort list"

text \<open>What the image builder uses: storage pools, instances and images.  Times are seconds since 1970.\<close>

record StoragePool =
  sp_Name :: string
  sp_Status :: string

record Instance =
  in_Type :: string
  in_LastUsedAt :: int

record ImageAliasesEntry =
  ia_Target :: string
  ia_Type :: string

record ImagesPost =
  ip_Properties :: "string gomap"
  ip_Public :: bool
  ip_ExpiresAt :: int
  ip_SourceType :: string
  ip_SourceName :: string
  ip_Aliases :: "string list"

record Server =
  env_Server :: string
  env_Driver :: string
  env_Architectures :: "string list"
  env_ServerClustered :: bool
  APIExtensions :: "string list"

section \<open>Requests\<close>

datatype incus_request =
    ReqGetInstanceState string
  | ReqGetInstancesFull
  | ReqGetInstanceFull string
  | ReqGetOperations
  | ReqRawOperation string
  | ReqCreateInstance InstancesPost
  | ReqUpdateInstanceState string string bool
  | ReqDeleteInstance string
  | ReqWaitOperation string
  | ReqGetInstanceMetadata string
  | ReqCreateInstanceTemplateFile string string string
  | ReqUpdateInstanceMetadata string ImageMetadata
  | ReqCreateInstanceFile string string InstanceFileArgs
  | ReqGetInstanceFile string string
  | ReqExecInstance string "string list" "string option"
  | ReqPullImage ImageSource
  | ReqGetNetwork string
  | ReqGetNetworkLoadBalancer string string
  | ReqGetNetworkLoadBalancerState string string
  | ReqCreateNetworkLoadBalancer string string NetworkLoadBalancerPut
  | ReqUpdateNetworkLoadBalancer string string NetworkLoadBalancerPut
  | ReqDeleteNetworkLoadBalancer string string
  | ReqConnectIncus string
  | ReqConnectIncusUnix string
  | ReqGetServer
  | ReqGetStoragePools
  | ReqGetInstance string
  | ReqGetImageAlias string
  | ReqGetImage string
  | ReqDeleteImageAlias string
  | ReqCreateImage ImagesPost
  | ReqGetImageFile string

datatype kube_request =
    KGetLXCMachine NamespacedName
  | KGetLXCCluster NamespacedName
  | KGetSecret NamespacedName
  | KListMachines string "string gomap"
  | KAddOwners LXCMachine
  | KGetOwnerMachine ObjectMeta
  | KGetClusterFromMetadata ObjectMeta
  | KGetOwnerCluster ObjectMeta
  | KEnsurePausedMachine Cluster LXCMachine
  | KEnsurePausedCluster Cluster LXCCluster
  | KEnsureFinalizerMachine LXCMachine string
  | KEnsureFinalizerCluster LXCCluster string
  | KNewHelperMachine LXCMachine
  | KNewHelperCluster LXCCluster
  | KPatchMachine LXCMachine LXCMachine "string list"
  | KPatchCluster LXCCluster LXCCluster "string list"

text \<open>\<open>Incus t r\<close> is the request \<open>r\<close> sent to cluster member \<open>t\<close> (empty where none is chosen).\<close>

datatype request =
    Incus string incus_request
  | Kube kube_request
  | ConnectSimpleStreams string
  | GetImageAliasType string string string
  | CraneHead string bool
  | LookPath string
  | RunProcess string "string list" "string list"
  | CranePull string
  | RemoteImage string "string option"
  | MultiSave string

section \<open>The Incus client library\<close>

text \<open>
  \<open>srv_ExecOutput\<close> is what the latest execution of a command on an instance has written to its standard
  output and error; \<open>srv_GetImage\<close> answers the time an image was created, \<open>srv_GetImageFile\<close> the file of an image.
\<close>

type_synonym ('w, 'a) srv = "string \<Rightarrow> ('w, 'a) api_err"

record 'w InstanceServer =
  srv_GetInstanceState :: "string \<Rightarrow> ('w, InstanceState) srv"
  srv_GetInstancesFull :: "('w, InstanceFull list) srv"
  srv_GetInstanceFull :: "string \<Rightarrow> ('w, InstanceFull) srv"
  srv_GetOperations :: "('w, APIOperation list) srv"
  srv_RawOperation :: "string \<Rightarrow> ('w, string) srv"
  srv_CreateInstance :: "InstancesPost \<Rightarrow> ('w, string) srv"
  srv_UpdateInstanceState :: "string \<Rightarrow> string \<Rightarrow> bool \<Rightarrow> ('w, string) srv"
  srv_DeleteInstance :: "string \<Rightarrow> ('w, string) srv"
  srv_WaitContext :: "string \<Rightarrow> go_context \<Rightarrow> string \<Rightarrow> ('w, APIOperation list \<times> (go_error + unit)) api"
  srv_GetInstanceMetadata :: "string \<Rightarrow> ('w, ImageMetadata) srv"
  srv_CreateInstanceTemplateFile :: "string \<Rightarrow> string \<Rightarrow> string \<Rightarrow> ('w, unit) srv"
  srv_UpdateInstanceMetadata :: "string \<Rightarrow> ImageMetadata \<Rightarrow> ('w, unit) srv"
  srv_CreateInstanceFile :: "string \<Rightarrow> string \<Rightarrow> InstanceFileArgs \<Rightarrow> ('w, unit) srv"
  srv_GetInstanceFile :: "string \<Rightarrow> string \<Rightarrow> ('w, FileReader \<times> InstanceFileResponse) srv"
  srv_ExecInstance :: "string \<Rightarrow> string list \<Rightarrow> string option \<Rightarrow> ('w, string) srv"
  srv_ExecOutput :: "string \<Rightarrow> string list \<Rightarrow> 'w \<Rightarrow> string \<times> string"
  srv_PullImage :: "ImageSource \<Rightarrow> ('w, string) srv"
  srv_GetNetwork :: "string \<Rightarrow> ('w, string gomap) srv"
  srv_GetNetworkLoadBalancer :: "string \<Rightarrow> string \<Rightarrow> ('w, NetworkLoadBalancerPut) srv"
  srv_GetNetworkLoadBalancerState :: "string \<Rightarrow> string \<Rightarrow> ('w, string) srv"
  srv_CreateNetworkLoadBalancer :: "string \<Rightarrow> string \<Rightarrow> NetworkLoadBalancerPut \<Rightarrow> ('w, unit) srv"
  srv_UpdateNetworkLoadBalancer :: "string \<Rightarrow> string \<Rightarrow> NetworkLoadBalancerPut \<Rightarrow> ('w, unit) srv"
  srv_DeleteNetworkLoadBalancer :: "string \<Rightarrow> string \<Rightarrow> ('w, unit) srv"
  srv_GetStoragePools :: "('w, StoragePool list) srv"
  srv_GetInstance :: "string \<Rightarrow> ('w, Instance) srv"
  srv_GetImageAlias :: "string \<Rightarrow> ('w, ImageAliasesEntry) srv"
  srv_GetImage :: "string \<Rightarrow> ('w, int) srv"
  srv_DeleteImageAlias :: "string \<Rightarrow> ('w, unit) srv"
  srv_CreateImage :: "ImagesPost \<Rightarrow> ('w, string) srv"
  srv_GetImageFile :: "string \<Rightarrow> ('w, string) srv"

text \<open>Connecting to a server (\<^verbatim>\<open>ConnectIncusWithContext\<close>, \<^verbatim>\<open>ConnectIncusUnixWithContext\<close>).\<close>

record ConnectionArgs =
  TLSServerCert :: string
  TLSClientCert :: string
  TLSClientKey :: string
  ca_InsecureSkipVerify :: bool

record 'w Connector =
  con_ConnectIncus :: "string \<Rightarrow> ConnectionArgs \<Rightarrow> ('w, 'w InstanceServer) api_err"
  con_ConnectIncusUnix :: "string \<Rightarrow> ('w, 'w InstanceServer) api_err"
  con_UseProject :: "'w InstanceServer \<Rightarrow> string \<Rightarrow> 'w InstanceServer"
  con_GetServer :: "'w InstanceServer \<Rightarrow> ('w, Server) api_err"

text \<open>Checking that an image exists on its server (simplestreams client, \<^verbatim>\<open>crane\<close>).\<close>

record 'w ImageServers =
  img_ConnectSimpleStreams :: "string \<Rightarrow> ('w, unit) api_err"
  img_GetImageAliasType :: "string \<Rightarrow> string \<Rightarrow> string \<Rightarrow> ('w, unit) api_err"
  img_CraneHead :: "string \<Rightarrow> bool \<Rightarrow> ('w, unit) api_err"

text \<open>
  Programs on the local machine: looking one up, and running it with arguments and additional
  environment variables, which answers what it wrote to its standard error.
\<close>

record 'w Programs =
  pg_LookPath :: "string \<Rightarrow> ('w, string) api_err"
  pg_Run :: "go_context \<Rightarrow> string \<Rightarrow> string list \<Rightarrow> string list \<Rightarrow> ('w, string \<times> (go_error + unit)) api"

section \<open>The Kubernetes client and the Cluster API utilities\<close>

record 'w KubeClient =
  k_GetLXCMachine :: "NamespacedName \<Rightarrow> ('w, LXCMachine) api_err"
  k_GetLXCCluster :: "NamespacedName \<Rightarrow> ('w, LXCCluster) api_err"
  k_GetSecret :: "NamespacedName \<Rightarrow> ('w, Secret) api_err"
  k_ListMachines :: "string \<Rightarrow> string gomap \<Rightarrow> ('w, Machine list) api_err"
  k_AddOwners :: "LXCMachine \<Rightarrow> ('w, unit) api_err"
  k_GetOwnerMachine :: "ObjectMeta \<Rightarrow> ('w, Machine option) api_err"
  k_GetClusterFromMetadata :: "ObjectMeta \<Rightarrow> ('w, Cluster option) api_err"
  k_GetOwnerCluster :: "ObjectMeta \<Rightarrow> ('w, Cluster option) api_err"
  k_EnsurePausedMachine :: "Cluster \<Rightarrow> LXCMachine \<Rightarrow> ('w, LXCMachine \<times> bool \<times> bool) api_err"
  k_EnsurePausedCluster :: "Cluster \<Rightarrow> LXCCluster \<Rightarrow> ('w, LXCCluster \<times> bool \<times> bool) api_err"
  k_EnsureFinalizerMachine :: "LXCMachine \<Rightarrow> string \<Rightarrow> ('w, LXCMachine \<times> bool) api_err"
  k_EnsureFinalizerCluster :: "LXCCluster \<Rightarrow> string \<Rightarrow> ('w, LXCCluster \<times> bool) api_err"
  k_NewHelperMachine :: "LXCMachine \<Rightarrow> ('w, unit) api_err"
  k_NewHelperCluster :: "LXCCluster \<Rightarrow> ('w, unit) api_err"
  k_PatchMachine :: "LXCMachine \<Rightarrow> LXCMachine \<Rightarrow> string list \<Rightarrow> ('w, unit) api_err"
  k_PatchCluster :: "LXCCluster \<Rightarrow> LXCCluster \<Rightarrow> string list \<Rightarrow> ('w, unit) api_err"
  k_IsNotFound :: "go_error \<Rightarrow> bool"

record CAPIUtil =
  u_IsControlPlaneMachine :: "Machine \<Rightarrow> bool"
  u_IsTrue :: "Condition list \<Rightarrow> string \<Rightarrow> bool"
  u_MarkTrue :: "Condition list \<Rightarrow> string \<Rightarrow> Condition list"
  u_MarkFalse :: "Condition list \<Rightarrow> string \<Rightarrow> string \<Rightarrow> string \<Rightarrow> string \<Rightarrow> Condition list"
  u_SetSummary :: "Condition list \<Rightarrow> string list \<Rightarrow> bool \<Rightarrow> Condition list"
  u_RemoveFinalizer :: "string list \<Rightarrow> string \<Rightarrow> string list"

text \<open>
  Documented behaviour of the Cluster API utilities that statements about conditions and
  finalizers rely on: marking a condition makes a lookup of its type find exactly what was
  marked and leaves the other types alone, and removing a finalizer removes every occurrence.
\<close>

definition find_condition :: "Condition list \<Rightarrow> string \<Rightarrow> Condition option" where
  "find_condition cs t = find (\<lambda>c. c_Type c = t) cs"

definition capi_conditions_law :: "CAPIUtil \<Rightarrow> bool" where
  "capi_conditions_law u \<longleftrightarrow>
     (\<forall>cs t t' reason sev msg.
        find_condition (u_MarkTrue u cs t) t'
          = (if t' = t then Some \<lparr>c_Type = t, c_Status = ''True'', c_Severity = [], c_Reason = [], c_Message = []\<rparr>
             else find_condition cs t')
      \<and> find_condition (u_MarkFalse u cs t reason sev msg) t'
          = (if t' = t then Some \<lparr>c_Type = t, c_Status = ''False'', c_Severity = sev, c_Reason = reason, c_Message = msg\<rparr>
             else find_condition cs t'))"

definition capi_finalizer_law :: "CAPIUtil \<Rightarrow> bool" where
  "capi_finalizer_law u \<longleftrightarrow> (\<forall>fs f. u_RemoveFinalizer u fs f = filter (\<lambda>g. g \<noteq> f) fs)"

end
