(* ===== verification/LXC_Images.thy ===== *)
theory LXC_Images
  imports External_API
begin

text \<open>
  Image sources of \<^verbatim>\<open>internal/lxc\<close>: \<^verbatim>\<open>consts.go\<close>, \<^verbatim>\<open>images.go\<close>, \<^verbatim>\<open>images_parse.go\<close>,
  \<^verbatim>\<open>images_sources.go\<close>.  \<open>Image\<close> and \<open>imageFamily\<close> are the two implementations of the interface
  \<^verbatim>\<open>ImageFamily\<close>, whose contract is the locale \<open>image_family\<close>.
\<close>

section \<open>Constants\<close>

definition DefaultSimplestreamsServer :: string where
  "DefaultSimplestreamsServer = ''https://d14dnvi2l3tc5t.cloudfront.net''"
definition DefaultStagingSimplestreamsServer :: string where
  "DefaultStagingSimplestreamsServer = ''https://djapqxqu5n2qu.cloudfront.net''"
definition DefaultIncusSimplestreamsServer :: string where
  "DefaultIncusSimplestreamsServer = ''https://images.linuxcontainers.org''"
definition DefaultLXDSimplestreamsServer :: string where
  "DefaultLXDSimplestreamsServer = ''https://images.lxd.canonical.com''"
definition DefaultLXDUbuntuSimplestreamsServer :: string where
  "DefaultLXDUbuntuSimplestreamsServer = ''https://cloud-images.ubuntu.com/releases/''"
definition DockerHubServer :: string where "DockerHubServer = ''https://docker.io''"
definition Container :: string where "Container = ''container''"
definition VirtualMachine :: string where "VirtualMachine = ''virtual-machine''"
definition IncusServer :: string where "IncusServer = ''incus''"
definition LXD :: string where "LXD = ''lxd''"
definition OCI :: string where "OCI = ''oci''"
definition Simplestreams :: string where "Simplestreams = ''simplestreams''"
definition instanceCreateTimeout :: nat where "instanceCreateTimeout = 180 * second"
definition instanceStartTimeout :: nat where "instanceStartTimeout = 60 * second"
definition instanceStopTimeout :: nat where "instanceStopTimeout = 30 * second"
definition instanceDeleteTimeout :: nat where "instanceDeleteTimeout = 30 * second"

lemmas lxc_consts =
  DefaultSimplestreamsServer_def DefaultStagingSimplestreamsServer_def
  DefaultIncusSimplestreamsServer_def DefaultLXDSimplestreamsServer_def
  DefaultLXDUbuntuSimplestreamsServer_def DockerHubServer_def Container_def VirtualMachine_def
  IncusServer_def LXD_def OCI_def Simplestreams_def

section \<open>Images\<close>

record Image =
  im_Fingerprint :: string
  im_Protocol :: string
  im_Server :: string
  im_Alias :: string

record imageFamily =
  Description :: string
  Sources :: "Image gomap"

datatype ImageFamily = PlainImage Image | FamilyOf imageFamily

definition For_family :: "imageFamily \<Rightarrow> string \<Rightarrow> go_error + Image" where
  "For_family f serverName =
     (case map_of (Sources f) serverName of
        None \<Rightarrow> Inl (TerminalError (Err (''no source for '' @ quote (Description f)
                  @ '' images for server '' @ quote serverName)))
      | Some img \<Rightarrow> Inr img)"

definition For_image :: "Image \<Rightarrow> string \<Rightarrow> go_error + Image" where
  "For_image i serverName = Inr i"

fun For :: "ImageFamily \<Rightarrow> string \<Rightarrow> go_error + Image" where
  "For (PlainImage i) serverName = For_image i serverName"
| "For (FamilyOf f) serverName = For_family f serverName"

definition to_ImageSource :: "Image \<Rightarrow> ImageSource" where
  "to_ImageSource i = \<lparr>is_Protocol = im_Protocol i, is_Server = im_Server i, is_Alias = im_Alias i\<rparr>"

definition to_InstanceSource :: "Image \<Rightarrow> InstanceSource" where
  "to_InstanceSource i =
     \<lparr>src_Type = ''image'', src_Protocol = im_Protocol i, src_Server = im_Server i,
      src_Alias = im_Alias i, src_Fingerprint = im_Fingerprint i\<rparr>"

text \<open>\<^verbatim>\<open>Image.Check\<close> asks the image's server whether it has the image.\<close>

definition Check_head :: "'w ImageServers \<Rightarrow> string \<Rightarrow> bool \<Rightarrow> (request, 'w, unit) io_err" where
  "Check_head sv imageRef insecure =
     do { r \<leftarrow> call (CraneHead imageRef insecure) (img_CraneHead sv imageRef insecure);
          case r of
            Inl err \<Rightarrow>
              (let err = Wrapf (''HEAD request for image '' @ quote imageRef @ '' failed: '') err []
               in if \<not> Contains (error_msg err) ''unexpected status code 4''
                  then ret (Inl (TerminalError (Errorf ''fatal error: '' err)))
                  else ret (Inl err))
          | Inr _ \<Rightarrow> ret (Inr ()) }"

definition Check :: "'w ImageServers \<Rightarrow> Image \<Rightarrow> string \<Rightarrow> (request, 'w, unit) io_err" where
  "Check sv i instanceType =
     (if im_Protocol i = Simplestreams then
        guard_err (call (ConnectSimpleStreams (im_Server i)) (img_ConnectSimpleStreams sv (im_Server i)))
          (Errorf (''failed to connect to simplestreams server '' @ quote (im_Server i) @ '': ''))
          (\<lambda>_. guard_err (call (GetImageAliasType (im_Server i) instanceType (im_Alias i))
                     (img_GetImageAliasType sv (im_Server i) instanceType (im_Alias i)))
            (\<lambda>err. TerminalError (Errorf (''no image with alias '' @ quote (im_Alias i)
               @ '' found on the simplestreams server '' @ quote (im_Server i) @ '': '') err))
            (\<lambda>_. ret (Inr ())))
      else if im_Protocol i = OCI then
        (case CutPrefix (im_Server i) ''https://'' of (server, ok) \<Rightarrow>
           if ok then Check_head sv (server @ ''/'' @ im_Alias i) False
           else case CutPrefix (im_Server i) ''http://'' of (server, ok) \<Rightarrow>
             if ok then Check_head sv (server @ ''/'' @ im_Alias i) True
             else ret (Inl (TerminalError (Err (''server '' @ quote (im_Server i)
                    @ '' is not an HTTP or HTTPS server'')))))
      else ret (Inl (Err (''check not supported for protocol '' @ quote (im_Protocol i)))))"

section \<open>Well-known images\<close>

definition mk_image :: "string \<Rightarrow> string \<Rightarrow> string \<Rightarrow> Image" where
  "mk_image protocol server alias =
     \<lparr>im_Fingerprint = [], im_Protocol = protocol, im_Server = server, im_Alias = alias\<rparr>"

definition UbuntuImage :: "string \<Rightarrow> ImageFamily" where
  "UbuntuImage version = FamilyOf
     \<lparr>Description = ''ubuntu'',
      Sources = [(IncusServer, mk_image Simplestreams DefaultIncusSimplestreamsServer
                                 (''ubuntu/'' @ version @ ''/cloud'')),
                 (LXD, mk_image Simplestreams DefaultLXDUbuntuSimplestreamsServer version)]\<rparr>"

definition DebianImage :: "string \<Rightarrow> ImageFamily" where
  "DebianImage version = FamilyOf
     \<lparr>Description = ''debian'',
      Sources = [(IncusServer, mk_image Simplestreams DefaultIncusSimplestreamsServer
                                 (''debian/'' @ version @ ''/cloud'')),
                 (LXD, mk_image Simplestreams DefaultLXDSimplestreamsServer
                         (''debian/'' @ version @ ''/cloud''))]\<rparr>"

definition DefaultImage :: "string \<Rightarrow> ImageFamily" where
  "DefaultImage img = FamilyOf
     \<lparr>Description = ''images'',
      Sources = [(IncusServer, mk_image Simplestreams DefaultIncusSimplestreamsServer img),
                 (LXD, mk_image Simplestreams DefaultLXDSimplestreamsServer img)]\<rparr>"

definition CapnImage :: "string \<Rightarrow> Image" where
  "CapnImage img = mk_image Simplestreams DefaultSimplestreamsServer img"

definition CapnStagingImage :: "string \<Rightarrow> Image" where
  "CapnStagingImage img = mk_image Simplestreams DefaultStagingSimplestreamsServer img"

definition KindestNodeImage :: "string \<Rightarrow> Image" where
  "KindestNodeImage version = mk_image OCI DockerHubServer (''kindest/node:'' @ version)"

definition wellKnownImages :: "(string \<Rightarrow> ImageFamily) gomap" where
  "wellKnownImages =
     [(''ubuntu'', UbuntuImage), (''debian'', DebianImage), (''images'', DefaultImage),
      (''capi'', \<lambda>i. PlainImage (CapnImage i)),
      (''capi-stg'', \<lambda>i. PlainImage (CapnStagingImage i)),
      (''kind'', \<lambda>i. PlainImage (KindestNodeImage i))]"

text \<open>\<^verbatim>\<open>ParseImage\<close>: the image and whether the name was recognised, or an error.\<close>

definition ParseImage :: "string \<Rightarrow> go_error + (ImageFamily option \<times> bool)" where
  "ParseImage imageName =
     (let parts = Split imageName '':'' in
      if length parts \<noteq> 2 then Inr (None, False)
      else case map_of wellKnownImages (parts ! 0) of
        Some f \<Rightarrow> Inr (Some (f (parts ! 1)), True)
      | None \<Rightarrow> Inl (Err (''unknown image prefix '' @ quote (parts ! 0) @ '', must be one of ''
                  @ fmt_strings (map fst wellKnownImages))))"

section \<open>Properties\<close>

text \<open>
  The contract of the interface \<^verbatim>\<open>ImageFamily\<close>: an answer depends on the server name alone, and
  an image that has no source for a server is an error that no retry can repair.
\<close>

locale image_family =
  fixes for_server :: "'f \<Rightarrow> string \<Rightarrow> go_error + Image"
  assumes unsupported_terminal: "for_server f n = Inl e \<Longrightarrow> IsTerminalError e"
begin

lemma unsupported_wrapped: "for_server f n = Inl e \<Longrightarrow> IsTerminalError (Wrapf pre e post)"
  using unsupported_terminal by simp

end

interpretation plain_image: image_family For_image
  by unfold_locales (simp add: For_image_def)

interpretation family_image: image_family For_family
  by unfold_locales (auto simp: For_family_def split: option.splits)

interpretation any_image: image_family For
proof unfold_locales
  fix f n e assume "For f n = Inl e"
  then show "IsTerminalError e"
    by (cases f) (auto dest: plain_image.unsupported_terminal family_image.unsupported_terminal)
qed

lemma Split_colon_two:
  assumes "length (Split s '':'') = 2"
  shows "s = Split s '':'' ! 0 @ '':'' @ Split s '':'' ! 1"
proof -
  obtain a b where ab: "Split s '':'' = [a, b]"
    using assms by (auto simp: length_Suc_conv eval_nat_numeral)
  then have "s = Join [a, b] '':''" using Join_Split [of "'':''" s] by simp
  with ab show ?thesis by simp
qed

lemma Split_colon_pair:
  assumes "CHR '':'' \<notin> set p" and "CHR '':'' \<notin> set i"
  shows "Split (p @ '':'' @ i) '':'' = [p, i]"
  using assms by (simp add: Split_single_cons Split_single_absent)

text \<open>
  \<^verbatim>\<open>ParseImage\<close> recognises exactly the names \<^verbatim>\<open>prefix:image\<close> with one of the six well-known
  prefixes and no further colon, and returns the image of that family; a name with one colon
  and another prefix is an error; every other name (no colon, or several) is left to the
  server without an error.
\<close>

theorem ParseImage_complete:
  "(\<forall>p i. CHR '':'' \<notin> set p \<longrightarrow> CHR '':'' \<notin> set i \<longrightarrow>
      ParseImage (p @ '':'' @ i) =
        (case map_of wellKnownImages p of
           Some f \<Rightarrow> Inr (Some (f i), True)
         | None \<Rightarrow> Inl (Err (''unknown image prefix '' @ quote p @ '', must be one of ''
                     @ fmt_strings (map fst wellKnownImages)))))
   \<and> (\<forall>name. (\<nexists>p i. name = p @ '':'' @ i \<and> CHR '':'' \<notin> set p \<and> CHR '':'' \<notin> set i) \<longrightarrow>
        ParseImage name = Inr (None, False))"
proof (intro conjI allI impI)
  fix p i :: string
  assume "CHR '':'' \<notin> set p" "CHR '':'' \<notin> set i"
  then have "Split (p @ '':'' @ i) '':'' = [p, i]" by (rule Split_colon_pair)
  then show "ParseImage (p @ '':'' @ i) =
        (case map_of wellKnownImages p of
           Some f \<Rightarrow> Inr (Some (f i), True)
         | None \<Rightarrow> Inl (Err (''unknown image prefix '' @ quote p @ '', must be one of ''
                     @ fmt_strings (map fst wellKnownImages))))"
    by (simp add: ParseImage_def Let_def split: option.splits)
next
  fix name :: string
  assume no: "\<nexists>p i. name = p @ '':'' @ i \<and> CHR '':'' \<notin> set p \<and> CHR '':'' \<notin> set i"
  have "length (Split name '':'') \<noteq> 2"
  proof
    assume "length (Split name '':'') = 2"
    then obtain a b where ab: "Split name '':'' = [a, b]"
      by (auto simp: length_Suc_conv eval_nat_numeral)
    obtain c d f where cut: "Cut name '':'' = (c, d, f)" by (cases "Cut name '':''") auto
    with ab have f: f and c: "c = a" and d: "Split d '':'' = [b]"
      by (auto simp: Split.simps [of name] split: if_splits)
    obtain x y g where cut2: "Cut d '':'' = (x, y, g)" by (cases "Cut d '':''") auto
    with d have "\<not> g"
      using Split_nonempty [of "'':''" y] by (auto simp: Split.simps [of d] split: if_splits)
    with cut2 have "CHR '':'' \<notin> set d"
      using Cut_iff_Contains [of d "'':''"] by simp
    moreover have "CHR '':'' \<notin> set c" using cut Cut_single_before by blast
    moreover have "name = c @ '':'' @ d" using cut f Cut_found [of name "'':''" c d] by simp
    ultimately show False using no by blast
  qed
  then show "ParseImage name = Inr (None, False)" by (simp add: ParseImage_def Let_def)
qed

theorem ParseImage_complete_witness:
  "ParseImage ''kind:v1.33.0'' = Inr (Some (PlainImage (KindestNodeImage ''v1.33.0'')), True)
   \<and> ParseImage ''image-name'' = Inr (None, False)"
proof -
  have "CHR '':'' \<notin> set ''kind''" "CHR '':'' \<notin> set ''v1.33.0''" by simp_all
  then have "ParseImage (''kind'' @ '':'' @ ''v1.33.0'')
      = Inr (Some (PlainImage (KindestNodeImage ''v1.33.0'')), True)"
    using ParseImage_complete [THEN conjunct1, rule_format, of "''kind''" "''v1.33.0''"]
    by (simp add: wellKnownImages_def)
  moreover have "\<nexists>p i. ''image-name'' = p @ '':'' @ i \<and> CHR '':'' \<notin> set p \<and> CHR '':'' \<notin> set i"
  proof clarify
    fix p i :: string assume "''image-name'' = p @ '':'' @ i"
    then have "CHR '':'' \<in> set ''image-name''" by (metis in_set_conv_decomp append_Cons append_Nil)
    then show False by simp
  qed
  then have "ParseImage ''image-name'' = Inr (None, False)"
    using ParseImage_complete by blast
  ultimately show ?thesis by simp
qed

text \<open>
  a recognised image name resolves on every Incus and LXD server; on any other server only
  the images that come from a fixed place (\<^verbatim>\<open>capi\<close>, \<^verbatim>\<open>capi-stg\<close>, \<^verbatim>\<open>kind\<close>) resolve, and the others
  are refused with a terminal error.
\<close>

theorem wellKnownImages_resolve:
  assumes "map_of wellKnownImages p = Some f"
  shows "(\<exists>img. For (f i) IncusServer = Inr img) \<and> (\<exists>img. For (f i) LXD = Inr img)
     \<and> (serverName \<noteq> IncusServer \<longrightarrow> serverName \<noteq> LXD \<longrightarrow>
          (if p \<in> {''capi'', ''capi-stg'', ''kind''} then \<exists>img. For (f i) serverName = Inr img
           else \<exists>e. For (f i) serverName = Inl e \<and> IsTerminalError e))"
  using assms
  by (auto simp: wellKnownImages_def UbuntuImage_def DebianImage_def DefaultImage_def
      For_family_def For_image_def IncusServer_def LXD_def split: if_splits)

theorem wellKnownImages_resolve_witness:
  "\<exists>e. For (UbuntuImage ''24.04'') ''unknown'' = Inl e \<and> IsTerminalError e"
proof -
  have "map_of wellKnownImages ''ubuntu'' = Some UbuntuImage" by (simp add: wellKnownImages_def)
  from wellKnownImages_resolve [OF this, of "''24.04''" "''unknown''"] show ?thesis
    by (simp add: IncusServer_def LXD_def)
qed

text \<open>
  How \<^verbatim>\<open>Image.Check\<close> classifies a failed HEAD request for an OCI image of an \<^verbatim>\<open>https\<close> registry: the error is
  terminal exactly when its message does not speak of a 4xx status.  A registry that answers
  404 or 401 (the image does not exist) therefore gives a retriable error, and a failure to
  reach the registry gives a terminal one.
\<close>

theorem Check_oci_classification:
  assumes "im_Protocol i = OCI" and "im_Server i = ''https://'' @ host"
    and head: "img_CraneHead sv (host @ ''/'' @ im_Alias i) False (outside s) = (Inl err, d, w)"
    and plain: "\<not> IsTerminalError err"
    and run: "run_state (Check sv i instanceType) s = (r, s')"
  shows "\<exists>e. r = Inl e \<and>
     (IsTerminalError e \<longleftrightarrow> \<not> Contains (error_msg (Wrapf (''HEAD request for image '' @
        quote (host @ ''/'' @ im_Alias i) @ '' failed: '') err [])) ''unexpected status code 4'')
     \<and> (Contains (error_msg err) ''unexpected status code 4'' \<longrightarrow> \<not> IsTerminalError e)"
proof -
  have cut: "CutPrefix (''https://'' @ host) ''https://'' = (host, True)"
    by (simp only: CutPrefix_found)
  have "run_state (Check sv i instanceType) s = run_state (Check_head sv (host @ ''/'' @ im_Alias i) False) s"
    unfolding Check_def assms(1,2) cut by (simp add: OCI_def Simplestreams_def)
  with run head plain show ?thesis
    by (auto simp: Check_head_def call_def Let_def simp del: error_msg.simps
        split: if_splits dest: Contains_Wrapf)
qed

theorem Check_oci_classification_witness:
  "\<exists>e. fst (run_state (Check \<lparr>img_ConnectSimpleStreams = \<lambda>_ w. (Inr (), 0, w),
              img_GetImageAliasType = \<lambda>_ _ _ w. (Inr (), 0, w),
              img_CraneHead = \<lambda>_ _ w. (Inl (Err ''unexpected status code 404 Not Found''), 0, w)\<rparr>
            (KindestNodeImage ''v9'') Container)
          \<lparr>clock = 0, trace = [], outside = ()\<rparr>) = Inl e \<and> \<not> IsTerminalError e"
proof -
  let ?sv = "\<lparr>img_ConnectSimpleStreams = \<lambda>_ w. (Inr (), 0, w),
              img_GetImageAliasType = \<lambda>_ _ _ w. (Inr (), 0, w),
              img_CraneHead = \<lambda>_ _ w. (Inl (Err ''unexpected status code 404 Not Found''), 0, w)\<rparr> :: unit ImageServers"
  let ?s = "\<lparr>clock = 0, trace = [], outside = ()\<rparr> :: (request, unit) world"
  obtain r s' where run: "run_state (Check ?sv (KindestNodeImage ''v9'') Container) ?s = (r, s')"
    by (cases "run_state (Check ?sv (KindestNodeImage ''v9'') Container) ?s")
  have "Contains (error_msg (Err ''unexpected status code 404 Not Found'')) ''unexpected status code 4''"
    by code_simp
  with Check_oci_classification [OF _ _ _ _ run, of "''docker.io''" "Err ''unexpected status code 404 Not Found''" 0 "()"]
  have "\<exists>e. r = Inl e \<and> \<not> IsTerminalError e"
    by (auto simp: KindestNodeImage_def mk_image_def DockerHubServer_def)
  with run show ?thesis by simp
qed

end
