(* ===== verification/LXC_Launch.thy ===== *)
theory LXC_Launch
  imports LXC_Images
begin

text \<open>
  Launch options of \<^verbatim>\<open>internal/lxc\<close>: \<^verbatim>\<open>launch_options.go\<close>, \<^verbatim>\<open>launch_options_files.go\<close>,
  \<^verbatim>\<open>launch_options_complete.go\<close> and the socket path of \<^verbatim>\<open>configuration_default.go\<close>.  The setters that
  merge a map into the options share the contract of the locale \<open>overlay\<close>: later settings win.
\<close>

section \<open>Files created on an instance\<close>

datatype instanceFileCreator =
    createFile string string
  | createDirectory string
  | createSymlink string string
  | appendTextToFile string string

fun creator_path :: "instanceFileCreator \<Rightarrow> string" where
  "creator_path (createFile p _) = p"
| "creator_path (createDirectory p) = p"
| "creator_path (createSymlink p _) = p"
| "creator_path (appendTextToFile p _) = p"

fun creator_action :: "instanceFileCreator \<Rightarrow> string" where
  "creator_action (createFile p _) = ''CreateInstanceFile('' @ quote p @ '')''"
| "creator_action (createDirectory p) = ''CreateDirectory('' @ quote p @ '')''"
| "creator_action (createSymlink p t) = ''CreateSymlink('' @ quote p @ '' => '' @ quote t @ '')''"
| "creator_action (appendTextToFile p _) = ''AppendToFile('' @ quote p @ '')''"

definition zero_file_args :: InstanceFileArgs where
  "zero_file_args = \<lparr>fa_Content = [], fa_Mode = 0, fa_UID = 0, fa_GID = 0, fa_Type = [], fa_WriteMode = []\<rparr>"

text \<open>File modes are written in octal in the source: 0644 is 420, 0755 is 493.\<close>

fun creator_args :: "instanceFileCreator \<Rightarrow> InstanceFileArgs" where
  "creator_args (createFile _ c) = zero_file_args\<lparr>fa_Content := c, fa_Mode := 420\<rparr>"
| "creator_args (createDirectory _) = zero_file_args\<lparr>fa_Type := ''directory'', fa_Mode := 493\<rparr>"
| "creator_args (createSymlink _ t) = zero_file_args\<lparr>fa_Type := ''symlink'', fa_Content := t, fa_Mode := 420\<rparr>"
| "creator_args (appendTextToFile _ c) =
     zero_file_args\<lparr>fa_Type := ''file'', fa_Content := c, fa_WriteMode := ''append''\<rparr>"

section \<open>Launch options\<close>

record LaunchOptions =
  instanceTemplates :: "string gomap"
  createFiles :: "instanceFileCreator list"
  replacements :: "string gomap gomap"
  devices :: "string gomap gomap"
  config :: "string gomap"
  profiles :: "string list"
  opt_image :: "ImageFamily option"
  flavor :: string
  instanceType :: string
  unixSocket :: bool

definition empty_LaunchOptions :: LaunchOptions where
  "empty_LaunchOptions =
     \<lparr>instanceTemplates = [], createFiles = [], replacements = [], devices = [], config = [],
      profiles = [], opt_image = None, flavor = [], instanceType = [], unixSocket = False\<rparr>"

definition WithInstanceTemplates :: "LaunchOptions \<Rightarrow> string gomap \<Rightarrow> LaunchOptions" where
  "WithInstanceTemplates opts new =
     (if instanceTemplates opts = [] then opts\<lparr>instanceTemplates := new\<rparr>
      else opts\<lparr>instanceTemplates := maps_Copy (instanceTemplates opts) new\<rparr>)"

definition WithCreateFiles :: "LaunchOptions \<Rightarrow> string gomap \<Rightarrow> LaunchOptions" where
  "WithCreateFiles opts new =
     opts\<lparr>createFiles := createFiles opts @ map (\<lambda>(path, content). createFile path content) new\<rparr>"

definition WithAppendToFiles :: "LaunchOptions \<Rightarrow> string gomap \<Rightarrow> LaunchOptions" where
  "WithAppendToFiles opts new =
     opts\<lparr>createFiles := createFiles opts @ map (\<lambda>(path, content). appendTextToFile path content) new\<rparr>"

definition WithSymlinks :: "LaunchOptions \<Rightarrow> string gomap \<Rightarrow> LaunchOptions" where
  "WithSymlinks opts new =
     opts\<lparr>createFiles := createFiles opts @ map (\<lambda>(path, target). createSymlink path target) new\<rparr>"

definition WithDirectories :: "LaunchOptions \<Rightarrow> string list \<Rightarrow> LaunchOptions" where
  "WithDirectories opts new = opts\<lparr>createFiles := createFiles opts @ map createDirectory new\<rparr>"

definition WithReplacements :: "LaunchOptions \<Rightarrow> string gomap gomap \<Rightarrow> LaunchOptions" where
  "WithReplacements opts new =
     (if replacements opts = [] then opts\<lparr>replacements := new\<rparr>
      else opts\<lparr>replacements := maps_Copy (replacements opts) new\<rparr>)"

definition WithDevices :: "LaunchOptions \<Rightarrow> string gomap gomap \<Rightarrow> LaunchOptions" where
  "WithDevices opts new =
     (if devices opts = [] then opts\<lparr>devices := new\<rparr>
      else opts\<lparr>devices := maps_Copy (devices opts) new\<rparr>)"

definition WithConfig :: "LaunchOptions \<Rightarrow> string gomap \<Rightarrow> LaunchOptions" where
  "WithConfig opts new =
     (if config opts = [] then opts\<lparr>config := new\<rparr>
      else opts\<lparr>config := maps_Copy (config opts) new\<rparr>)"

definition WithProfiles :: "LaunchOptions \<Rightarrow> string list \<Rightarrow> LaunchOptions" where
  "WithProfiles opts new = opts\<lparr>profiles := profiles opts @ new\<rparr>"

text \<open>\<^verbatim>\<open>WithImage\<close> is a no-op on an \<^verbatim>\<open>Image\<close> that has neither an alias nor a fingerprint.\<close>

definition WithImage :: "LaunchOptions \<Rightarrow> ImageFamily option \<Rightarrow> LaunchOptions" where
  "WithImage opts img =
     (case img of
        Some (PlainImage i) \<Rightarrow>
          if length (im_Alias i) > 0 \<or> length (im_Fingerprint i) > 0 then opts\<lparr>opt_image := img\<rparr> else opts
      | _ \<Rightarrow> opts\<lparr>opt_image := img\<rparr>)"

definition WithFlavor :: "LaunchOptions \<Rightarrow> string \<Rightarrow> LaunchOptions" where
  "WithFlavor opts v = opts\<lparr>flavor := v\<rparr>"

definition WithInstanceType :: "LaunchOptions \<Rightarrow> string \<Rightarrow> LaunchOptions" where
  "WithInstanceType opts v = opts\<lparr>instanceType := v\<rparr>"

definition WithUnixSocket :: "LaunchOptions \<Rightarrow> bool \<Rightarrow> LaunchOptions" where
  "WithUnixSocket opts v = opts\<lparr>unixSocket := v\<rparr>"

section \<open>Completing the options\<close>

definition GetDefaultUnixSocketPathFor :: "string \<Rightarrow> go_error + string" where
  "GetDefaultUnixSocketPathFor serverName =
     (case map_of [(LXD, ''/var/snap/lxd/common/lxd/unix.socket''),
                   (IncusServer, ''/var/lib/incus/unix.socket'')] serverName of
        None \<Rightarrow> Inl (TerminalError (Err (''unknown default unix socket path for server '' @ quote serverName)))
      | Some path \<Rightarrow> Inr path)"

text \<open>An OCI alias \<^verbatim>\<open>IMG[:TAG]@sha256:HASH\<close> becomes \<^verbatim>\<open>IMG@sha256:HASH\<close>.\<close>

definition drop_tag :: "Image \<Rightarrow> Image" where
  "drop_tag img =
     (if im_Protocol img = OCI then
        (case Cut (im_Alias img) ''@'' of (imageWithoutHash, hash, ok) \<Rightarrow>
           if ok then (case Cut imageWithoutHash '':'' of (imageWithoutTag, _, _) \<Rightarrow>
                         img\<lparr>im_Alias := imageWithoutTag @ ''@'' @ hash\<rparr>)
           else img)
      else img)"

definition complete :: "LaunchOptions \<Rightarrow> string \<Rightarrow> go_error + LaunchOptions" where
  "complete opts serverName =
     (if instanceType opts = VirtualMachine \<and> unixSocket opts then
        Inl (TerminalError (Err ''mounting unix socket not supported for virtual-machine instances''))
      else if instanceType opts = VirtualMachine \<and> length (createFiles opts) > 0 then
        Inl (TerminalError (Err (''operations not supported for virtual-machine instances: ''
              @ fmt_strings (map creator_action (createFiles opts)))))
      else if instanceType opts = VirtualMachine \<and> length (replacements opts) > 0 then
        Inl (TerminalError (Err (''replacements not supported for virtual-machine instances: ''
              @ fmt_strings (map fst (replacements opts)))))
      else case opt_image opts of
        None \<Rightarrow> Inl (TerminalError (Err ''cannot launch instance without image''))
      | Some family \<Rightarrow>
          (case For family serverName of
             Inl err \<Rightarrow> Inl (Errorf ''unsupported instance image: '' err)
           | Inr img \<Rightarrow>
               (let opts = opts\<lparr>opt_image := Some (PlainImage (drop_tag img))\<rparr>
                in if unixSocket opts then
                     (case GetDefaultUnixSocketPathFor serverName of
                        Inl err \<Rightarrow> Inl (Errorf ''failed to get unix socket path: '' err)
                      | Inr path \<Rightarrow>
                          Inr (WithDevices opts [(''00-unix-socket'',
                                 [(''type'', ''disk''), (''source'', path),
                                  (''path'', ''/run-unix.socket''), (''shift'', ''true'')])]))
                   else Inr opts)))"

section \<open>Properties\<close>

subsection \<open>Setters that merge a map\<close>

locale overlay =
  fixes get :: "'o \<Rightarrow> 'v gomap"
    and put :: "'o \<Rightarrow> 'v gomap \<Rightarrow> 'o"
  assumes get_put: "wf_map new \<Longrightarrow>
      map_of (get (put x new)) k = (case map_of new k of None \<Rightarrow> map_of (get x) k | Some v \<Rightarrow> Some v)"
    and wf_put: "wf_map (get x) \<Longrightarrow> wf_map new \<Longrightarrow> wf_map (get (put x new))"
begin

lemma last_wins: "wf_map new \<Longrightarrow> map_of new k = Some v \<Longrightarrow> map_of (get (put x new)) k = Some v"
  by (simp add: get_put)

lemma keeps: "wf_map new \<Longrightarrow> k \<notin> fst ` set new \<Longrightarrow> map_of (get (put x new)) k = map_of (get x) k"
  using map_of_eq_None_iff [of new k] by (simp add: get_put)

lemma put_twice:
  assumes "wf_map a" and "wf_map b"
  shows "map_of (get (put (put x a) b)) = map_of (get (put x (maps_Copy a b)))"
proof
  fix k
  show "map_of (get (put (put x a) b)) k = map_of (get (put x (maps_Copy a b))) k"
    using assms by (simp add: get_put map_of_maps_Copy split: option.splits)
qed

lemma put_empty: "map_of (get (put x [])) = map_of (get x)"
  by (rule ext) (simp add: get_put)

end

interpretation with_config: overlay config WithConfig
  by unfold_locales (auto simp: WithConfig_def map_of_maps_Copy split: option.splits)

interpretation with_devices: overlay devices WithDevices
  by unfold_locales (auto simp: WithDevices_def map_of_maps_Copy split: option.splits)

interpretation with_templates: overlay instanceTemplates WithInstanceTemplates
  by unfold_locales (auto simp: WithInstanceTemplates_def map_of_maps_Copy split: option.splits)

interpretation with_replacements: overlay replacements WithReplacements
  by unfold_locales (auto simp: WithReplacements_def map_of_maps_Copy split: option.splits)

text \<open>Each setter leaves the other fields alone.\<close>

lemmas setter_defs =
  WithInstanceTemplates_def WithCreateFiles_def WithAppendToFiles_def WithSymlinks_def
  WithDirectories_def WithReplacements_def WithDevices_def WithConfig_def WithProfiles_def
  WithImage_def WithFlavor_def WithInstanceType_def WithUnixSocket_def

lemma config_frame [simp]:
  "config (WithInstanceTemplates x t) = config x" "config (WithCreateFiles x t) = config x"
  "config (WithAppendToFiles x t) = config x" "config (WithSymlinks x t) = config x"
  "config (WithDirectories x l) = config x" "config (WithReplacements x r) = config x"
  "config (WithDevices x r) = config x" "config (WithProfiles x l) = config x"
  "config (WithImage x i) = config x" "config (WithFlavor x f) = config x"
  "config (WithInstanceType x f) = config x" "config (WithUnixSocket x b) = config x"
  by (auto simp: setter_defs split: option.splits ImageFamily.splits)

lemma devices_frame [simp]:
  "devices (WithInstanceTemplates x t) = devices x" "devices (WithCreateFiles x t) = devices x"
  "devices (WithAppendToFiles x t) = devices x" "devices (WithSymlinks x t) = devices x"
  "devices (WithDirectories x l) = devices x" "devices (WithReplacements x r) = devices x"
  "devices (WithConfig x t) = devices x" "devices (WithProfiles x l) = devices x"
  "devices (WithImage x i) = devices x" "devices (WithFlavor x f) = devices x"
  "devices (WithInstanceType x f) = devices x" "devices (WithUnixSocket x b) = devices x"
  by (auto simp: setter_defs split: option.splits ImageFamily.splits)

lemma templates_frame [simp]:
  "instanceTemplates (WithCreateFiles x t) = instanceTemplates x"
  "instanceTemplates (WithAppendToFiles x t) = instanceTemplates x"
  "instanceTemplates (WithSymlinks x t) = instanceTemplates x"
  "instanceTemplates (WithDirectories x l) = instanceTemplates x"
  "instanceTemplates (WithReplacements x r) = instanceTemplates x"
  "instanceTemplates (WithDevices x r) = instanceTemplates x"
  "instanceTemplates (WithConfig x t) = instanceTemplates x"
  "instanceTemplates (WithProfiles x l) = instanceTemplates x"
  "instanceTemplates (WithImage x i) = instanceTemplates x"
  "instanceTemplates (WithFlavor x f) = instanceTemplates x"
  "instanceTemplates (WithInstanceType x f) = instanceTemplates x"
  "instanceTemplates (WithUnixSocket x b) = instanceTemplates x"
  by (auto simp: setter_defs split: option.splits ImageFamily.splits)

lemma image_frame [simp]:
  "opt_image (WithInstanceTemplates x t) = opt_image x" "opt_image (WithCreateFiles x t) = opt_image x"
  "opt_image (WithAppendToFiles x t) = opt_image x" "opt_image (WithSymlinks x t) = opt_image x"
  "opt_image (WithDirectories x l) = opt_image x" "opt_image (WithReplacements x r) = opt_image x"
  "opt_image (WithDevices x r) = opt_image x" "opt_image (WithConfig x t) = opt_image x"
  "opt_image (WithProfiles x l) = opt_image x" "opt_image (WithFlavor x f) = opt_image x"
  "opt_image (WithInstanceType x f) = opt_image x" "opt_image (WithUnixSocket x b) = opt_image x"
  by (auto simp: setter_defs)

lemma type_frame [simp]:
  "instanceType (WithInstanceTemplates x t) = instanceType x"
  "instanceType (WithCreateFiles x t) = instanceType x"
  "instanceType (WithAppendToFiles x t) = instanceType x"
  "instanceType (WithSymlinks x t) = instanceType x"
  "instanceType (WithDirectories x l) = instanceType x"
  "instanceType (WithReplacements x r) = instanceType x"
  "instanceType (WithDevices x r) = instanceType x" "instanceType (WithConfig x t) = instanceType x"
  "instanceType (WithProfiles x l) = instanceType x" "instanceType (WithImage x i) = instanceType x"
  "instanceType (WithFlavor x f) = instanceType x" "instanceType (WithUnixSocket x b) = instanceType x"
  "instanceType (WithInstanceType x f) = f"
  by (auto simp: setter_defs split: option.splits ImageFamily.splits)

lemma files_frame [simp]:
  "createFiles (WithInstanceTemplates x t) = createFiles x"
  "createFiles (WithReplacements x r) = createFiles x"
  "createFiles (WithDevices x r) = createFiles x" "createFiles (WithConfig x t) = createFiles x"
  "createFiles (WithProfiles x l) = createFiles x" "createFiles (WithImage x i) = createFiles x"
  "createFiles (WithFlavor x f) = createFiles x" "createFiles (WithUnixSocket x b) = createFiles x"
  "createFiles (WithInstanceType x f) = createFiles x"
  "replacements (WithInstanceTemplates x t) = replacements x"
  "replacements (WithCreateFiles x t) = replacements x"
  "replacements (WithAppendToFiles x t) = replacements x"
  "replacements (WithSymlinks x t) = replacements x"
  "replacements (WithDevices x r) = replacements x" "replacements (WithConfig x t) = replacements x"
  "replacements (WithProfiles x l) = replacements x" "replacements (WithImage x i) = replacements x"
  "replacements (WithFlavor x f) = replacements x" "replacements (WithUnixSocket x b) = replacements x"
  "replacements (WithInstanceType x f) = replacements x"
  "unixSocket (WithInstanceTemplates x t) = unixSocket x"
  "unixSocket (WithDevices x r) = unixSocket x" "unixSocket (WithConfig x t) = unixSocket x"
  "unixSocket (WithProfiles x l) = unixSocket x" "unixSocket (WithImage x i) = unixSocket x"
  "unixSocket (WithFlavor x f) = unixSocket x" "unixSocket (WithReplacements x r) = unixSocket x"
  "unixSocket (WithSymlinks x t) = unixSocket x" "unixSocket (WithCreateFiles x t) = unixSocket x"
  "unixSocket (WithInstanceType x f) = unixSocket x"
  by (auto simp: setter_defs split: option.splits ImageFamily.splits)

subsection \<open>Well-formed options\<close>

text \<open>Maps as Go has them: no key comes twice, in the options and in each device.\<close>

definition wf_devices :: "string gomap gomap \<Rightarrow> bool" where
  "wf_devices m \<longleftrightarrow> wf_map m \<and> list_all (\<lambda>(_, d). wf_map d) m"

definition wf_options :: "LaunchOptions \<Rightarrow> bool" where
  "wf_options opts \<longleftrightarrow> wf_map (config opts) \<and> wf_devices (devices opts) \<and> wf_map (instanceTemplates opts)"

lemma wf_devices_Copy: "wf_devices m \<Longrightarrow> wf_devices n \<Longrightarrow> wf_devices (maps_Copy m n)"
  using set_maps_Copy(1) [of n m] unfolding wf_devices_def list_all_iff by auto

lemma wf_options_intros [intro]:
  "wf_options x \<Longrightarrow> wf_map m \<Longrightarrow> wf_options (WithConfig x m)"
  "wf_options x \<Longrightarrow> wf_devices ds \<Longrightarrow> wf_options (WithDevices x ds)"
  "wf_options x \<Longrightarrow> wf_map m \<Longrightarrow> wf_options (WithInstanceTemplates x m)"
  by (auto simp: wf_options_def with_config.wf_put with_templates.wf_put) (auto simp: WithDevices_def wf_devices_Copy)

lemma wf_options_frame [simp]:
  "wf_options (WithCreateFiles x t) = wf_options x" "wf_options (WithAppendToFiles x t) = wf_options x"
  "wf_options (WithSymlinks x t) = wf_options x" "wf_options (WithDirectories x l) = wf_options x"
  "wf_options (WithReplacements x r) = wf_options x" "wf_options (WithProfiles x l) = wf_options x"
  "wf_options (WithImage x i) = wf_options x" "wf_options (WithFlavor x f) = wf_options x"
  "wf_options (WithInstanceType x f) = wf_options x" "wf_options (WithUnixSocket x b) = wf_options x"
  by (simp_all add: wf_options_def)

subsection \<open>Completing the options\<close>

lemma drop_tag_idem [simp]: "drop_tag (drop_tag img) = drop_tag img"
proof (cases "im_Protocol img = OCI \<and> snd (snd (Cut (im_Alias img) ''@''))")
  case True
  obtain b h where c: "Cut (im_Alias img) ''@'' = (b, h, True)"
    using True by (cases "Cut (im_Alias img) ''@''") auto
  obtain n t f where n: "Cut b '':'' = (n, t, f)" by (cases "Cut b '':''")
  have nb: "CHR '':'' \<notin> set n" by (rule Cut_single_before [OF n])
  have "CHR ''@'' \<notin> set b" by (rule Cut_single_before [OF c])
  moreover have "b = n \<or> b = n @ '':'' @ t"
    using Cut_found [of b "'':''"] Cut_not_found [of b "'':''"] n by (cases f) auto
  ultimately have na: "CHR ''@'' \<notin> set n" by auto
  show ?thesis
    using True c n Cut_single [OF na] Cut_single_absent [OF nb] by (simp add: drop_tag_def)
qed (auto simp: drop_tag_def split: prod.splits)

lemma map_set_twice [simp]: "map_set k v (map_set k v m) = map_set k v m"
  by (induction k v m rule: map_set.induct) auto

lemma map_set_not_Nil [simp]: "map_set k v m \<noteq> []"
  by (induction k v m rule: map_set.induct) auto

lemma WithDevices_twice [simp]:
  "WithDevices (WithDevices x [(k, v)]) [(k, v)] = WithDevices x [(k, v)]"
  by (cases "devices x") (auto simp: WithDevices_def)

lemmas For_terminal = any_image.unsupported_terminal

definition unix_socket_device :: "string \<Rightarrow> string gomap" where
  "unix_socket_device path =
     [(''type'', ''disk''), (''source'', path), (''path'', ''/run-unix.socket''), (''shift'', ''true'')]"

lemma complete_Inr:
  "complete opts srv = Inr opts' \<longleftrightarrow>
     \<not> (instanceType opts = VirtualMachine \<and>
         (unixSocket opts \<or> createFiles opts \<noteq> [] \<or> replacements opts \<noteq> []))
     \<and> (\<exists>family img. opt_image opts = Some family \<and> For family srv = Inr img \<and>
          (if unixSocket opts
           then \<exists>path. GetDefaultUnixSocketPathFor srv = Inr path \<and>
                  opts' = WithDevices (opts\<lparr>opt_image := Some (PlainImage (drop_tag img))\<rparr>)
                            [(''00-unix-socket'', unix_socket_device path)]
           else opts' = opts\<lparr>opt_image := Some (PlainImage (drop_tag img))\<rparr>))"
  by (auto simp: complete_def Let_def unix_socket_device_def split: option.splits sum.splits)

text \<open>Completed options are well formed and have an image of their own: the assertion on its type holds.\<close>

lemma complete_wf:
  assumes "complete opts srv = Inr opts'" and "wf_options opts"
  shows "wf_options opts' \<and> (\<exists>img. opt_image opts' = Some (PlainImage img))"
proof -
  have "wf_options (opts\<lparr>opt_image := i\<rparr>)" for i using assms(2) by (simp add: wf_options_def)
  moreover have "wf_devices [(k, unix_socket_device p)]" for k p
    by (simp add: wf_devices_def unix_socket_device_def wf_map_def)
  ultimately show ?thesis
    using assms(1) by (auto simp: complete_Inr split: if_splits intro!: wf_options_intros)
qed

text \<open>
  Every failure to complete launch options is terminal: the options cannot become valid by
  waiting, so the controllers never retry them.
\<close>

theorem complete_errors_terminal:
  "complete opts srv = Inl err \<Longrightarrow> IsTerminalError err"
  by (auto simp: complete_def Let_def GetDefaultUnixSocketPathFor_def For_terminal
      split: if_splits option.splits sum.splits)

theorem complete_errors_terminal_witness:
  "complete (WithInstanceType empty_LaunchOptions Container) LXD
     = Inl (TerminalError (Err ''cannot launch instance without image''))
   \<and> IsTerminalError (TerminalError (Err ''cannot launch instance without image''))"
proof -
  have c: "complete (WithInstanceType empty_LaunchOptions Container) LXD
     = Inl (TerminalError (Err ''cannot launch instance without image''))"
    by (simp add: complete_def WithInstanceType_def empty_LaunchOptions_def lxc_consts)
  then show ?thesis using complete_errors_terminal [OF c] by simp
qed

text \<open>
  C34: Completed launch options name one concrete image, are free of everything a virtual machine
  does not support, carry the unix socket device exactly when asked for (every other device is
  kept), leave all other settings as they were, and completing them again changes nothing.
\<close>

theorem complete_correct:
  assumes ok: "complete opts srv = Inr opts'"
  shows "(instanceType opts = VirtualMachine \<longrightarrow>
            \<not> unixSocket opts' \<and> createFiles opts' = [] \<and> replacements opts' = [])
       \<and> (\<exists>family img. opt_image opts = Some family \<and> For family srv = Inr img
            \<and> opt_image opts' = Some (PlainImage (drop_tag img)))
       \<and> (unixSocket opts \<longrightarrow> (\<exists>path. GetDefaultUnixSocketPathFor srv = Inr path
            \<and> map_of (devices opts') = (map_of (devices opts))(''00-unix-socket'' \<mapsto>
                [(''type'', ''disk''), (''source'', path), (''path'', ''/run-unix.socket''), (''shift'', ''true'')])))
       \<and> (\<not> unixSocket opts \<longrightarrow> devices opts' = devices opts)
       \<and> opts'\<lparr>opt_image := opt_image opts, devices := devices opts\<rparr> = opts
       \<and> complete opts' srv = Inr opts'"
proof (intro conjI)
  from ok obtain family img where
      vm: "\<not> (instanceType opts = VirtualMachine \<and>
              (unixSocket opts \<or> createFiles opts \<noteq> [] \<or> replacements opts \<noteq> []))"
    and fam: "opt_image opts = Some family" "For family srv = Inr img"
    and opts': "if unixSocket opts
         then \<exists>path. GetDefaultUnixSocketPathFor srv = Inr path \<and>
                opts' = WithDevices (opts\<lparr>opt_image := Some (PlainImage (drop_tag img))\<rparr>)
                          [(''00-unix-socket'', unix_socket_device path)]
         else opts' = opts\<lparr>opt_image := Some (PlainImage (drop_tag img))\<rparr>"
    unfolding complete_Inr by blast
  show "instanceType opts = VirtualMachine \<longrightarrow>
      \<not> unixSocket opts' \<and> createFiles opts' = [] \<and> replacements opts' = []"
    using vm opts' by auto
  show "\<exists>family img. opt_image opts = Some family \<and> For family srv = Inr img
      \<and> opt_image opts' = Some (PlainImage (drop_tag img))"
    using fam opts' by (auto split: if_splits)
  show "unixSocket opts \<longrightarrow> (\<exists>path. GetDefaultUnixSocketPathFor srv = Inr path
      \<and> map_of (devices opts') = (map_of (devices opts))(''00-unix-socket'' \<mapsto>
          [(''type'', ''disk''), (''source'', path), (''path'', ''/run-unix.socket''), (''shift'', ''true'')]))"
    using opts' by (auto simp: WithDevices_def unix_socket_device_def)
  show "\<not> unixSocket opts \<longrightarrow> devices opts' = devices opts"
    using opts' by auto
  show "opts'\<lparr>opt_image := opt_image opts, devices := devices opts\<rparr> = opts"
    using opts' by (auto simp: WithDevices_def split: if_splits)
  show "complete opts' srv = Inr opts'"
    using vm opts' unfolding complete_Inr
    by (auto simp: For_image_def WithDevices_def split: if_splits)
qed

theorem complete_correct_witness:
  "\<exists>opts'. complete (empty_LaunchOptions\<lparr>unixSocket := True,
       opt_image := Some (PlainImage (mk_image OCI DockerHubServer ''a/b:v1@sha256:c''))\<rparr>) LXD = Inr opts'
     \<and> opt_image opts' = Some (PlainImage (mk_image OCI DockerHubServer ''a/b@sha256:c''))
     \<and> complete opts' LXD = Inr opts'"
proof -
  let ?img = "mk_image OCI DockerHubServer ''a/b:v1@sha256:c''"
  let ?opts = "empty_LaunchOptions\<lparr>unixSocket := True, opt_image := Some (PlainImage ?img)\<rparr>"
  obtain path where path: "GetDefaultUnixSocketPathFor LXD = Inr path"
    by (simp add: GetDefaultUnixSocketPathFor_def)
  have img: "For (PlainImage ?img) LXD = Inr ?img" by (simp add: For_image_def)
  have c: "complete ?opts LXD = Inr (WithDevices (?opts\<lparr>opt_image := Some (PlainImage (drop_tag ?img))\<rparr>)
             [(''00-unix-socket'', unix_socket_device path)])"
    unfolding complete_Inr using path img
    by (simp add: empty_LaunchOptions_def VirtualMachine_def For_image_def)
  have "drop_tag ?img = mk_image OCI DockerHubServer ''a/b@sha256:c''"
    by (simp add: drop_tag_def mk_image_def HasPrefix_def)
  then show ?thesis
    using c complete_correct [OF c] by (intro exI [of _ "WithDevices _ _"] conjI) auto
qed

end
