(* ===== verification/LXC_Client.thy ===== *)
theory LXC_Client
  imports LXC_Launch "HOL-Library.List_Lexorder" "HOL-Library.Char_ord" "HOL-Library.Sublist"
begin

text \<open>
  The client of \<^verbatim>\<open>internal/lxc\<close>: server discovery, waiting for operations, instances (launch, start,
  stop, delete, list), commands, image pulls and instance addresses.  The polling loop of
  \<^verbatim>\<open>waitForInstanceAddress\<close> runs on fuel; the fuel its caller gives is shown to be enough.
\<close>

section \<open>The client\<close>

text \<open>
  The progress handler of the source only logs, so the record has the embedded instance server,
  the server information and the chosen cluster member (\<^verbatim>\<open>UseTarget\<close>).
\<close>

record 'w Client =
  cli_server :: "'w InstanceServer"
  serverInfo :: Server
  cli_target :: string

definition incus_call ::
  "'w Client \<Rightarrow> incus_request \<Rightarrow> (string \<Rightarrow> ('w, 'a) api) \<Rightarrow> (request, 'w, 'a) io" where
  "incus_call c req f = call (Incus (cli_target c) req) (f (cli_target c))"

section \<open>Discovery\<close>

definition GetServerName :: "'w Client \<Rightarrow> string" where
  "GetServerName c =
     (let name = env_Server (serverInfo c)
      in if name = IncusServer \<or> name = LXD then name else ''unknown'')"

definition serverSupportsExtensions :: "'w Client \<Rightarrow> string list \<Rightarrow> go_error + unit" where
  "serverSupportsExtensions c extensions =
     (let missing = filter (\<lambda>e. e \<notin> set (APIExtensions (serverInfo c))) (remdups extensions)
      in if length missing > 0
         then Inl (TerminalError (Err (''required extensions '' @ fmt_strings missing @ '' are not supported'')))
         else Inr ())"

definition SupportsInstanceOCI :: "'w Client \<Rightarrow> go_error + unit" where
  "SupportsInstanceOCI c = serverSupportsExtensions c [''instance_oci'', ''instance_oci_entrypoint'']"

definition SupportsNetworkLoadBalancers :: "'w Client \<Rightarrow> go_error + unit" where
  "SupportsNetworkLoadBalancers c =
     serverSupportsExtensions c [''network_load_balancer'', ''network_load_balancer_health_check'']"

definition SupportsContainerDiskTmpfs :: "'w Client \<Rightarrow> go_error + unit" where
  "SupportsContainerDiskTmpfs c = serverSupportsExtensions c [''container_disk_tmpfs'']"

definition SupportsInstanceKVM :: "'w Client \<Rightarrow> go_error + unit" where
  "SupportsInstanceKVM c =
     (if ''qemu'' \<notin> set (Split (env_Driver (serverInfo c)) '' | '')
      then Inl (TerminalError (Err (''server is missing driver qemu, supported drivers are: ''
                 @ quote (env_Driver (serverInfo c)))))
      else Inr ())"

definition SupportsArchitectures :: "'w Client \<Rightarrow> string list" where
  "SupportsArchitectures c = env_Architectures (serverInfo c)"

definition SupportsInstanceTarget :: "'w Client \<Rightarrow> go_error + unit" where
  "SupportsInstanceTarget c =
     (if \<not> env_ServerClustered (serverInfo c) then Inl (Err ''server is not part of a cluster'') else Inr ())"

definition WithTarget :: "'w Client \<Rightarrow> string \<Rightarrow> 'w Client" where
  "WithTarget c tgt =
     (case SupportsInstanceTarget c of Inl _ \<Rightarrow> c | Inr _ \<Rightarrow> c\<lparr>cli_target := tgt\<rparr>)"

section \<open>Addresses\<close>

definition host_network :: "InstanceStateNetwork \<Rightarrow> bool" where
  "host_network n \<longleftrightarrow> n_Type n \<noteq> ''loopback'' \<and> n_HostName n \<noteq> ''''"

definition host_address :: "InstanceStateNetworkAddress \<Rightarrow> bool" where
  "host_address a \<longleftrightarrow>
     \<not> (a_Scope a \<noteq> ''global'' \<or> (a_Family a = ''inet'' \<and> a_Netmask a = ''32'')
        \<or> (a_Family a = ''inet6'' \<and> a_Netmask a = ''128''))"

fun ParseHostAddresses :: "InstanceState option \<Rightarrow> string list" where
  "ParseHostAddresses None = []"
| "ParseHostAddresses (Some state) =
     sort (concat (map (\<lambda>(_, network).
             if host_network network
             then map a_Address (filter host_address (n_Addresses network)) else [])
           (st_Network state)))"

declare ParseHostAddresses.simps [simp del]

section \<open>Operations\<close>

text \<open>
  \<^verbatim>\<open>WaitForOperation\<close> runs \<open>f\<close> to obtain an operation and waits for it.  The first component of the
  result are the updates that reach handlers registered on the operation meanwhile.
\<close>

definition WaitForOperation_updates ::
  "'w Client \<Rightarrow> go_context \<Rightarrow> string \<Rightarrow> (request, 'w, string) io_err
   \<Rightarrow> (request, 'w, APIOperation list \<times> (go_error + unit)) io" where
  "WaitForOperation_updates c ctx name f =
     do { r \<leftarrow> f;
          case r of
            Inl err \<Rightarrow> ret ([], Inl (Errorf (''failed to '' @ name @ '': '') err))
          | Inr oper \<Rightarrow>
              do { w \<leftarrow> incus_call c (ReqWaitOperation oper) (\<lambda>t. srv_WaitContext (cli_server c) t ctx oper);
                   case w of (updates, Inl err) \<Rightarrow>
                       if \<not> Contains (error_msg err) ''Operation not found''
                       then ret (updates, Inl (Errorf (''failed to wait for '' @ name @ '' operation: '') err))
                       else ret (updates, Inr ())
                   | (updates, Inr _) \<Rightarrow> ret (updates, Inr ()) } }"

definition WaitForOperation ::
  "'w Client \<Rightarrow> go_context \<Rightarrow> string \<Rightarrow> (request, 'w, string) io_err \<Rightarrow> (request, 'w, unit) io_err" where
  "WaitForOperation c ctx name f =
     do { (_, r) \<leftarrow> WaitForOperation_updates c ctx name f; ret r }"

definition PullImage :: "'w Client \<Rightarrow> go_context \<Rightarrow> ImageFamily \<Rightarrow> (request, 'w, unit) io_err" where
  "PullImage c ctx family =
     (case For family (GetServerName c) of
        Inl err \<Rightarrow> ret (Inl (Errorf ''unsupported image: '' err))
      | Inr img \<Rightarrow>
          WaitForOperation c ctx ''PullImage''
            (incus_call c (ReqPullImage (to_ImageSource img))
               (srv_PullImage (cli_server c) (to_ImageSource img))))"

text \<open>The input of the command is text, or nothing.  The handler keeps the last \<^verbatim>\<open>return\<close> number it saw.\<close>

definition RunCommand ::
  "'w Client \<Rightarrow> go_context \<Rightarrow> string \<Rightarrow> string list \<Rightarrow> string option \<Rightarrow> (request, 'w, unit) io_err" where
  "RunCommand c ctx instanceName command stdin =
     do { (updates, r) \<leftarrow> WaitForOperation_updates c ctx ''ExecInstance''
            (incus_call c (ReqExecInstance instanceName command stdin)
               (srv_ExecInstance (cli_server c) instanceName command stdin));
          case r of
            Inl err \<Rightarrow> ret (Inl err)
          | Inr _ \<Rightarrow>
              (let status = foldl (\<lambda>status u. case op_return u of None \<Rightarrow> status | Some rc \<Rightarrow> rc) 0 updates
               in if status \<noteq> 0
                  then ret (Inl (Err (''command failed with exit code '' @ fmt_int status)))
                  else ret (Inr ())) }"

section \<open>Listing instances\<close>

definition WithConfig_filter :: "string gomap \<Rightarrow> InstanceFull \<Rightarrow> bool" where
  "WithConfig_filter kv i \<longleftrightarrow> list_all (\<lambda>(k, v). get_str (i_Config i) k = v) kv"

definition WithConfigKeys :: "string list \<Rightarrow> InstanceFull \<Rightarrow> bool" where
  "WithConfigKeys keys i \<longleftrightarrow> list_all (\<lambda>k. map_of (i_Config i) k \<noteq> None) keys"

definition Containers :: "InstanceFull \<Rightarrow> bool" where
  "Containers i \<longleftrightarrow> i_Type i = Container"

definition VirtualMachines :: "InstanceFull \<Rightarrow> bool" where
  "VirtualMachines i \<longleftrightarrow> i_Type i = VirtualMachine"

fun filter_instances :: "(InstanceFull \<Rightarrow> bool) list \<Rightarrow> InstanceFull list \<Rightarrow> InstanceFull list" where
  "filter_instances filters [] = []"
| "filter_instances filters (i # rest) =
     (if list_ex (\<lambda>f. \<not> f i) filters then filter_instances filters rest
      else i # filter_instances filters rest)"

definition ListInstances ::
  "'w Client \<Rightarrow> (InstanceFull \<Rightarrow> bool) list \<Rightarrow> (request, 'w, InstanceFull list) io_err" where
  "ListInstances c filters =
     guard_err (incus_call c ReqGetInstancesFull (srv_GetInstancesFull (cli_server c)))
       (Errorf ''failed to GetInstancesFull: '')
       (\<lambda>allInstances. ret (Inr (filter_instances filters allInstances)))"

section \<open>Instances\<close>

definition creates_instance :: "string \<Rightarrow> APIOperation \<Rightarrow> bool" where
  "creates_instance instanceName op1 \<longleftrightarrow>
     op_Class op1 = ''task'' \<and> op_Description op1 = ''Creating instance''
     \<and> map_of (op_Resources op1) ''instances'' = Some [''/1.0/instances/'' @ instanceName]"

definition tryFindInstanceCreateOperation ::
  "'w Client \<Rightarrow> string \<Rightarrow> (request, 'w, string option) io_err" where
  "tryFindInstanceCreateOperation c instanceName =
     guard_err (incus_call c ReqGetOperations (srv_GetOperations (cli_server c)))
       (Errorf ''failed to GetOperations: '')
       (\<lambda>ops. case find (creates_instance instanceName) ops of
           None \<Rightarrow> ret (Inr None)
         | Some op1 \<Rightarrow>
             guard_err (incus_call c (ReqRawOperation (''/operations/'' @ op_ID op1))
                          (srv_RawOperation (cli_server c) (''/operations/'' @ op_ID op1)))
               (Errorf (''failed to GetOperation('' @ op_ID op1 @ ''): ''))
               (\<lambda>apiOperation. ret (Inr (Some apiOperation))))"

abbreviation GetInstanceState :: "'w Client \<Rightarrow> string \<Rightarrow> (request, 'w, InstanceState) io_err" where
  "GetInstanceState c name \<equiv>
     incus_call c (ReqGetInstanceState name) (srv_GetInstanceState (cli_server c) name)"

text \<open>One unit of fuel per round of the loop; running out of fuel is \<open>None\<close>.\<close>

fun waitForInstanceAddress ::
  "nat \<Rightarrow> 'w Client \<Rightarrow> go_context \<Rightarrow> string \<Rightarrow> (request, 'w, (go_error + string list) option) io" where
  "waitForInstanceAddress 0 c ctx name = ret None"
| "waitForInstanceAddress (Suc fuel) c ctx name =
     do { r \<leftarrow> GetInstanceState c name;
          case r of
            Inl err \<Rightarrow> ret (Some (Inl (Errorf ''failed to GetInstanceState: '' err)))
          | Inr state \<Rightarrow>
              (let addrs = ParseHostAddresses (Some state)
               in if length addrs > 0 then ret (Some (Inr addrs))
                  else do { d \<leftarrow> select_after ctx second;
                            case d of
                              Some err \<Rightarrow> ret (Some (Inl (Errorf ''timed out waiting for instance address: '' err)))
                            | None \<Rightarrow> waitForInstanceAddress fuel c ctx name }) }"

text \<open>
  The context given to the loop ends at most \<^verbatim>\<open>instanceStartTimeout\<close> after the call, a round takes at
  least a second: \<open>instanceStartTimeout div second\<close> rounds are enough (\<open>waitForInstanceAddress_enough\<close>
  below), so \<open>out_of_fuel\<close> is not a result of \<open>WaitForStartInstance\<close>.
\<close>

definition out_of_fuel :: "go_error + 'a" where
  "out_of_fuel = Inl (Err ''out of fuel'')"

definition WaitForStartInstance ::
  "'w Client \<Rightarrow> go_context \<Rightarrow> string \<Rightarrow> (request, 'w, string list) io_err" where
  "WaitForStartInstance c ctx name =
     do { ctx \<leftarrow> WithTimeout ctx instanceStartTimeout;
          guard_err (GetInstanceState c name) (Errorf ''failed to GetInstanceState: '')
            (\<lambda>state.
               guard_err
                 (if st_Status state = ''Running'' then ret (Inr ())
                  else WaitForOperation c ctx ''StartInstance''
                         (incus_call c (ReqUpdateInstanceState name ''start'' False)
                            (srv_UpdateInstanceState (cli_server c) name ''start'' False)))
                 (Errorf ''failed to start instance: '')
                 (\<lambda>_. do { r \<leftarrow> waitForInstanceAddress (instanceStartTimeout div second) c ctx name;
                          ret (case r of None \<Rightarrow> out_of_fuel | Some res \<Rightarrow> res) })) }"

definition WaitForStopInstance ::
  "'w Client \<Rightarrow> go_context \<Rightarrow> string \<Rightarrow> (request, 'w, unit) io_err" where
  "WaitForStopInstance c ctx name =
     do { ctx \<leftarrow> WithTimeout ctx instanceStopTimeout;
          guard_err (GetInstanceState c name) (Errorf ''failed to GetInstanceState: '')
            (\<lambda>state.
               if st_Pid state = 0 then ret (Inr ())
               else WaitForOperation c ctx ''StopInstance''
                      (incus_call c (ReqUpdateInstanceState name ''stop'' True)
                         (srv_UpdateInstanceState (cli_server c) name ''stop'' True))) }"

definition WaitForDeleteInstance ::
  "'w Client \<Rightarrow> go_context \<Rightarrow> string \<Rightarrow> (request, 'w, unit) io_err" where
  "WaitForDeleteInstance c ctx name =
     do { ctx \<leftarrow> WithTimeout ctx instanceDeleteTimeout;
          r \<leftarrow> WaitForStopInstance c ctx name;
          case r of
            Inl err \<Rightarrow>
              if Contains (error_msg err) ''Instance not found'' then ret (Inr ())
              else ret (Inl (Errorf ''failed to stop instance: '' err))
          | Inr _ \<Rightarrow>
              WaitForOperation c ctx ''DeleteInstance''
                (incus_call c (ReqDeleteInstance name) (srv_DeleteInstance (cli_server c) name)) }"

subsection \<open>Launching\<close>

definition launch_post :: "string \<Rightarrow> LaunchOptions \<Rightarrow> Image \<Rightarrow> InstancesPost" where
  "launch_post name opts img =
     \<lparr>p_Name = name, p_Source = to_InstanceSource img, p_Type = instanceType opts,
      p_InstanceType = flavor opts, p_Config = config opts, p_Devices = devices opts,
      p_Profiles = profiles opts\<rparr>"

text \<open>
  The function that \<^verbatim>\<open>WaitForLaunchInstance\<close> passes to \<^verbatim>\<open>WaitForOperation\<close>.  The assertion
  \<^verbatim>\<open>opts.image.(Image)\<close> would panic on options whose image is not an \<^verbatim>\<open>Image\<close>; after \<^verbatim>\<open>complete\<close> it always is.
\<close>

definition create_instance ::
  "'w Client \<Rightarrow> string \<Rightarrow> LaunchOptions \<Rightarrow> (request, 'w, string) io_err" where
  "create_instance c name opts =
     do { r \<leftarrow> tryFindInstanceCreateOperation c name;
          case r of
            Inr (Some oper) \<Rightarrow> ret (Inr oper)
          | _ \<Rightarrow>
              (case complete opts (GetServerName c) of
                 Inl err \<Rightarrow> ret (Inl (Errorf ''failed to complete launch options: '' err))
               | Inr opts \<Rightarrow>
                   (case opt_image opts of
                      Some (PlainImage img) \<Rightarrow>
                        incus_call c (ReqCreateInstance (launch_post name opts img))
                          (srv_CreateInstance (cli_server c) (launch_post name opts img))
                    | _ \<Rightarrow> ret (Inl (Err ''panic: interface conversion'')))) }"

definition template_name :: "string \<Rightarrow> string" where
  "template_name path = Base path @ ''.tpl''"

fun create_templates ::
  "'w Client \<Rightarrow> string \<Rightarrow> string gomap \<Rightarrow> ImageMetadata \<Rightarrow> (request, 'w, ImageMetadata) io_err" where
  "create_templates c name [] metadata = ret (Inr metadata)"
| "create_templates c name ((path, contents) # templates) metadata =
     guard_err
       (incus_call c (ReqCreateInstanceTemplateFile name (template_name path) contents)
          (srv_CreateInstanceTemplateFile (cli_server c) name (template_name path) contents))
       (Errorf (''failed to CreateInstanceTemplateFile('' @ template_name path @ ''): ''))
       (\<lambda>_. create_templates c name templates
              (metadata\<lparr>md_Templates := map_set path
                 \<lparr>t_When = [''create''], t_CreateOnly = True, t_Template = template_name path\<rparr>
                 (md_Templates metadata)\<rparr>))"

definition launch_templates ::
  "'w Client \<Rightarrow> string \<Rightarrow> string gomap \<Rightarrow> (request, 'w, unit) io_err" where
  "launch_templates c name templates =
     (if length templates > 0 then
        guard_err (incus_call c (ReqGetInstanceMetadata name) (srv_GetInstanceMetadata (cli_server c) name))
          (Errorf ''failed to GetInstanceMetadata: '')
          (\<lambda>metadata. guard_err (create_templates c name templates metadata) id
             (\<lambda>metadata. guard_err
                (incus_call c (ReqUpdateInstanceMetadata name metadata)
                   (srv_UpdateInstanceMetadata (cli_server c) name metadata))
                (Errorf ''failed to UpdateInstanceMetadata: '')
                (\<lambda>_. ret (Inr ()))))
      else ret (Inr ()))"

definition launch_file :: "'w Client \<Rightarrow> string \<Rightarrow> instanceFileCreator \<Rightarrow> (request, 'w, unit) io_err" where
  "launch_file c name file =
     guard_err
       (incus_call c (ReqCreateInstanceFile name (creator_path file) (creator_args file))
          (srv_CreateInstanceFile (cli_server c) name (creator_path file) (creator_args file)))
       (Errorf (''failed to '' @ creator_action file @ '': ''))
       (\<lambda>_. ret (Inr ()))"

definition replace_text :: "string \<Rightarrow> string gomap \<Rightarrow> string" where
  "replace_text contents replacer = foldl (\<lambda>s (old, new). ReplaceAll s old new) contents replacer"

definition launch_replacement ::
  "'w Client \<Rightarrow> string \<Rightarrow> string \<times> string gomap \<Rightarrow> (request, 'w, unit) io_err" where
  "launch_replacement c name = (\<lambda>(path, replacer).
     (let failed = (\<lambda>what. Errorf (''failed to replace text in '' @ quote path @ '': failed to '' @ what @ '': ''))
      in guard_err (incus_call c (ReqGetInstanceFile name path) (srv_GetInstanceFile (cli_server c) name path))
           (failed ''GetInstanceFile'')
           (\<lambda>(reader, resp). guard_err (ret (read_file (reader, resp))) (failed ''read file'')
             (\<lambda>contents. guard_err (ret (rd_Close reader)) (failed ''close reader'')
               (\<lambda>_. let newContents = replace_text contents replacer
                    in if newContents = contents then ret (Inr ())
                       else let args = \<lparr>fa_Content = newContents, fa_Mode = fr_Mode resp, fa_UID = fr_UID resp,
                                        fa_GID = fr_GID resp, fa_Type = fr_Type resp, fa_WriteMode = ''overwrite''\<rparr>
                            in guard_err (incus_call c (ReqCreateInstanceFile name path args)
                                            (srv_CreateInstanceFile (cli_server c) name path args))
                                 (failed ''CreateInstanceFile'') (\<lambda>_. ret (Inr ())))))))"

definition WaitForLaunchInstance ::
  "'w Client \<Rightarrow> go_context \<Rightarrow> string \<Rightarrow> LaunchOptions \<Rightarrow> (request, 'w, string list) io_err" where
  "WaitForLaunchInstance c ctx name opts =
     do { ctx \<leftarrow> WithTimeout ctx instanceCreateTimeout;
          st \<leftarrow> GetInstanceState c name;
          case st of
            Inr _ \<Rightarrow> WaitForStartInstance c ctx name
          | Inl _ \<Rightarrow>
              guard_err (WaitForOperation c ctx ''CreateInstance'' (create_instance c name opts)) id
                (\<lambda>_. guard_err (launch_templates c name (instanceTemplates opts)) id
                  (\<lambda>_. guard_err (for_each (launch_file c name) (createFiles opts)) id
                    (\<lambda>_. guard_err (for_each (launch_replacement c name) (replacements opts)) id
                      (\<lambda>_. WaitForStartInstance c ctx name)))) }"

section \<open>Weakest preconditions and requests\<close>

definition log_call :: "'w Client \<Rightarrow> incus_request \<Rightarrow> nat \<Rightarrow> 'w \<Rightarrow> (request, 'w) world \<Rightarrow> (request, 'w) world" where
  "log_call c req d w s =
     s\<lparr>clock := clock s + d, trace := trace s @ [Incus (cli_target c) req], outside := w\<rparr>"

lemma log_call_simps [simp]:
  "trace (log_call c req d w s) = trace s @ [Incus (cli_target c) req]"
  "clock (log_call c req d w s) = clock s + d" "outside (log_call c req d w s) = w"
  by (simp_all add: log_call_def)

lemma wp_incus_call [wp_simps]:
  "wp (incus_call c req f) Q s =
     (case f (cli_target c) (outside s) of (x, d, w) \<Rightarrow> Q x (log_call c req d w s))"
  by (simp add: incus_call_def wp_call log_call_def)

lemma issues_incus_call [issues_intros]: "P (Incus (cli_target c) req) \<Longrightarrow> issues P (incus_call c req f)"
  by (simp add: incus_call_def issues_call)

text \<open>What a wait for an operation makes of the answer of the server.\<close>

definition wait_result :: "string \<Rightarrow> go_error + unit \<Rightarrow> go_error + unit" where
  "wait_result name w =
     (case w of Inr _ \<Rightarrow> Inr ()
      | Inl err \<Rightarrow> if Contains (error_msg err) ''Operation not found'' then Inr ()
                   else Inl (Errorf (''failed to wait for '' @ name @ '' operation: '') err))"

lemma wp_WaitForOperation_updates [wp_simps]:
  "wp (WaitForOperation_updates c ctx name f) Q s =
     wp f (\<lambda>r s. case r of
         Inl err \<Rightarrow> Q ([], Inl (Errorf (''failed to '' @ name @ '': '') err)) s
       | Inr oper \<Rightarrow> (case srv_WaitContext (cli_server c) (cli_target c) ctx oper (outside s) of
           ((u, w), d, x) \<Rightarrow> Q (u, wait_result name w) (log_call c (ReqWaitOperation oper) d x s))) s"
  unfolding WaitForOperation_updates_def wp_bind
  by (rule arg_cong [of _ _ "\<lambda>Q. wp f Q s"])
     (auto simp: fun_eq_iff wp_simps wait_result_def split: sum.splits prod.splits)

lemma wp_WaitForOperation [wp_simps]:
  "wp (WaitForOperation c ctx name f) Q s =
     wp f (\<lambda>r s. case r of
         Inl err \<Rightarrow> Q (Inl (Errorf (''failed to '' @ name @ '': '') err)) s
       | Inr oper \<Rightarrow> (case srv_WaitContext (cli_server c) (cli_target c) ctx oper (outside s) of
           ((u, w), d, x) \<Rightarrow> Q (wait_result name w) (log_call c (ReqWaitOperation oper) d x s))) s"
  unfolding WaitForOperation_def wp_bind wp_WaitForOperation_updates
  by (rule arg_cong [of _ _ "\<lambda>Q. wp f Q s"])
     (auto simp: fun_eq_iff wp_simps split: sum.splits prod.splits)

lemma issues_WaitForOperation_updates [issues_intros]:
  "issues P f \<Longrightarrow> (\<And>oper. P (Incus (cli_target c) (ReqWaitOperation oper))) \<Longrightarrow>
   issues P (WaitForOperation_updates c ctx name f)"
  unfolding WaitForOperation_updates_def by (intro issues_intros)

lemma issues_WaitForOperation [issues_intros]:
  "issues P f \<Longrightarrow> (\<And>oper. P (Incus (cli_target c) (ReqWaitOperation oper))) \<Longrightarrow>
   issues P (WaitForOperation c ctx name f)"
  unfolding WaitForOperation_def by (intro issues_intros)

lemma issues_RunCommand [issues_intros]:
  "P (Incus (cli_target c) (ReqExecInstance n cmd stdin)) \<Longrightarrow>
   (\<And>oper. P (Incus (cli_target c) (ReqWaitOperation oper))) \<Longrightarrow> issues P (RunCommand c ctx n cmd stdin)"
  unfolding RunCommand_def Let_def by (intro issues_intros)

text \<open>
  The requests of the instance operations.  \<open>launch_request n\<close> holds of the requests that launching
  and starting instance \<open>n\<close> may send, \<open>delete_request n\<close> of those that stopping and deleting it may
  send; waiting for an operation and looking for a pending one belong to both.
\<close>

fun launch_request :: "string \<Rightarrow> incus_request \<Rightarrow> bool" where
  "launch_request n (ReqGetInstanceState m) = (m = n)"
| "launch_request n ReqGetOperations = True"
| "launch_request n (ReqRawOperation _) = True"
| "launch_request n (ReqWaitOperation _) = True"
| "launch_request n (ReqCreateInstance p) = (p_Name p = n)"
| "launch_request n (ReqUpdateInstanceState m action force) = (m = n \<and> action = ''start'')"
| "launch_request n (ReqGetInstanceMetadata m) = (m = n)"
| "launch_request n (ReqCreateInstanceTemplateFile m _ _) = (m = n)"
| "launch_request n (ReqUpdateInstanceMetadata m _) = (m = n)"
| "launch_request n (ReqCreateInstanceFile m _ _) = (m = n)"
| "launch_request n (ReqGetInstanceFile m _) = (m = n)"
| "launch_request n _ = False"

fun delete_request :: "string \<Rightarrow> incus_request \<Rightarrow> bool" where
  "delete_request n (ReqGetInstanceState m) = (m = n)"
| "delete_request n (ReqWaitOperation _) = True"
| "delete_request n (ReqUpdateInstanceState m action force) = (m = n \<and> action = ''stop'')"
| "delete_request n (ReqDeleteInstance m) = (m = n)"
| "delete_request n _ = False"

definition sends :: "'w Client \<Rightarrow> (incus_request \<Rightarrow> bool) \<Rightarrow> request \<Rightarrow> bool" where
  "sends c P r \<longleftrightarrow> (case r of Incus t q \<Rightarrow> t = cli_target c \<and> P q | _ \<Rightarrow> False)"

lemma sends_Incus [simp]: "sends c P (Incus t q) \<longleftrightarrow> t = cli_target c \<and> P q"
  by (simp add: sends_def)

lemma issues_tryFind [issues_intros]:
  "issues (sends c (launch_request name)) (tryFindInstanceCreateOperation c name)"
  unfolding tryFindInstanceCreateOperation_def by (intro issues_intros) simp_all

lemma issues_create_instance [issues_intros]:
  "issues (sends c (launch_request name)) (create_instance c name opts)"
  unfolding create_instance_def
  by (intro issues_intros)
     (auto intro!: issues_intros simp: launch_post_def split: option.splits ImageFamily.splits sum.splits)

lemma issues_create_templates [issues_intros]:
  "issues (sends c (launch_request name)) (create_templates c name ts md)"
  by (induction c name ts md rule: create_templates.induct) (auto intro!: issues_intros)

lemma issues_launch_templates [issues_intros]:
  "issues (sends c (launch_request name)) (launch_templates c name ts)"
  unfolding launch_templates_def by (intro issues_intros) simp_all

lemma issues_launch_file [issues_intros]:
  "issues (sends c (launch_request name)) (launch_file c name file)"
  unfolding launch_file_def by (intro issues_intros) simp_all

lemma issues_launch_replacement [issues_intros]:
  "issues (sends c (launch_request name)) (launch_replacement c name pr)"
  unfolding launch_replacement_def Let_def by (intro issues_intros) simp_all

lemma issues_waitForInstanceAddress [issues_intros]:
  "issues (sends c (launch_request name)) (waitForInstanceAddress fuel c ctx name)"
  by (induction fuel) (auto intro!: issues_intros simp: Let_def)

lemma issues_WaitForStartInstance [issues_intros]:
  "issues (sends c (launch_request name)) (WaitForStartInstance c ctx name)"
  unfolding WaitForStartInstance_def by (intro issues_intros) simp_all

lemma issues_WaitForLaunchInstance [issues_intros]:
  "issues (sends c (launch_request name)) (WaitForLaunchInstance c ctx name opts)"
  unfolding WaitForLaunchInstance_def by (intro issues_intros) simp_all

lemma issues_WaitForStopInstance [issues_intros]:
  "issues (sends c (delete_request name)) (WaitForStopInstance c ctx name)"
  unfolding WaitForStopInstance_def by (intro issues_intros) simp_all

lemma issues_WaitForDeleteInstance [issues_intros]:
  "issues (sends c (delete_request name)) (WaitForDeleteInstance c ctx name)"
  unfolding WaitForDeleteInstance_def by (intro issues_intros) simp_all

section \<open>Properties\<close>

subsection \<open>Addresses and filters\<close>

lemma mset_concat_map_perm:
  "mset xs = mset ys \<Longrightarrow> mset (concat (map f xs)) = mset (concat (map f ys))"
  by (metis mset_concat mset_map sum_mset_sum_list)

text \<open>
  C37: The host addresses of an instance are its global, non-VIP addresses on networks that have a
  host interface, in ascending order; they do not depend on the order in which the networks map
  is visited.
\<close>

theorem ParseHostAddresses_correct:
  "set (ParseHostAddresses (Some state)) =
     {a_Address a | a n. n \<in> snd ` set (st_Network state) \<and> n_Type n \<noteq> ''loopback'' \<and> n_HostName n \<noteq> ''''
        \<and> a \<in> set (n_Addresses n) \<and> a_Scope a = ''global''
        \<and> (a_Family a, a_Netmask a) \<notin> {(''inet'', ''32''), (''inet6'', ''128'')}}
   \<and> sorted (ParseHostAddresses (Some state))
   \<and> (mset ns = mset (st_Network state) \<longrightarrow>
        ParseHostAddresses (Some (state\<lparr>st_Network := ns\<rparr>)) = ParseHostAddresses (Some state))"
proof (intro conjI)
  show "set (ParseHostAddresses (Some state)) =
     {a_Address a | a n. n \<in> snd ` set (st_Network state) \<and> n_Type n \<noteq> ''loopback'' \<and> n_HostName n \<noteq> ''''
        \<and> a \<in> set (n_Addresses n) \<and> a_Scope a = ''global''
        \<and> (a_Family a, a_Netmask a) \<notin> {(''inet'', ''32''), (''inet6'', ''128'')}}"
    by (auto simp: ParseHostAddresses.simps host_network_def host_address_def image_iff split: if_splits) force+
  show "sorted (ParseHostAddresses (Some state))"
    by (simp add: ParseHostAddresses.simps)
  show "mset ns = mset (st_Network state) \<longrightarrow>
        ParseHostAddresses (Some (state\<lparr>st_Network := ns\<rparr>)) = ParseHostAddresses (Some state)"
    by (auto simp: ParseHostAddresses.simps intro!: properties_for_sort mset_concat_map_perm)
qed

theorem ParseHostAddresses_correct_witness:
  "ParseHostAddresses (Some \<lparr>st_Status = [], st_Pid = 0, st_Network =
      [(''eth0'', \<lparr>n_Type = ''broadcast'', n_HostName = ''v0'', n_Addresses = []\<rparr>),
       (''lo'', \<lparr>n_Type = ''loopback'', n_HostName = [], n_Addresses = []\<rparr>)]\<rparr>)
   = ParseHostAddresses (Some \<lparr>st_Status = [], st_Pid = 0, st_Network =
      [(''lo'', \<lparr>n_Type = ''loopback'', n_HostName = [], n_Addresses = []\<rparr>),
       (''eth0'', \<lparr>n_Type = ''broadcast'', n_HostName = ''v0'', n_Addresses = []\<rparr>)]\<rparr>)"
  using ParseHostAddresses_correct [of "\<lparr>st_Status = [], st_Pid = 0, st_Network =
      [(''lo'', \<lparr>n_Type = ''loopback'', n_HostName = [], n_Addresses = []\<rparr>),
       (''eth0'', \<lparr>n_Type = ''broadcast'', n_HostName = ''v0'', n_Addresses = []\<rparr>)]\<rparr>"
      "[(''eth0'', \<lparr>n_Type = ''broadcast'', n_HostName = ''v0'', n_Addresses = []\<rparr>),
       (''lo'', \<lparr>n_Type = ''loopback'', n_HostName = [], n_Addresses = []\<rparr>)]"]
  by simp

lemma filter_instances_eq: "filter_instances fs is = filter (\<lambda>i. \<forall>f\<in>set fs. f i) is"
  by (induction fs "is" rule: filter_instances.induct) (auto simp: list_ex_iff)

subsection \<open>The polling loop ends\<close>

lemma run_waitForInstanceAddress_Suc:
  "run_state (waitForInstanceAddress (Suc n) c ctx name) s =
     (case srv_GetInstanceState (cli_server c) name (cli_target c) (outside s) of (r, d, w) \<Rightarrow>
        let s1 = log_call c (ReqGetInstanceState name) d w s in
        case r of
          Inl err \<Rightarrow> (Some (Inl (Errorf ''failed to GetInstanceState: '' err)), s1)
        | Inr state \<Rightarrow>
            if ParseHostAddresses (Some state) \<noteq> [] then (Some (Inr (ParseHostAddresses (Some state))), s1)
            else case run_state (select_after ctx second) s1 of
                (Some err, s2) \<Rightarrow> (Some (Inl (Errorf ''timed out waiting for instance address: '' err)), s2)
              | (None, s2) \<Rightarrow> run_state (waitForInstanceAddress n c ctx name) s2)"
  by (auto simp: incus_call_def call_def log_call_def Let_def split: prod.splits sum.splits option.splits)

text \<open>What starting an instance may answer: a wrapped error, or addresses in ascending order.\<close>

definition started :: "go_error + string list \<Rightarrow> bool" where
  "started r \<longleftrightarrow>
     (case r of Inl err \<Rightarrow> (\<exists>pre e. err = Errorf pre e) | Inr addrs \<Rightarrow> addrs \<noteq> [] \<and> sorted addrs)"

lemma started_Errorf [simp]: "started (Inl (Errorf pre e))"
  by (simp add: started_def)

text \<open>Enough fuel always gives a result, and more fuel does not change it.\<close>

lemma waitForInstanceAddress_enough:
  assumes "deadline ctx = Some t" and "t \<le> clock s + Suc n * second" and "n \<le> m"
  shows "run_state (waitForInstanceAddress (Suc m) c ctx name) s
           = run_state (waitForInstanceAddress (Suc n) c ctx name) s
       \<and> (\<exists>r. fst (run_state (waitForInstanceAddress (Suc n) c ctx name) s) = Some r \<and> started r)"
  using assms(2,3)
proof (induction n arbitrary: m s)
  case 0
  then show ?case using assms(1)
    by (auto simp: run_waitForInstanceAddress_Suc select_after_def ParseHostAddresses.simps Let_def started_def
        simp del: waitForInstanceAddress.simps split: prod.splits sum.splits)
next
  case (Suc n)
  obtain m' where m: "m = Suc m'" "n \<le> m'" using Suc.prems(2) by (cases m) auto
  obtain r d w where g: "srv_GetInstanceState (cli_server c) name (cli_target c) (outside s) = (r, d, w)"
    by (metis prod_cases3)
  let ?s = "(log_call c (ReqGetInstanceState name) d w s)\<lparr>clock := clock s + d + second\<rparr>"
  have "t \<le> clock ?s + Suc n * second" using Suc.prems(1) by simp
  note IH = Suc.IH [OF this m(2)]
  show ?case
    unfolding m run_waitForInstanceAddress_Suc [of "Suc m'"] run_waitForInstanceAddress_Suc [of "Suc n"] g
    using IH assms(1)
    by (auto simp: select_after_def Let_def ParseHostAddresses.simps started_def
        simp del: waitForInstanceAddress.simps split: sum.splits)
qed

text \<open>
  A server that refuses every request in no time; servers for concrete runs are updates of it.
\<close>

definition refusing_server :: "'w InstanceServer" where
  "refusing_server =
     (let no = (\<lambda>_ w. (Inl (Err ''refused''), 0, w))
      in \<lparr>srv_GetInstanceState = \<lambda>_. \<lambda>_ w. (Inl (Err ''refused''), 0, w),
          srv_GetInstancesFull = \<lambda>_ w. (Inl (Err ''refused''), 0, w),
          srv_GetInstanceFull = \<lambda>_ _ w. (Inl (Err ''refused''), 0, w),
          srv_GetOperations = \<lambda>_ w. (Inl (Err ''refused''), 0, w),
          srv_RawOperation = \<lambda>_. no, srv_CreateInstance = \<lambda>_. no,
          srv_UpdateInstanceState = \<lambda>_ _ _. no, srv_DeleteInstance = \<lambda>_. no,
          srv_WaitContext = \<lambda>_ _ _ w. (([], Inl (Err ''refused'')), 0, w),
          srv_GetInstanceMetadata = \<lambda>_ _ w. (Inl (Err ''refused''), 0, w),
          srv_CreateInstanceTemplateFile = \<lambda>_ _ _ _ w. (Inl (Err ''refused''), 0, w),
          srv_UpdateInstanceMetadata = \<lambda>_ _ _ w. (Inl (Err ''refused''), 0, w),
          srv_CreateInstanceFile = \<lambda>_ _ _ _ w. (Inl (Err ''refused''), 0, w),
          srv_GetInstanceFile = \<lambda>_ _ _ w. (Inl (Err ''refused''), 0, w),
          srv_ExecInstance = \<lambda>_ _ _. no, srv_ExecOutput = \<lambda>_ _ _. ([], []), srv_PullImage = \<lambda>_. no,
          srv_GetNetwork = \<lambda>_ _ w. (Inl (Err ''refused''), 0, w),
          srv_GetNetworkLoadBalancer = \<lambda>_ _ _ w. (Inl (Err ''refused''), 0, w),
          srv_GetNetworkLoadBalancerState = \<lambda>_ _. no,
          srv_CreateNetworkLoadBalancer = \<lambda>_ _ _ _ w. (Inl (Err ''refused''), 0, w),
          srv_UpdateNetworkLoadBalancer = \<lambda>_ _ _ _ w. (Inl (Err ''refused''), 0, w),
          srv_DeleteNetworkLoadBalancer = \<lambda>_ _ _ w. (Inl (Err ''refused''), 0, w),
          srv_GetStoragePools = \<lambda>_ w. (Inl (Err ''refused''), 0, w),
          srv_GetInstance = \<lambda>_ _ w. (Inl (Err ''refused''), 0, w),
          srv_GetImageAlias = \<lambda>_ _ w. (Inl (Err ''refused''), 0, w),
          srv_GetImage = \<lambda>_ _ w. (Inl (Err ''refused''), 0, w),
          srv_DeleteImageAlias = \<lambda>_ _ w. (Inl (Err ''refused''), 0, w),
          srv_CreateImage = \<lambda>_. no, srv_GetImageFile = \<lambda>_. no\<rparr>)"

definition sample_client :: "'w InstanceServer \<Rightarrow> 'w Client" where
  "sample_client srv =
     \<lparr>cli_server = srv,
      serverInfo = \<lparr>env_Server = ''incus'', env_Driver = ''lxc'', env_Architectures = [''x86_64''],
                    env_ServerClustered = False, APIExtensions = []\<rparr>,
      cli_target = []\<rparr>"

definition sample_state :: InstanceState where
  "sample_state = \<lparr>st_Status = ''Running'', st_Pid = 7, st_Network =
     [(''eth0'', \<lparr>n_Type = ''broadcast'', n_HostName = ''v0'', n_Addresses =
        [\<lparr>a_Family = ''inet'', a_Address = ''10.0.0.2'', a_Netmask = ''24'', a_Scope = ''global''\<rparr>]\<rparr>)]\<rparr>"

definition initial_world :: "'w \<Rightarrow> (request, 'w) world" where
  "initial_world w = \<lparr>clock = 0, trace = [], outside = w\<rparr>"

lemma initial_trace [simp]: "trace (initial_world w) = []"
  by (simp add: initial_world_def)

subsection \<open>Starting\<close>

lemma run_bindE:
  assumes "run_state (State_Monad.bind m f) s = (y, s')"
  obtains x s1 where "run_state m s = (x, s1)" "run_state (f x) s1 = (y, s')"
  using assms by (auto split: prod.splits)

lemma guard_err_InrE:
  assumes "run_state (guard_err m wrap k) s = (Inr y, s')"
  obtains x s1 where "run_state m s = (Inr x, s1)" "run_state (k x) s1 = (Inr y, s')"
  using assms by (auto simp: run_state_guard_err split: prod.splits sum.splits)

lemma run_ret [simp]: "run_state (ret x) s = (y, s') \<longleftrightarrow> y = x \<and> s' = s"
  by auto

lemma run_incus_callE:
  assumes "run_state (incus_call c req f) s = (x, s')"
  obtains d w where "f (cli_target c) (outside s) = (x, d, w)" "s' = log_call c req d w s"
  using assms by (auto simp: incus_call_def call_def log_call_def split: prod.splits)

lemma run_incus_call_trace:
  "run_state (incus_call c req f) s = (x, s') \<Longrightarrow> trace s' = trace s @ [Incus (cli_target c) req]"
  by (auto elim!: run_incus_callE)

lemma run_WithTimeout [simp]:
  "run_state (WithTimeout ctx d) s = (with_timeout ctx d (clock s), s)"
  by (simp add: WithTimeout_def now_def)

lemma with_timeout_deadline:
  obtains t where "deadline (with_timeout ctx d now0) = Some t" "t \<le> now0 + d"
  by (auto simp: with_timeout_def split: option.splits)

text \<open>The fuel that \<^verbatim>\<open>WaitForStartInstance\<close> gives to the loop is enough.\<close>

lemma start_fuel_enough:
  assumes t0: "t0 \<le> clock s"
  shows "wp (waitForInstanceAddress (instanceStartTimeout div second) c
               (with_timeout ctx instanceStartTimeout t0) name)
           (\<lambda>r _. \<exists>res. r = Some res \<and> started res) s"
proof -
  obtain t where t: "deadline (with_timeout ctx instanceStartTimeout t0) = Some t"
      "t \<le> t0 + instanceStartTimeout"
    by (rule with_timeout_deadline)
  have f: "instanceStartTimeout div second = Suc 59"
    by (simp add: instanceStartTimeout_def second_def)
  have "t \<le> clock s + Suc 59 * second"
    using t(2) t0 by (simp add: instanceStartTimeout_def)
  from waitForInstanceAddress_enough [OF t(1) this, of 59 c name] show ?thesis
    by (auto simp: f wp_def simp del: waitForInstanceAddress.simps)
qed

lemma WaitForStartInstance_started: "wp (WaitForStartInstance c ctx name) (\<lambda>r _. started r) s"
proof -
  let ?ctx = "with_timeout ctx instanceStartTimeout (clock s)"
  have "clock s \<le> clock s2 \<Longrightarrow>
      wp (waitForInstanceAddress (instanceStartTimeout div second) c ?ctx name)
        (\<lambda>r _. started (case r of None \<Rightarrow> out_of_fuel | Some res \<Rightarrow> res)) s2" for s2
    by (rule wp_mono [OF start_fuel_enough]) auto
  then show ?thesis
    by (auto simp: WaitForStartInstance_def wp_simps wait_result_def
        simp del: waitForInstanceAddress.simps split: prod.splits sum.splits)
qed

subsection \<open>Launching\<close>

definition template_entry :: "string \<Rightarrow> ImageMetadataTemplate" where
  "template_entry path = \<lparr>t_When = [''create''], t_CreateOnly = True, t_Template = template_name path\<rparr>"

definition template_requests :: "string \<Rightarrow> string gomap \<Rightarrow> ImageMetadata \<Rightarrow> incus_request list" where
  "template_requests name templates metadata =
     (if templates = [] then []
      else ReqGetInstanceMetadata name
        # map (\<lambda>(path, x). ReqCreateInstanceTemplateFile name (template_name path) x) templates
        @ [ReqUpdateInstanceMetadata name metadata])"

definition file_requests :: "string \<Rightarrow> instanceFileCreator list \<Rightarrow> incus_request list" where
  "file_requests name files = map (\<lambda>f. ReqCreateInstanceFile name (creator_path f) (creator_args f)) files"

fun start_request :: "string \<Rightarrow> incus_request \<Rightarrow> bool" where
  "start_request n (ReqGetInstanceState m) = (m = n)"
| "start_request n (ReqWaitOperation _) = True"
| "start_request n (ReqUpdateInstanceState m action force) = (m = n \<and> action = ''start'')"
| "start_request n _ = False"

fun replace_request :: "string \<Rightarrow> string set \<Rightarrow> incus_request \<Rightarrow> bool" where
  "replace_request n paths (ReqGetInstanceFile m p) = (m = n \<and> p \<in> paths)"
| "replace_request n paths (ReqCreateInstanceFile m p args) = (m = n \<and> p \<in> paths)"
| "replace_request n paths _ = False"

text \<open>The requests that obtain the create operation: an instance is only created as the options say.\<close>

definition create_request :: "'w Client \<Rightarrow> string \<Rightarrow> LaunchOptions \<Rightarrow> incus_request \<Rightarrow> bool" where
  "create_request c name opts q =
     (case q of
        ReqCreateInstance p \<Rightarrow>
          (case complete opts (GetServerName c) of
             Inr opts' \<Rightarrow> (case opt_image opts' of
                             Some (PlainImage img) \<Rightarrow> p = launch_post name opts' img
                           | _ \<Rightarrow> False)
           | Inl _ \<Rightarrow> False)
      | ReqGetOperations \<Rightarrow> True | ReqRawOperation _ \<Rightarrow> True | ReqWaitOperation _ \<Rightarrow> True
      | _ \<Rightarrow> False)"

lemma issues_start_only:
  "issues (sends c (start_request name)) (WaitForStartInstance c ctx name)"
proof -
  have "issues (sends c (start_request name)) (waitForInstanceAddress fuel c ctx name)" for fuel ctx
    by (induction fuel) (auto intro!: issues_intros simp: Let_def)
  then show ?thesis
    unfolding WaitForStartInstance_def by (intro issues_intros) simp_all
qed

lemma issues_create_exact:
  "issues (sends c (create_request c name opts)) (create_instance c name opts)"
  unfolding create_instance_def tryFindInstanceCreateOperation_def
  by (intro issues_intros)
     (auto intro!: issues_intros simp: create_request_def split: option.splits ImageFamily.splits sum.splits)

lemma issues_replacement_exact:
  "fst pr \<in> paths \<Longrightarrow> issues (sends c (replace_request name paths)) (launch_replacement c name pr)"
  unfolding launch_replacement_def Let_def by (intro issues_intros) auto

text \<open>Also when the launch fails, an instance is only created as the options say.\<close>

definition launch_exact :: "'w Client \<Rightarrow> string \<Rightarrow> LaunchOptions \<Rightarrow> incus_request \<Rightarrow> bool" where
  "launch_exact c name opts q \<longleftrightarrow>
     launch_request name q \<and> (\<forall>p. q = ReqCreateInstance p \<longrightarrow> create_request c name opts q)"

lemma launch_exactI:
  "launch_request name q \<Longrightarrow> (\<And>p. q \<noteq> ReqCreateInstance p) \<Longrightarrow> launch_exact c name opts q"
  by (simp add: launch_exact_def)

lemma start_launch: "start_request n q \<Longrightarrow> launch_exact c n opts q"
  by (cases q) (auto simp: launch_exact_def)

lemma create_launch: "create_request c n opts q \<Longrightarrow> launch_exact c n opts q"
  by (cases q) (auto simp: launch_exact_def create_request_def launch_post_def split: sum.splits option.splits ImageFamily.splits)

lemma replace_launch: "replace_request n paths q \<Longrightarrow> launch_exact c n opts q"
  by (cases q) (auto simp: launch_exact_def)

lemma issues_sends_mono: "issues (sends c P) m \<Longrightarrow> (\<And>q. P q \<Longrightarrow> Q q) \<Longrightarrow> issues (sends c Q) m"
  by (erule issues_mono) (auto simp: sends_def split: request.splits)

lemma issues_launch_exact: "issues (sends c (launch_exact c name opts)) (WaitForLaunchInstance c ctx name opts)"
proof -
  let ?P = "sends c (launch_exact c name opts)"
  have "issues ?P (create_templates c name ts md)" for ts md
    by (induction c name ts md rule: create_templates.induct) (auto intro!: issues_intros launch_exactI)
  then have "issues ?P (launch_templates c name (instanceTemplates opts))"
    unfolding launch_templates_def by (intro issues_intros) (auto intro: launch_exactI)
  moreover have "issues ?P (launch_file c name f)" for f
    unfolding launch_file_def by (intro issues_intros) (auto intro: launch_exactI)
  moreover have "issues ?P (launch_replacement c name pr)" for pr
    by (rule issues_sends_mono [OF issues_replacement_exact [of _ UNIV]]) (auto intro: replace_launch)
  moreover have "issues ?P (WaitForStartInstance c ctx' name)" for ctx'
    by (rule issues_sends_mono [OF issues_start_only]) (rule start_launch)
  moreover have "issues ?P (create_instance c name opts)"
    by (rule issues_sends_mono [OF issues_create_exact]) (rule create_launch)
  ultimately show ?thesis
    unfolding WaitForLaunchInstance_def by (intro issues_intros) (auto intro: launch_exactI)
qed

text \<open>Among all requests, those that create an instance satisfy \<open>P\<close>.\<close>

definition creates :: "(InstancesPost \<Rightarrow> bool) \<Rightarrow> request \<Rightarrow> bool" where
  "creates P r \<longleftrightarrow> (case r of Incus t (ReqCreateInstance p) \<Rightarrow> P p | _ \<Rightarrow> True)"

lemma create_requestD:
  "create_request c name opts (ReqCreateInstance p) \<Longrightarrow>
     \<exists>opts' img. complete opts (GetServerName c) = Inr opts' \<and> opt_image opts' = Some (PlainImage img) \<and> p = launch_post name opts' img"
  by (simp add: create_request_def split: sum.splits option.splits ImageFamily.splits)

lemma creates_launch:
  assumes "\<And>opts' img. complete opts (GetServerName c) = Inr opts' \<Longrightarrow> opt_image opts' = Some (PlainImage img) \<Longrightarrow>
     P (launch_post name opts' img)"
  shows "issues (creates P) (WaitForLaunchInstance c ctx name opts)"
proof (rule issues_mono [OF issues_launch_exact])
  fix r
  assume "sends c (launch_exact c name opts) r"
  then have "P p" if "r = Incus t (ReqCreateInstance p)" for t p
    using that assms create_requestD [of c name opts p] by (auto simp only: launch_exact_def sends_Incus)
  then show "creates P r" by (auto simp: creates_def split: request.split incus_request.split)
qed

text \<open>The requests that a run added to the trace.\<close>

definition logged :: "'w Client \<Rightarrow> (request, 'w) world \<Rightarrow> incus_request list \<Rightarrow> (request, 'w) world \<Rightarrow> bool" where
  "logged c s qs s' \<longleftrightarrow> trace s' = trace s @ map (Incus (cli_target c)) qs"

lemma logged_refl: "logged c s [] s"
  by (simp add: logged_def)

lemma logged_trans: "logged c s qs s1 \<Longrightarrow> logged c s1 qs' s2 \<Longrightarrow> logged c s (qs @ qs') s2"
  by (simp add: logged_def)

lemma run_incus_call_logged: "run_state (incus_call c req f) s = (x, s') \<Longrightarrow> logged c s [req] s'"
  by (auto simp: logged_def elim!: run_incus_callE)

lemma create_templates_Inr:
  "run_state (create_templates c name ts md) s = (Inr md', s') \<Longrightarrow>
     logged c s (map (\<lambda>(path, x). ReqCreateInstanceTemplateFile name (template_name path) x) ts) s'
     \<and> map_of (md_Templates md') =
        (\<lambda>p. if p \<in> fst ` set ts then Some (template_entry p) else map_of (md_Templates md) p)"
proof (induction c name ts md arbitrary: s rule: create_templates.induct)
  case (2 c name path contents ts md)
  from "2.prems" obtain s1 where
      c1: "logged c s [ReqCreateInstanceTemplateFile name (template_name path) contents] s1"
    and r: "run_state (create_templates c name ts
              (md\<lparr>md_Templates := map_set path (template_entry path) (md_Templates md)\<rparr>)) s1 = (Inr md', s')"
    by (auto elim!: guard_err_InrE dest!: run_incus_call_logged simp: template_entry_def)
  from "2.IH" [OF r [unfolded template_entry_def]] logged_trans [OF c1] show ?case
    by (auto simp: template_entry_def fun_eq_iff)
qed (auto intro: logged_refl)

lemma launch_templates_Inr:
  assumes "run_state (launch_templates c name ts) s = (Inr u, s')"
  shows "\<exists>md. logged c s (template_requests name ts md) s'
           \<and> (\<forall>p \<in> fst ` set ts. map_of (md_Templates md) p = Some (template_entry p))"
proof (cases "ts = []")
  case True
  then show ?thesis using assms by (auto simp: launch_templates_def template_requests_def logged_refl)
next
  case False
  from assms False obtain md0 md s1 s2 where
      g: "logged c s [ReqGetInstanceMetadata name] s1"
    and t: "run_state (create_templates c name ts md0) s1 = (Inr md, s2)"
    and u: "logged c s2 [ReqUpdateInstanceMetadata name md] s'"
    by (auto simp: launch_templates_def elim!: guard_err_InrE dest!: run_incus_call_logged)
  from create_templates_Inr [OF t] False logged_trans [OF logged_trans [OF g] u] show ?thesis
    by (intro exI [of _ md]) (simp add: template_requests_def)
qed

lemma for_each_Inr:
  assumes "\<And>x s s'. run_state (f x) s = (Inr (), s') \<Longrightarrow> \<exists>qs. logged c s qs s' \<and> P x qs"
  shows "run_state (for_each f xs) s = (Inr u, s') \<Longrightarrow> \<exists>qss. logged c s (concat qss) s' \<and> list_all2 P xs qss"
proof (induction xs arbitrary: s)
  case Nil
  then show ?case by (auto simp: logged_refl)
next
  case (Cons x xs)
  from Cons.prems obtain s1 where
      x: "run_state (f x) s = (Inr (), s1)" and xs: "run_state (for_each f xs) s1 = (Inr u, s')"
    by (auto elim!: guard_err_InrE)
  from assms [OF x] Cons.IH [OF xs] obtain qs qss where
      "logged c s qs s1" "P x qs" "logged c s1 (concat qss) s'" "list_all2 P xs qss" by blast
  then show ?case by (intro exI [of _ "qs # qss"]) (auto intro: logged_trans)
qed

lemma launch_files_Inr:
  assumes "run_state (for_each (launch_file c name) files) s = (Inr u, s')"
  shows "logged c s (file_requests name files) s'"
proof -
  let ?P = "\<lambda>f qs. qs = [ReqCreateInstanceFile name (creator_path f) (creator_args f)]"
  have "\<exists>qs. logged c s1 qs s2 \<and> ?P f qs" if "run_state (launch_file c name f) s1 = (Inr (), s2)" for f s1 s2
    using that by (auto simp: launch_file_def elim!: guard_err_InrE dest: run_incus_call_logged)
  from for_each_Inr [of "launch_file c name" c ?P, OF this assms]
  obtain qss where "logged c s (concat qss) s'" "list_all2 ?P files qss" by blast
  moreover from this(2) have "concat qss = file_requests name files"
    by (induction files qss rule: list_all2_induct) (simp_all add: file_requests_def)
  ultimately show ?thesis by simp
qed

text \<open>
  How a launch proceeds.  \<open>creation\<close>: the requests that obtain the operation creating the instance, by what the
  server answered.  A pending creation of the same instance is adopted; otherwise, or when it cannot be read, the
  instance is created as the completed options say.  Then the operation is waited for.
\<close>

definition created_as :: "'w Client \<Rightarrow> string \<Rightarrow> LaunchOptions \<Rightarrow> incus_request list \<Rightarrow> bool" where
  "created_as c name opts qs \<longleftrightarrow>
     (\<exists>opts' img. complete opts (GetServerName c) = Inr opts' \<and> opt_image opts' = Some (PlainImage img)
        \<and> qs = [ReqCreateInstance (launch_post name opts' img)])"

definition creation ::
  "'w Client \<Rightarrow> string \<Rightarrow> LaunchOptions \<Rightarrow> (request, 'w) world \<Rightarrow> incus_request list \<Rightarrow> bool" where
  "creation c name opts s qs \<longleftrightarrow>
     (\<exists>found post oper. qs = ReqGetOperations # found @ post @ [ReqWaitOperation oper]
        \<and> (case srv_GetOperations (cli_server c) (cli_target c) (outside s) of (answer, d, w) \<Rightarrow>
             case (case answer of Inl _ \<Rightarrow> None | Inr ops \<Rightarrow> find (creates_instance name) ops) of
               None \<Rightarrow> found = [] \<and> created_as c name opts post
             | Some op1 \<Rightarrow>
                 found = [ReqRawOperation (''/operations/'' @ op_ID op1)]
                 \<and> (case fst (srv_RawOperation (cli_server c) (''/operations/'' @ op_ID op1) (cli_target c) w) of
                      Inr pending \<Rightarrow> post = [] \<and> oper = pending
                    | Inl _ \<Rightarrow> created_as c name opts post)))"

text \<open>\<open>replacing\<close>: a file is read, and overwritten with the replaced text only if that differs.\<close>

definition replacing :: "string \<Rightarrow> string \<times> string gomap \<Rightarrow> incus_request list \<Rightarrow> bool" where
  "replacing name pr qs \<longleftrightarrow>
     qs = [ReqGetInstanceFile name (fst pr)]
     \<or> (\<exists>old args. qs = [ReqGetInstanceFile name (fst pr), ReqCreateInstanceFile name (fst pr) args]
          \<and> fa_Content args = replace_text old (snd pr) \<and> fa_Content args \<noteq> old \<and> fa_WriteMode args = ''overwrite'')"

text \<open>\<open>starting\<close>: a start is requested and waited for exactly when the instance is not running; then its state is polled.\<close>

definition starting :: "'w Client \<Rightarrow> string \<Rightarrow> (request, 'w) world \<Rightarrow> incus_request list \<Rightarrow> bool" where
  "starting c name s qs \<longleftrightarrow>
     (\<exists>state oper n. fst (srv_GetInstanceState (cli_server c) name (cli_target c) (outside s)) = Inr state
        \<and> qs = ReqGetInstanceState name
               # (if st_Status state = ''Running'' then []
                  else [ReqUpdateInstanceState name ''start'' False, ReqWaitOperation oper])
               @ replicate (Suc n) (ReqGetInstanceState name))"

lemma creation_Inr:
  assumes "run_state (WaitForOperation c ctx ''CreateInstance'' (create_instance c name opts)) s = (Inr u, s1)"
  shows "\<exists>qs. logged c s qs s1 \<and> creation c name opts s qs"
proof -
  have "wp (WaitForOperation c ctx ''CreateInstance'' (create_instance c name opts))
      (\<lambda>r s1. r = Inr () \<longrightarrow> (\<exists>qs. logged c s qs s1 \<and> creation c name opts s qs)) s"
    by (auto simp: wp_simps create_instance_def tryFindInstanceCreateOperation_def creation_def created_as_def logged_def
        Cons_eq_map_conv split: prod.splits sum.splits option.splits ImageFamily.splits)
  with assms show ?thesis by (auto dest: wpD)
qed

lemma replacing_Inr:
  assumes "run_state (launch_replacement c name pr) s = (Inr (), s')"
  shows "\<exists>qs. logged c s qs s' \<and> replacing name pr qs"
proof (cases pr)
  case (Pair path replacer)
  have "wp (launch_replacement c name pr)
      (\<lambda>r s'. r = Inr () \<longrightarrow> (\<exists>qs. logged c s qs s' \<and> replacing name pr qs)) s"
    by (auto simp: launch_replacement_def Pair Let_def wp_simps replacing_def logged_def Cons_eq_map_conv
        split: prod.splits sum.splits)
  with assms show ?thesis by (auto dest: wpD)
qed

lemma polling_logged:
  "run_state (waitForInstanceAddress fuel c ctx name) s = (Some r, s') \<Longrightarrow>
     \<exists>n. logged c s (replicate (Suc n) (ReqGetInstanceState name)) s'"
proof (induction fuel arbitrary: s)
  case (Suc fuel)
  from Suc.prems consider
      (once) "trace s' = trace s @ [Incus (cli_target c) (ReqGetInstanceState name)]"
    | (more) s1 where "run_state (waitForInstanceAddress fuel c ctx name) s1 = (Some r, s')"
        "trace s1 = trace s @ [Incus (cli_target c) (ReqGetInstanceState name)]"
    by (auto simp: run_waitForInstanceAddress_Suc select_after_def Let_def
        simp del: waitForInstanceAddress.simps split: prod.splits sum.splits if_splits option.splits)
  then show ?case
  proof cases
    case once
    then show ?thesis by (intro exI [of _ 0]) (simp add: logged_def)
  next
    case more
    from Suc.IH [OF more(1)] obtain n where "logged c s1 (replicate (Suc n) (ReqGetInstanceState name)) s'" ..
    with more(2) show ?thesis by (intro exI [of _ "Suc n"]) (simp add: logged_def)
  qed
qed simp

lemma starting_Inr:
  assumes "run_state (WaitForStartInstance c ctx name) s = (Inr addrs, s')"
  shows "\<exists>qs. logged c s qs s' \<and> starting c name s qs"
proof -
  let ?ctx = "with_timeout ctx instanceStartTimeout (clock s)"
  from assms obtain state s1 s2 where
      g: "run_state (GetInstanceState c name) s = (Inr state, s1)"
    and u: "run_state (if st_Status state = ''Running'' then ret (Inr ())
                  else WaitForOperation c ?ctx ''StartInstance''
                         (incus_call c (ReqUpdateInstanceState name ''start'' False)
                            (srv_UpdateInstanceState (cli_server c) name ''start'' False))) s1 = (Inr (), s2)"
    and p: "run_state (do { r \<leftarrow> waitForInstanceAddress (instanceStartTimeout div second) c ?ctx name;
                          ret (case r of None \<Rightarrow> out_of_fuel | Some res \<Rightarrow> res) }) s2 = (Inr addrs, s')"
    by (auto simp: WaitForStartInstance_def simp del: waitForInstanceAddress.simps elim!: guard_err_InrE)
  from p obtain r where "run_state (waitForInstanceAddress (instanceStartTimeout div second) c ?ctx name) s2 = (Some r, s')"
    by (auto simp: out_of_fuel_def simp del: waitForInstanceAddress.simps split: prod.splits option.splits)
  from polling_logged [OF this] obtain n where
      poll: "logged c s2 (replicate (Suc n) (ReqGetInstanceState name)) s'" ..
  have "wp (WaitForOperation c ?ctx ''StartInstance''
                         (incus_call c (ReqUpdateInstanceState name ''start'' False)
                            (srv_UpdateInstanceState (cli_server c) name ''start'' False)))
      (\<lambda>r s2. r = Inr () \<longrightarrow> (\<exists>oper. logged c s1 [ReqUpdateInstanceState name ''start'' False, ReqWaitOperation oper] s2)) s1"
    by (auto simp: wp_simps logged_def split: prod.splits sum.splits)
  with u obtain oper where "logged c s1 (if st_Status state = ''Running'' then []
      else [ReqUpdateInstanceState name ''start'' False, ReqWaitOperation oper]) s2"
    by (auto simp: logged_refl dest: wpD split: if_splits)
  from logged_trans [OF logged_trans [OF run_incus_call_logged [OF g] this] poll] g show ?thesis
    by (auto simp: starting_def elim!: run_incus_callE)
qed

text \<open>
  C6: A launch that succeeds answers a non-empty sorted list of addresses, and what it sent is decided by the
  server's first answer about the instance.  If the server knows the instance, it is only started.  If not, the
  requests came in this order: a pending creation of this instance was adopted or the instance was created exactly as
  the completed options say, and the operation was waited for; all templates were uploaded and registered; all
  files were written, in order; each replacement read its file and wrote it back only if the text changed; and only then
  was the instance started.  Starting asks for the state, requests a start exactly when the instance is not running, and polls.
\<close>

theorem WaitForLaunchInstance_order:
  assumes run: "run_state (WaitForLaunchInstance c ctx name opts) s = (Inr addrs, s')"
  shows "addrs \<noteq> [] \<and> sorted addrs
    \<and> (case srv_GetInstanceState (cli_server c) name (cli_target c) (outside s) of
         (Inr _, d, w) \<Rightarrow>
           (\<exists>start. logged c s (ReqGetInstanceState name # start) s'
              \<and> starting c name (log_call c (ReqGetInstanceState name) d w s) start)
       | (Inl _, d, w) \<Rightarrow>
           (\<exists>create md replaces start s4 ctx'.
              logged c s (ReqGetInstanceState name # create @ template_requests name (instanceTemplates opts) md
                          @ file_requests name (createFiles opts) @ concat replaces @ start) s'
            \<and> creation c name opts (log_call c (ReqGetInstanceState name) d w s) create
            \<and> (\<forall>p \<in> fst ` set (instanceTemplates opts). map_of (md_Templates md) p = Some (template_entry p))
            \<and> list_all2 (replacing name) (replacements opts) replaces
            \<and> run_state (WaitForStartInstance c ctx' name) s4 = (Inr addrs, s')
            \<and> logged c s4 start s' \<and> starting c name s4 start))"
proof -
  let ?ctx = "with_timeout ctx instanceCreateTimeout (clock s)"
  let ?get = "ReqGetInstanceState name"
  obtain st d w where g: "srv_GetInstanceState (cli_server c) name (cli_target c) (outside s) = (st, d, w)"
    by (metis prod_cases3)
  let ?s1 = "log_call c ?get d w s"
  have l1: "logged c s [?get] ?s1" by (simp add: logged_def)
  have k: "run_state (case st of Inr _ \<Rightarrow> WaitForStartInstance c ?ctx name
          | Inl _ \<Rightarrow>
              guard_err (WaitForOperation c ?ctx ''CreateInstance'' (create_instance c name opts)) id
                (\<lambda>_. guard_err (launch_templates c name (instanceTemplates opts)) id
                  (\<lambda>_. guard_err (for_each (launch_file c name) (createFiles opts)) id
                    (\<lambda>_. guard_err (for_each (launch_replacement c name) (replacements opts)) id
                      (\<lambda>_. WaitForStartInstance c ?ctx name))))) ?s1 = (Inr addrs, s')"
    using run g by (simp add: WaitForLaunchInstance_def incus_call_def call_def log_call_def)
  show ?thesis
  proof (cases st)
    case (Inl e)
    with k obtain s1 s2 s3 s4 where
        cr: "run_state (WaitForOperation c ?ctx ''CreateInstance'' (create_instance c name opts)) ?s1 = (Inr (), s1)"
      and tm: "run_state (launch_templates c name (instanceTemplates opts)) s1 = (Inr (), s2)"
      and fl: "run_state (for_each (launch_file c name) (createFiles opts)) s2 = (Inr (), s3)"
      and rp: "run_state (for_each (launch_replacement c name) (replacements opts)) s3 = (Inr (), s4)"
      and st: "run_state (WaitForStartInstance c ?ctx name) s4 = (Inr addrs, s')"
      by (auto elim!: guard_err_InrE)
    from creation_Inr [OF cr] obtain create where
      1: "logged c ?s1 create s1" "creation c name opts ?s1 create" by blast
    from launch_templates_Inr [OF tm] obtain md where
      2: "logged c s1 (template_requests name (instanceTemplates opts) md) s2"
         "\<forall>p \<in> fst ` set (instanceTemplates opts). map_of (md_Templates md) p = Some (template_entry p)" by blast
    from for_each_Inr [of "launch_replacement c name" c "replacing name", OF replacing_Inr rp] obtain replaces where
      3: "logged c s3 (concat replaces) s4" "list_all2 (replacing name) (replacements opts) replaces" by blast
    from starting_Inr [OF st] obtain start where
      4: "logged c s4 start s'" "starting c name s4 start" by blast
    from logged_trans [OF l1 logged_trans [OF 1(1) logged_trans [OF 2(1) logged_trans [OF launch_files_Inr [OF fl]
        logged_trans [OF 3(1) 4(1)]]]]]
    have "logged c s (?get # create @ template_requests name (instanceTemplates opts) md
                          @ file_requests name (createFiles opts) @ concat replaces @ start) s'" by simp
    with 1(2) 2(2) 3(2) 4 st have "\<exists>create md replaces start s4 ctx'.
              logged c s (?get # create @ template_requests name (instanceTemplates opts) md
                          @ file_requests name (createFiles opts) @ concat replaces @ start) s'
            \<and> creation c name opts ?s1 create
            \<and> (\<forall>p \<in> fst ` set (instanceTemplates opts). map_of (md_Templates md) p = Some (template_entry p))
            \<and> list_all2 (replacing name) (replacements opts) replaces
            \<and> run_state (WaitForStartInstance c ctx' name) s4 = (Inr addrs, s')
            \<and> logged c s4 start s' \<and> starting c name s4 start" by blast
    with wpD [OF WaitForStartInstance_started st] show ?thesis
      unfolding g Inl by (simp add: started_def)
  next
    case (Inr x)
    with k have st: "run_state (WaitForStartInstance c ?ctx name) ?s1 = (Inr addrs, s')" by simp
    from starting_Inr [OF st] obtain start where "logged c ?s1 start s'" "starting c name ?s1 start" by blast
    with logged_trans [OF l1, of start s'] wpD [OF WaitForStartInstance_started st] show ?thesis
      unfolding g Inr by (auto simp: started_def)
  qed
qed

lemma WaitForLaunchInstance_nonempty:
  assumes "run_state (WaitForLaunchInstance c ctx name opts) s = (Inr addrs, s')"
  shows "addrs \<noteq> []"
proof -
  have "started (Inr addrs)"
    using assms by (auto simp: WaitForLaunchInstance_def split: prod.splits sum.splits
        elim!: guard_err_InrE dest: wpD [OF WaitForStartInstance_started])
  then show ?thesis by (simp add: started_def)
qed

definition running_server :: "'w InstanceServer" where
  "running_server =
     refusing_server\<lparr>srv_GetInstanceState := \<lambda>_ _ w. (Inr sample_state, 5, w)\<rparr>"

lemma sample_addresses: "ParseHostAddresses (Some sample_state) = [''10.0.0.2'']"
  by (simp add: ParseHostAddresses.simps sample_state_def host_network_def host_address_def)

lemma run_launch_state:
  assumes "srv_GetInstanceState srv = (\<lambda>_ _ w. (Inr sample_state, 5, w))"
  shows "\<exists>s'. run_state (WaitForLaunchInstance (sample_client srv) ctx name opts) s = (Inr [''10.0.0.2''], s')
    \<and> outside s' = outside s"
proof -
  have f: "instanceStartTimeout div second = Suc 59"
    by (simp add: instanceStartTimeout_def second_def)
  show ?thesis
    by (simp add: WaitForLaunchInstance_def WaitForStartInstance_def run_state_guard_err incus_call_def
        call_def sample_client_def assms sample_addresses f log_call_def
        run_waitForInstanceAddress_Suc [of 59, simplified] Let_def sample_state_def [THEN arg_cong, of st_Status]
        del: waitForInstanceAddress.simps)
qed

text \<open>A server that refuses is at least asked.\<close>

lemma sample_refused:
  assumes "complete opts ''incus'' = Inr opts'" and "opt_image opts' = Some (PlainImage img)"
  shows "\<exists>err s'. run_state (WaitForLaunchInstance (sample_client refusing_server) ctx name opts) s = (Inl err, s')
     \<and> Incus [] (ReqCreateInstance (launch_post name opts' img)) \<in> set (trace s')"
  using assms
  by (simp add: WaitForLaunchInstance_def WaitForOperation_def WaitForOperation_updates_def create_instance_def
      tryFindInstanceCreateOperation_def run_state_guard_err incus_call_def call_def sample_client_def refusing_server_def Let_def GetServerName_def IncusServer_def)

lemma run_launch_running:
  "\<exists>s'. run_state (WaitForLaunchInstance (sample_client running_server) ctx name opts) s = (Inr [''10.0.0.2''], s')"
  using run_launch_state [of running_server ctx name opts s] by (auto simp: running_server_def)

text \<open>A server on which the instance does not exist until it is created; options with a template and a file.\<close>

definition fresh_server :: "bool InstanceServer" where
  "fresh_server =
     refusing_server\<lparr>srv_GetInstanceState :=
         \<lambda>_ _ exists. (if exists then Inr sample_state else Inl (Err ''Instance not found''), 5, exists),
       srv_GetOperations := \<lambda>_ w. (Inr [], 1, w), srv_CreateInstance := \<lambda>_ _ _. (Inr ''op'', 1, True),
       srv_WaitContext := \<lambda>_ _ _ w. (([], Inr ()), 1, w),
       srv_GetInstanceMetadata := \<lambda>_ _ w. (Inr \<lparr>md_Architecture = [], md_Properties = [], md_Templates = []\<rparr>, 1, w),
       srv_CreateInstanceTemplateFile := \<lambda>_ _ _ _ w. (Inr (), 1, w), srv_UpdateInstanceMetadata := \<lambda>_ _ _ w. (Inr (), 1, w),
       srv_CreateInstanceFile := \<lambda>_ _ _ _ w. (Inr (), 1, w)\<rparr>"

definition fresh_options :: LaunchOptions where
  "fresh_options =
     empty_LaunchOptions\<lparr>opt_image := Some (PlainImage \<lparr>im_Fingerprint = ''f'', im_Protocol = [], im_Server = [], im_Alias = []\<rparr>),
       instanceTemplates := [(''/t'', ''x'')], createFiles := [createFile ''/a'' ''b'']\<rparr>"

lemma complete_fresh_options: "complete fresh_options ''incus'' = Inr fresh_options"
  by (simp add: complete_def fresh_options_def empty_LaunchOptions_def For_image_def drop_tag_def VirtualMachine_def OCI_def)

lemma run_start_running:
  assumes "srv_GetInstanceState (cli_server c) name (cli_target c) (outside s) = (Inr sample_state, 5, outside s)"
  shows "\<exists>s'. run_state (WaitForStartInstance c ctx name) s = (Inr [''10.0.0.2''], s')"
proof -
  have f: "instanceStartTimeout div second = Suc 59"
    by (simp add: instanceStartTimeout_def second_def)
  show ?thesis using assms
    by (simp add: WaitForStartInstance_def run_state_guard_err incus_call_def call_def sample_addresses f log_call_def
        run_waitForInstanceAddress_Suc [of 59, simplified] Let_def sample_state_def [THEN arg_cong, of st_Status]
        del: waitForInstanceAddress.simps)
qed

lemma fresh_answers:
  defines "srv \<equiv> cli_server (sample_client fresh_server)"
  shows "cli_target (sample_client fresh_server) = []" "GetServerName (sample_client fresh_server) = ''incus''"
    "srv_GetInstanceState srv n t w = (if w then Inr sample_state else Inl (Err ''Instance not found''), 5, w)"
    "srv_GetOperations srv t w = (Inr [], 1, w)" "srv_CreateInstance srv p t w = (Inr ''op'', 1, True)"
    "srv_WaitContext srv t ctx oper w = (([], Inr ()), 1, w)"
    "srv_GetInstanceMetadata srv n t w = (Inr \<lparr>md_Architecture = [], md_Properties = [], md_Templates = []\<rparr>, 1, w)"
    "srv_CreateInstanceTemplateFile srv n f x t w = (Inr (), 1, w)" "srv_UpdateInstanceMetadata srv n md t w = (Inr (), 1, w)"
    "srv_CreateInstanceFile srv n f args t w = (Inr (), 1, w)"
  by (simp_all add: srv_def sample_client_def fresh_server_def GetServerName_def IncusServer_def)

lemma run_launch_fresh:
  "\<exists>s'. run_state (WaitForLaunchInstance (sample_client fresh_server) Background ''n'' fresh_options)
          (initial_world False) = (Inr [''10.0.0.2''], s')"
proof -
  have "opt_image fresh_options = Some (PlainImage \<lparr>im_Fingerprint = ''f'', im_Protocol = [], im_Server = [], im_Alias = []\<rparr>)"
      "replacements fresh_options = []" "instanceTemplates fresh_options = [(''/t'', ''x'')]"
      "createFiles fresh_options = [createFile ''/a'' ''b'']"
    by (simp_all add: fresh_options_def empty_LaunchOptions_def)
  then show ?thesis
    by (simp add: WaitForLaunchInstance_def WaitForOperation_def WaitForOperation_updates_def
        create_instance_def tryFindInstanceCreateOperation_def launch_templates_def launch_file_def run_state_guard_err incus_call_def
        call_def complete_fresh_options initial_world_def fresh_answers run_start_running)
qed

theorem WaitForLaunchInstance_order_witness:
  "(\<exists>s' start. run_state (WaitForLaunchInstance (sample_client running_server) Background ''n'' empty_LaunchOptions)
          (initial_world ()) = (Inr [''10.0.0.2''], s')
      \<and> logged (sample_client running_server) (initial_world ()) (ReqGetInstanceState ''n'' # start) s')
   \<and> (\<exists>s' create md start. run_state (WaitForLaunchInstance (sample_client fresh_server) Background ''n'' fresh_options)
          (initial_world False) = (Inr [''10.0.0.2''], s')
      \<and> logged (sample_client fresh_server) (initial_world False) (ReqGetInstanceState ''n'' # create
          @ template_requests ''n'' [(''/t'', ''x'')] md @ file_requests ''n'' [createFile ''/a'' ''b''] @ start) s'
      \<and> creation (sample_client fresh_server) ''n'' fresh_options
          (log_call (sample_client fresh_server) (ReqGetInstanceState ''n'') 5 False (initial_world False)) create)"
proof (intro conjI)
  obtain s' where run: "run_state (WaitForLaunchInstance (sample_client running_server) Background ''n'' empty_LaunchOptions)
      (initial_world ()) = (Inr [''10.0.0.2''], s')"
    using run_launch_running by blast
  moreover have "srv_GetInstanceState (cli_server (sample_client running_server)) n t w = (Inr sample_state, 5, w)"
    for n t and w :: unit by (simp add: sample_client_def running_server_def)
  ultimately show "\<exists>s' start. run_state (WaitForLaunchInstance (sample_client running_server) Background ''n'' empty_LaunchOptions)
          (initial_world ()) = (Inr [''10.0.0.2''], s')
      \<and> logged (sample_client running_server) (initial_world ()) (ReqGetInstanceState ''n'' # start) s'"
    using WaitForLaunchInstance_order [OF run] by auto
next
  obtain s' where run: "run_state (WaitForLaunchInstance (sample_client fresh_server) Background ''n'' fresh_options)
          (initial_world False) = (Inr [''10.0.0.2''], s')"
    using run_launch_fresh by blast
  moreover have "srv_GetInstanceState (cli_server (sample_client fresh_server)) n t False = (Inl (Err ''Instance not found''), 5, False)"
    for n t by (simp add: sample_client_def fresh_server_def)
  moreover have "outside (initial_world False) = False" "replacements fresh_options = []"
      "instanceTemplates fresh_options = [(''/t'', ''x'')]" "createFiles fresh_options = [createFile ''/a'' ''b'']"
    by (simp_all add: initial_world_def fresh_options_def empty_LaunchOptions_def)
  ultimately show "\<exists>s' create md start. run_state (WaitForLaunchInstance (sample_client fresh_server) Background ''n'' fresh_options)
          (initial_world False) = (Inr [''10.0.0.2''], s')
      \<and> logged (sample_client fresh_server) (initial_world False) (ReqGetInstanceState ''n'' # create
          @ template_requests ''n'' [(''/t'', ''x'')] md @ file_requests ''n'' [createFile ''/a'' ''b''] @ start) s'
      \<and> creation (sample_client fresh_server) ''n'' fresh_options
          (log_call (sample_client fresh_server) (ReqGetInstanceState ''n'') 5 False (initial_world False)) create"
    using WaitForLaunchInstance_order [OF run] by (simp only: prod.case sum.case list_all2_Nil concat.simps append_Nil) blast
qed

text \<open>
  C16: Starting an instance always returns, whatever the server answers and however long it takes:
  the answer is an error, or a non-empty list of addresses in ascending order.
\<close>

theorem WaitForStartInstance_returns:
  "case fst (run_state (WaitForStartInstance c ctx name) s) of
     Inl err \<Rightarrow> (\<exists>pre e. err = Errorf pre e)
   | Inr addrs \<Rightarrow> addrs \<noteq> [] \<and> sorted addrs"
  using WaitForStartInstance_started [of c ctx name s]
  by (auto simp: wp_def started_def split: prod.splits)

subsection \<open>Deleting\<close>

text \<open>The requests that stop an instance with a process, and those that delete it.\<close>

definition stop_requests :: "string \<Rightarrow> InstanceState \<Rightarrow> string \<Rightarrow> incus_request list" where
  "stop_requests name state o1 =
     (if st_Pid state = 0 then [] else [ReqUpdateInstanceState name ''stop'' True, ReqWaitOperation o1])"

lemma wp_WaitForStopInstance [wp_simps]:
  "wp (WaitForStopInstance c ctx name) Q s =
     wp (GetInstanceState c name)
       (\<lambda>r. case r of
          Inl e \<Rightarrow> Q (Inl (Errorf ''failed to GetInstanceState: '' e))
        | Inr state \<Rightarrow>
            wp (if st_Pid state = 0 then ret (Inr ())
                else WaitForOperation c (with_timeout ctx instanceStopTimeout (clock s)) ''StopInstance''
                      (incus_call c (ReqUpdateInstanceState name ''stop'' True)
                         (srv_UpdateInstanceState (cli_server c) name ''stop'' True))) Q) s"
  by (simp add: WaitForStopInstance_def wp_bind wp_WithTimeout wp_guard_err)

lemma WaitForStopInstance_sends:
  assumes "fst (srv_GetInstanceState (cli_server c) name (cli_target c) (outside s)) = Inr state"
  shows "wp (WaitForStopInstance c ctx name)
     (\<lambda>r s1. \<exists>o1 qs. logged c s (ReqGetInstanceState name # qs) s1 \<and> prefix qs (stop_requests name state o1)
        \<and> (r = Inr () \<longrightarrow> qs = stop_requests name state o1) \<and> (st_Pid state = 0 \<longrightarrow> r = Inr ())) s"
  using assms by (auto simp: wp_simps logged_def stop_requests_def Cons_eq_map_conv split: prod.splits sum.splits)

lemma delete_operation_sends:
  "wp (WaitForOperation c ctx ''DeleteInstance'' (incus_call c (ReqDeleteInstance name) (srv_DeleteInstance (cli_server c) name)))
     (\<lambda>r s2. \<exists>o2 qs. logged c s qs s2 \<and> prefix qs [ReqDeleteInstance name, ReqWaitOperation o2]
        \<and> (r = Inr () \<longrightarrow> qs = [ReqDeleteInstance name, ReqWaitOperation o2])
        \<and> ReqDeleteInstance name \<in> set qs) s"
  by (auto simp: wp_simps logged_def Cons_eq_map_conv split: prod.splits sum.splits)

text \<open>
  C7: Deleting an instance follows the protocol, by what the server answers about the instance.  If the state cannot be read,
  nothing else is sent, and the deletion succeeds exactly when the error says that the instance does not exist.  If it can,
  the instance is stopped exactly when it has a process; it is deleted exactly when that succeeded; and no error is returned only
  when the whole protocol ran, or when stopping an instance with a process reported that it does not exist any more.
\<close>

theorem WaitForDeleteInstance_protocol:
  assumes run: "run_state (WaitForDeleteInstance c ctx name) s = (r, s')"
  shows "case fst (srv_GetInstanceState (cli_server c) name (cli_target c) (outside s)) of
     Inl err \<Rightarrow> logged c s [ReqGetInstanceState name] s'
       \<and> (r = Inr () \<longleftrightarrow> Contains (error_msg (Errorf ''failed to GetInstanceState: '' err)) ''Instance not found'')
   | Inr state \<Rightarrow>
       (\<exists>o1 o2 qs stopped. logged c s (ReqGetInstanceState name # qs) s'
          \<and> stopped = fst (run_state (WaitForStopInstance c (with_timeout ctx instanceDeleteTimeout (clock s)) name) s)
          \<and> prefix qs (stop_requests name state o1 @ [ReqDeleteInstance name, ReqWaitOperation o2])
          \<and> (ReqDeleteInstance name \<in> set qs \<longleftrightarrow> stopped = Inr ())
          \<and> (r = Inr () \<longrightarrow>
               qs = stop_requests name state o1 @ [ReqDeleteInstance name, ReqWaitOperation o2]
               \<or> st_Pid state \<noteq> 0 \<and> (\<exists>err. stopped = Inl err \<and> Contains (error_msg err) ''Instance not found'')))"
proof -
  let ?ctx = "with_timeout ctx instanceDeleteTimeout (clock s)"
  obtain stopped s1 where stop: "run_state (WaitForStopInstance c ?ctx name) s = (stopped, s1)"
    by (cases "run_state (WaitForStopInstance c ?ctx name) s")
  let ?del = "WaitForOperation c ?ctx ''DeleteInstance''
                (incus_call c (ReqDeleteInstance name) (srv_DeleteInstance (cli_server c) name))"
  have del: "run_state (case stopped of
        Inl err \<Rightarrow> if Contains (error_msg err) ''Instance not found'' then ret (Inr ())
                   else ret (Inl (Errorf ''failed to stop instance: '' err))
      | Inr _ \<Rightarrow> ?del) s1 = (r, s')"
    using run by (simp add: WaitForDeleteInstance_def stop)
  show ?thesis
  proof (cases "fst (srv_GetInstanceState (cli_server c) name (cli_target c) (outside s))")
    case (Inl err)
    with stop have "stopped = Inl (Errorf ''failed to GetInstanceState: '' err)" "logged c s [ReqGetInstanceState name] s1"
      by (auto simp: WaitForStopInstance_def run_state_guard_err incus_call_def call_def logged_def split: prod.splits)
    with del Inl show ?thesis by (auto split: if_splits)
  next
    case (Inr state)
    note st = Inr
    from wpD [OF WaitForStopInstance_sends [OF Inr] stop] obtain o1 qs1 where
      1: "logged c s (ReqGetInstanceState name # qs1) s1" "prefix qs1 (stop_requests name state o1)"
         "stopped = Inr () \<longrightarrow> qs1 = stop_requests name state o1" "st_Pid state = 0 \<longrightarrow> stopped = Inr ()" by blast
    from set_mono_prefix [OF 1(2)] have nodel: "ReqDeleteInstance name \<notin> set qs1"
      by (auto simp: stop_requests_def split: if_splits)
    show ?thesis
    proof (cases stopped)
      case (Inl err)
      with del have "s' = s1" "r = Inr () \<longrightarrow> Contains (error_msg err) ''Instance not found''"
        by (auto split: if_splits)
      with 1 nodel Inl stop show ?thesis unfolding st sum.case
        by (intro exI [of _ o1] exI [of _ "[]"] exI [of _ qs1] exI [of _ stopped]) auto
    next
      case (Inr u)
      with del have "run_state ?del s1 = (r, s')" by simp
      from wpD [OF delete_operation_sends this] obtain o2 qs2 where
        2: "logged c s1 qs2 s'" "prefix qs2 [ReqDeleteInstance name, ReqWaitOperation o2]"
           "r = Inr () \<longrightarrow> qs2 = [ReqDeleteInstance name, ReqWaitOperation o2]" "ReqDeleteInstance name \<in> set qs2" by blast
      with 1 Inr stop logged_trans [OF 1(1) 2(1)] show ?thesis unfolding st sum.case
        by (intro exI [of _ o1] exI [of _ o2] exI [of _ "qs1 @ qs2"] exI [of _ stopped]) auto
    qed
  qed
qed

text \<open>A server that stops and deletes; the instance has process 7 until it is stopped.\<close>

definition deleting_server :: "unit InstanceServer" where
  "deleting_server =
     running_server\<lparr>srv_UpdateInstanceState := \<lambda>_ _ _ _ w. (Inr ''o1'', 1, w), srv_DeleteInstance := \<lambda>_ _ w. (Inr ''o2'', 1, w),
       srv_WaitContext := \<lambda>_ _ _ w. (([], Inr ()), 1, w)\<rparr>"

theorem WaitForDeleteInstance_protocol_witness:
  "\<exists>s' o1 o2. run_state (WaitForDeleteInstance (sample_client deleting_server) Background ''n'') (initial_world ()) = (Inr (), s')
     \<and> logged (sample_client deleting_server) (initial_world ())
         [ReqGetInstanceState ''n'', ReqUpdateInstanceState ''n'' ''stop'' True, ReqWaitOperation o1,
          ReqDeleteInstance ''n'', ReqWaitOperation o2] s'"
proof -
  let ?c = "sample_client deleting_server"
  have stop: "fst (run_state (WaitForStopInstance ?c ctx ''n'') (initial_world ())) = Inr ()" for ctx
    by (simp add: WaitForStopInstance_def WaitForOperation_def WaitForOperation_updates_def run_state_guard_err incus_call_def
        call_def sample_client_def deleting_server_def running_server_def sample_state_def)
  obtain s' where run: "run_state (WaitForDeleteInstance ?c Background ''n'') (initial_world ()) = (Inr (), s')"
    by (simp add: WaitForDeleteInstance_def WaitForStopInstance_def WaitForOperation_def WaitForOperation_updates_def
        run_state_guard_err incus_call_def call_def sample_client_def deleting_server_def running_server_def sample_state_def)
  moreover have "srv_GetInstanceState (cli_server ?c) n t w = (Inr sample_state, 5, w)" for n t w
    by (simp add: sample_client_def deleting_server_def running_server_def)
  moreover have "stop_requests ''n'' sample_state o1 = [ReqUpdateInstanceState ''n'' ''stop'' True, ReqWaitOperation o1]" for o1
    by (simp add: stop_requests_def sample_state_def)
  ultimately show ?thesis
    using WaitForDeleteInstance_protocol [OF run] by (auto simp: stop)
qed

subsection \<open>Commands and lists\<close>

lemma foldl_last_return:
  "foldl (\<lambda>status u. case op_return u of None \<Rightarrow> status | Some rc \<Rightarrow> rc) z us
     = last (z # List.map_filter op_return us)"
proof (induction us arbitrary: z)
  case (Cons u us)
  then show ?case by (cases "op_return u") (simp_all add: map_filter_simps)
qed (simp add: map_filter_simps)

text \<open>
  A command that was started and waited for succeeds exactly when the last exit status that its
  operation reported, zero if it reported none, is zero; otherwise the error names that status.
\<close>

theorem RunCommand_status:
  assumes "srv_ExecInstance (cli_server c) name cmd stdin (cli_target c) (outside s) = (Inr oper, d, w)"
    and "srv_WaitContext (cli_server c) (cli_target c) ctx oper w = ((updates, Inr ()), d', w')"
  shows "fst (run_state (RunCommand c ctx name cmd stdin) s) =
           (let status = last (0 # List.map_filter op_return updates)
            in if status = 0 then Inr () else Inl (Err (''command failed with exit code '' @ fmt_int status)))"
  using assms
  by (simp add: RunCommand_def WaitForOperation_updates_def incus_call_def call_def Let_def foldl_last_return
      del: last.simps)

theorem RunCommand_status_witness:
  "fst (run_state (RunCommand (sample_client (refusing_server\<lparr>
       srv_ExecInstance := \<lambda>_ _ _ _ w. (Inr ''op'', 1, w),
       srv_WaitContext := \<lambda>_ _ _ w. (([\<lparr>op_ID = ''op'', op_Class = ''websocket'', op_Description = [],
          op_Resources = [], op_return = Some 2\<rparr>], Inr ()), 1, w)\<rparr>)) Background ''n'' [''false''] None)
     (initial_world ())) = Inl (Err (''command failed with exit code '' @ fmt_int 2))"
  by (subst RunCommand_status [where oper = "''op''" and d = 1 and d' = 1])
     (auto simp: sample_client_def map_filter_simps Let_def)

text \<open>
  Listing instances answers exactly the instances of the server that pass every filter, in the
  server's order.
\<close>

theorem ListInstances_filters:
  "fst (run_state (ListInstances c filters) s) =
     (case srv_GetInstancesFull (cli_server c) (cli_target c) (outside s) of
        (Inl err, _) \<Rightarrow> Inl (Errorf ''failed to GetInstancesFull: '' err)
      | (Inr instances, _) \<Rightarrow> Inr (filter (\<lambda>i. list_all (\<lambda>f. f i) filters) instances))"
  by (auto simp: ListInstances_def run_state_guard_err incus_call_def call_def filter_instances_eq
      list_all_iff split: prod.splits sum.splits)

end
