(* ===== verification/LXC_Config.thy ===== *)
theory LXC_Config
  imports LXC_Client
begin

text \<open>
  Connecting to a server: \<^verbatim>\<open>internal/lxc/configuration.go\<close>, \<^verbatim>\<open>configuration_default.go\<close> and
  \<^verbatim>\<open>client.go\<close>, and the image references of \<^verbatim>\<open>internal/utils/oci_image.go\<close>.  The files of the host
  and the client configuration library (\<^verbatim>\<open>cliconfig\<close>) are the parameter \<open>Host\<close>.
\<close>

section \<open>Configuration\<close>

record Configuration =
  ServerURL :: string
  ClientCrt :: string
  ClientKey :: string
  ServerCrt :: string
  InsecureSkipVerify :: bool
  Project :: string

definition ConfigurationFromKubernetesSecret :: "Secret \<Rightarrow> Configuration" where
  "ConfigurationFromKubernetesSecret secret =
     (let get = get_str (sec_Data secret)
      in \<lparr>ServerURL = get ''server'', ClientCrt = get ''client-crt'', ClientKey = get ''client-key'',
          ServerCrt = get ''server-crt'',
          InsecureSkipVerify = (case ParseBool (get ''insecure-skip-verify'') of None \<Rightarrow> False | Some b \<Rightarrow> b),
          Project = get ''project''\<rparr>)"

definition ToSecret :: "Configuration \<Rightarrow> string \<Rightarrow> string \<Rightarrow> Secret" where
  "ToSecret cfg name namespace =
     \<lparr>sec_meta = \<lparr>om_Name = name, om_Namespace = namespace,
                  om_Labels = [(''clusterctl.cluster.x-k8s.io/move'', ''true'')],
                  om_Finalizers = [], om_OwnerReferences = [], om_DeletionTimestamp = None\<rparr>,
      sec_Data = [(''server'', ServerURL cfg), (''project'', Project cfg),
                  (''client-crt'', ClientCrt cfg), (''client-key'', ClientKey cfg),
                  (''server-crt'', ServerCrt cfg),
                  (''insecure-skip-verify'', FormatBool (InsecureSkipVerify cfg))]\<rparr>"

section \<open>Configuration of the local client\<close>

record Remote =
  r_Addr :: string
  r_Project :: string
  r_Protocol :: string
  r_Public :: bool

record CliConfig =
  DefaultRemote :: string
  Remotes :: "Remote gomap"
  HasClientCertificate :: bool
  ServerCertPath :: "string \<Rightarrow> string"
  ConfigPath :: "string \<Rightarrow> string"

record Host =
  h_HOME :: string
  h_Stat :: "string \<Rightarrow> go_error + unit"
  h_PathIsWritable :: "string \<Rightarrow> bool"
  h_ReadFile :: "string \<Rightarrow> go_error + string"
  h_LoadConfig :: "string \<Rightarrow> go_error + CliConfig"

definition getDefaultConfigFiles :: "Host \<Rightarrow> string list" where
  "getDefaultConfigFiles h =
     filter (\<lambda>file. case h_Stat h file of Inl _ \<Rightarrow> False | Inr _ \<Rightarrow> True)
       [h_HOME h @ ''/.config/incus/config.yml'', h_HOME h @ ''/snap/lxd/common/config/config.yml'']
     @ ['''']"

definition unix_socket_paths :: "string list" where
  "unix_socket_paths =
     [''/var/lib/incus/unix.socket'', ''/run/incus/unix.socket'',
      ''/var/snap/lxd/common/lxd/unix.socket'', ''/run-unix.socket'']"

text \<open>A loop over candidates that keeps the errors and stops at the first one that works.\<close>

fun try_all :: "('a \<Rightarrow> go_error + 'b) \<Rightarrow> 'a list \<Rightarrow> go_error list \<Rightarrow> go_error + 'b" where
  "try_all f [] errs = Inl (Joined errs)"
| "try_all f (x # xs) errs =
     (case f x of Inl err \<Rightarrow> try_all f xs (errs @ [err]) | Inr y \<Rightarrow> Inr y)"

definition check_socket :: "Host \<Rightarrow> string \<Rightarrow> go_error + string" where
  "check_socket h file =
     (case h_Stat h file of
        Inl err \<Rightarrow> Inl (Errorf (''failed to stat '' @ quote file @ '': '') err)
      | Inr _ \<Rightarrow> if \<not> h_PathIsWritable h file then Inl (Err (quote file @ '' is not writeable'')) else Inr file)"

definition findDefaultUnixSocketPath :: "Host \<Rightarrow> go_error + string" where
  "findDefaultUnixSocketPath h = try_all (check_socket h) unix_socket_paths []"

definition read_cert :: "Host \<Rightarrow> string \<Rightarrow> string \<Rightarrow> string \<Rightarrow> string \<Rightarrow> go_error + string" where
  "read_cert h configFile remoteName what path =
     (case h_ReadFile h path of
        Inl err \<Rightarrow> Inl (Err (''failed to load credentials from '' @ quote configFile @ '': cannot read ''
                       @ what @ '' for remote '' @ quote remoteName @ '': '' @ error_msg err))
      | Inr b \<Rightarrow> Inr b)"

definition zero_Configuration :: Configuration where
  "zero_Configuration =
     \<lparr>ServerURL = [], ClientCrt = [], ClientKey = [], ServerCrt = [], InsecureSkipVerify = False, Project = []\<rparr>"

text \<open>
  The body of the loop of \<^verbatim>\<open>ConfigurationFromLocal\<close>, in two parts: what is done with a remote, and
  how the remote is found.  The file is returned with the configuration.
\<close>

definition load_remote ::
  "Host \<Rightarrow> bool \<Rightarrow> string \<Rightarrow> CliConfig \<Rightarrow> string \<Rightarrow> Remote \<Rightarrow> go_error + Configuration \<times> string" where
  "load_remote h requireHTTPS configFile conf remoteName remote =
     (let failed = ''failed to load credentials from '' @ quote configFile @ '': '' in
      if requireHTTPS \<and> \<not> HasPrefix (r_Addr remote) ''https://'' then
        Inl (Err (failed @ ''remote address '' @ quote (r_Addr remote) @ '' must use HTTPS''))
      else if HasPrefix (r_Addr remote) ''unix://'' \<or> HasPrefix (r_Addr remote) ''http://'' then
        Inr (zero_Configuration\<lparr>ServerURL := r_Addr remote, Project := r_Project remote\<rparr>, configFile)
      else if \<not> HasClientCertificate conf then
        Inl (Err (failed @ ''no client certificate''))
      else case read_cert h configFile remoteName ''server certificate'' (ServerCertPath conf remoteName) of
        Inl err \<Rightarrow> Inl err
      | Inr serverCrt \<Rightarrow>
          (case read_cert h configFile remoteName ''client certificate'' (ConfigPath conf ''client.crt'') of
             Inl err \<Rightarrow> Inl err
           | Inr clientCrt \<Rightarrow>
               (case read_cert h configFile remoteName ''client key'' (ConfigPath conf ''client.key'') of
                  Inl err \<Rightarrow> Inl err
                | Inr clientKey \<Rightarrow>
                    Inr (zero_Configuration\<lparr>ServerURL := r_Addr remote, ServerCrt := serverCrt,
                           ClientCrt := clientCrt, ClientKey := clientKey,
                           Project := r_Project remote\<rparr>, configFile))))"

definition load_from_file :: "Host \<Rightarrow> string \<Rightarrow> bool \<Rightarrow> string \<Rightarrow> go_error + Configuration \<times> string" where
  "load_from_file h forceRemoteName requireHTTPS configFile =
     (let failed = ''failed to load credentials from '' @ quote configFile @ '': '' in
      case h_LoadConfig h configFile of
        Inl err \<Rightarrow> Inl (Errorf failed err)
      | Inr conf \<Rightarrow>
          (let remoteName = (if forceRemoteName = '''' then DefaultRemote conf else forceRemoteName) in
           case map_of (Remotes conf) remoteName of
             None \<Rightarrow> Inl (Err (failed @ ''remote '' @ quote remoteName @ '' not found''))
           | Some remote \<Rightarrow> load_remote h requireHTTPS configFile conf remoteName remote))"

definition tryConfigFiles :: "Host \<Rightarrow> string \<Rightarrow> string list" where
  "tryConfigFiles h configFile = (if configFile = '''' then getDefaultConfigFiles h else [configFile])"

definition ConfigurationFromLocal :: "Host \<Rightarrow> string \<Rightarrow> string \<Rightarrow> bool \<Rightarrow> go_error + Configuration \<times> string" where
  "ConfigurationFromLocal h configFile forceRemoteName requireHTTPS =
     try_all (load_from_file h forceRemoteName requireHTTPS) (tryConfigFiles h configFile) []"

section \<open>Connecting\<close>

text \<open>
  The options of \<^verbatim>\<open>New\<close> only set a progress handler.  The certificate fingerprints the source computes
  are only logged.
\<close>

definition connect_https ::
  "'w Connector \<Rightarrow> Configuration \<Rightarrow> (request, 'w, 'w InstanceServer) io_err" where
  "connect_https con cfg =
     (let cfg = (if InsecureSkipVerify cfg then cfg\<lparr>ServerCrt := ''''\<rparr> else cfg)
      in guard_err
           (call (Incus [] (ReqConnectIncus (ServerURL cfg)))
              (con_ConnectIncus con (ServerURL cfg)
                 \<lparr>TLSServerCert = ServerCrt cfg, TLSClientCert = ClientCrt cfg, TLSClientKey = ClientKey cfg,
                  ca_InsecureSkipVerify = InsecureSkipVerify cfg\<rparr>))
           (Errorf ''failed to initialize client over HTTPS: '')
           (\<lambda>client. ret (Inr client)))"

definition unix_socket :: "Host \<Rightarrow> Configuration \<Rightarrow> go_error + string" where
  "unix_socket h cfg =
     (case CutPrefix (ServerURL cfg) ''unix://'' of (socket, ok) \<Rightarrow>
        if ok \<and> socket = '''' then findDefaultUnixSocketPath h else Inr socket)"

definition connect_unix ::
  "'w Connector \<Rightarrow> Host \<Rightarrow> Configuration \<Rightarrow> (request, 'w, 'w InstanceServer) io_err" where
  "connect_unix con h cfg =
     guard_err (ret (unix_socket h cfg)) (Errorf ''failed to detect default local unix socket path: '')
       (\<lambda>socket. guard_err
          (call (Incus [] (ReqConnectIncusUnix socket)) (con_ConnectIncusUnix con socket))
          (Errorf ''failed to initialize client over unix socket: '')
          (\<lambda>client. ret (Inr client)))"

definition New :: "'w Connector \<Rightarrow> Host \<Rightarrow> Configuration \<Rightarrow> (request, 'w, 'w Client) io_err" where
  "New con h cfg =
     guard_err
       (if HasPrefix (ServerURL cfg) ''https://'' then connect_https con cfg
        else if HasPrefix (ServerURL cfg) ''unix://'' then connect_unix con h cfg
        else ret (Inl (Err (''server '' @ quote (ServerURL cfg) @ '' is not unix:// or https://''))))
       id
       (\<lambda>client.
          let client = (if Project cfg \<noteq> '''' then con_UseProject con client (Project cfg) else client)
          in guard_err (call (Incus [] ReqGetServer) (con_GetServer con client))
               (Errorf ''failed to retrieve server information: '')
               (\<lambda>server. ret (Inr \<lparr>cli_server = client, serverInfo = server, cli_target = []\<rparr>)))"

section \<open>OCI image references\<close>

text \<open>The parser of the registry library, and what is read from its result, are parameters.\<close>

record Reference =
  ref_RegistryStr :: string
  ref_Scheme :: string
  ref_Name :: string

record OCIImage =
  oci_raw :: string
  oci_ref :: Reference

definition ParseOCIImage :: "(string \<Rightarrow> go_error + Reference) \<Rightarrow> string \<Rightarrow> go_error + OCIImage" where
  "ParseOCIImage parse img =
     (case parse img of
        Inl err \<Rightarrow> Inl (Errorf ''failed to parse reference: '' err)
      | Inr ref \<Rightarrow> Inr \<lparr>oci_raw = img, oci_ref = ref\<rparr>)"

definition oci_Server :: "OCIImage \<Rightarrow> string" where
  "oci_Server i =
     (let registry = ref_RegistryStr (oci_ref i);
          registry = (if registry = ''index.docker.io'' then ''docker.io'' else registry)
      in ref_Scheme (oci_ref i) @ ''://'' @ registry)"

definition oci_Alias :: "OCIImage \<Rightarrow> string" where
  "oci_Alias i = fst (CutPrefix (ref_Name (oci_ref i)) (ref_RegistryStr (oci_ref i) @ ''/''))"

definition oci_Tag :: "OCIImage \<Rightarrow> string" where
  "oci_Tag i =
     (case Cut (oci_raw i) '':'' of (_, tag, _) \<Rightarrow> (case Cut tag ''@'' of (tag, _, _) \<Rightarrow> tag))"

definition oci_Digest :: "OCIImage \<Rightarrow> string" where
  "oci_Digest i = (case Cut (oci_raw i) ''@'' of (_, digest, _) \<Rightarrow> digest)"

section \<open>Properties\<close>

text \<open>
  A configuration survives the round trip through a Kubernetes secret.
\<close>

theorem ToSecret_roundtrip:
  "ConfigurationFromKubernetesSecret (ToSecret cfg name namespace) = cfg"
  by (simp add: ConfigurationFromKubernetesSecret_def ToSecret_def get_str_def Let_def)

lemma try_all_spec:
  "try_all f xs errs =
     (case find (\<lambda>x. \<not> isl (f x)) xs of
        Some x \<Rightarrow> f x
      | None \<Rightarrow> Inl (Joined (errs @ map (projl \<circ> f) xs)))"
  by (induction f xs errs rule: try_all.induct) (auto split: sum.splits option.splits)

lemma find_not_isl: "find (\<lambda>x. \<not> isl (f x)) xs = Some x \<Longrightarrow> x \<in> set xs \<and> (\<exists>y. f x = Inr y)"
  by (auto simp: find_Some_iff) (metis isl_def sum.exhaust_sel)+

lemma load_remote_Inr:
  assumes "load_remote h requireHTTPS f conf n rem = Inr y"
  shows "\<exists>cfg. y = (cfg, f) \<and> (requireHTTPS \<longrightarrow> HasPrefix (ServerURL cfg) ''https://'')"
proof -
  have "ServerURL cfg = r_Addr rem \<and> g = f" if "y = (cfg, g)" for cfg g
    using assms that unfolding load_remote_def Let_def by (auto split: if_split_asm sum.splits)
  moreover have "requireHTTPS \<longrightarrow> HasPrefix (r_Addr rem) ''https://''"
    using assms unfolding load_remote_def Let_def by (cases "HasPrefix (r_Addr rem) ''https://''") auto
  ultimately show ?thesis by (cases y) auto
qed

lemma load_from_file_Inr:
  assumes "load_from_file h remote requireHTTPS f = Inr y"
  shows "\<exists>cfg. y = (cfg, f) \<and> (requireHTTPS \<longrightarrow> HasPrefix (ServerURL cfg) ''https://'')"
  using assms load_remote_Inr unfolding load_from_file_def Let_def
  by (simp split: sum.splits option.splits)

text \<open>
  The local configuration is that of the first candidate file that works, with the name of that
  file, and it uses HTTPS with all certificates when HTTPS is required; when no file works, the
  error holds one reason per candidate, in order.
\<close>

theorem ConfigurationFromLocal_first:
  "case ConfigurationFromLocal h configFile remote requireHTTPS of
      Inr (cfg, file) \<Rightarrow>
        (\<exists>pre post. tryConfigFiles h configFile = pre @ file # post
           \<and> load_from_file h remote requireHTTPS file = Inr (cfg, file)
           \<and> list_all (\<lambda>f. isl (load_from_file h remote requireHTTPS f)) pre)
        \<and> (requireHTTPS \<longrightarrow> HasPrefix (ServerURL cfg) ''https://'')
    | Inl err \<Rightarrow> err = Joined (map (projl \<circ> load_from_file h remote requireHTTPS) (tryConfigFiles h configFile))
        \<and> list_all (\<lambda>f. isl (load_from_file h remote requireHTTPS f)) (tryConfigFiles h configFile)"
proof (cases "find (\<lambda>f. \<not> isl (load_from_file h remote requireHTTPS f)) (tryConfigFiles h configFile)")
  case None
  then have "ConfigurationFromLocal h configFile remote requireHTTPS
      = Inl (Joined (map (projl \<circ> load_from_file h remote requireHTTPS) (tryConfigFiles h configFile)))"
    by (simp add: ConfigurationFromLocal_def try_all_spec)
  then show ?thesis using None by (auto simp: find_None_iff list_all_iff)
next
  case (Some fl)
  obtain cfg where cfg: "load_from_file h remote requireHTTPS fl = Inr (cfg, fl)"
    and https: "requireHTTPS \<longrightarrow> HasPrefix (ServerURL cfg) ''https://''"
    using find_not_isl [OF Some] load_from_file_Inr by blast
  from Some obtain i where i: "i < length (tryConfigFiles h configFile)" "tryConfigFiles h configFile ! i = fl"
      "\<And>j. j < i \<Longrightarrow> isl (load_from_file h remote requireHTTPS (tryConfigFiles h configFile ! j))"
    by (auto simp: find_Some_iff)
  have "tryConfigFiles h configFile = take i (tryConfigFiles h configFile) @ fl # drop (Suc i) (tryConfigFiles h configFile)"
    using id_take_nth_drop [OF i(1)] i(2) by simp
  moreover have "list_all (\<lambda>f. isl (load_from_file h remote requireHTTPS f)) (take i (tryConfigFiles h configFile))"
    using i by (auto simp: list_all_length)
  moreover have "ConfigurationFromLocal h configFile remote requireHTTPS = Inr (cfg, fl)"
    using Some cfg by (simp add: ConfigurationFromLocal_def try_all_spec)
  ultimately show ?thesis using cfg https by auto
qed

text \<open>A host with no configuration file and the alternate Incus socket.\<close>

definition sample_host :: Host where
  "sample_host =
     \<lparr>h_HOME = ''/root'',
      h_Stat = \<lambda>f. if f = ''/run/incus/unix.socket'' then Inr () else Inl (Err ''no such file''),
      h_PathIsWritable = \<lambda>_. True, h_ReadFile = \<lambda>_. Inl (Err ''no such file''),
      h_LoadConfig = \<lambda>_. Inr \<lparr>DefaultRemote = ''local'', Remotes =
          [(''local'', \<lparr>r_Addr = ''unix://'', r_Project = ''default'', r_Protocol = ''incus'', r_Public = False\<rparr>)],
        HasClientCertificate = False, ServerCertPath = id, ConfigPath = id\<rparr>\<rparr>"

theorem ConfigurationFromLocal_first_witness:
  "case ConfigurationFromLocal sample_host '''' '''' True of
     Inr (cfg, file) \<Rightarrow> HasPrefix (ServerURL cfg) ''https://'' | Inl err \<Rightarrow> \<exists>errs. err = Joined errs"
  using ConfigurationFromLocal_first [where h = sample_host and configFile = "''''" and remote = "''''"
      and requireHTTPS = True]
  by (auto split: sum.splits)

text \<open>The server that a connection with this configuration reached: over HTTPS with the certificates of
  the configuration, without the server's when verification is off, or over the socket.\<close>

definition connected :: "'w Connector \<Rightarrow> Host \<Rightarrow> Configuration \<Rightarrow> 'w InstanceServer \<Rightarrow> 'w \<Rightarrow> bool" where
  "connected con h cfg srv w \<longleftrightarrow> (\<exists>d w'.
     if HasPrefix (ServerURL cfg) ''https://''
     then con_ConnectIncus con (ServerURL cfg)
            \<lparr>TLSServerCert = (if InsecureSkipVerify cfg then '''' else ServerCrt cfg), TLSClientCert = ClientCrt cfg,
             TLSClientKey = ClientKey cfg, ca_InsecureSkipVerify = InsecureSkipVerify cfg\<rparr> w = (Inr srv, d, w')
     else \<exists>socket. unix_socket h cfg = Inr socket \<and> con_ConnectIncusUnix con socket w = (Inr srv, d, w'))"

lemma run_callE:
  assumes "run_state (call r f) s = (x, s')"
  shows "trace s' = trace s @ [r] \<and> (\<exists>d w. f (outside s) = (x, d, w))"
  using assms by (auto simp: call_def split: prod.splits)

lemma connect_https_Inr:
  "run_state (connect_https con cfg) s = (Inr srv, s') \<Longrightarrow>
     trace s' = trace s @ [Incus [] (ReqConnectIncus (ServerURL cfg))] \<and> connected con h cfg srv (outside s)"
  if "HasPrefix (ServerURL cfg) ''https://''"
  using that unfolding connect_https_def Let_def connected_def
  by (cases "InsecureSkipVerify cfg") (auto elim!: guard_err_InrE dest!: run_callE)

lemma connect_unix_Inr:
  "run_state (connect_unix con h cfg) s = (Inr srv, s') \<Longrightarrow>
     \<exists>socket. unix_socket h cfg = Inr socket \<and> trace s' = trace s @ [Incus [] (ReqConnectIncusUnix socket)]
       \<and> connected con h cfg srv (outside s)"
  if "\<not> HasPrefix (ServerURL cfg) ''https://''"
  using that unfolding connect_unix_def connected_def by (auto elim!: guard_err_InrE dest!: run_callE)

lemma New_Inr:
  assumes "run_state (New con h cfg) s = (Inr c, s')"
  shows "\<exists>first srv. trace s' = trace s @ [Incus [] first, Incus [] ReqGetServer]
           \<and> (if HasPrefix (ServerURL cfg) ''https://'' then first = ReqConnectIncus (ServerURL cfg)
              else \<exists>socket. unix_socket h cfg = Inr socket \<and> first = ReqConnectIncusUnix socket)
           \<and> connected con h cfg srv (outside s)
           \<and> cli_server c = (if Project cfg = '''' then srv else con_UseProject con srv (Project cfg))
           \<and> cli_target c = ''''"
proof -
  from assms obtain srv s1 where
      c: "run_state (if HasPrefix (ServerURL cfg) ''https://'' then connect_https con cfg
        else if HasPrefix (ServerURL cfg) ''unix://'' then connect_unix con h cfg
        else ret (Inl (Err (''server '' @ quote (ServerURL cfg) @ '' is not unix:// or https://'')))) s = (Inr srv, s1)"
    and "trace s' = trace s1 @ [Incus [] ReqGetServer]"
      "cli_server c = (if Project cfg = '''' then srv else con_UseProject con srv (Project cfg))"
      "cli_target c = ''''"
    unfolding New_def Let_def by (elim guard_err_InrE) (auto dest!: run_callE)
  moreover have "\<exists>first. trace s1 = trace s @ [Incus [] first]
      \<and> (if HasPrefix (ServerURL cfg) ''https://'' then first = ReqConnectIncus (ServerURL cfg)
         else \<exists>socket. unix_socket h cfg = Inr socket \<and> first = ReqConnectIncusUnix socket)
      \<and> connected con h cfg srv (outside s)"
    using c connect_https_Inr [of cfg con s srv s1 h] connect_unix_Inr [of cfg con h s srv s1]
    by (cases "HasPrefix (ServerURL cfg) ''https://''"; cases "HasPrefix (ServerURL cfg) ''unix://''") auto
  ultimately show ?thesis by auto
qed

text \<open>
  A client is only made for an \<^verbatim>\<open>https://\<close> or \<^verbatim>\<open>unix://\<close> server, in the configured project, and talks
  to the server that was reached with the configured certificates or socket; for any other server URL no
  request is sent at all.  With \<^verbatim>\<open>unix://\<close> alone, the socket is the first
  well-known path that exists and is writable.
\<close>

theorem New_connects:
  "(\<not> HasPrefix (ServerURL cfg) ''https://'' \<and> \<not> HasPrefix (ServerURL cfg) ''unix://'' \<longrightarrow>
      run_state (New con h cfg) s
        = (Inl (Err (''server '' @ quote (ServerURL cfg) @ '' is not unix:// or https://'')), s))
   \<and> (\<forall>c s'. run_state (New con h cfg) s = (Inr c, s') \<longrightarrow>
        (\<exists>first srv. trace s' = trace s @ [Incus [] first, Incus [] ReqGetServer]
           \<and> (if HasPrefix (ServerURL cfg) ''https://'' then first = ReqConnectIncus (ServerURL cfg)
              else \<exists>socket. unix_socket h cfg = Inr socket \<and> first = ReqConnectIncusUnix socket)
           \<and> connected con h cfg srv (outside s)
           \<and> cli_server c = (if Project cfg = '''' then srv else con_UseProject con srv (Project cfg))
           \<and> cli_target c = ''''))"
proof (intro conjI impI allI)
  assume "\<not> HasPrefix (ServerURL cfg) ''https://'' \<and> \<not> HasPrefix (ServerURL cfg) ''unix://''"
  then show "run_state (New con h cfg) s
        = (Inl (Err (''server '' @ quote (ServerURL cfg) @ '' is not unix:// or https://'')), s)"
    by (simp add: New_def run_state_guard_err)
qed (rule New_Inr)

definition sample_connector :: "unit Connector" where
  "sample_connector =
     \<lparr>con_ConnectIncus = \<lambda>_ _ w. (Inl (Err ''refused''), 1, w),
      con_ConnectIncusUnix = \<lambda>_ w. (Inr refusing_server, 1, w),
      con_UseProject = \<lambda>srv _. srv,
      con_GetServer = \<lambda>_ w. (Inr (serverInfo (sample_client (refusing_server :: unit InstanceServer))), 1, w)\<rparr>"

theorem New_connects_witness:
  "\<exists>c s'. run_state (New sample_connector sample_host (zero_Configuration\<lparr>ServerURL := ''unix://''\<rparr>)) (initial_world ())
        = (Inr c, s')
     \<and> trace s' = [Incus [] (ReqConnectIncusUnix ''/run/incus/unix.socket''), Incus [] ReqGetServer]"
proof -
  let ?cfg = "zero_Configuration\<lparr>ServerURL := ''unix://''\<rparr>"
  have socket: "unix_socket sample_host ?cfg = Inr ''/run/incus/unix.socket''"
    by (simp add: unix_socket_def CutPrefix_def HasPrefix_def findDefaultUnixSocketPath_def unix_socket_paths_def
        check_socket_def sample_host_def)
  have "isl (fst (run_state (New sample_connector sample_host ?cfg) (initial_world ()))) = False"
    using socket by (simp add: New_def connect_unix_def run_state_guard_err HasPrefix_def call_def
        sample_connector_def initial_world_def zero_Configuration_def)
  then obtain c s' where run: "run_state (New sample_connector sample_host ?cfg) (initial_world ()) = (Inr c, s')"
    by (metis (mono_tags, lifting) eq_fst_iff isl_def sum.exhaust)
  with New_connects [of ?cfg sample_connector sample_host "initial_world ()"] socket show ?thesis
    by (auto simp: HasPrefix_def initial_world_def)
qed

text \<open>
  On a reference \<^verbatim>\<open>REPO:TAG@DIGEST\<close> whose repository has no colon, the tag and the digest are
  read exactly.
\<close>

theorem oci_Tag_Digest:
  assumes "CHR '':'' \<notin> set repo" and "CHR ''@'' \<notin> set repo" and "CHR ''@'' \<notin> set tag"
  shows "oci_Tag \<lparr>oci_raw = repo @ '':'' @ tag @ ''@'' @ digest, oci_ref = ref\<rparr> = tag
       \<and> oci_Digest \<lparr>oci_raw = repo @ '':'' @ tag @ ''@'' @ digest, oci_ref = ref\<rparr> = digest"
proof
  show "oci_Tag \<lparr>oci_raw = repo @ '':'' @ tag @ ''@'' @ digest, oci_ref = ref\<rparr> = tag"
    using Cut_single [OF assms(1)] Cut_single [OF assms(3)] by (simp add: oci_Tag_def)
  have "CHR ''@'' \<notin> set (repo @ '':'' @ tag)" using assms(2,3) by simp
  from Cut_single [OF this] show "oci_Digest \<lparr>oci_raw = repo @ '':'' @ tag @ ''@'' @ digest, oci_ref = ref\<rparr> = digest"
    by (simp add: oci_Digest_def)
qed

theorem oci_Tag_Digest_witness:
  "oci_Tag \<lparr>oci_raw = ''kindest/node'' @ '':'' @ ''v1'' @ ''@'' @ ''sha256:ab'',
      oci_ref = \<lparr>ref_RegistryStr = [], ref_Scheme = [], ref_Name = []\<rparr>\<rparr> = ''v1''"
  using oci_Tag_Digest [of "''kindest/node''" "''v1''" "''sha256:ab''"] by simp

text \<open>
  Without a tag, the same reading takes the rest of the digest for one: the comment of \<^verbatim>\<open>Tag\<close> says that
  the result is empty then.
\<close>

lemma oci_Tag_of_digest:
  "oci_Tag \<lparr>oci_raw = ''node@sha256:ab'', oci_ref = ref\<rparr> = ''ab''"
  by (simp add: oci_Tag_def HasPrefix_def)

section \<open>Requests of connecting\<close>

fun connects :: "request \<Rightarrow> bool" where
  "connects (Incus _ (ReqConnectIncus _)) = True"
| "connects (Incus _ (ReqConnectIncusUnix _)) = True"
| "connects (Incus _ ReqGetServer) = True"
| "connects _ = False"

lemma issues_New: "issues connects (New con h opts)"
  unfolding New_def connect_https_def connect_unix_def Let_def by (intro issues_intros) simp_all

end
