(* ===== verification/Instances.thy ===== *)
theory Instances
  imports LXC_Launch
begin

text \<open>
  Launch options per kind of instance: the profiles of \<^verbatim>\<open>internal/static\<close>, the cloud-config parser of
  \<^verbatim>\<open>internal/cloudinit\<close> and the haproxy, kind and kubeadm options of \<^verbatim>\<open>internal/instances\<close>.  The embedded
  scripts are text that is only copied into instances and are fields of the parameter \<open>Scripts\<close>;
  the YAML and JSON libraries are function parameters.
\<close>

section \<open>Profiles\<close>

record ProfilePut =
  pp_Config :: "string gomap"
  pp_Devices :: "string gomap gomap"

definition kernel_modules :: string where
  "kernel_modules = ''ip_vs,ip_vs_rr,ip_vs_wrr,ip_vs_sh,ip_tables,ip6_tables,iptable_raw,netlink_diag,nf_nat,overlay,br_netfilter,xt_socket''"

definition raw_lxc :: string where
  "raw_lxc = Join [''lxc.apparmor.profile=unconfined'', ''lxc.mount.auto=proc:rw sys:rw cgroup:rw'',
                   ''lxc.cgroup.devices.allow=a'', ''lxc.cap.drop='', ''''] newline"

definition host_boot_device :: "string \<times> string gomap" where
  "host_boot_device =
     (''kubeadm-host-boot'', [(''path'', ''/usr/lib/ostree-boot''), (''readonly'', ''true''),
                              (''source'', ''/boot''), (''type'', ''disk'')])"

definition kmsg_device :: "string \<times> string gomap" where
  "kmsg_device =
     (''kubelet-dev-kmsg'', [(''path'', ''/dev/kmsg''), (''source'', ''/dev/kmsg''), (''type'', ''unix-char'')])"

text \<open>The values of \<^verbatim>\<open>embed/kubeadm.yaml\<close>, \<^verbatim>\<open>unprivileged.yaml\<close>, \<^verbatim>\<open>unprivileged-lxd.yaml\<close>, \<^verbatim>\<open>kind.yaml\<close> and
  \<^verbatim>\<open>unprivileged-kind.yaml\<close>, which \<^verbatim>\<open>init\<close> parses.\<close>

definition defaultKubeadm :: ProfilePut where
  "defaultKubeadm =
     \<lparr>pp_Config = [(''linux.kernel_modules'', kernel_modules), (''raw.lxc'', raw_lxc),
                   (''security.nesting'', ''true''), (''security.privileged'', ''true'')],
      pp_Devices = [kmsg_device, host_boot_device]\<rparr>"

definition defaultKubeadmUnprivileged :: ProfilePut where
  "defaultKubeadmUnprivileged =
     \<lparr>pp_Config = [(''linux.kernel_modules'', kernel_modules)], pp_Devices = [host_boot_device]\<rparr>"

definition defaultLXDKubeadmUnprivileged :: ProfilePut where
  "defaultLXDKubeadmUnprivileged =
     \<lparr>pp_Config = [(''linux.kernel_modules'', kernel_modules), (''security.nesting'', ''true'')],
      pp_Devices = [host_boot_device,
        (''00-disable-snapd'', [(''type'', ''disk''), (''source'', ''/dev/null''),
                                (''path'', ''/usr/lib/systemd/system/snapd.service'')]),
        (''00-disable-apparmor'', [(''type'', ''disk''), (''source'', ''/dev/null''),
                                   (''path'', ''/usr/lib/systemd/system/apparmor.service'')])]\<rparr>"

definition defaultKind :: ProfilePut where
  "defaultKind =
     \<lparr>pp_Config = [(''linux.kernel_modules'', kernel_modules), (''raw.lxc'', raw_lxc),
                   (''security.privileged'', ''true''), (''oci.entrypoint'', ''/init /sbin/init'')],
      pp_Devices = [kmsg_device, host_boot_device]\<rparr>"

definition defaultKindUnprivileged :: ProfilePut where
  "defaultKindUnprivileged =
     \<lparr>pp_Config = [(''linux.kernel_modules'', kernel_modules), (''oci.entrypoint'', ''/init /sbin/init'')],
      pp_Devices = [host_boot_device]\<rparr>"

definition DefaultKubeadmProfile :: "bool \<Rightarrow> string \<Rightarrow> ProfilePut" where
  "DefaultKubeadmProfile privileged serverName =
     (if privileged then defaultKubeadm
      else if serverName = LXD then defaultLXDKubeadmUnprivileged
      else defaultKubeadmUnprivileged)"

definition DefaultKindProfile :: "bool \<Rightarrow> ProfilePut" where
  "DefaultKindProfile privileged = (if privileged then defaultKind else defaultKindUnprivileged)"

lemmas profile_defs =
  defaultKubeadm_def defaultKubeadmUnprivileged_def defaultLXDKubeadmUnprivileged_def
  defaultKind_def defaultKindUnprivileged_def host_boot_device_def kmsg_device_def

section \<open>Embedded scripts\<close>

record Scripts =
  InstallKubeadmScript :: string
  KindCloudInitScript :: string
  CloudInitMetaDataTemplate :: string
  CloudInitUserDataTemplate :: string
  CloudInitLaunchSystemdServiceTemplate :: string

section \<open>Cloud-config\<close>

record CloudFile =
  cf_Path :: string
  cf_Owner :: string
  cf_Permissions :: string
  cf_Content :: string

record CloudConfig =
  WriteFiles :: "CloudFile list"
  RunCommands :: "string list"

text \<open>\<^verbatim>\<open>unmarshal\<close> is \<^verbatim>\<open>yaml.UnmarshalStrict\<close>; the replacer is a function on text, or absent.\<close>

definition Parse ::
  "(string \<Rightarrow> go_error + CloudConfig) \<Rightarrow> string \<Rightarrow> (string \<Rightarrow> string) option \<Rightarrow> go_error + CloudConfig" where
  "Parse unmarshal raw replacer =
     (case CutPrefix raw (''## template: jinja'' @ newline) of (raw, isJinja) \<Rightarrow>
        let raw = (case replacer of Some f \<Rightarrow> if isJinja then f raw else raw | None \<Rightarrow> raw)
        in case CutPrefix raw (''#cloud-config'' @ newline) of (raw, isCloudConfig) \<Rightarrow>
             if \<not> isCloudConfig then Inl (Err ''missing required header #cloud-config'')
             else case unmarshal raw of
               Inl err \<Rightarrow> Inl (Errorf ''failed parsing cloud-config YAML: '' err)
             | Inr cloudConfig \<Rightarrow> Inr cloudConfig)"

section \<open>Load balancer instances\<close>

definition HaproxyLXCLaunchOptions :: LaunchOptions where
  "HaproxyLXCLaunchOptions =
     WithImage (WithInstanceType empty_LaunchOptions Container)
       (Some (PlainImage (mk_image Simplestreams DefaultSimplestreamsServer ''haproxy'')))"

definition HaproxyOCILaunchOptions :: LaunchOptions where
  "HaproxyOCILaunchOptions =
     WithCreateFiles
       (WithConfig
         (WithSymlinks
           (WithImage (WithInstanceType empty_LaunchOptions Container)
             (Some (PlainImage (mk_image OCI ''https://ghcr.io''
                      ''lxc/cluster-api-provider-incus/haproxy:v20230606-42a2262b''))))
           [(''/init'', ''/usr/sbin/haproxy'')])
         [(''oci.entrypoint'', ''/init -W -db -f /usr/local/etc/haproxy/haproxy.cfg'')])
       [(''/etc/environment'', '''')]"

section \<open>Kind nodes\<close>

record KindLaunchOptionsInput =
  kd_KubernetesVersion :: string
  kd_Privileged :: bool
  kd_SkipProfile :: bool
  kd_PodNetworkCIDR :: string
  kd_CloudInit :: string
  kd_CloudInitAptInstall :: bool

definition kind_base_options :: "string \<Rightarrow> LaunchOptions" where
  "kind_base_options version =
     WithSymlinks
       (WithReplacements
         (WithImage (WithInstanceType empty_LaunchOptions Container) (Some (PlainImage (KindestNodeImage version))))
         [(''/usr/local/bin/entrypoint'',
            [(''>/etc/resolv.conf'', ''>/etc/local-resolv.conf''),
             (''${KIND_EXPERIMENTAL_CONTAINERD_SNAPSHOTTER:-}'',
              ''${KIND_EXPERIMENTAL_CONTAINERD_SNAPSHOTTER:-overlayfs}'')])])
       [(''/init'', ''/usr/local/bin/entrypoint'')]"

definition kind_cloud_init :: "Scripts \<Rightarrow> string \<Rightarrow> LaunchOptions \<Rightarrow> LaunchOptions" where
  "kind_cloud_init scripts cloudInit opts =
     WithSymlinks
       (WithInstanceTemplates
         (WithConfig opts [(''cloud-init.user-data'', cloudInit)])
         [(''/var/lib/cloud/seed/nocloud-net/meta-data'', CloudInitMetaDataTemplate scripts),
          (''/var/lib/cloud/seed/nocloud-net/user-data'', CloudInitUserDataTemplate scripts),
          (''/etc/systemd/system/cloud-init-launch.service'', CloudInitLaunchSystemdServiceTemplate scripts),
          (''/hack/cloud-init.py'', KindCloudInitScript scripts)])
       [(''/etc/systemd/system/multi-user.target.wants/cloud-init-launch.service'',
         ''/etc/systemd/system/cloud-init-launch.service'')]"

text \<open>
  Manual mode: parse the cloud-config with the hostname placeholder replaced and embed it as JSON
  (\<^verbatim>\<open>marshal\<close> is \<^verbatim>\<open>json.Marshal\<close>).
\<close>

definition kind_manual_cloud_init ::
  "(string \<Rightarrow> go_error + CloudConfig) \<Rightarrow> (CloudConfig \<Rightarrow> go_error + string) \<Rightarrow> string \<Rightarrow> LaunchOptions
   \<Rightarrow> go_error + LaunchOptions" where
  "kind_manual_cloud_init unmarshal marshal cloudInit opts =
     (case Parse unmarshal cloudInit
             (Some (\<lambda>s. ReplaceAll s ''{{ v1.local_hostname }}'' ''{{ container.name }}'')) of
        Inl err \<Rightarrow> Inl (TerminalError (Errorf
            ''failed to parse instance cloud-config, please report this bug to https://github.com/lxc/cluster-api-provider-incus/issues: '' err))
      | Inr cloudConfig \<Rightarrow>
          (case marshal cloudConfig of
             Inl err \<Rightarrow> Inl (TerminalError (Errorf
                 ''failed to generate JSON cloud-config for instance, please report this bug to github.com/lxc/cluster-api-provider-incus/issues: '' err))
           | Inr b \<Rightarrow> Inr (WithInstanceTemplates opts [(''/hack/cloud-init.json'', b)])))"

definition kind_finish :: "KindLaunchOptionsInput \<Rightarrow> LaunchOptions \<Rightarrow> LaunchOptions" where
  "kind_finish inp opts =
     (let opts = (if length (kd_PodNetworkCIDR inp) > 0
                  then WithReplacements opts [(''/kind/manifests/default-cni.yaml'',
                         [(''{{ .PodSubnet }}'', kd_PodNetworkCIDR inp)])]
                  else opts)
      in if \<not> kd_SkipProfile inp
         then let profile = DefaultKindProfile (kd_Privileged inp)
              in WithDevices (WithConfig opts (pp_Config profile)) (pp_Devices profile)
         else opts)"

definition KindLaunchOptions ::
  "Scripts \<Rightarrow> (string \<Rightarrow> go_error + CloudConfig) \<Rightarrow> (CloudConfig \<Rightarrow> go_error + string)
   \<Rightarrow> KindLaunchOptionsInput \<Rightarrow> go_error + LaunchOptions" where
  "KindLaunchOptions scripts unmarshal marshal inp =
     (let opts = kind_base_options (kd_KubernetesVersion inp)
      in if length (kd_CloudInit inp) > 0 then
           (let opts = kind_cloud_init scripts (kd_CloudInit inp) opts
            in if \<not> kd_CloudInitAptInstall inp then
                 (case kind_manual_cloud_init unmarshal marshal (kd_CloudInit inp) opts of
                    Inl err \<Rightarrow> Inl err
                  | Inr opts \<Rightarrow> Inr (kind_finish inp opts))
               else Inr (kind_finish inp opts))
         else Inr (kind_finish inp opts))"

section \<open>Kubeadm nodes\<close>

record KubeadmLaunchOptionsInput =
  ku_KubernetesVersion :: string
  ku_InstanceType :: string
  ku_Privileged :: bool
  ku_SkipProfile :: bool
  ku_SkipInstallKubeadmScript :: bool
  ku_ServerName :: string
  ku_CloudInit :: string

definition KubeadmLaunchOptions :: "Scripts \<Rightarrow> KubeadmLaunchOptionsInput \<Rightarrow> LaunchOptions" where
  "KubeadmLaunchOptions scripts inp =
     (let opts = WithImage (WithInstanceType empty_LaunchOptions (ku_InstanceType inp))
                   (Some (PlainImage (CapnImage (''kubeadm/'' @ ku_KubernetesVersion inp))));
          opts = (if \<not> ku_SkipInstallKubeadmScript inp
                  then WithInstanceTemplates opts
                         [(''/opt/cluster-api/install-kubeadm.sh'', InstallKubeadmScript scripts)]
                  else opts);
          opts = (if length (ku_CloudInit inp) > 0
                  then WithConfig opts [(''cloud-init.user-data'', ku_CloudInit inp)] else opts)
      in if ku_InstanceType inp = Container \<and> \<not> ku_SkipProfile inp
         then let profile = DefaultKubeadmProfile (ku_Privileged inp) (ku_ServerName inp)
              in WithDevices (WithConfig opts (pp_Config profile)) (pp_Devices profile)
         else opts)"

section \<open>Properties\<close>

lemma map_of_config_WithConfig:
  "wf_map new \<Longrightarrow> map_of (config (WithConfig x new)) = map_of (config x) ++ map_of new"
  by (rule ext) (simp add: with_config.get_put map_add_def)

lemma map_of_templates_With:
  "wf_map new \<Longrightarrow>
   map_of (instanceTemplates (WithInstanceTemplates x new)) = map_of (instanceTemplates x) ++ map_of new"
  by (rule ext) (simp add: with_templates.get_put map_add_def)

lemma wf_profiles [simp]:
  "wf_map (pp_Config (DefaultKindProfile p))" "wf_map (pp_Config (DefaultKubeadmProfile p srv))"
  by (simp_all add: DefaultKindProfile_def DefaultKubeadmProfile_def profile_defs wf_map_def)

lemma kind_profile_lookup [simp]:
  "map_of (pp_Config (DefaultKindProfile p)) ''security.privileged'' = (if p then Some ''true'' else None)"
  "map_of (pp_Config (DefaultKindProfile p)) ''raw.lxc'' = (if p then Some raw_lxc else None)"
  "map_of (pp_Config (DefaultKindProfile p)) ''cloud-init.user-data'' = None"
  "map_of (pp_Config (DefaultKindProfile p)) ''oci.entrypoint'' = Some ''/init /sbin/init''"
  by (simp_all add: DefaultKindProfile_def profile_defs)

lemma kubeadm_profile_lookup [simp]:
  "map_of (pp_Config (DefaultKubeadmProfile p srv)) ''security.privileged'' = (if p then Some ''true'' else None)"
  "map_of (pp_Config (DefaultKubeadmProfile p srv)) ''raw.lxc'' = (if p then Some raw_lxc else None)"
  "map_of (pp_Config (DefaultKubeadmProfile p srv)) ''cloud-init.user-data'' = None"
  by (simp_all add: DefaultKubeadmProfile_def profile_defs)

lemma empty_LaunchOptions_simps [simp]:
  "config empty_LaunchOptions = []" "devices empty_LaunchOptions = []"
  "instanceTemplates empty_LaunchOptions = []" "createFiles empty_LaunchOptions = []"
  "replacements empty_LaunchOptions = []" "unixSocket empty_LaunchOptions = False"
  by (simp_all add: empty_LaunchOptions_def)

lemma opt_image_WithImage [simp]:
  "opt_image (WithImage x (Some (PlainImage i))) =
     (if im_Alias i \<noteq> [] \<or> im_Fingerprint i \<noteq> [] then Some (PlainImage i) else opt_image x)"
  by (simp add: WithImage_def)

lemma wf_single [simp]: "wf_map [(k, v)]"
  by (simp add: wf_map_def)

lemma complete_plain:
  assumes "opt_image x = Some (PlainImage i)" and "\<not> unixSocket x"
    and "instanceType x = VirtualMachine \<longrightarrow> createFiles x = [] \<and> replacements x = []"
  shows "complete x srv = Inr (x\<lparr>opt_image := Some (PlainImage (drop_tag i))\<rparr>)"
  using assms by (auto simp: complete_Inr For_image_def)

lemma wf_profile_devices [simp]:
  "wf_devices (pp_Devices (DefaultKindProfile p))" "wf_devices (pp_Devices (DefaultKubeadmProfile p srv))"
  by (simp_all add: DefaultKindProfile_def DefaultKubeadmProfile_def profile_defs wf_devices_def wf_map_def)

lemma wf_options_empty [simp]: "wf_options empty_LaunchOptions"
  by (simp add: wf_options_def wf_devices_def)

lemma wf_kubeadm_options [simp]: "wf_options (KubeadmLaunchOptions sc inp)"
  unfolding KubeadmLaunchOptions_def Let_def by (auto intro!: wf_options_intros)

lemma wf_kind_finish: "wf_options opts \<Longrightarrow> wf_options (kind_finish inp opts)"
  unfolding kind_finish_def Let_def by (auto intro!: wf_options_intros)

lemma wf_kind_options:
  assumes "KindLaunchOptions sc u m inp = Inr opts"
  shows "wf_options opts"
proof -
  have base: "wf_options (kind_base_options v)" for v by (simp add: kind_base_options_def)
  have init: "wf_options (kind_cloud_init sc ci x)" if "wf_options x" for ci x
    using that by (auto simp: kind_cloud_init_def wf_map_def intro!: wf_options_intros)
  have manual: "wf_options y" if "kind_manual_cloud_init u m ci x = Inr y" "wf_options x" for ci x y
    using that by (auto simp: kind_manual_cloud_init_def split: sum.splits)
  show ?thesis
    using assms base init manual wf_kind_finish
    unfolding KindLaunchOptions_def Let_def by (auto split: if_splits sum.splits)
qed

text \<open>
  A kubeadm node is privileged exactly when that is asked for, on a container whose profile is
  not skipped; its cloud-init data is the one given; virtual machines get no profile at all; and its
  launch options can be completed on every server.
\<close>

theorem KubeadmLaunchOptions_correct:
  "map_of (config (KubeadmLaunchOptions scripts inp)) ''security.privileged''
      = (if ku_InstanceType inp = Container \<and> \<not> ku_SkipProfile inp \<and> ku_Privileged inp then Some ''true'' else None)
   \<and> map_of (config (KubeadmLaunchOptions scripts inp)) ''cloud-init.user-data''
      = (if ku_CloudInit inp = '''' then None else Some (ku_CloudInit inp))
   \<and> map_of (instanceTemplates (KubeadmLaunchOptions scripts inp)) ''/opt/cluster-api/install-kubeadm.sh''
      = (if ku_SkipInstallKubeadmScript inp then None else Some (InstallKubeadmScript scripts))
   \<and> (if ku_InstanceType inp = Container \<and> \<not> ku_SkipProfile inp then True
      else devices (KubeadmLaunchOptions scripts inp) = [])
   \<and> complete (KubeadmLaunchOptions scripts inp) srv
      = Inr ((KubeadmLaunchOptions scripts inp)\<lparr>opt_image :=
               Some (PlainImage (CapnImage (''kubeadm/'' @ ku_KubernetesVersion inp)))\<rparr>)"
proof (intro conjI)
  show "map_of (config (KubeadmLaunchOptions scripts inp)) ''security.privileged''
      = (if ku_InstanceType inp = Container \<and> \<not> ku_SkipProfile inp \<and> ku_Privileged inp then Some ''true'' else None)"
    by (simp add: KubeadmLaunchOptions_def Let_def map_of_config_WithConfig map_add_def)
  show "map_of (config (KubeadmLaunchOptions scripts inp)) ''cloud-init.user-data''
      = (if ku_CloudInit inp = '''' then None else Some (ku_CloudInit inp))"
    by (simp add: KubeadmLaunchOptions_def Let_def map_of_config_WithConfig map_add_def)
  show "map_of (instanceTemplates (KubeadmLaunchOptions scripts inp)) ''/opt/cluster-api/install-kubeadm.sh''
      = (if ku_SkipInstallKubeadmScript inp then None else Some (InstallKubeadmScript scripts))"
    by (simp add: KubeadmLaunchOptions_def Let_def map_of_templates_With map_add_def)
  show "if ku_InstanceType inp = Container \<and> \<not> ku_SkipProfile inp then True
      else devices (KubeadmLaunchOptions scripts inp) = []"
    by (simp add: KubeadmLaunchOptions_def Let_def)
  have "drop_tag (CapnImage v) = CapnImage v" for v
    by (simp add: drop_tag_def CapnImage_def mk_image_def lxc_consts)
  moreover have "opt_image (KubeadmLaunchOptions scripts inp)
      = Some (PlainImage (CapnImage (''kubeadm/'' @ ku_KubernetesVersion inp)))"
    by (simp add: KubeadmLaunchOptions_def Let_def CapnImage_def mk_image_def)
  moreover have "createFiles (KubeadmLaunchOptions scripts inp) = []"
      "replacements (KubeadmLaunchOptions scripts inp) = []" "\<not> unixSocket (KubeadmLaunchOptions scripts inp)"
    by (simp_all add: KubeadmLaunchOptions_def Let_def)
  ultimately show "complete (KubeadmLaunchOptions scripts inp) srv
      = Inr ((KubeadmLaunchOptions scripts inp)\<lparr>opt_image :=
               Some (PlainImage (CapnImage (''kubeadm/'' @ ku_KubernetesVersion inp)))\<rparr>)"
    using complete_plain [of "KubeadmLaunchOptions scripts inp"] by simp
qed

lemma kind_finish_simps [simp]:
  "opt_image (kind_finish inp x) = opt_image x" "instanceType (kind_finish inp x) = instanceType x"
  "instanceTemplates (kind_finish inp x) = instanceTemplates x" "unixSocket (kind_finish inp x) = unixSocket x"
  by (simp_all add: kind_finish_def Let_def)

lemma kind_finish_config:
  "map_of (config (kind_finish inp x)) = (if kd_SkipProfile inp then map_of (config x)
     else map_of (config x) ++ map_of (pp_Config (DefaultKindProfile (kd_Privileged inp))))"
  by (simp add: kind_finish_def Let_def map_of_config_WithConfig)

lemma kind_finish_files [simp]:
  "createFiles (kind_finish inp x) = createFiles x"
  "map_of (replacements (kind_finish inp x)) = (if kd_PodNetworkCIDR inp = '''' then map_of (replacements x) else
     (map_of (replacements x))(''/kind/manifests/default-cni.yaml'' \<mapsto> [(''{{ .PodSubnet }}'', kd_PodNetworkCIDR inp)]))"
  by (simp_all add: kind_finish_def Let_def WithReplacements_def WithDevices_def WithConfig_def)

lemma unixSocket_more [simp]: "unixSocket (WithSymlinks x t) = unixSocket x"
  by (simp add: WithSymlinks_def)

lemma kind_base_simps [simp]:
  "opt_image (kind_base_options v) = Some (PlainImage (KindestNodeImage v))"
  "instanceType (kind_base_options v) = Container" "config (kind_base_options v) = []"
  "instanceTemplates (kind_base_options v) = []" "unixSocket (kind_base_options v) = False"
  by (simp_all add: kind_base_options_def KindestNodeImage_def mk_image_def)

lemma kind_base_files [simp]:
  "createFiles (kind_base_options v) = [createSymlink ''/init'' ''/usr/local/bin/entrypoint'']"
  "replacements (kind_base_options v) = [(''/usr/local/bin/entrypoint'', [(''>/etc/resolv.conf'', ''>/etc/local-resolv.conf''),
     (''${KIND_EXPERIMENTAL_CONTAINERD_SNAPSHOTTER:-}'', ''${KIND_EXPERIMENTAL_CONTAINERD_SNAPSHOTTER:-overlayfs}'')])]"
  by (simp_all add: kind_base_options_def WithSymlinks_def WithReplacements_def KindestNodeImage_def mk_image_def)

lemma kind_cloud_init_files [simp]:
  "createFiles (kind_cloud_init sc ci x) = createFiles x @
     [createSymlink ''/etc/systemd/system/multi-user.target.wants/cloud-init-launch.service'' ''/etc/systemd/system/cloud-init-launch.service'']"
  "replacements (kind_cloud_init sc ci x) = replacements x"
  "createFiles (WithInstanceTemplates x t) = createFiles x" "replacements (WithInstanceTemplates x t) = replacements x"
  by (simp_all add: kind_cloud_init_def WithSymlinks_def WithConfig_def WithInstanceTemplates_def)

lemma kind_cloud_init_templates:
  "map_of (instanceTemplates (kind_cloud_init sc ci (kind_base_options v))) ''/hack/cloud-init.json'' = None"
  "map_of (instanceTemplates (kind_cloud_init sc ci (kind_base_options v))) ''/etc/systemd/system/cloud-init-launch.service''
     = Some (CloudInitLaunchSystemdServiceTemplate sc)"
  by (simp_all add: kind_cloud_init_def WithInstanceTemplates_def WithConfig_def WithSymlinks_def)

lemma kind_cloud_init_simps [simp]:
  "opt_image (kind_cloud_init sc ci x) = opt_image x" "instanceType (kind_cloud_init sc ci x) = instanceType x"
  "unixSocket (kind_cloud_init sc ci x) = unixSocket x"
  "map_of (config (kind_cloud_init sc ci x)) = (map_of (config x))(''cloud-init.user-data'' \<mapsto> ci)"
  by (simp_all add: kind_cloud_init_def map_of_config_WithConfig)

text \<open>
  Launch options for a kind node fail only in manual cloud-init mode, because the cloud-config
  cannot be read or written, and then the error is terminal.
\<close>

theorem KindLaunchOptions_errors:
  "isl (KindLaunchOptions scripts unmarshal marshal inp) =
     (kd_CloudInit inp \<noteq> '''' \<and> \<not> kd_CloudInitAptInstall inp \<and>
      (case Parse unmarshal (kd_CloudInit inp)
              (Some (\<lambda>s. ReplaceAll s ''{{ v1.local_hostname }}'' ''{{ container.name }}'')) of
         Inl _ \<Rightarrow> True | Inr cc \<Rightarrow> isl (marshal cc)))
   \<and> (case KindLaunchOptions scripts unmarshal marshal inp of Inl err \<Rightarrow> IsTerminalError err | Inr _ \<Rightarrow> True)"
  by (auto simp: KindLaunchOptions_def kind_manual_cloud_init_def Let_def isl_def split: sum.splits)


definition sample_scripts :: Scripts where
  "sample_scripts = \<lparr>InstallKubeadmScript = ''a'', KindCloudInitScript = ''b'', CloudInitMetaDataTemplate = ''c'',
     CloudInitUserDataTemplate = ''d'', CloudInitLaunchSystemdServiceTemplate = ''e''\<rparr>"


end
