(* ===== verification/Load_Balancer.thy ===== *)
theory Load_Balancer
  imports LXC_Config Instances
begin

text \<open>
  The cluster load balancer, \<^verbatim>\<open>internal/loadbalancer\<close>: the haproxy and kube-vip configuration, the five
  implementations of the \<^verbatim>\<open>Manager\<close> interface and their selection.  What the controllers rely on of a
  \<^verbatim>\<open>Manager\<close> is the locale \<open>lb_manager\<close>, with one interpretation per implementation.
\<close>

section \<open>Haproxy configuration\<close>

record backendServer =
  be_Address :: string
  be_Weight :: int

record configData =
  FrontendControlPlanePort :: string
  BackendControlPlanePort :: string
  BackendServers :: "backendServer gomap"
  cd_IPv6 :: bool

definition JoinHostPort :: "string \<Rightarrow> string \<Rightarrow> string" where
  "JoinHostPort host port =
     (if CHR '':'' \<in> set host then ''['' @ host @ '']:'' @ port else host @ '':'' @ port)"

definition lines :: "string list \<Rightarrow> string" where
  "lines ls = concat (map (\<lambda>l. l @ newline) ls)"

definition haproxy_preamble :: "string list" where
  "haproxy_preamble =
     [''# generated by kind'',
      ''global'',
      ''  log /dev/log local0'',
      ''  log /dev/log local1 notice'',
      ''  daemon'',
      ''  # limit memory usage to approximately 18 MB'',
      ''  # (see https://github.com/kubernetes-sigs/kind/pull/3115)'',
      ''  maxconn 100000'',
      '''',
      ''# NOTE(neoaggelos): resolvers entry is removed, we instead configure the instance addresses on the backends'',
      '''',
      ''defaults'',
      ''  log global'',
      ''  mode tcp'',
      ''  option dontlognull'',
      ''  # TODO: tune these'',
      ''  timeout connect 5000'',
      ''  timeout client 50000'',
      ''  timeout server 50000'',
      ''  # allow to boot despite dns don'' @ [CHR 39] @ ''t resolve backends'',
      ''  default-server init-addr none'',
      '''',
      ''frontend stats'',
      ''  mode http'',
      ''  bind *:8404'',
      ''  stats enable'',
      ''  stats uri /stats'',
      ''  stats refresh 1s'',
      ''  stats admin if TRUE'',
      '''',
      ''frontend control-plane'']"

definition haproxy_server :: "string \<Rightarrow> string \<times> backendServer \<Rightarrow> string" where
  "haproxy_server port = (\<lambda>(name, backend).
     newline @ ''  server '' @ name @ '' '' @ JoinHostPort (be_Address backend) port @ '' weight ''
       @ fmt_int (be_Weight backend) @ '' check check-ssl verify none'')"

definition DefaultHaproxyTemplate :: string where
  "DefaultHaproxyTemplate =
     lines (haproxy_preamble @
       [''  bind *:{{ .FrontendControlPlanePort }}'',
        ''  {{ if .IPv6 -}}'',
        ''  bind :::{{ .FrontendControlPlanePort }};'',
        ''  {{- end }}'',
        ''  default_backend kube-apiservers'',
        '''',
        ''backend kube-apiservers'',
        ''  option httpchk GET /healthz'',
        ''  {{range $server, $backend := .BackendServers}}'',
        ''  server {{ $server }} {{ JoinHostPort $backend.Address $.BackendControlPlanePort }} weight {{ $backend.Weight }} check check-ssl verify none'',
        ''  {{- end}}''])"

text \<open>
  What executing \<^verbatim>\<open>DefaultHaproxyTemplate\<close> prints: the markers \<^verbatim>\<open>-}}\<close> and \<^verbatim>\<open>{{-\<close> drop the white space next to
  them, and \<^verbatim>\<open>range\<close> visits the keys of a map in ascending order.
\<close>

definition default_haproxy_config :: "configData \<Rightarrow> string" where
  "default_haproxy_config data =
     lines haproxy_preamble
     @ ''  bind *:'' @ FrontendControlPlanePort data @ newline
     @ ''  '' @ (if cd_IPv6 data then ''bind :::'' @ FrontendControlPlanePort data @ '';'' else []) @ newline
     @ lines [''  default_backend kube-apiservers'', '''', ''backend kube-apiservers'', ''  option httpchk GET /healthz'']
     @ ''  '' @ concat (map (haproxy_server (BackendControlPlanePort data))
                          (sort_key fst (BackendServers data))) @ newline"

text \<open>
  Any other template is run by the template engine, a parameter that parses a template and executes
  it on the data; both steps can fail.
\<close>

record TemplateEngine =
  te_Parse :: "string \<Rightarrow> go_error + unit"
  te_Execute :: "string \<Rightarrow> configData \<Rightarrow> go_error + string"

definition renderHaproxyConfiguration ::
  "TemplateEngine \<Rightarrow> configData \<Rightarrow> string \<Rightarrow> go_error + string" where
  "renderHaproxyConfiguration te data configTemplate =
     (if configTemplate = DefaultHaproxyTemplate then Inr (default_haproxy_config data)
      else case te_Parse te configTemplate of
             Inl err \<Rightarrow> Inl (Errorf ''failed to parse config template: '' err)
           | Inr _ \<Rightarrow>
               (case te_Execute te configTemplate data of
                  Inl err \<Rightarrow> Inl (Errorf ''error executing config template: '' err)
                | Inr b \<Rightarrow> Inr b))"

definition filterClusterControlPlaneInstances :: "string \<Rightarrow> string \<Rightarrow> InstanceFull \<Rightarrow> bool" where
  "filterClusterControlPlaneInstances clusterName clusterNamespace =
     WithConfig_filter [(''user.cluster-name'', clusterName), (''user.cluster-namespace'', clusterNamespace),
                        (''user.cluster-role'', ''control-plane'')]"

fun add_backends :: "InstanceFull list \<Rightarrow> backendServer gomap \<Rightarrow> backendServer gomap" where
  "add_backends [] m = m"
| "add_backends (i # rest) m =
     (case ParseHostAddresses (i_State i) of
        [] \<Rightarrow> add_backends rest m
      | address # _ \<Rightarrow> add_backends rest (map_set (i_Name i) \<lparr>be_Address = address, be_Weight = 100\<rparr> m))"

definition getLoadBalancerConfiguration ::
  "'w Client \<Rightarrow> (InstanceFull \<Rightarrow> bool) list \<Rightarrow> (request, 'w, configData) io_err" where
  "getLoadBalancerConfiguration c filters =
     guard_err (ListInstances c filters) (Errorf ''failed to retrieve cluster control plane instances: '')
       (\<lambda>instances. ret (Inr \<lparr>FrontendControlPlanePort = ''6443'', BackendControlPlanePort = ''6443'',
                              BackendServers = add_backends instances [], cd_IPv6 = False\<rparr>))"

definition GenerateHaproxyLoadBalancerConfiguration ::
  "TemplateEngine \<Rightarrow> 'w Client \<Rightarrow> (InstanceFull \<Rightarrow> bool) list \<Rightarrow> (request, 'w, string) io_err" where
  "GenerateHaproxyLoadBalancerConfiguration te c filters =
     guard_err (getLoadBalancerConfiguration c filters) (Errorf ''failed to retrieve load balancer config: '')
       (\<lambda>conf. ret (renderHaproxyConfiguration te conf DefaultHaproxyTemplate))"

section \<open>Kube-vip configuration\<close>

record kubeVIPTemplateInput =
  kt_Interface :: string
  kt_Address :: string
  kt_Image :: string
  kt_KubeconfigPath :: string

definition env_var :: "string \<Rightarrow> string \<Rightarrow> string list" where
  "env_var name v = [''    - name: '' @ name, ''      value: '' @ v]"

text \<open>The text of the template before, between and after its four actions.\<close>

definition kube_vip_start :: string where
  "kube_vip_start =
     lines ([''# generated by capn'', ''apiVersion: v1'', ''kind: Pod'', ''metadata:'', ''  name: kube-vip'',
       ''  namespace: kube-system'', ''spec:'', ''  containers:'', ''  - args:'', ''    - manager'', ''    env:'']
       @ env_var ''vip_arp'' (quote ''true'') @ env_var ''port'' (quote ''6443'') @ [''    - name: vip_interface''])
     @ ''      value: '' @ [CHR 34]"

definition kube_vip_options :: string where
  "kube_vip_options =
     [CHR 34] @ newline
     @ lines (env_var ''vip_cidr'' (quote ''32'') @ env_var ''cp_enable'' (quote ''true'')
       @ env_var ''cp_namespace'' ''kube-system'' @ env_var ''vip_ddns'' (quote ''false'')
       @ env_var ''svc_enable'' (quote ''true'') @ env_var ''svc_leasename'' ''plndr-svcs-lock''
       @ env_var ''svc_election'' (quote ''true'') @ env_var ''vip_leaderelection'' (quote ''true'')
       @ env_var ''vip_leasename'' ''plndr-cp-lock'' @ env_var ''vip_leaseduration'' (quote ''15'')
       @ env_var ''vip_renewdeadline'' (quote ''10'') @ env_var ''vip_retryperiod'' (quote ''2'') @ [''    - name: address''])
     @ ''      value: '' @ [CHR 34]"

definition kube_vip_metrics :: string where
  "kube_vip_metrics = [CHR 34] @ newline @ lines (env_var ''prometheus_server'' '':2112'') @ ''    image: '' @ [CHR 34]"

definition kube_vip_pod :: string where
  "kube_vip_pod =
     [CHR 34] @ newline
     @ lines [''    imagePullPolicy: IfNotPresent'', ''    name: kube-vip'', ''    resources: {}'', ''    securityContext:'',
        ''      capabilities:'', ''        add:'', ''        - NET_ADMIN'', ''        - NET_RAW'', ''    volumeMounts:'',
        ''    - mountPath: /etc/kubernetes/admin.conf'', ''      name: kubeconfig'', ''  hostNetwork: true'',
        ''  hostAliases:'', ''  - ip: 127.0.0.1'', ''    hostnames: [kubernetes]'', ''  volumes:'', ''  - hostPath:'']
     @ ''      path: ''"

definition kube_vip_end :: string where
  "kube_vip_end = newline @ lines [''    name: kubeconfig'', ''status: {}'']"

definition DefaultKubeVIPTemplate :: string where
  "DefaultKubeVIPTemplate =
     kube_vip_start @ ''{{ .Interface }}'' @ kube_vip_options @ ''{{ .Address }}'' @ kube_vip_metrics @ ''{{ .Image }}''
     @ kube_vip_pod @ ''{{ .KubeconfigPath }}'' @ kube_vip_end"

text \<open>Executing \<^verbatim>\<open>DefaultKubeVIPTemplate\<close>, which always succeeds.\<close>

definition renderKubeVIPConfiguration :: "kubeVIPTemplateInput \<Rightarrow> go_error + string" where
  "renderKubeVIPConfiguration inp =
     Inr (kube_vip_start @ kt_Interface inp @ kube_vip_options @ kt_Address inp @ kube_vip_metrics @ kt_Image inp
       @ kube_vip_pod @ kt_KubeconfigPath inp @ kube_vip_end)"

section \<open>Managers\<close>

definition loadBalancerReconfigureTimeout :: nat where
  "loadBalancerReconfigureTimeout = 30 * second"

text \<open>\<^verbatim>\<open>managerLXC\<close> and \<^verbatim>\<open>managerOCI\<close> have the same fields.\<close>

record 'w managerHaproxy =
  hp_lxcClient :: "'w Client"
  hp_clusterName :: string
  hp_clusterNamespace :: string
  hp_name :: string
  hp_spec :: LXCLoadBalancerMachineSpec
  customHAProxyConfigTemplate :: string

record 'w managerOVN =
  ov_lxcClient :: "'w Client"
  ov_clusterName :: string
  ov_clusterNamespace :: string
  networkName :: string
  listenAddress :: string

record 'w managerExternal =
  ex_lxcClient :: "'w Client"
  ex_clusterName :: string
  ex_clusterNamespace :: string
  ex_address :: string

record 'w managerKubeVIP =
  kv_lxcClient :: "'w Client"
  kv_clusterName :: string
  kv_clusterNamespace :: string
  kv_address :: string
  interfaceName :: string
  kubeconfigPath :: string
  manifestPath :: string
  kv_image :: string

datatype 'w Manager =
    ManagerLXC "'w managerHaproxy"
  | ManagerOCI "'w managerHaproxy"
  | ManagerOVN "'w managerOVN"
  | ManagerExternal "'w managerExternal"
  | ManagerKubeVIP "'w managerKubeVIP"

definition ManagerForCluster :: "Cluster \<Rightarrow> LXCCluster \<Rightarrow> 'w Client \<Rightarrow> 'w Manager" where
  "ManagerForCluster cluster lxcCluster c =
     (let lb = LoadBalancer (c_spec lxcCluster);
          haproxy = (\<lambda>i. \<lparr>hp_lxcClient = c, hp_clusterName = om_Name (cl_meta cluster),
             hp_clusterNamespace = om_Namespace (cl_meta cluster),
             hp_name = GetLoadBalancerInstanceName lxcCluster, hp_spec = InstanceSpec i,
             customHAProxyConfigTemplate = CustomHAProxyConfigTemplate i\<rparr>);
          address = Host (ControlPlaneEndpoint (c_spec lxcCluster));
          external = ManagerExternal \<lparr>ex_lxcClient = c, ex_clusterName = om_Name (cl_meta cluster),
             ex_clusterNamespace = om_Namespace (cl_meta cluster), ex_address = address\<rparr>
      in case lb_LXC lb of Some i \<Rightarrow> ManagerLXC (haproxy i)
         | None \<Rightarrow> (case lb_OCI lb of Some i \<Rightarrow> ManagerOCI (haproxy i)
         | None \<Rightarrow> (case lb_OVN lb of
             Some o1 \<Rightarrow> ManagerOVN \<lparr>ov_lxcClient = c, ov_clusterName = om_Name (cl_meta cluster),
                ov_clusterNamespace = om_Namespace (cl_meta cluster),
                networkName = NetworkName o1, listenAddress = address\<rparr>
         | None \<Rightarrow> (case lb_External lb of Some _ \<Rightarrow> external
         | None \<Rightarrow> (case lb_KubeVIP lb of
             Some k \<Rightarrow> ManagerKubeVIP \<lparr>kv_lxcClient = c, kv_clusterName = om_Name (cl_meta cluster),
                kv_clusterNamespace = om_Namespace (cl_meta cluster), kv_address = address,
                interfaceName = kv_Interface k, kubeconfigPath = kv_KubeconfigPath k,
                manifestPath = kv_ManifestPath k, kv_image = kv_Image k\<rparr>
         | None \<Rightarrow> external)))))"

subsection \<open>Haproxy in an instance\<close>

definition haproxy_launch_options :: "'w managerHaproxy \<Rightarrow> LaunchOptions \<Rightarrow> LaunchOptions" where
  "haproxy_launch_options l base =
     (let img = lb_Image (hp_spec l)
      in WithImage
          (WithConfig (WithFlavor (WithProfiles base (lb_Profiles (hp_spec l))) (lb_Flavor (hp_spec l)))
            [(''user.cluster-name'', hp_clusterName l), (''user.cluster-namespace'', hp_clusterNamespace l),
             (''user.cluster-role'', ''loadbalancer'')])
          (Some (PlainImage \<lparr>im_Fingerprint = img_Fingerprint img, im_Protocol = img_Protocol img,
                            im_Server = img_Server img, im_Alias = img_Name img\<rparr>)))"

definition launch_haproxy ::
  "'w managerHaproxy \<Rightarrow> go_context \<Rightarrow> LaunchOptions \<Rightarrow> (request, 'w, string list) io_err" where
  "launch_haproxy l ctx opts =
     guard_err (WaitForLaunchInstance (WithTarget (hp_lxcClient l) (lb_Target (hp_spec l))) ctx (hp_name l) opts)
       (Errorf ''failed to create load balancer instance: '')
       (\<lambda>addrs. ret (Inr addrs))"

definition Create_LXC :: "'w managerHaproxy \<Rightarrow> go_context \<Rightarrow> (request, 'w, string list) io_err" where
  "Create_LXC l ctx = launch_haproxy l ctx (haproxy_launch_options l HaproxyLXCLaunchOptions)"

definition Create_OCI :: "'w managerHaproxy \<Rightarrow> go_context \<Rightarrow> (request, 'w, string list) io_err" where
  "Create_OCI l ctx =
     guard_err (ret (SupportsInstanceOCI (hp_lxcClient l))) (Errorf ''server does not support OCI containers: '')
       (\<lambda>_. launch_haproxy l ctx (haproxy_launch_options l HaproxyOCILaunchOptions))"

definition Delete_haproxy :: "'w managerHaproxy \<Rightarrow> go_context \<Rightarrow> (request, 'w, unit) io_err" where
  "Delete_haproxy l ctx =
     guard_err (WaitForDeleteInstance (hp_lxcClient l) ctx (hp_name l))
       (Errorf ''failed to delete load balancer instance: '') (\<lambda>_. ret (Inr ()))"

definition haproxy_file :: "string \<Rightarrow> InstanceFileArgs" where
  "haproxy_file content =
     \<lparr>fa_Content = content, fa_Mode = 288, fa_UID = 0, fa_GID = 0, fa_Type = ''file'', fa_WriteMode = ''overwrite''\<rparr>"

text \<open>The two \<^verbatim>\<open>Reconfigure\<close> methods differ in the path, the reload command and one message (mode 0440 is 288).\<close>

definition reconfigure_haproxy ::
  "TemplateEngine \<Rightarrow> string \<Rightarrow> string list \<Rightarrow> string \<Rightarrow> 'w managerHaproxy \<Rightarrow> go_context \<Rightarrow> (request, 'w, unit) io_err" where
  "reconfigure_haproxy te path reload reload_failed l ctx =
     do { ctx \<leftarrow> WithTimeout ctx loadBalancerReconfigureTimeout;
          guard_err (getLoadBalancerConfiguration (hp_lxcClient l)
                       [filterClusterControlPlaneInstances (hp_clusterName l) (hp_clusterNamespace l)])
            (Errorf ''failed to build load balancer configuration: '')
            (\<lambda>conf.
               let haproxyTemplate = (if customHAProxyConfigTemplate l \<noteq> '''' then customHAProxyConfigTemplate l
                                      else DefaultHaproxyTemplate)
               in guard_err (ret (renderHaproxyConfiguration te conf haproxyTemplate))
                    (Errorf ''failed to render load balancer config: '')
                    (\<lambda>haproxyCfg. guard_err
                       (incus_call (hp_lxcClient l) (ReqCreateInstanceFile (hp_name l) path (haproxy_file haproxyCfg))
                          (srv_CreateInstanceFile (cli_server (hp_lxcClient l)) (hp_name l) path (haproxy_file haproxyCfg)))
                       (Errorf ''failed to write haproxy config: '')
                       (\<lambda>_. guard_err (RunCommand (hp_lxcClient l) ctx (hp_name l) reload None)
                          (Errorf reload_failed) (\<lambda>_. ret (Inr ()))))) }"

definition Reconfigure_LXC :: "TemplateEngine \<Rightarrow> 'w managerHaproxy \<Rightarrow> go_context \<Rightarrow> (request, 'w, unit) io_err" where
  "Reconfigure_LXC te = reconfigure_haproxy te ''/etc/haproxy/haproxy.cfg''
     [''systemctl'', ''reload'', ''haproxy.service''] ''failed to reload haproxy service: ''"

definition Reconfigure_OCI :: "TemplateEngine \<Rightarrow> 'w managerHaproxy \<Rightarrow> go_context \<Rightarrow> (request, 'w, unit) io_err" where
  "Reconfigure_OCI te = reconfigure_haproxy te ''/usr/local/etc/haproxy/haproxy.cfg''
     [''kill'', ''--signal'', ''SIGUSR2'', ''1''] ''failed to send SIGUSR2 to haproxy pids: ''"

subsection \<open>Network load balancer\<close>

definition ovn_owner :: "'w managerOVN \<Rightarrow> string gomap" where
  "ovn_owner l = [(''user.cluster-name'', ov_clusterName l), (''user.cluster-namespace'', ov_clusterNamespace l)]"

definition Create_OVN :: "'w managerOVN \<Rightarrow> go_context \<Rightarrow> (request, 'w, string list) io_err" where
  "Create_OVN l ctx =
     (let c = ov_lxcClient l; srv = cli_server c; net = networkName l; addr = listenAddress l in
      if net = '''' then
        ret (Inl (TerminalError (Err ''network load balancer cannot be provisioned as .spec.loadBalancer.ovn.networkName is not specified'')))
      else guard_err (ret (SupportsNetworkLoadBalancers c)) (Errorf ''server does not support network load balancers: '')
        (\<lambda>_. guard_err (incus_call c (ReqGetNetwork net) (srv_GetNetwork srv net))
          (\<lambda>err. TerminalError (Errorf (''failed to check network '' @ quote net @ '': '') err))
          (\<lambda>_. do {
             r \<leftarrow> incus_call c (ReqGetNetworkLoadBalancer net addr) (srv_GetNetworkLoadBalancer srv net addr);
             case r of
               Inl err \<Rightarrow>
                 if \<not> Contains (error_msg err) ''Network load balancer not found''
                 then ret (Inl (Errorf ''failed to GetNetworkLoadBalancer: '' err))
                 else (let put = \<lparr>nl_Config = ovn_owner l, nl_Backends = [], nl_Ports = []\<rparr>
                       in guard_err (incus_call c (ReqCreateNetworkLoadBalancer net addr put)
                                       (srv_CreateNetworkLoadBalancer srv net addr put))
                            (Errorf ''failed to CreateNetworkLoadBalancer: '')
                            (\<lambda>_. ret (Inr [addr])))
             | Inr lb \<Rightarrow>
                 if get_str (nl_Config lb) ''user.cluster-name'' \<noteq> ov_clusterName l
                    \<or> get_str (nl_Config lb) ''user.cluster-namespace'' \<noteq> ov_clusterNamespace l
                 then ret (Inl (TerminalError (Err (''conflict: a LoadBalancer with IP '' @ addr
                        @ '' already exists without the required keys user.cluster-name='' @ ov_clusterName l
                        @ '' and user.cluster-namespace='' @ ov_clusterNamespace l))))
                 else ret (Inr [addr]) })))"

definition Delete_OVN :: "'w managerOVN \<Rightarrow> go_context \<Rightarrow> (request, 'w, unit) io_err" where
  "Delete_OVN l ctx =
     do { r \<leftarrow> incus_call (ov_lxcClient l) (ReqDeleteNetworkLoadBalancer (networkName l) (listenAddress l))
                 (srv_DeleteNetworkLoadBalancer (cli_server (ov_lxcClient l)) (networkName l) (listenAddress l));
          case r of
            Inl err \<Rightarrow>
              if \<not> Contains (error_msg err) ''not found''
              then ret (Inl (Errorf ''failed to DeleteNetworkLoadBalancer: '' err)) else ret (Inr ())
          | Inr _ \<Rightarrow> ret (Inr ()) }"

definition ovn_config :: "'w managerOVN \<Rightarrow> configData \<Rightarrow> NetworkLoadBalancerPut" where
  "ovn_config l conf =
     \<lparr>nl_Config = ovn_owner l @
        [(''healthcheck'', ''true''), (''healthcheck.interval'', ''5''), (''healthcheck.timeout'', ''5''),
         (''healthcheck.failure_count'', ''3''), (''healthcheck.success_count'', ''2'')],
      nl_Backends = map (\<lambda>(name, backend). \<lparr>nb_Name = name, nb_TargetPort = BackendControlPlanePort conf,
                             nb_TargetAddress = be_Address backend\<rparr>) (BackendServers conf),
      nl_Ports = [\<lparr>np_ListenPort = FrontendControlPlanePort conf, np_Protocol = ''tcp'',
                   np_TargetBackend = map fst (BackendServers conf)\<rparr>]\<rparr>"

definition Reconfigure_OVN :: "'w managerOVN \<Rightarrow> go_context \<Rightarrow> (request, 'w, unit) io_err" where
  "Reconfigure_OVN l ctx =
     do { ctx \<leftarrow> WithTimeout ctx loadBalancerReconfigureTimeout;
          guard_err (getLoadBalancerConfiguration (ov_lxcClient l)
                       [filterClusterControlPlaneInstances (ov_clusterName l) (ov_clusterNamespace l)])
            (Errorf ''failed to build load balancer configuration: '')
            (\<lambda>conf. guard_err
               (incus_call (ov_lxcClient l)
                  (ReqUpdateNetworkLoadBalancer (networkName l) (listenAddress l) (ovn_config l conf))
                  (srv_UpdateNetworkLoadBalancer (cli_server (ov_lxcClient l)) (networkName l) (listenAddress l)
                     (ovn_config l conf)))
               (Errorf ''failed to UpdateNetworkLoadBalancer: '') (\<lambda>_. ret (Inr ()))) }"

subsection \<open>External and kube-vip\<close>

definition Create_External :: "'w managerExternal \<Rightarrow> go_context \<Rightarrow> (request, 'w, string list) io_err" where
  "Create_External l ctx =
     (if ex_address l = ''''
      then ret (Inl (TerminalError (Err ''using external load balancer but no address is configured'')))
      else ret (Inr [ex_address l]))"

definition Create_KubeVIP :: "'w managerKubeVIP \<Rightarrow> go_context \<Rightarrow> (request, 'w, string list) io_err" where
  "Create_KubeVIP l ctx =
     (if kv_address l = ''''
      then ret (Inl (TerminalError (Err ''using KubeVIP load balancer but no address is configured'')))
      else ret (Inr [kv_address l]))"

text \<open>\<^verbatim>\<open>Delete\<close> and \<^verbatim>\<open>Reconfigure\<close> of both only log.\<close>

definition nothing_to_do :: "go_context \<Rightarrow> (request, 'w, unit) io_err" where
  "nothing_to_do ctx = ret (Inr ())"

definition getManifestPath :: "'w managerKubeVIP \<Rightarrow> string" where
  "getManifestPath l =
     (if length (manifestPath l) > 0 then manifestPath l else ''/etc/kubernetes/manifests/kube-vip.yaml'')"

definition getImage :: "'w managerKubeVIP \<Rightarrow> string" where
  "getImage l = (if length (kv_image l) > 0 then kv_image l else ''ghcr.io/kube-vip/kube-vip:v0.6.4'')"

definition getKubeconfigPath :: "'w managerKubeVIP \<Rightarrow> bool \<Rightarrow> string" where
  "getKubeconfigPath l controlPlaneInitialized =
     (if length (kubeconfigPath l) \<noteq> 0 then kubeconfigPath l
      else if \<not> controlPlaneInitialized then ''/etc/kubernetes/super-admin.conf''
      else ''/etc/kubernetes/admin.conf'')"

definition ControlPlaneInstanceTemplates_KubeVIP :: "'w managerKubeVIP \<Rightarrow> bool \<Rightarrow> go_error + string gomap" where
  "ControlPlaneInstanceTemplates_KubeVIP l controlPlaneInitialized =
     (case renderKubeVIPConfiguration
             \<lparr>kt_Interface = interfaceName l, kt_Address = kv_address l, kt_Image = getImage l,
              kt_KubeconfigPath = getKubeconfigPath l controlPlaneInitialized\<rparr> of
        Inl err \<Rightarrow> Inl (TerminalError (Errorf ''failed to generate KubeVIP config file: '' err))
      | Inr b \<Rightarrow> Inr [(getManifestPath l, b)])"

subsection \<open>The interface\<close>

fun Create :: "'w Manager \<Rightarrow> go_context \<Rightarrow> (request, 'w, string list) io_err" where
  "Create (ManagerLXC l) ctx = Create_LXC l ctx"
| "Create (ManagerOCI l) ctx = Create_OCI l ctx"
| "Create (ManagerOVN l) ctx = Create_OVN l ctx"
| "Create (ManagerExternal l) ctx = Create_External l ctx"
| "Create (ManagerKubeVIP l) ctx = Create_KubeVIP l ctx"

fun Delete :: "'w Manager \<Rightarrow> go_context \<Rightarrow> (request, 'w, unit) io_err" where
  "Delete (ManagerLXC l) ctx = Delete_haproxy l ctx"
| "Delete (ManagerOCI l) ctx = Delete_haproxy l ctx"
| "Delete (ManagerOVN l) ctx = Delete_OVN l ctx"
| "Delete (ManagerExternal l) ctx = nothing_to_do ctx"
| "Delete (ManagerKubeVIP l) ctx = nothing_to_do ctx"

fun Reconfigure :: "TemplateEngine \<Rightarrow> 'w Manager \<Rightarrow> go_context \<Rightarrow> (request, 'w, unit) io_err" where
  "Reconfigure te (ManagerLXC l) ctx = Reconfigure_LXC te l ctx"
| "Reconfigure te (ManagerOCI l) ctx = Reconfigure_OCI te l ctx"
| "Reconfigure te (ManagerOVN l) ctx = Reconfigure_OVN l ctx"
| "Reconfigure te (ManagerExternal l) ctx = nothing_to_do ctx"
| "Reconfigure te (ManagerKubeVIP l) ctx = nothing_to_do ctx"

fun ControlPlaneInstanceTemplates :: "'w Manager \<Rightarrow> bool \<Rightarrow> go_error + string gomap" where
  "ControlPlaneInstanceTemplates (ManagerKubeVIP l) initialized = ControlPlaneInstanceTemplates_KubeVIP l initialized"
| "ControlPlaneInstanceTemplates _ initialized = Inr []"

section \<open>Properties\<close>

subsection \<open>What a manager may ask for\<close>

fun nlb_request :: "string \<Rightarrow> string \<Rightarrow> incus_request \<Rightarrow> bool" where
  "nlb_request net addr (ReqGetNetwork n) = (n = net)"
| "nlb_request net addr (ReqGetNetworkLoadBalancer n a) = (n = net \<and> a = addr)"
| "nlb_request net addr (ReqCreateNetworkLoadBalancer n a _) = (n = net \<and> a = addr)"
| "nlb_request net addr _ = False"

fun configure_request :: "string \<Rightarrow> string \<Rightarrow> string list \<Rightarrow> incus_request \<Rightarrow> bool" where
  "configure_request n path reload ReqGetInstancesFull = True"
| "configure_request n path reload (ReqCreateInstanceFile m p _) = (m = n \<and> p = path)"
| "configure_request n path reload (ReqExecInstance m cmd stdin) = (m = n \<and> cmd = reload \<and> stdin = None)"
| "configure_request n path reload (ReqWaitOperation _) = True"
| "configure_request n path reload _ = False"

definition incus_kind :: "(incus_request \<Rightarrow> bool) \<Rightarrow> request \<Rightarrow> bool" where
  "incus_kind P r = (case r of Incus _ q \<Rightarrow> P q | _ \<Rightarrow> False)"

lemma incus_kind_Incus [simp]: "incus_kind P (Incus t q) = P q"
  by (simp add: incus_kind_def)

lemma sends_kind: "sends c P r \<Longrightarrow> incus_kind P r"
  by (cases r) (auto simp: incus_kind_def sends_def)

text \<open>
  The requests that creating, deleting and reconfiguring the load balancer of a manager may send:
  only requests about its own instance, or its own network load balancer.
\<close>

fun lb_provisions :: "'w Manager \<Rightarrow> request \<Rightarrow> bool" where
  "lb_provisions (ManagerLXC l) = incus_kind (launch_request (hp_name l))"
| "lb_provisions (ManagerOCI l) = incus_kind (launch_request (hp_name l))"
| "lb_provisions (ManagerOVN l) = incus_kind (nlb_request (networkName l) (listenAddress l))"
| "lb_provisions _ = (\<lambda>_. False)"

fun lb_reclaims :: "'w Manager \<Rightarrow> request \<Rightarrow> bool" where
  "lb_reclaims (ManagerLXC l) = incus_kind (delete_request (hp_name l))"
| "lb_reclaims (ManagerOCI l) = incus_kind (delete_request (hp_name l))"
| "lb_reclaims (ManagerOVN l) = incus_kind (\<lambda>q. q = ReqDeleteNetworkLoadBalancer (networkName l) (listenAddress l))"
| "lb_reclaims _ = (\<lambda>_. False)"

fun lb_configures :: "'w Manager \<Rightarrow> request \<Rightarrow> bool" where
  "lb_configures (ManagerLXC l) = incus_kind (configure_request (hp_name l) ''/etc/haproxy/haproxy.cfg''
      [''systemctl'', ''reload'', ''haproxy.service''])"
| "lb_configures (ManagerOCI l) = incus_kind (configure_request (hp_name l) ''/usr/local/etc/haproxy/haproxy.cfg''
      [''kill'', ''--signal'', ''SIGUSR2'', ''1''])"
| "lb_configures (ManagerOVN l) = incus_kind (\<lambda>q. q = ReqGetInstancesFull
      \<or> (\<exists>put. q = ReqUpdateNetworkLoadBalancer (networkName l) (listenAddress l) put))"
| "lb_configures _ = (\<lambda>_. False)"

subsection \<open>The contract of a manager\<close>

locale lb_manager =
  fixes create :: "go_context \<Rightarrow> (request, 'w, string list) io_err"
    and delete :: "go_context \<Rightarrow> (request, 'w, unit) io_err"
    and reconfigure :: "go_context \<Rightarrow> (request, 'w, unit) io_err"
    and provisions :: "request \<Rightarrow> bool"
    and reclaims :: "request \<Rightarrow> bool"
    and configures :: "request \<Rightarrow> bool"
  assumes create_nonempty: "run_state (create ctx) s = (Inr addrs, s') \<Longrightarrow> addrs \<noteq> []"
    and create_issues: "issues provisions (create ctx)"
    and delete_issues: "issues reclaims (delete ctx)"
    and reconfigure_issues: "issues configures (reconfigure ctx)"
begin

lemma create_first:
  assumes "run_state (create ctx) s = (Inr addrs, s')"
  obtains a rest where "addrs = a # rest"
  using create_nonempty [OF assms] by (cases addrs) auto

lemma create_wp: "wp (create ctx) (\<lambda>r _. \<forall>addrs. r = Inr addrs \<longrightarrow> addrs \<noteq> []) s"
  by (rule wpI) (auto dest: create_nonempty)

lemma lifecycle_issues:
  "issues (\<lambda>r. provisions r \<or> configures r \<or> reclaims r)
     (do { a \<leftarrow> create ctx; b \<leftarrow> reconfigure ctx'; d \<leftarrow> delete ctx''; ret (a, b, d) })"
  by (intro issues_intros) (auto intro: issues_mono [OF create_issues] issues_mono [OF delete_issues]
      issues_mono [OF reconfigure_issues])

end

lemma issues_launch_haproxy:
  "issues (incus_kind (launch_request (hp_name l))) (launch_haproxy l ctx opts)"
  unfolding launch_haproxy_def
  by (intro issues_intros issues_mono [OF issues_WaitForLaunchInstance]) (erule sends_kind)

lemma issues_Delete_haproxy:
  "issues (incus_kind (delete_request (hp_name l))) (Delete_haproxy l ctx)"
  unfolding Delete_haproxy_def
  by (intro issues_intros issues_mono [OF issues_WaitForDeleteInstance]) (erule sends_kind)

lemma issues_ListInstances [issues_intros]:
  "P (Incus (cli_target c) ReqGetInstancesFull) \<Longrightarrow> issues P (ListInstances c filters)"
  unfolding ListInstances_def by (intro issues_intros)

lemma issues_getLoadBalancerConfiguration [issues_intros]:
  "P (Incus (cli_target c) ReqGetInstancesFull) \<Longrightarrow> issues P (getLoadBalancerConfiguration c filters)"
  unfolding getLoadBalancerConfiguration_def by (intro issues_intros)

lemma issues_reconfigure_haproxy:
  "issues (incus_kind (configure_request (hp_name l) path reload)) (reconfigure_haproxy te path reload msg l ctx)"
  unfolding reconfigure_haproxy_def Let_def by (intro issues_intros) simp_all

lemma launch_haproxy_nonempty:
  "run_state (launch_haproxy l ctx opts) s = (Inr addrs, s') \<Longrightarrow> addrs \<noteq> []"
  unfolding launch_haproxy_def by (erule guard_err_InrE) (auto dest: WaitForLaunchInstance_nonempty)

interpretation lb_lxc: lb_manager "Create_LXC l" "Delete_haproxy l" "Reconfigure_LXC te l"
    "lb_provisions (ManagerLXC l)" "lb_reclaims (ManagerLXC l)" "lb_configures (ManagerLXC l)"
  for l :: "'w managerHaproxy" and te
  by unfold_locales
     (simp_all add: Create_LXC_def Reconfigure_LXC_def launch_haproxy_nonempty issues_launch_haproxy
        issues_Delete_haproxy issues_reconfigure_haproxy)

interpretation lb_oci: lb_manager "Create_OCI l" "Delete_haproxy l" "Reconfigure_OCI te l"
    "lb_provisions (ManagerOCI l)" "lb_reclaims (ManagerOCI l)" "lb_configures (ManagerOCI l)"
  for l :: "'w managerHaproxy" and te
proof unfold_locales
  show "run_state (Create_OCI l ctx) s = (Inr addrs, s') \<Longrightarrow> addrs \<noteq> []" for ctx s addrs s'
    unfolding Create_OCI_def by (erule guard_err_InrE) (rule launch_haproxy_nonempty)
  show "issues (lb_provisions (ManagerOCI l)) (Create_OCI l ctx)" for ctx
    unfolding Create_OCI_def lb_provisions.simps by (intro issues_intros issues_launch_haproxy)
qed (simp_all add: Reconfigure_OCI_def issues_Delete_haproxy issues_reconfigure_haproxy)

interpretation lb_ovn: lb_manager "Create_OVN l" "Delete_OVN l" "Reconfigure_OVN l"
    "lb_provisions (ManagerOVN l)" "lb_reclaims (ManagerOVN l)" "lb_configures (ManagerOVN l)"
  for l :: "'w managerOVN"
proof unfold_locales
  show "run_state (Create_OVN l ctx) s = (Inr addrs, s') \<Longrightarrow> addrs \<noteq> []" for ctx s addrs s'
    unfolding Create_OVN_def Let_def
    by (auto elim!: guard_err_InrE run_bindE split: if_splits sum.splits simp del: run_state_bind)
  show "issues (lb_provisions (ManagerOVN l)) (Create_OVN l ctx)" for ctx
    unfolding Create_OVN_def Let_def by (intro issues_intros) simp_all
  show "issues (lb_reclaims (ManagerOVN l)) (Delete_OVN l ctx)" for ctx
    unfolding Delete_OVN_def by (intro issues_intros) simp_all
  show "issues (lb_configures (ManagerOVN l)) (Reconfigure_OVN l ctx)" for ctx
    unfolding Reconfigure_OVN_def by (intro issues_intros) simp_all
qed

interpretation lb_external: lb_manager "Create_External l" nothing_to_do nothing_to_do
    "lb_provisions (ManagerExternal l)" "lb_reclaims (ManagerExternal l)" "lb_configures (ManagerExternal l)"
  for l :: "'w managerExternal"
  by unfold_locales
     (auto simp: Create_External_def nothing_to_do_def intro!: issues_intros split: if_splits)

interpretation lb_kubevip: lb_manager "Create_KubeVIP l" nothing_to_do nothing_to_do
    "lb_provisions (ManagerKubeVIP l)" "lb_reclaims (ManagerKubeVIP l)" "lb_configures (ManagerKubeVIP l)"
  for l :: "'w managerKubeVIP"
  by unfold_locales
     (auto simp: Create_KubeVIP_def nothing_to_do_def intro!: issues_intros split: if_splits)

text \<open>The interface itself, whatever the implementation behind it.\<close>

lemma dispatch:
  "Create (ManagerLXC l) = Create_LXC l" "Create (ManagerOCI l) = Create_OCI l"
  "Create (ManagerOVN v) = Create_OVN v" "Create (ManagerExternal e) = Create_External e"
  "Create (ManagerKubeVIP k) = Create_KubeVIP k"
  "Delete (ManagerLXC l) = Delete_haproxy l" "Delete (ManagerOCI l) = Delete_haproxy l"
  "Delete (ManagerOVN v) = Delete_OVN v" "Delete (ManagerExternal e) = nothing_to_do"
  "Delete (ManagerKubeVIP k) = nothing_to_do"
  "Reconfigure te (ManagerLXC l) = Reconfigure_LXC te l" "Reconfigure te (ManagerOCI l) = Reconfigure_OCI te l"
  "Reconfigure te (ManagerOVN v) = Reconfigure_OVN v" "Reconfigure te (ManagerExternal e) = nothing_to_do"
  "Reconfigure te (ManagerKubeVIP k) = nothing_to_do"
  by (simp_all add: fun_eq_iff)

interpretation lb: lb_manager "Create m" "Delete m" "Reconfigure te m"
    "lb_provisions m" "lb_reclaims m" "lb_configures m"
  for m :: "'w Manager" and te
  by (cases m)
     (simp_all only: dispatch lb_lxc.lb_manager_axioms lb_oci.lb_manager_axioms lb_ovn.lb_manager_axioms
        lb_external.lb_manager_axioms lb_kubevip.lb_manager_axioms)

subsection \<open>The contract on the program's managers\<close>

text \<open>
  C9: Whichever load balancer a cluster uses, a successful \<^verbatim>\<open>Create\<close> answers at least one address;
  \<^verbatim>\<open>Create\<close> sends only requests that create or read the cluster's own load balancer, \<^verbatim>\<open>Delete\<close>
  only requests that stop or delete it, \<^verbatim>\<open>Reconfigure\<close> only requests that list the instances,
  write its configuration (the file of haproxy, or the network load balancer) and run the command that makes haproxy reload it.
\<close>

theorem Manager_contract:
  "(\<forall>addrs. fst (run_state (Create m ctx) s) = Inr addrs \<longrightarrow> addrs \<noteq> [])
   \<and> (\<exists>rs. trace (snd (run_state (Create m ctx) s)) = trace s @ rs \<and> list_all (lb_provisions m) rs)
   \<and> (\<exists>rs. trace (snd (run_state (Delete m ctx) s)) = trace s @ rs \<and> list_all (lb_reclaims m) rs)
   \<and> (\<exists>rs. trace (snd (run_state (Reconfigure te m ctx) s)) = trace s @ rs \<and> list_all (lb_configures m) rs)"
  using lb.create_nonempty [of m ctx s] issuesD [OF lb.create_issues [of m ctx]]
    issuesD [OF lb.delete_issues [of m ctx]] issuesD [OF lb.reconfigure_issues [of m te ctx]]
  by (metis prod.collapse)

definition sample_external :: "unit Manager" where
  "sample_external = ManagerExternal \<lparr>ex_lxcClient = sample_client refusing_server, ex_clusterName = ''c'',
     ex_clusterNamespace = ''ns'', ex_address = ''10.0.0.9''\<rparr>"

theorem Manager_contract_witness:
  "fst (run_state (Create sample_external Background) (initial_world ())) = Inr [''10.0.0.9'']
   \<and> (\<exists>rs. trace (snd (run_state (Create sample_external Background) (initial_world ()))) = rs
        \<and> list_all (lb_provisions sample_external) rs)"
proof
  show "fst (run_state (Create sample_external Background) (initial_world ())) = Inr [''10.0.0.9'']"
    by (simp add: sample_external_def Create_External_def)
  show "\<exists>rs. trace (snd (run_state (Create sample_external Background) (initial_world ()))) = rs
        \<and> list_all (lb_provisions sample_external) rs"
    using Manager_contract [of sample_external Background "initial_world ()"] by simp
qed

subsection \<open>Backends\<close>

definition backend_of :: "InstanceFull \<Rightarrow> backendServer" where
  "backend_of i = \<lparr>be_Address = hd (ParseHostAddresses (i_State i)), be_Weight = 100\<rparr>"

lemma map_of_add_backends:
  "distinct (map i_Name is) \<Longrightarrow>
   map_of (add_backends is m) n =
     (case find (\<lambda>i. i_Name i = n \<and> ParseHostAddresses (i_State i) \<noteq> []) is of
        Some i \<Rightarrow> Some (backend_of i) | None \<Rightarrow> map_of m n)"
proof (induction "is" m rule: add_backends.induct)
  case (2 i rest m)
  have other: "find (\<lambda>j. i_Name j = n \<and> ParseHostAddresses (i_State j) \<noteq> []) rest = None" if "i_Name i = n"
    using "2.prems" that by (auto simp: find_None_iff) (metis image_eqI)
  show ?case
    using "2.IH" "2.prems" other
    by (cases "ParseHostAddresses (i_State i)") (auto simp: backend_of_def split: option.splits)
qed simp

lemma wf_add_backends: "wf_map m \<Longrightarrow> wf_map (add_backends is m)"
  by (induction "is" m rule: add_backends.induct) (auto split: list.splits)

text \<open>The backends of a configuration are the instances that pass the filters and have an address.\<close>

lemma selected_backends:
  assumes "distinct (map i_Name instances)"
  shows "map_of (add_backends (filter_instances fs instances) []) n = Some b \<longleftrightarrow>
     (\<exists>i. i \<in> set instances \<and> i_Name i = n \<and> list_all (\<lambda>f. f i) fs
        \<and> (\<exists>rest. ParseHostAddresses (i_State i) = be_Address b # rest) \<and> be_Weight b = 100)"
proof -
  let ?is = "filter_instances fs instances" and ?P = "\<lambda>i. i_Name i = n \<and> ParseHostAddresses (i_State i) \<noteq> []"
  have d: "distinct (map i_Name ?is)"
    using assms by (simp add: filter_instances_eq distinct_map_filter)
  have b: "ParseHostAddresses (i_State i) \<noteq> [] \<and> b = backend_of i \<longleftrightarrow>
      (\<exists>rest. ParseHostAddresses (i_State i) = be_Address b # rest) \<and> be_Weight b = 100" for i
    by (cases "ParseHostAddresses (i_State i)") (auto simp: backend_of_def)
  have mem: "i \<in> set ?is \<longleftrightarrow> i \<in> set instances \<and> list_all (\<lambda>f. f i) fs" for i
    by (auto simp: filter_instances_eq list_all_iff)
  have "map_of (add_backends ?is []) n = Some b \<longleftrightarrow> (\<exists>i. i \<in> set ?is \<and> ?P i \<and> b = backend_of i)"
  proof (cases "find ?P ?is")
    case None
    then have "map_of (add_backends ?is []) n = None" using map_of_add_backends [OF d, of "[]" n] by simp
    with None show ?thesis by (auto simp: find_None_iff)
  next
    case (Some i)
    then have i: "i \<in> set ?is" "?P i" by (auto simp: find_Some_iff)
    have same: "j = i" if "j \<in> set ?is" "i_Name j = n" for j
      using inj_onD [of i_Name "set ?is" j i] d that i by (simp add: distinct_map)
    have m: "map_of (add_backends ?is []) n = Some (backend_of i)" using Some map_of_add_backends [OF d, of "[]" n] by simp
    show ?thesis
    proof
      assume "map_of (add_backends ?is []) n = Some b"
      with m i show "\<exists>i. i \<in> set ?is \<and> ?P i \<and> b = backend_of i" by (intro exI [of _ i]) simp
    next
      assume "\<exists>i. i \<in> set ?is \<and> ?P i \<and> b = backend_of i"
      then obtain j where "j \<in> set ?is" "i_Name j = n" "b = backend_of j" by blast
      with same m show "map_of (add_backends ?is []) n = Some b" by metis
    qed
  qed
  then show ?thesis using b mem by blast
qed

lemma run_getLoadBalancerConfiguration:
  assumes "srv_GetInstancesFull (cli_server c) (cli_target c) (outside s) = (Inr instances, d, w)"
  shows "run_state (getLoadBalancerConfiguration c fs) s =
     (Inr \<lparr>FrontendControlPlanePort = ''6443'', BackendControlPlanePort = ''6443'',
           BackendServers = add_backends (filter_instances fs instances) [], cd_IPv6 = False\<rparr>,
      log_call c ReqGetInstancesFull d w s)"
  using assms
  by (simp add: getLoadBalancerConfiguration_def ListInstances_def run_state_guard_err incus_call_def call_def log_call_def)

text \<open>
  C8: The backends of a cluster's load balancer are exactly the instances of the server that carry
  the cluster's name and namespace and the control plane role and have a host address; each is
  reached at its first host address, with weight 100, on port 6443.
\<close>

theorem getLoadBalancerConfiguration_backends:
  assumes srv: "srv_GetInstancesFull (cli_server c) (cli_target c) (outside s) = (Inr instances, d, w)"
    and names: "distinct (map i_Name instances)"
  shows "\<exists>conf. fst (run_state (getLoadBalancerConfiguration c [filterClusterControlPlaneInstances cn ns]) s) = Inr conf
    \<and> FrontendControlPlanePort conf = ''6443'' \<and> BackendControlPlanePort conf = ''6443''
    \<and> wf_map (BackendServers conf)
    \<and> (\<forall>n b. map_of (BackendServers conf) n = Some b \<longleftrightarrow>
         (\<exists>i. i \<in> set instances \<and> i_Name i = n
            \<and> get_str (i_Config i) ''user.cluster-name'' = cn
            \<and> get_str (i_Config i) ''user.cluster-namespace'' = ns
            \<and> get_str (i_Config i) ''user.cluster-role'' = ''control-plane''
            \<and> (\<exists>rest. ParseHostAddresses (i_State i) = be_Address b # rest) \<and> be_Weight b = 100))"
proof -
  let ?fs = "[filterClusterControlPlaneInstances cn ns]"
  have "wf_map (add_backends (filter_instances ?fs instances) [])" by (simp add: wf_add_backends)
  moreover have "filterClusterControlPlaneInstances cn ns i \<longleftrightarrow> get_str (i_Config i) ''user.cluster-name'' = cn
      \<and> get_str (i_Config i) ''user.cluster-namespace'' = ns \<and> get_str (i_Config i) ''user.cluster-role'' = ''control-plane''" for i
    by (auto simp: filterClusterControlPlaneInstances_def WithConfig_filter_def)
  ultimately show ?thesis
    by (simp add: run_getLoadBalancerConfiguration [OF srv] selected_backends [OF names])
qed

definition sample_instance :: "string \<Rightarrow> string \<Rightarrow> InstanceFull" where
  "sample_instance name role =
     \<lparr>i_Name = name, i_Type = Container,
      i_Config = [(''user.cluster-name'', ''c''), (''user.cluster-namespace'', ''ns''), (''user.cluster-role'', role)], i_Devices = [],
      i_State = Some sample_state\<rparr>"

theorem getLoadBalancerConfiguration_backends_witness:
  "\<exists>conf. fst (run_state (getLoadBalancerConfiguration
        (sample_client (refusing_server\<lparr>srv_GetInstancesFull := \<lambda>_ w.
           (Inr [sample_instance ''a'' ''control-plane'', sample_instance ''b'' ''worker''], 1, w)\<rparr>))
        [filterClusterControlPlaneInstances ''c'' ''ns'']) (initial_world ())) = Inr conf
     \<and> map_of (BackendServers conf) ''a'' = Some \<lparr>be_Address = ''10.0.0.2'', be_Weight = 100\<rparr>"
proof -
  let ?c = "sample_client (refusing_server\<lparr>srv_GetInstancesFull := \<lambda>_ w.
      (Inr [sample_instance ''a'' ''control-plane'', sample_instance ''b'' ''worker''], 1, w)\<rparr>) :: unit Client"
  have "srv_GetInstancesFull (cli_server ?c) (cli_target ?c) (outside (initial_world ()))
      = (Inr [sample_instance ''a'' ''control-plane'', sample_instance ''b'' ''worker''], 1, ())"
    by (simp add: sample_client_def)
  from getLoadBalancerConfiguration_backends [OF this, of "''c''" "''ns''"]
  obtain conf where conf: "fst (run_state (getLoadBalancerConfiguration ?c
        [filterClusterControlPlaneInstances ''c'' ''ns'']) (initial_world ())) = Inr conf"
    and b: "\<forall>n b. map_of (BackendServers conf) n = Some b \<longleftrightarrow>
         (\<exists>i. i \<in> set [sample_instance ''a'' ''control-plane'', sample_instance ''b'' ''worker''] \<and> i_Name i = n
            \<and> get_str (i_Config i) ''user.cluster-name'' = ''c''
            \<and> get_str (i_Config i) ''user.cluster-namespace'' = ''ns''
            \<and> get_str (i_Config i) ''user.cluster-role'' = ''control-plane''
            \<and> (\<exists>rest. ParseHostAddresses (i_State i) = be_Address b # rest) \<and> be_Weight b = 100)"
    by (auto simp: sample_instance_def)
  have "map_of (BackendServers conf) ''a'' = Some \<lparr>be_Address = ''10.0.0.2'', be_Weight = 100\<rparr>"
    unfolding b [rule_format]
    by (intro exI [of _ "sample_instance ''a'' ''control-plane''"])
       (simp add: sample_instance_def get_str_def sample_addresses)
  with conf show ?thesis by blast
qed

subsection \<open>Rendering and reconfiguring\<close>

lemma Contains_right: "Contains t sub \<Longrightarrow> Contains (s @ t) sub"
  using Contains_append [of t sub s "[]"] by simp

lemma Contains_left: "Contains s sub \<Longrightarrow> Contains (s @ t) sub"
  using Contains_append [of s sub "[]" t] by simp

lemma Contains_concat_map: "x \<in> set xs \<Longrightarrow> Contains (concat (map f xs)) (f x)"
  by (auto simp: Contains_iff dest!: split_list) blast

lemma default_haproxy_config_Contains:
  "Contains (concat (map (haproxy_server (BackendControlPlanePort data)) (sort_key fst (BackendServers data)))) sub \<Longrightarrow>
   Contains (default_haproxy_config data) sub"
  unfolding default_haproxy_config_def
  by (rule Contains_right, rule Contains_right, rule Contains_right, rule Contains_right, rule Contains_right,
      rule Contains_right, rule Contains_right, rule Contains_right, rule Contains_right, rule Contains_left)

lemma sort_backends_perm:
  assumes "mset m = mset n" and "wf_map n"
  shows "sort_key fst m = sort_key fst n"
proof (rule sort_key_inj_key_eq)
  show "mset m = mset (sort_key fst n)" using assms(1) by simp
  show "inj_on fst (set m)"
    using assms mset_eq_setD [OF assms(1)] by (simp add: wf_map_def distinct_map)
qed simp

text \<open>
  The generated haproxy configuration has a server line for every backend, and does not depend
  on the order in which the map of backends is visited.
\<close>

theorem haproxy_config_backends:
  assumes "wf_map (BackendServers data)"
  shows "(\<forall>n b. map_of (BackendServers data) n = Some b \<longrightarrow>
            Contains (default_haproxy_config data)
              (''  server '' @ n @ '' '' @ JoinHostPort (be_Address b) (BackendControlPlanePort data) @ '' weight ''
               @ fmt_int (be_Weight b) @ '' check check-ssl verify none''))
       \<and> (mset m = mset (BackendServers data) \<longrightarrow>
            default_haproxy_config (data\<lparr>BackendServers := m\<rparr>) = default_haproxy_config data)"
proof (intro conjI allI impI)
  fix n b assume "map_of (BackendServers data) n = Some b"
  then have "(n, b) \<in> set (sort_key fst (BackendServers data))" by (simp add: map_of_SomeD)
  then have "Contains (concat (map (haproxy_server (BackendControlPlanePort data)) (sort_key fst (BackendServers data))))
      (haproxy_server (BackendControlPlanePort data) (n, b))"
    by (rule Contains_concat_map)
  moreover have "Contains (haproxy_server (BackendControlPlanePort data) (n, b))
      (''  server '' @ n @ '' '' @ JoinHostPort (be_Address b) (BackendControlPlanePort data) @ '' weight ''
       @ fmt_int (be_Weight b) @ '' check check-ssl verify none'')"
    unfolding haproxy_server_def prod.case by (rule Contains_right) simp
  ultimately show "Contains (default_haproxy_config data)
      (''  server '' @ n @ '' '' @ JoinHostPort (be_Address b) (BackendControlPlanePort data) @ '' weight ''
       @ fmt_int (be_Weight b) @ '' check check-ssl verify none'')"
    by (intro default_haproxy_config_Contains) (rule Contains_trans)
next
  assume "mset m = mset (BackendServers data)"
  from sort_backends_perm [OF this assms]
  have "sort_key fst (BackendServers (data\<lparr>BackendServers := m\<rparr>)) = sort_key fst (BackendServers data)" by simp
  moreover have "FrontendControlPlanePort (data\<lparr>BackendServers := m\<rparr>) = FrontendControlPlanePort data"
      "BackendControlPlanePort (data\<lparr>BackendServers := m\<rparr>) = BackendControlPlanePort data"
      "cd_IPv6 (data\<lparr>BackendServers := m\<rparr>) = cd_IPv6 data" by simp_all
  ultimately show "default_haproxy_config (data\<lparr>BackendServers := m\<rparr>) = default_haproxy_config data"
    by (simp only: default_haproxy_config_def)
qed

theorem haproxy_config_backends_witness:
  "Contains (default_haproxy_config \<lparr>FrontendControlPlanePort = ''6443'', BackendControlPlanePort = ''6443'',
      BackendServers = [(''b'', \<lparr>be_Address = ''fd42::2'', be_Weight = 100\<rparr>)], cd_IPv6 = False\<rparr>)
     (''  server '' @ ''b'' @ '' '' @ JoinHostPort ''fd42::2'' ''6443'' @ '' weight '' @ fmt_int 100
       @ '' check check-ssl verify none'')
   \<and> JoinHostPort ''fd42::2'' ''6443'' = ''[fd42::2]:6443''"
proof
  let ?d = "\<lparr>FrontendControlPlanePort = ''6443'', BackendControlPlanePort = ''6443'',
      BackendServers = [(''b'', \<lparr>be_Address = ''fd42::2'', be_Weight = 100\<rparr>)], cd_IPv6 = False\<rparr>"
  have "wf_map (BackendServers ?d)" by (simp add: wf_map_def)
  from haproxy_config_backends [OF this, THEN conjunct1, rule_format, of "''b''" "\<lparr>be_Address = ''fd42::2'', be_Weight = 100\<rparr>"]
  show "Contains (default_haproxy_config ?d)
     (''  server '' @ ''b'' @ '' '' @ JoinHostPort ''fd42::2'' ''6443'' @ '' weight '' @ fmt_int 100
       @ '' check check-ssl verify none'')"
    by (simp only: configData.select_convs backendServer.select_convs map_of_Cons_code refl if_True simp_thms)
  show "JoinHostPort ''fd42::2'' ''6443'' = ''[fd42::2]:6443''" by (simp add: JoinHostPort_def)
qed

lemma RunCommand_Inr:
  assumes "run_state (RunCommand c ctx n cmd stdin) s = (Inr u, s')"
  shows "\<exists>oper. trace s' = trace s @ [Incus (cli_target c) (ReqExecInstance n cmd stdin),
                                    Incus (cli_target c) (ReqWaitOperation oper)]"
proof -
  have "wp (RunCommand c ctx n cmd stdin) (\<lambda>r s'. isl r \<or>
      (\<exists>oper. trace s' = trace s @ [Incus (cli_target c) (ReqExecInstance n cmd stdin),
                                  Incus (cli_target c) (ReqWaitOperation oper)])) s"
    by (auto simp: RunCommand_def Let_def wp_simps split: prod.splits sum.splits)
  from wpD [OF this assms] show ?thesis by simp
qed

lemma getLoadBalancerConfiguration_Inr:
  assumes "run_state (getLoadBalancerConfiguration c filters) s = (Inr conf, s')"
  shows "trace s' = trace s @ [Incus (cli_target c) ReqGetInstancesFull]"
  using assms unfolding getLoadBalancerConfiguration_def ListInstances_def
  by (auto elim!: guard_err_InrE dest!: run_incus_call_trace)

lemma reconfigure_haproxy_Inr:
  assumes "run_state (reconfigure_haproxy te path reload msg l ctx) s = (Inr u, s')"
  shows "\<exists>conf cfg oper.
      fst (run_state (getLoadBalancerConfiguration (hp_lxcClient l)
             [filterClusterControlPlaneInstances (hp_clusterName l) (hp_clusterNamespace l)]) s) = Inr conf
    \<and> renderHaproxyConfiguration te conf (if customHAProxyConfigTemplate l = '''' then DefaultHaproxyTemplate
         else customHAProxyConfigTemplate l) = Inr cfg
    \<and> trace s' = trace s @ map (Incus (cli_target (hp_lxcClient l)))
        [ReqGetInstancesFull, ReqCreateInstanceFile (hp_name l) path (haproxy_file cfg),
         ReqExecInstance (hp_name l) reload None, ReqWaitOperation oper]"
proof -
  let ?c = "hp_lxcClient l"
  let ?tmpl = "if customHAProxyConfigTemplate l = '''' then DefaultHaproxyTemplate else customHAProxyConfigTemplate l"
  from assms obtain conf s1 cfg s2 where
      g: "run_state (getLoadBalancerConfiguration ?c
             [filterClusterControlPlaneInstances (hp_clusterName l) (hp_clusterNamespace l)]) s = (Inr conf, s1)"
    and cfg: "renderHaproxyConfiguration te conf ?tmpl = Inr cfg"
    and f: "run_state (incus_call ?c (ReqCreateInstanceFile (hp_name l) path (haproxy_file cfg))
              (srv_CreateInstanceFile (cli_server ?c) (hp_name l) path (haproxy_file cfg))) s1 = (Inr (), s2)"
    and r: "run_state (RunCommand ?c (with_timeout ctx loadBalancerReconfigureTimeout (clock s)) (hp_name l) reload None) s2
              = (Inr (), s')"
    unfolding reconfigure_haproxy_def Let_def
    by (elim run_bindE guard_err_InrE) (simp split: if_splits)
  from RunCommand_Inr [OF r] run_incus_call_trace [OF f] getLoadBalancerConfiguration_Inr [OF g] g cfg
  show ?thesis by auto
qed

text \<open>
  C36: A successful reconfiguration of a haproxy instance lists the instances, writes the configuration
  rendered from them (with the custom template when there is one) to the path haproxy reads, and
  only then makes haproxy reload it.
\<close>

theorem Reconfigure_haproxy_order:
  assumes m: "m = ManagerLXC l \<and> path = ''/etc/haproxy/haproxy.cfg''
                \<and> reload = [''systemctl'', ''reload'', ''haproxy.service'']
              \<or> m = ManagerOCI l \<and> path = ''/usr/local/etc/haproxy/haproxy.cfg''
                \<and> reload = [''kill'', ''--signal'', ''SIGUSR2'', ''1'']"
    and run: "run_state (Reconfigure te m ctx) s = (Inr (), s')"
  shows "\<exists>conf cfg oper.
      fst (run_state (getLoadBalancerConfiguration (hp_lxcClient l)
             [filterClusterControlPlaneInstances (hp_clusterName l) (hp_clusterNamespace l)]) s) = Inr conf
    \<and> renderHaproxyConfiguration te conf (if customHAProxyConfigTemplate l = '''' then DefaultHaproxyTemplate
         else customHAProxyConfigTemplate l) = Inr cfg
    \<and> trace s' = trace s @ map (Incus (cli_target (hp_lxcClient l)))
        [ReqGetInstancesFull, ReqCreateInstanceFile (hp_name l) path (haproxy_file cfg),
         ReqExecInstance (hp_name l) reload None, ReqWaitOperation oper]"
  using m
proof (elim disjE conjE)
  assume "m = ManagerLXC l" "path = ''/etc/haproxy/haproxy.cfg''" "reload = [''systemctl'', ''reload'', ''haproxy.service'']"
  then show ?thesis using run unfolding Reconfigure.simps Reconfigure_LXC_def
    by (simp only: Reconfigure.simps Reconfigure_LXC_def) (rule reconfigure_haproxy_Inr)
next
  assume "m = ManagerOCI l" "path = ''/usr/local/etc/haproxy/haproxy.cfg''"
    "reload = [''kill'', ''--signal'', ''SIGUSR2'', ''1'']"
  then show ?thesis using run
    by (simp only: Reconfigure.simps Reconfigure_OCI_def) (rule reconfigure_haproxy_Inr)
qed

definition sample_haproxy_server :: "'w InstanceServer" where
  "sample_haproxy_server = refusing_server\<lparr>srv_GetInstancesFull := \<lambda>_ w. (Inr [], 1, w),
     srv_CreateInstanceFile := \<lambda>_ _ _ _ w. (Inr (), 1, w), srv_ExecInstance := \<lambda>_ _ _ _ w. (Inr ''op'', 1, w),
     srv_WaitContext := \<lambda>_ _ _ w. (([], Inr ()), 1, w)\<rparr>"

definition sample_haproxy :: "unit managerHaproxy" where
  "sample_haproxy = \<lparr>hp_lxcClient = sample_client sample_haproxy_server, hp_clusterName = ''c'',
     hp_clusterNamespace = ''ns'', hp_name = ''c-lb'',
     hp_spec = \<lparr>lb_Flavor = [], lb_Profiles = [], lb_Image = \<lparr>img_Name = [], img_Fingerprint = [], img_Server = [],
       img_Protocol = []\<rparr>, lb_Target = []\<rparr>, customHAProxyConfigTemplate = []\<rparr>"

definition no_engine :: TemplateEngine where
  "no_engine = \<lparr>te_Parse = \<lambda>_. Inl (Err ''unsupported''), te_Execute = \<lambda>_ _. Inl (Err ''unsupported'')\<rparr>"

theorem Reconfigure_haproxy_order_witness:
  "\<exists>s' cfg oper. run_state (Reconfigure no_engine (ManagerLXC sample_haproxy) Background) (initial_world ()) = (Inr (), s')
     \<and> trace s' = map (Incus []) [ReqGetInstancesFull,
          ReqCreateInstanceFile ''c-lb'' ''/etc/haproxy/haproxy.cfg'' (haproxy_file cfg),
          ReqExecInstance ''c-lb'' [''systemctl'', ''reload'', ''haproxy.service''] None, ReqWaitOperation oper]"
proof -
  have r: "renderHaproxyConfiguration te d DefaultHaproxyTemplate = Inr (default_haproxy_config d)" for te d
    by (simp add: renderHaproxyConfiguration_def)
  obtain s' where run: "run_state (Reconfigure no_engine (ManagerLXC sample_haproxy) Background) (initial_world ()) = (Inr (), s')"
    by (simp add: Reconfigure_LXC_def reconfigure_haproxy_def getLoadBalancerConfiguration_def ListInstances_def
        run_state_guard_err incus_call_def call_def sample_haproxy_def sample_client_def r RunCommand_def
        sample_haproxy_server_def WaitForOperation_updates_def)
  have c: "hp_lxcClient sample_haproxy = sample_client sample_haproxy_server" "hp_name sample_haproxy = ''c-lb''"
      "cli_target (sample_client sample_haproxy_server) = []"
    by (simp_all add: sample_haproxy_def sample_client_def)
  from Reconfigure_haproxy_order [OF _ run, of sample_haproxy "''/etc/haproxy/haproxy.cfg''"
      "[''systemctl'', ''reload'', ''haproxy.service'']"]
  obtain cfg oper where "trace s' = trace (initial_world ()) @ map (Incus (cli_target (hp_lxcClient sample_haproxy)))
        [ReqGetInstancesFull, ReqCreateInstanceFile (hp_name sample_haproxy) ''/etc/haproxy/haproxy.cfg'' (haproxy_file cfg),
         ReqExecInstance (hp_name sample_haproxy) [''systemctl'', ''reload'', ''haproxy.service''] None, ReqWaitOperation oper]"
    by blast
  then have "trace s' = map (Incus []) [ReqGetInstancesFull,
          ReqCreateInstanceFile ''c-lb'' ''/etc/haproxy/haproxy.cfg'' (haproxy_file cfg),
          ReqExecInstance ''c-lb'' [''systemctl'', ''reload'', ''haproxy.service''] None, ReqWaitOperation oper]"
    by (simp only: initial_trace append_Nil c)
  with run show ?thesis by blast
qed

subsection \<open>Network load balancers\<close>

text \<open>
  C35: A network load balancer is created only when none exists at the address, and then labelled with
  the cluster; one that exists and carries the cluster's labels is used as it is; one of another owner is
  a terminal conflict and nothing is created.
\<close>

theorem Create_OVN_exclusive:
  assumes "networkName l \<noteq> ''''" and "SupportsNetworkLoadBalancers (ov_lxcClient l) = Inr ()"
    and "srv_GetNetwork (cli_server (ov_lxcClient l)) (networkName l) (cli_target (ov_lxcClient l)) (outside s) = (Inr net, d, w)"
    and "srv_GetNetworkLoadBalancer (cli_server (ov_lxcClient l)) (networkName l) (listenAddress l)
           (cli_target (ov_lxcClient l)) w = (found, d', w')"
    and run: "run_state (Create_OVN l ctx) s = (r, s')"
  shows "case found of
      Inr lb \<Rightarrow>
        trace s' = trace s @ map (Incus (cli_target (ov_lxcClient l)))
           [ReqGetNetwork (networkName l), ReqGetNetworkLoadBalancer (networkName l) (listenAddress l)]
        \<and> (if get_str (nl_Config lb) ''user.cluster-name'' = ov_clusterName l
              \<and> get_str (nl_Config lb) ''user.cluster-namespace'' = ov_clusterNamespace l
           then r = Inr [listenAddress l] else \<exists>err. r = Inl err \<and> IsTerminalError err)
    | Inl err \<Rightarrow>
        if Contains (error_msg err) ''Network load balancer not found'' then
          trace s' = trace s @ map (Incus (cli_target (ov_lxcClient l)))
             [ReqGetNetwork (networkName l), ReqGetNetworkLoadBalancer (networkName l) (listenAddress l),
              ReqCreateNetworkLoadBalancer (networkName l) (listenAddress l)
                \<lparr>nl_Config = [(''user.cluster-name'', ov_clusterName l), (''user.cluster-namespace'', ov_clusterNamespace l)],
                 nl_Backends = [], nl_Ports = []\<rparr>]
          \<and> (r = Inr [listenAddress l] \<or> (\<exists>e. r = Inl (Errorf ''failed to CreateNetworkLoadBalancer: '' e)))
        else r = Inl (Errorf ''failed to GetNetworkLoadBalancer: '' err)"
  using assms
  by (auto simp: Create_OVN_def Let_def run_state_guard_err incus_call_def call_def ovn_owner_def
      split: sum.splits prod.splits if_splits)

definition sample_ovn :: "(string \<Rightarrow> string \<Rightarrow> (unit, NetworkLoadBalancerPut) srv) \<Rightarrow> unit managerOVN" where
  "sample_ovn lookup = \<lparr>ov_lxcClient = (sample_client (refusing_server\<lparr>srv_GetNetwork := \<lambda>_ _ w. (Inr [], 1, w),
       srv_GetNetworkLoadBalancer := lookup\<rparr>))\<lparr>serverInfo := \<lparr>env_Server = ''incus'', env_Driver = ''lxc'',
         env_Architectures = [], env_ServerClustered = False,
         APIExtensions = [''network_load_balancer'', ''network_load_balancer_health_check'']\<rparr>\<rparr>,
     ov_clusterName = ''c'', ov_clusterNamespace = ''ns'', networkName = ''ovn'', listenAddress = ''10.0.0.9''\<rparr>"

theorem Create_OVN_exclusive_witness:
  "\<exists>err. fst (run_state (Create_OVN (sample_ovn (\<lambda>_ _ _ w. (Inr \<lparr>nl_Config = [], nl_Backends = [], nl_Ports = []\<rparr>, 1, w)))
       Background) (initial_world ())) = Inl err \<and> IsTerminalError err"
proof -
  let ?lb = "\<lparr>nl_Config = [], nl_Backends = [], nl_Ports = []\<rparr>"
  let ?l = "sample_ovn (\<lambda>_ _ _ w. (Inr ?lb, 1, w))"
  obtain r s' where run: "run_state (Create_OVN ?l Background) (initial_world ()) = (r, s')"
    by (cases "run_state (Create_OVN ?l Background) (initial_world ())")
  have l: "networkName ?l \<noteq> ''''" "SupportsNetworkLoadBalancers (ov_lxcClient ?l) = Inr ()"
      "srv_GetNetwork (cli_server (ov_lxcClient ?l)) (networkName ?l) (cli_target (ov_lxcClient ?l))
         (outside (initial_world ())) = (Inr [], 1, ())"
      "srv_GetNetworkLoadBalancer (cli_server (ov_lxcClient ?l)) (networkName ?l) (listenAddress ?l)
         (cli_target (ov_lxcClient ?l)) () = (Inr ?lb, 1, ())"
    by (simp_all add: sample_ovn_def sample_client_def SupportsNetworkLoadBalancers_def serverSupportsExtensions_def)
  from Create_OVN_exclusive [OF l run] run show ?thesis
    by (simp add: sample_ovn_def get_str_def)
qed

end
