(* ===== verification/Controllers.thy ===== *)
theory Controllers
  imports Load_Balancer
begin

text \<open>
  What the two controllers share: their environment (the Kubernetes API, the Cluster API utilities
  and the libraries the components below take as parameters), results of a reconciliation, the
  credentials of the server, \<^verbatim>\<open>utils.GetMachinesForCluster\<close>, and the deferred patch of the object.
\<close>

section \<open>Environment and results\<close>

record 'w Env =
  x_kube :: "'w KubeClient"
  x_capi :: CAPIUtil
  x_connector :: "'w Connector"
  x_host :: Host
  x_templates :: TemplateEngine
  x_images :: "'w ImageServers"
  x_scripts :: Scripts
  x_unmarshal :: "string \<Rightarrow> go_error + CloudConfig"
  x_marshal :: "CloudConfig \<Rightarrow> go_error + string"

text \<open>\<^verbatim>\<open>ctrl.Result\<close> is the time after which to reconcile again, in milliseconds (zero: not by time).\<close>

type_synonym Result = nat

type_synonym ('w, 'o) reconciled = "(request, 'w, 'o \<times> Result \<times> go_error option) io"
type_synonym 'w outcome = "(request, 'w, Result \<times> go_error option) io"

text \<open>\<^verbatim>\<open>if err != nil { return ctrl.Result{}, err }\<close>\<close>

definition or_return :: "(request, 'w, 'a) io_err \<Rightarrow> ('a \<Rightarrow> 'w outcome) \<Rightarrow> 'w outcome" where
  "or_return m k = do { r \<leftarrow> m; case r of Inl err \<Rightarrow> ret (0, Some err) | Inr x \<Rightarrow> k x }"

text \<open>The credentials secret, and the client made from it.\<close>

definition connect :: "'w Env \<Rightarrow> NamespacedName \<Rightarrow> (request, 'w, 'w Client) io_err" where
  "connect x secret =
     guard_err (call (Kube (KGetSecret secret)) (k_GetSecret (x_kube x) secret))
       (Errorf ''failed to fetch LXC credentials: '')
       (\<lambda>lxcSecret. guard_err (New (x_connector x) (x_host x) (ConfigurationFromKubernetesSecret lxcSecret))
          (Errorf ''failed to create incus client: '') (\<lambda>c. ret (Inr c)))"

text \<open>
  \<^verbatim>\<open>collections.Machines\<close> is a map from names to machines; a machine is kept when all filters accept it.
\<close>

definition FromMachineList :: "Machine list \<Rightarrow> Machine gomap" where
  "FromMachineList ml = foldl (\<lambda>m x. map_set (om_Name (ma_meta x)) x m) [] ml"

definition GetMachinesForCluster ::
  "'w Env \<Rightarrow> NamespacedName \<Rightarrow> (Machine \<Rightarrow> bool) list \<Rightarrow> (request, 'w, Machine gomap) io_err" where
  "GetMachinesForCluster x cluster filters =
     (case cluster of (namespace, name) \<Rightarrow>
        let selector = [(ClusterNameLabel, name)]
        in guard_err (call (Kube (KListMachines namespace selector)) (k_ListMachines (x_kube x) namespace selector))
             (Errorf ''failed to list machines: '')
             (\<lambda>ml. ret (Inr (filter (\<lambda>(_, m). list_all (\<lambda>f. f m) filters) (FromMachineList ml)))))"

section \<open>The deferred patch\<close>

text \<open>
  \<^verbatim>\<open>defer func() { if err := patch(...); err != nil \<and> rerr == nil { rerr = err } }()\<close>
\<close>

definition with_patch ::
  "('w, 'o) reconciled \<Rightarrow> ('o \<Rightarrow> (request, 'w, 'o \<times> go_error option) io) \<Rightarrow> 'w outcome" where
  "with_patch body patch =
     do { (obj, res, rerr) \<leftarrow> body;
          (_, perr) \<leftarrow> patch obj;
          ret (res, case rerr of None \<Rightarrow> perr | Some e \<Rightarrow> Some e) }"

definition has_infra_error :: "string list \<Rightarrow> Condition list \<Rightarrow> bool" where
  "has_infra_error infraConditions cs =
     list_ex (\<lambda>c. c_Type c \<in> set infraConditions \<and> c_Severity c = ConditionSeverityError) cs"

definition error_of :: "go_error + unit \<Rightarrow> go_error option" where
  "error_of r = (case r of Inl e \<Rightarrow> Some e | Inr _ \<Rightarrow> None)"

section \<open>Rules\<close>

lemma issues_or_return [issues_intros]:
  "issues P m \<Longrightarrow> (\<And>x. issues P (k x)) \<Longrightarrow> issues P (or_return m k)"
  unfolding or_return_def by (intro issues_intros)

lemma issues_with_patch [issues_intros]:
  "issues P body \<Longrightarrow> (\<And>obj. issues P (patch obj)) \<Longrightarrow> issues P (with_patch body patch)"
  unfolding with_patch_def by (intro issues_intros)

fun connect_request :: "request \<Rightarrow> bool" where
  "connect_request (Incus _ (ReqConnectIncus _)) = True"
| "connect_request (Incus _ (ReqConnectIncusUnix _)) = True"
| "connect_request (Incus _ ReqGetServer) = True"
| "connect_request (Kube (KGetSecret _)) = True"
| "connect_request _ = False"

lemma issues_connect: "issues connect_request (connect x secret)"
  unfolding connect_def New_def connect_https_def connect_unix_def Let_def
  by (intro issues_intros) simp_all

lemma wp_or_return [wp_simps]:
  "wp (or_return m k) Q s = wp m (\<lambda>r. case r of Inl err \<Rightarrow> Q (0, Some err) | Inr x \<Rightarrow> wp (k x) Q) s"
proof -
  have "(\<lambda>r. wp (case r of Inl err \<Rightarrow> ret (0, Some err) | Inr x \<Rightarrow> k x) Q)
      = (\<lambda>r. case r of Inl err \<Rightarrow> Q (0, Some err) | Inr x \<Rightarrow> wp (k x) Q)"
    by (auto simp: fun_eq_iff wp_ret split: sum.splits)
  then show ?thesis by (simp add: or_return_def wp_bind)
qed

text \<open>
  The contract of a patch, and what follows for a reconciliation that ends with it: the patch sends
  only its own requests and keeps the part of the object that it does not summarise; an error of
  the reconciliation is never masked by the patch.
\<close>

locale object_patch =
  fixes patch :: "'b \<Rightarrow> 'o \<Rightarrow> (request, 'w, 'o \<times> go_error option) io"
    and frame :: "'o \<Rightarrow> 'f"
    and patches :: "'b \<Rightarrow> 'o \<Rightarrow> request \<Rightarrow> bool"
  assumes patch_issues: "issues (patches before obj) (patch before obj)"
    and patch_frame: "run_state (patch before obj) s = ((obj', err), s') \<Longrightarrow> frame obj' = frame obj"
begin

lemma error_not_masked:
  assumes "run_state body s = ((obj, res, Some e), s1)"
  shows "fst (run_state (with_patch body (patch before)) s) = (res, Some e)"
  using assms by (simp add: with_patch_def split: prod.splits)

lemma patch_error_reported:
  assumes "run_state body s = ((obj, res, None), s1)" and "run_state (patch before obj) s1 = ((obj', perr), s2)"
  shows "run_state (with_patch body (patch before)) s = ((res, perr), s2)"
  using assms by (simp add: with_patch_def)

lemma patch_last:
  assumes "run_state body s = ((obj, res, rerr), s1)" and "trace s1 = trace s @ rs"
  shows "\<exists>ps. trace (snd (run_state (with_patch body (patch before)) s)) = trace s @ rs @ ps
            \<and> list_all (patches before obj) ps"
proof -
  obtain obj' perr s2 where p: "run_state (patch before obj) s1 = ((obj', perr), s2)"
    by (metis prod.collapse)
  from issuesD [OF patch_issues p] obtain ps where
    "trace s2 = trace s1 @ ps" "list_all (patches before obj) ps" by blast
  then show ?thesis using assms p by (simp add: with_patch_def)
qed

end

section \<open>A concrete environment\<close>

text \<open>Cluster API utilities that follow their documentation; used where a statement assumes its laws.\<close>

definition sample_capi :: CAPIUtil where
  "sample_capi =
     \<lparr>u_IsControlPlaneMachine = \<lambda>m. map_of (om_Labels (ma_meta m)) ''cluster.x-k8s.io/control-plane'' \<noteq> None,
      u_IsTrue = \<lambda>cs t. list_ex (\<lambda>c. c_Type c = t \<and> c_Status c = ''True'') cs,
      u_MarkTrue = \<lambda>cs t. \<lparr>c_Type = t, c_Status = ''True'', c_Severity = [], c_Reason = [], c_Message = []\<rparr>
                          # filter (\<lambda>c. c_Type c \<noteq> t) cs,
      u_MarkFalse = \<lambda>cs t reason sev msg.
        \<lparr>c_Type = t, c_Status = ''False'', c_Severity = sev, c_Reason = reason, c_Message = msg\<rparr>
        # filter (\<lambda>c. c_Type c \<noteq> t) cs,
      u_SetSummary = \<lambda>cs ts step. cs,
      u_RemoveFinalizer = \<lambda>fs f. filter (\<lambda>g. g \<noteq> f) fs\<rparr>"

lemma find_condition_filter:
  "find (\<lambda>c. c_Type c = t') (filter (\<lambda>c. c_Type c \<noteq> t) cs)
     = (if t' = t then None else find (\<lambda>c. c_Type c = t') cs)"
  by (induction cs) auto

lemma sample_capi_laws: "capi_conditions_law sample_capi" "capi_finalizer_law sample_capi"
  by (simp_all add: capi_conditions_law_def capi_finalizer_law_def sample_capi_def find_condition_def
      find_condition_filter)

definition sample_kube :: "'w KubeClient" where
  "sample_kube =
     \<lparr>k_GetLXCMachine = \<lambda>_ w. (Inl (Err ''not found''), 0, w), k_GetLXCCluster = \<lambda>_ w. (Inl (Err ''not found''), 0, w),
      k_GetSecret = \<lambda>_ w. (Inl (Err ''not found''), 0, w), k_ListMachines = \<lambda>_ _ w. (Inr [], 0, w),
      k_AddOwners = \<lambda>_ w. (Inr (), 0, w), k_GetOwnerMachine = \<lambda>_ w. (Inr None, 0, w),
      k_GetClusterFromMetadata = \<lambda>_ w. (Inr None, 0, w), k_GetOwnerCluster = \<lambda>_ w. (Inr None, 0, w),
      k_EnsurePausedMachine = \<lambda>_ m w. (Inr (m, True, False), 0, w),
      k_EnsurePausedCluster = \<lambda>_ o1 w. (Inr (o1, True, False), 0, w),
      k_EnsureFinalizerMachine = \<lambda>m _ w. (Inr (m, False), 0, w),
      k_EnsureFinalizerCluster = \<lambda>o1 _ w. (Inr (o1, False), 0, w),
      k_NewHelperMachine = \<lambda>_ w. (Inr (), 0, w), k_NewHelperCluster = \<lambda>_ w. (Inr (), 0, w),
      k_PatchMachine = \<lambda>_ _ _ w. (Inr (), 0, w), k_PatchCluster = \<lambda>_ _ _ w. (Inr (), 0, w),
      k_IsNotFound = \<lambda>e. error_msg e = ''not found''\<rparr>"

definition sample_env :: "'w Env" where
  "sample_env =
     \<lparr>x_kube = sample_kube, x_capi = sample_capi,
      x_connector = \<lparr>con_ConnectIncus = \<lambda>_ _ w. (Inr running_server, 1, w),
        con_ConnectIncusUnix = \<lambda>_ w. (Inr running_server, 1, w), con_UseProject = \<lambda>s _. s,
        con_GetServer = \<lambda>_ w. (Inr \<lparr>env_Server = ''incus'', env_Driver = ''lxc'', env_Architectures = [],
          env_ServerClustered = False, APIExtensions = []\<rparr>, 1, w)\<rparr>,
      x_host = sample_host, x_templates = no_engine,
      x_images = \<lparr>img_ConnectSimpleStreams = \<lambda>_ w. (Inr (), 1, w), img_GetImageAliasType = \<lambda>_ _ _ w. (Inr (), 1, w),
        img_CraneHead = \<lambda>_ _ w. (Inr (), 1, w)\<rparr>,
      x_scripts = sample_scripts, x_unmarshal = \<lambda>_. Inr \<lparr>WriteFiles = [], RunCommands = []\<rparr>,
      x_marshal = \<lambda>_. Inr ''{}''\<rparr>"

definition sample_meta :: "string \<Rightarrow> string list \<Rightarrow> ObjectMeta" where
  "sample_meta name fs = \<lparr>om_Name = name, om_Namespace = ''ns'', om_Labels = [], om_Finalizers = fs,
     om_OwnerReferences = [], om_DeletionTimestamp = None\<rparr>"

definition sample_cluster :: Cluster where
  "sample_cluster = \<lparr>cl_meta = sample_meta ''c'' [], cl_InfrastructureRef = Some ''c'', cl_PodCIDRBlocks = None,
     cl_InfrastructureReady = True, cl_Conditions = []\<rparr>"

text \<open>An LXCCluster with an external load balancer.\<close>

definition sample_lxcCluster :: LXCCluster where
  "sample_lxcCluster = \<lparr>c_meta = sample_meta ''c'' [ClusterFinalizer],
     c_spec = \<lparr>ControlPlaneEndpoint = \<lparr>Host = ''10.0.0.9'', Port = 0\<rparr>, SecretRef_Name = ''s'',
       LoadBalancer = \<lparr>lb_LXC = None, lb_OCI = None, lb_OVN = None, lb_KubeVIP = None, lb_External = Some ()\<rparr>,
       Unprivileged = False, SkipDefaultKubeadmProfile = False\<rparr>,
     c_status = \<lparr>c_Ready = False, c_Conditions = [], c_V1Beta2 = None\<rparr>\<rparr>"

lemma sample_manager:
  "ManagerForCluster sample_cluster sample_lxcCluster c
     = ManagerExternal \<lparr>ex_lxcClient = c, ex_clusterName = ''c'', ex_clusterNamespace = ''ns'', ex_address = ''10.0.0.9''\<rparr>"
  by (simp add: ManagerForCluster_def sample_lxcCluster_def sample_cluster_def sample_meta_def)

lemma issues_or_return_call:
  fixes f :: "('w, 'a) api_err"
  assumes "P r" and "\<And>w v d w'. f w = (Inr v, d, w') \<Longrightarrow> issues P (k v)"
  shows "issues P (or_return (call r f) k)"
proof (rule issuesI)
  fix s :: "(request, 'w) world"
  obtain x d w where f: "f (outside s) = (x, d, w)" by (metis prod_cases3)
  show "wp (or_return (call r f) k)
      (\<lambda>_ s'. \<exists>rs. trace s' = trace s @ rs \<and> list_all P rs \<and> clock s \<le> clock s') s"
  proof (cases x)
    case (Inl e)
    then show ?thesis using f assms(1) by (simp add: wp_simps)
  next
    case (Inr v)
    let ?s = "s\<lparr>clock := clock s + d, trace := trace s @ [r], outside := w\<rparr>"
    have "wp (k v) (\<lambda>_ s'. \<exists>rs. trace s' = trace ?s @ rs \<and> list_all P rs \<and> clock ?s \<le> clock s') ?s"
      using assms(2) [of "outside s" v d w] f Inr unfolding issues_def by blast
    then have "wp (k v) (\<lambda>_ s'. \<exists>rs. trace s' = trace s @ rs \<and> list_all P rs \<and> clock s \<le> clock s') ?s"
      by (rule wp_mono) (use assms(1) in force)
    then show ?thesis using f Inr by (simp add: wp_simps)
  qed
qed

end
