(* ===== verification/Cluster_Controller.thy ===== *)
theory Cluster_Controller
  imports Controllers
begin

text \<open>
  The LXCCluster controller, \<^verbatim>\<open>internal/controller/lxccluster\<close>: \<^verbatim>\<open>Reconcile\<close>, \<^verbatim>\<open>reconcileNormal\<close>,
  \<^verbatim>\<open>reconcileDelete\<close> and \<^verbatim>\<open>patchLXCCluster\<close>.  A handler takes the object and returns it updated, with
  the result and the error.
\<close>

section \<open>Conditions of the object\<close>

definition MarkTrue_c :: "'w Env \<Rightarrow> LXCCluster \<Rightarrow> string \<Rightarrow> LXCCluster" where
  "MarkTrue_c x o1 t = SetConditions_c o1 (u_MarkTrue (x_capi x) (GetConditions_c o1) t)"

definition MarkFalse_c :: "'w Env \<Rightarrow> LXCCluster \<Rightarrow> string \<Rightarrow> string \<Rightarrow> string \<Rightarrow> string \<Rightarrow> LXCCluster" where
  "MarkFalse_c x o1 t reason severity msg =
     SetConditions_c o1 (u_MarkFalse (x_capi x) (GetConditions_c o1) t reason severity msg)"

section \<open>Patching\<close>

definition infraConditions_c :: "string list" where
  "infraConditions_c = [LoadBalancerAvailableCondition]"

definition summarize_c :: "'w Env \<Rightarrow> LXCCluster \<Rightarrow> LXCCluster" where
  "summarize_c x lxcCluster =
     SetConditions_c lxcCluster
       (u_SetSummary (x_capi x) (GetConditions_c lxcCluster) infraConditions_c
          (IsZeroTime (om_DeletionTimestamp (c_meta lxcCluster))
           \<and> \<not> has_infra_error infraConditions_c (GetConditions_c lxcCluster)))"

definition patchLXCCluster ::
  "'w Env \<Rightarrow> LXCCluster \<Rightarrow> LXCCluster \<Rightarrow> (request, 'w, LXCCluster \<times> go_error option) io" where
  "patchLXCCluster x before lxcCluster =
     (let lxcCluster = summarize_c x lxcCluster; owned = infraConditions_c @ [ReadyCondition]
      in do { r \<leftarrow> call (Kube (KPatchCluster before lxcCluster owned))
                     (k_PatchCluster (x_kube x) before lxcCluster owned);
              ret (lxcCluster, error_of r) })"

section \<open>Reconciling\<close>

text \<open>
  \<^verbatim>\<open>lbIPs[0]\<close> panics on an empty slice: the branch \<open>[]\<close> below, which the contract of the manager rules out.
\<close>

definition surface_endpoint :: "LXCCluster \<Rightarrow> string \<Rightarrow> LXCCluster" where
  "surface_endpoint lxcCluster ip =
     (let ep = ControlPlaneEndpoint (c_spec lxcCluster);
          ep = (if Host ep = '''' then ep\<lparr>Host := ip\<rparr> else ep);
          ep = (if Port ep = 0 then ep\<lparr>Port := 6443\<rparr> else ep)
      in lxcCluster\<lparr>c_spec := (c_spec lxcCluster)\<lparr>ControlPlaneEndpoint := ep\<rparr>\<rparr>)"

definition index_out_of_range :: go_error where
  "index_out_of_range = Err ''panic: runtime error: index out of range''"

definition reconcileNormal_c ::
  "'w Env \<Rightarrow> go_context \<Rightarrow> Cluster \<Rightarrow> LXCCluster \<Rightarrow> 'w Client
   \<Rightarrow> (request, 'w, LXCCluster \<times> go_error option) io" where
  "reconcileNormal_c x ctx cluster lxcCluster c =
     do { r \<leftarrow> Create (ManagerForCluster cluster lxcCluster c) ctx;
          case r of
            Inl err \<Rightarrow>
              if IsTerminalError err then
                ret (MarkFalse_c x lxcCluster LoadBalancerAvailableCondition LoadBalancerProvisioningAbortedReason
                       ConditionSeverityError
                       (''The cluster load balancer could not be provisioned. The error was: '' @ error_msg err), None)
              else
                ret (MarkFalse_c x lxcCluster LoadBalancerAvailableCondition LoadBalancerProvisioningFailedReason
                       ConditionSeverityWarning (error_msg err), Some err)
          | Inr lbIPs \<Rightarrow>
              (if Host (ControlPlaneEndpoint (c_spec lxcCluster)) = '''' \<and> lbIPs = []
               then ret (lxcCluster, Some index_out_of_range)
               else
                 let lxcCluster = surface_endpoint lxcCluster (hd lbIPs);
                     lxcCluster = lxcCluster\<lparr>c_status := (c_status lxcCluster)\<lparr>c_Ready := True\<rparr>\<rparr>
                 in ret (MarkTrue_c x lxcCluster LoadBalancerAvailableCondition, None)) }"

definition remove_finalizer_c :: "'w Env \<Rightarrow> LXCCluster \<Rightarrow> LXCCluster" where
  "remove_finalizer_c x lxcCluster =
     lxcCluster\<lparr>c_meta := (c_meta lxcCluster)\<lparr>om_Finalizers :=
       u_RemoveFinalizer (x_capi x) (om_Finalizers (c_meta lxcCluster)) ClusterFinalizer\<rparr>\<rparr>"

definition finish_delete_c ::
  "'w Env \<Rightarrow> Cluster \<Rightarrow> LXCCluster \<Rightarrow> ('w, LXCCluster) reconciled" where
  "finish_delete_c x cluster lxcCluster =
     do { machines \<leftarrow> GetMachinesForCluster x (om_Namespace (cl_meta cluster), om_Name (cl_meta cluster)) [];
          case machines of
            Inr (m # ms) \<Rightarrow> ret (lxcCluster, 5 * second, None)
          | _ \<Rightarrow> ret (remove_finalizer_c x lxcCluster, 0, None) }"

definition reconcileDelete_c ::
  "'w Env \<Rightarrow> go_context \<Rightarrow> Cluster \<Rightarrow> LXCCluster \<Rightarrow> 'w Client \<Rightarrow> ('w, LXCCluster) reconciled" where
  "reconcileDelete_c x ctx cluster lxcCluster c =
     do { h \<leftarrow> call (Kube (KNewHelperCluster lxcCluster)) (k_NewHelperCluster (x_kube x) lxcCluster);
          case h of
            Inl err \<Rightarrow> ret (lxcCluster, 0, Some err)
          | Inr _ \<Rightarrow>
              do { (obj, perr) \<leftarrow> patchLXCCluster x lxcCluster
                     (MarkFalse_c x lxcCluster LoadBalancerAvailableCondition DeletingReason ConditionSeverityInfo '''');
                   case perr of
                     Some err \<Rightarrow> ret (obj, 0, Some (Errorf ''failed to patch LXCCluster: '' err))
                   | None \<Rightarrow>
                       do { d \<leftarrow> Delete (ManagerForCluster cluster obj c) ctx;
                            case d of
                              Inl err \<Rightarrow> ret (obj, 0, Some (Errorf ''failed to delete the load balancer instance: '' err))
                            | Inr _ \<Rightarrow> finish_delete_c x cluster obj } } }"

definition reconcile_patched_c ::
  "'w Env \<Rightarrow> go_context \<Rightarrow> Cluster \<Rightarrow> LXCCluster \<Rightarrow> 'w Client \<Rightarrow> 'w outcome" where
  "reconcile_patched_c x ctx cluster lxcCluster c =
     with_patch
       (if \<not> IsZeroTime (om_DeletionTimestamp (c_meta lxcCluster))
        then reconcileDelete_c x ctx cluster lxcCluster c
        else do { (obj, err) \<leftarrow> reconcileNormal_c x ctx cluster lxcCluster c; ret (obj, 0, err) })
       (patchLXCCluster x lxcCluster)"

definition Reconcile_c :: "'w Env \<Rightarrow> go_context \<Rightarrow> NamespacedName \<Rightarrow> 'w outcome" where
  "Reconcile_c x ctx req =
     do { g \<leftarrow> call (Kube (KGetLXCCluster req)) (k_GetLXCCluster (x_kube x) req);
          case g of
            Inl err \<Rightarrow> if k_IsNotFound (x_kube x) err then ret (0, None) else ret (0, Some err)
          | Inr lxcCluster \<Rightarrow>
              or_return (call (Kube (KGetOwnerCluster (c_meta lxcCluster)))
                           (k_GetOwnerCluster (x_kube x) (c_meta lxcCluster)))
                (\<lambda>owner. case owner of
                   None \<Rightarrow> ret (0, None)
                 | Some cluster \<Rightarrow>
                     or_return (connect x (GetLXCSecretNamespacedName lxcCluster))
                       (\<lambda>c. or_return (call (Kube (KEnsureFinalizerCluster lxcCluster ClusterFinalizer))
                                (k_EnsureFinalizerCluster (x_kube x) lxcCluster ClusterFinalizer))
                          (\<lambda>(lxcCluster, finalizerAdded).
                             if finalizerAdded then ret (0, None)
                             else or_return (call (Kube (KEnsurePausedCluster cluster lxcCluster))
                                      (k_EnsurePausedCluster (x_kube x) cluster lxcCluster))
                               (\<lambda>(lxcCluster, isPaused, conditionChanged).
                                  if isPaused \<or> conditionChanged then ret (0, None)
                                  else or_return (call (Kube (KNewHelperCluster lxcCluster))
                                           (k_NewHelperCluster (x_kube x) lxcCluster))
                                         (\<lambda>_. reconcile_patched_c x ctx cluster lxcCluster c))))) }"

section \<open>Properties\<close>

text \<open>Writing conditions leaves the metadata and the specification alone.\<close>

lemma cluster_frame [simp]:
  "c_meta (MarkFalse_c x o1 t r sv m) = c_meta o1" "c_spec (MarkFalse_c x o1 t r sv m) = c_spec o1"
  "c_meta (MarkTrue_c x o1 t) = c_meta o1" "c_spec (MarkTrue_c x o1 t) = c_spec o1"
  "c_meta (summarize_c x o1) = c_meta o1" "c_spec (summarize_c x o1) = c_spec o1"
  "c_Ready (c_status (MarkTrue_c x o1 t)) = c_Ready (c_status o1)"
  "c_Ready (c_status (MarkFalse_c x o1 t r sv m)) = c_Ready (c_status o1)"
  by (simp_all add: MarkFalse_c_def MarkTrue_c_def summarize_c_def SetConditions_c_def)

lemma conditions_Mark [simp]:
  "GetConditions_c (MarkTrue_c x o1 t) = u_MarkTrue (x_capi x) (GetConditions_c o1) t"
  "GetConditions_c (MarkFalse_c x o1 t r sv m) = u_MarkFalse (x_capi x) (GetConditions_c o1) t r sv m"
  by (simp_all add: MarkTrue_c_def MarkFalse_c_def GetConditions_c_def SetConditions_c_def)

lemma ManagerForCluster_cong:
  "c_meta o1 = c_meta o2 \<Longrightarrow> c_spec o1 = c_spec o2 \<Longrightarrow> ManagerForCluster cl o1 c = ManagerForCluster cl o2 c"
  by (simp add: ManagerForCluster_def GetLoadBalancerInstanceName_def)

definition is_patch_c :: "'w Env \<Rightarrow> LXCCluster \<Rightarrow> LXCCluster \<Rightarrow> request \<Rightarrow> bool" where
  "is_patch_c x before obj r \<longleftrightarrow> r = Kube (KPatchCluster before (summarize_c x obj) (infraConditions_c @ [ReadyCondition]))"

interpretation cluster_patch: object_patch "patchLXCCluster x" "\<lambda>o1. (c_meta o1, c_spec o1)" "is_patch_c x"
  for x :: "'w Env"
proof unfold_locales
  show "issues (is_patch_c x before obj) (patchLXCCluster x before obj)" for before obj
    unfolding patchLXCCluster_def Let_def by (intro issues_intros) (simp add: is_patch_c_def)
  show "(c_meta obj', c_spec obj') = (c_meta obj, c_spec obj)"
    if "run_state (patchLXCCluster x before obj) s = ((obj', err), s')" for before obj s obj' err s'
    using that by (auto simp: patchLXCCluster_def Let_def call_def split: prod.splits)
qed

text \<open>
  C11: Reconciling a cluster that is not being deleted provisions its load balancer.  On success the
  cluster is marked ready and available, keeps an endpoint host and port that were set, and otherwise gets the
  first address of the load balancer and port 6443; the first address always exists.  A terminal error
  is recorded with severity Error and not retried, any other is recorded as a warning and returned.
\<close>

theorem reconcileNormal_c_correct:
  assumes laws: "capi_conditions_law (x_capi x)"
    and create: "run_state (Create (ManagerForCluster cluster obj c) ctx) s = (r, s1)"
  shows "\<exists>obj' err. run_state (reconcileNormal_c x ctx cluster obj c) s = ((obj', err), s1)
    \<and> c_meta obj' = c_meta obj
    \<and> (case r of
        Inr ips \<Rightarrow> err = None \<and> c_Ready (c_status obj')
          \<and> (\<exists>ip rest. ips = ip # rest
              \<and> c_spec obj' = (c_spec obj)\<lparr>ControlPlaneEndpoint :=
                  \<lparr>Host = (if Host (ControlPlaneEndpoint (c_spec obj)) = '''' then ip
                           else Host (ControlPlaneEndpoint (c_spec obj))),
                   Port = (if Port (ControlPlaneEndpoint (c_spec obj)) = 0 then 6443
                           else Port (ControlPlaneEndpoint (c_spec obj)))\<rparr>\<rparr>)
          \<and> map_option c_Status (find_condition (GetConditions_c obj') LoadBalancerAvailableCondition) = Some ''True''
      | Inl e \<Rightarrow> c_spec obj' = c_spec obj \<and> c_Ready (c_status obj') = c_Ready (c_status obj)
          \<and> err = (if IsTerminalError e then None else Some e)
          \<and> (\<exists>cond. find_condition (GetConditions_c obj') LoadBalancerAvailableCondition = Some cond
               \<and> c_Status cond = ''False''
               \<and> c_Severity cond = (if IsTerminalError e then ConditionSeverityError else ConditionSeverityWarning)))"
proof (cases r)
  case (Inl e)
  then show ?thesis using create laws
    by (simp add: reconcileNormal_c_def capi_conditions_law_def)
next
  case (Inr ips)
  then obtain ip rest where ips: "ips = ip # rest"
    using lb.create_first [of "ManagerForCluster cluster obj c" ctx s ips s1] create by blast
  have spec: "c_spec (surface_endpoint obj ip) = (c_spec obj)\<lparr>ControlPlaneEndpoint :=
        \<lparr>Host = (if Host (ControlPlaneEndpoint (c_spec obj)) = '''' then ip
                 else Host (ControlPlaneEndpoint (c_spec obj))),
         Port = (if Port (ControlPlaneEndpoint (c_spec obj)) = 0 then 6443
                 else Port (ControlPlaneEndpoint (c_spec obj)))\<rparr>\<rparr>"
      "c_meta (surface_endpoint obj ip) = c_meta obj"
    by (cases "ControlPlaneEndpoint (c_spec obj)"; simp add: surface_endpoint_def Let_def)+
  show ?thesis using create laws ips Inr spec
    by (simp add: reconcileNormal_c_def Let_def capi_conditions_law_def)
qed

theorem reconcileNormal_c_correct_witness:
  "\<exists>obj'. run_state (reconcileNormal_c sample_env Background sample_cluster sample_lxcCluster
        (sample_client refusing_server)) (initial_world ()) = ((obj', None), initial_world ())
     \<and> c_Ready (c_status obj') \<and> ControlPlaneEndpoint (c_spec obj') = \<lparr>Host = ''10.0.0.9'', Port = 6443\<rparr>"
proof -
  have laws: "capi_conditions_law (x_capi sample_env)" by (simp add: sample_env_def sample_capi_laws)
  have create: "run_state (Create (ManagerForCluster sample_cluster sample_lxcCluster (sample_client refusing_server)) Background)
      (initial_world ()) = (Inr [''10.0.0.9''], initial_world ())"
    by (simp add: sample_manager Create_External_def)
  from reconcileNormal_c_correct [OF laws create] show ?thesis
    by (auto simp: sample_lxcCluster_def)
qed

subsection \<open>Requests\<close>

lemma issues_reconcileNormal_c:
  "issues (lb_provisions (ManagerForCluster cluster obj c)) (reconcileNormal_c x ctx cluster obj c)"
  unfolding reconcileNormal_c_def Let_def by (intro issues_intros lb.create_issues)

lemma reconcileNormal_c_meta:
  assumes "run_state (reconcileNormal_c x ctx cluster obj c) s = ((obj', err), s')"
  shows "c_meta obj' = c_meta obj"
  using assms unfolding reconcileNormal_c_def Let_def
  by (auto simp: surface_endpoint_def Let_def split: prod.splits sum.splits if_splits)

text \<open>
  C13: Reconciling a cluster that is not being deleted never deletes anything: every request
  belongs to creating its own load balancer, except one final patch of the object, which keeps all of
  its metadata, its finalizers in particular.
\<close>

theorem reconcile_normal_c_safe:
  assumes "IsZeroTime (om_DeletionTimestamp (c_meta obj))"
  shows "\<exists>rs obj'. trace (snd (run_state (reconcile_patched_c x ctx cluster obj c) s))
            = trace s @ rs @ [Kube (KPatchCluster obj obj' (infraConditions_c @ [ReadyCondition]))]
        \<and> list_all (lb_provisions (ManagerForCluster cluster obj c)) rs \<and> c_meta obj' = c_meta obj"
proof -
  obtain obj1 err s1 where n: "run_state (reconcileNormal_c x ctx cluster obj c) s = ((obj1, err), s1)"
    by (metis prod.collapse)
  from issuesD [OF issues_reconcileNormal_c n] obtain rs where
    rs: "trace s1 = trace s @ rs" "list_all (lb_provisions (ManagerForCluster cluster obj c)) rs" by blast
  show ?thesis
    using assms n rs reconcileNormal_c_meta [OF n]
    by (auto simp: reconcile_patched_c_def with_patch_def patchLXCCluster_def Let_def call_def
        intro!: exI [of _ rs] split: prod.splits)
qed

theorem reconcile_normal_c_safe_witness:
  "\<exists>rs obj'. trace (snd (run_state (reconcile_patched_c sample_env Background sample_cluster sample_lxcCluster
          (sample_client refusing_server)) (initial_world ())))
        = rs @ [Kube (KPatchCluster sample_lxcCluster obj' (infraConditions_c @ [ReadyCondition]))]
      \<and> om_Finalizers (c_meta obj') = [ClusterFinalizer]"
proof -
  have "IsZeroTime (om_DeletionTimestamp (c_meta sample_lxcCluster))"
    by (simp add: sample_lxcCluster_def sample_meta_def IsZeroTime_def)
  from reconcile_normal_c_safe [OF this, of sample_env Background sample_cluster "sample_client refusing_server" "initial_world ()"]
  show ?thesis by (auto simp: sample_lxcCluster_def sample_meta_def)
qed

subsection \<open>Deletion\<close>

definition mark_deleting_c :: "'w Env \<Rightarrow> LXCCluster \<Rightarrow> LXCCluster" where
  "mark_deleting_c x obj = summarize_c x
     (MarkFalse_c x obj LoadBalancerAvailableCondition DeletingReason ConditionSeverityInfo '''')"

lemma run_patchLXCCluster:
  obtains perr s1 where "run_state (patchLXCCluster x before obj) s = ((summarize_c x obj, perr), s1)"
    "trace s1 = trace s @ [Kube (KPatchCluster before (summarize_c x obj) (infraConditions_c @ [ReadyCondition]))]"
proof -
  obtain r s1 where c: "run_state (call (Kube (KPatchCluster before (summarize_c x obj) (infraConditions_c @ [ReadyCondition])))
      (k_PatchCluster (x_kube x) before (summarize_c x obj) (infraConditions_c @ [ReadyCondition]))) s = (r, s1)"
    by (metis prod.collapse)
  show thesis
    by (rule that [of "error_of r" s1]) (simp_all add: patchLXCCluster_def Let_def c run_callE [OF c])
qed

lemma reconcileDelete_c_cases:
  assumes run: "run_state (reconcileDelete_c x ctx cluster obj c) s = ((obj', res, err), s')"
  obtains (failed) e where "err = Some e" "c_meta obj' = c_meta obj"
  | (deleted) s1 s2 where
      "run_state (Delete (ManagerForCluster cluster obj c) ctx) s1 = (Inr (), s2)"
      "trace s1 = trace s @ [Kube (KNewHelperCluster obj),
         Kube (KPatchCluster obj (mark_deleting_c x obj) (infraConditions_c @ [ReadyCondition]))]"
      "run_state (finish_delete_c x cluster (mark_deleting_c x obj)) s2 = ((obj', res, err), s')"
proof -
  let ?marked = "MarkFalse_c x obj LoadBalancerAvailableCondition DeletingReason ConditionSeverityInfo ''''"
  have m: "ManagerForCluster cluster (mark_deleting_c x obj) c = ManagerForCluster cluster obj c"
    by (rule ManagerForCluster_cong) (simp_all add: mark_deleting_c_def)
  have meta: "c_meta (mark_deleting_c x obj) = c_meta obj" by (simp add: mark_deleting_c_def)
  from run obtain h s0 where h: "run_state (call (Kube (KNewHelperCluster obj)) (k_NewHelperCluster (x_kube x) obj)) s = (h, s0)"
    and k: "run_state (case h of Inl err \<Rightarrow> ret (obj, 0, Some err)
          | Inr _ \<Rightarrow>
              do { (obj, perr) \<leftarrow> patchLXCCluster x obj ?marked;
                   case perr of
                     Some err \<Rightarrow> ret (obj, 0, Some (Errorf ''failed to patch LXCCluster: '' err))
                   | None \<Rightarrow>
                       do { d \<leftarrow> Delete (ManagerForCluster cluster obj c) ctx;
                            case d of
                              Inl err \<Rightarrow> ret (obj, 0, Some (Errorf ''failed to delete the load balancer instance: '' err))
                            | Inr _ \<Rightarrow> finish_delete_c x cluster obj } }) s0 = ((obj', res, err), s')"
    unfolding reconcileDelete_c_def by (erule run_bindE)
  show thesis
  proof (cases h)
    case (Inl e)
    with k show thesis using failed by auto
  next
    case (Inr u)
    obtain perr s1 where p: "run_state (patchLXCCluster x obj ?marked) s0 = ((mark_deleting_c x obj, perr), s1)"
      and "trace s1 = trace s0 @ [Kube (KPatchCluster obj (mark_deleting_c x obj) (infraConditions_c @ [ReadyCondition]))]"
      by (rule run_patchLXCCluster [of x obj ?marked s0]) (simp add: mark_deleting_c_def)
    with run_callE [OF h] have t: "trace s1 = trace s @ [Kube (KNewHelperCluster obj),
         Kube (KPatchCluster obj (mark_deleting_c x obj) (infraConditions_c @ [ReadyCondition]))]"
      by simp
    show thesis
    proof (cases perr)
      case (Some e)
      with k Inr p show thesis using failed by (auto simp: meta)
    next
      case None
      obtain d s2 where d: "run_state (Delete (ManagerForCluster cluster obj c) ctx) s1 = (d, s2)"
        by (metis prod.collapse)
      show thesis
      proof (cases d)
        case (Inl e)
        with k Inr p None d show thesis using failed by (auto simp: m meta)
      next
        case (Inr u')
        with k \<open>h = Inr u\<close> p None d have "run_state (finish_delete_c x cluster (mark_deleting_c x obj)) s2 = ((obj', res, err), s')"
          by (simp add: m)
        with Inr d t show thesis using deleted by simp
      qed
    qed
  qed
qed

text \<open>
  C5: A cluster being deleted loses its finalizer only after its load balancer was deleted without
  an error, and only when no Machine of the cluster is left, or the Machines could not be listed;
  while Machines are left, the finalizer stays and the cluster is reconciled again after five seconds.
\<close>

theorem reconcileDelete_c_finalizer:
  assumes run: "run_state (reconcileDelete_c x ctx cluster obj c) s = ((obj', res, err), s')"
  shows "case err of
      Some e \<Rightarrow> om_Finalizers (c_meta obj') = om_Finalizers (c_meta obj)
    | None \<Rightarrow> (\<exists>s1 s2 listed.
         run_state (Delete (ManagerForCluster cluster obj c) ctx) s1 = (Inr (), s2)
       \<and> run_state (GetMachinesForCluster x (om_Namespace (cl_meta cluster), om_Name (cl_meta cluster)) []) s2 = (listed, s')
       \<and> om_Finalizers (c_meta obj') =
           (case listed of
              Inr (m # ms) \<Rightarrow> om_Finalizers (c_meta obj)
            | _ \<Rightarrow> u_RemoveFinalizer (x_capi x) (om_Finalizers (c_meta obj)) ClusterFinalizer)
       \<and> res = (case listed of Inr (m # ms) \<Rightarrow> 5 * second | _ \<Rightarrow> 0))"
  using run
proof (cases rule: reconcileDelete_c_cases)
  case (deleted s1 s2)
  obtain listed s3 where l: "run_state (GetMachinesForCluster x
      (om_Namespace (cl_meta cluster), om_Name (cl_meta cluster)) []) s2 = (listed, s3)"
    by (metis prod.collapse)
  have "err = None \<and> s' = s3 \<and> om_Finalizers (c_meta obj') =
           (case listed of
              Inr (m # ms) \<Rightarrow> om_Finalizers (c_meta obj)
            | _ \<Rightarrow> u_RemoveFinalizer (x_capi x) (om_Finalizers (c_meta obj)) ClusterFinalizer)
       \<and> res = (case listed of Inr (m # ms) \<Rightarrow> 5 * second | _ \<Rightarrow> 0)"
    using deleted(3) l
    by (auto simp: finish_delete_c_def remove_finalizer_c_def mark_deleting_c_def split: sum.splits list.splits)
  with deleted(1) l show ?thesis by auto
qed auto

theorem reconcileDelete_c_finalizer_witness:
  "\<exists>obj' s'. run_state (reconcileDelete_c sample_env Background sample_cluster sample_lxcCluster
        (sample_client refusing_server)) (initial_world ()) = ((obj', 0, None), s')
     \<and> om_Finalizers (c_meta obj') = []"
proof -
  obtain obj' s' where run: "run_state (reconcileDelete_c sample_env Background sample_cluster sample_lxcCluster
        (sample_client refusing_server)) (initial_world ()) = ((obj', 0, None), s')"
    by (simp add: reconcileDelete_c_def patchLXCCluster_def sample_env_def sample_kube_def call_def Let_def error_of_def
        ManagerForCluster_def sample_lxcCluster_def sample_cluster_def nothing_to_do_def finish_delete_c_def
        GetMachinesForCluster_def run_state_guard_err FromMachineList_def)
  from reconcileDelete_c_finalizer [OF run] have "om_Finalizers (c_meta obj') = []"
    by (auto simp: sample_env_def sample_capi_def sample_lxcCluster_def sample_meta_def second_def
        split: sum.splits list.splits)
  with run show ?thesis by blast
qed

subsection \<open>Paused clusters\<close>

fun bookkeeping_c :: "request \<Rightarrow> bool" where
  "bookkeeping_c (Kube (KPatchCluster _ _ _)) = False"
| "bookkeeping_c (Kube _) = True"
| "bookkeeping_c r = connect_request r"

lemma connect_bookkeeping_c: "connect_request r \<Longrightarrow> bookkeeping_c r"
  by (cases r rule: bookkeeping_c.cases) (auto elim: connect_request.elims)

text \<open>
  A paused cluster is left alone: apart from reading objects, connecting to the server, adding the
  finalizer and recording the pause, reconciling it sends no request; in particular nothing is
  created or deleted and the object is not patched.
\<close>

theorem Reconcile_c_paused:
  assumes paused: "\<And>cl ob w d w' ob' p ch.
      k_EnsurePausedCluster (x_kube x) cl ob w = (Inr (ob', p, ch), d, w') \<Longrightarrow> p \<or> ch"
  shows "\<exists>rs. trace (snd (run_state (Reconcile_c x ctx req) s)) = trace s @ rs \<and> list_all bookkeeping_c rs"
proof -
  have "issues bookkeeping_c (Reconcile_c x ctx req)"
    unfolding Reconcile_c_def
    by (intro issues_intros issues_or_return_call issues_mono [OF issues_connect])
       (auto dest: connect_bookkeeping_c paused)
  from issuesD [OF this] show ?thesis by (metis prod.collapse)
qed

theorem Reconcile_c_paused_witness:
  "\<exists>rs. trace (snd (run_state (Reconcile_c (sample_env :: unit Env) Background (''ns'', ''c'')) (initial_world ()))) = rs
      \<and> list_all bookkeeping_c rs"
proof -
  have "k_EnsurePausedCluster (x_kube (sample_env :: unit Env)) cl ob w = (Inr (ob', p, ch), d, w') \<Longrightarrow> p \<or> ch"
    for cl ob w ob' p ch d w'
    by (simp add: sample_env_def sample_kube_def)
  from Reconcile_c_paused [of sample_env Background "(''ns'', ''c'')" "initial_world ()", OF this]
  show ?thesis by simp
qed

end
