(* ===== verification/Machine_Controller.thy ===== *)
theory Machine_Controller
  imports Controllers
begin

text \<open>
  The LXCMachine controller, \<^verbatim>\<open>internal/controller/lxcmachine\<close>: launching instances (kubeadm and kind),
  \<^verbatim>\<open>reconcileNormal\<close>, \<^verbatim>\<open>reconcileDelete\<close>, \<^verbatim>\<open>Reconcile\<close> and the mapping of LXCCluster events to machines.
\<close>

section \<open>The object\<close>

definition MarkTrue_m :: "'w Env \<Rightarrow> LXCMachine \<Rightarrow> string \<Rightarrow> LXCMachine" where
  "MarkTrue_m x o1 t = SetConditions_m o1 (u_MarkTrue (x_capi x) (GetConditions_m o1) t)"

definition MarkFalse_m :: "'w Env \<Rightarrow> LXCMachine \<Rightarrow> string \<Rightarrow> string \<Rightarrow> string \<Rightarrow> string \<Rightarrow> LXCMachine" where
  "MarkFalse_m x o1 t reason severity msg =
     SetConditions_m o1 (u_MarkFalse (x_capi x) (GetConditions_m o1) t reason severity msg)"

definition set_ready :: "bool \<Rightarrow> LXCMachine \<Rightarrow> LXCMachine" where
  "set_ready b m = m\<lparr>m_status := (m_status m)\<lparr>m_Ready := b\<rparr>\<rparr>"

definition setLXCMachineAddresses :: "LXCMachine \<Rightarrow> string list \<Rightarrow> LXCMachine" where
  "setLXCMachineAddresses lxcMachine addrs =
     lxcMachine\<lparr>m_status := (m_status lxcMachine)\<lparr>Addresses :=
       \<lparr>addr_Type = ''Hostname'', addr_Address = GetInstanceName lxcMachine\<rparr>
       # concat (map (\<lambda>address. [\<lparr>addr_Type = ''InternalIP'', addr_Address = address\<rparr>,
                                  \<lparr>addr_Type = ''ExternalIP'', addr_Address = address\<rparr>]) addrs)\<rparr>\<rparr>"

definition infraConditions_m :: "string list" where
  "infraConditions_m = [InstanceProvisionedCondition]"

definition summarize_m :: "'w Env \<Rightarrow> LXCMachine \<Rightarrow> LXCMachine" where
  "summarize_m x lxcMachine =
     SetConditions_m lxcMachine
       (u_SetSummary (x_capi x) (GetConditions_m lxcMachine) infraConditions_m
          (IsZeroTime (om_DeletionTimestamp (m_meta lxcMachine)) \<and> ProviderID (m_spec lxcMachine) = None
           \<and> \<not> has_infra_error infraConditions_m (GetConditions_m lxcMachine)))"

definition patchLXCMachine ::
  "'w Env \<Rightarrow> LXCMachine \<Rightarrow> LXCMachine \<Rightarrow> (request, 'w, LXCMachine \<times> go_error option) io" where
  "patchLXCMachine x before lxcMachine =
     (let lxcMachine = summarize_m x lxcMachine; owned = infraConditions_m @ [ReadyCondition]
      in do { r \<leftarrow> call (Kube (KPatchMachine before lxcMachine owned))
                     (k_PatchMachine (x_kube x) before lxcMachine owned);
              ret (lxcMachine, error_of r) })"

definition getBootstrapData :: "'w Env \<Rightarrow> string \<Rightarrow> string \<Rightarrow> (request, 'w, string) io_err" where
  "getBootstrapData x namespace dataSecretName =
     guard_err (call (Kube (KGetSecret (namespace, dataSecretName))) (k_GetSecret (x_kube x) (namespace, dataSecretName)))
       (Errorf (''failed to retrieve bootstrap data secret '' @ quote dataSecretName @ '': ''))
       (\<lambda>s. case map_of (sec_Data s) ''value'' of
           None \<Rightarrow> ret (Inl (Err (''secret '' @ quote dataSecretName @ '' is missing value key'')))
         | Some v \<Rightarrow> ret (Inr v))"

section \<open>Launching\<close>

definition machine_role :: "'w Env \<Rightarrow> Machine \<Rightarrow> string" where
  "machine_role x machine = (if \<not> u_IsControlPlaneMachine (x_capi x) machine then ''worker'' else ''control-plane'')"

definition machine_version :: "Machine \<Rightarrow> string" where
  "machine_version machine = (case ma_Version machine of None \<Rightarrow> '''' | Some v \<Rightarrow> v)"

text \<open>\<^verbatim>\<open>VERSION\<close> in an image name stands for the Kubernetes version of the machine.\<close>

definition image_spec :: "Machine \<Rightarrow> LXCMachine \<Rightarrow> go_error + LXCMachineImageSource" where
  "image_spec machine lxcMachine =
     (let imageSpec = m_Image (m_spec lxcMachine); machineVersion = machine_version machine
      in if Contains (img_Name imageSpec) ''VERSION'' then
           (if machineVersion = '''' then
              Inl (TerminalError (Err (''image name '' @ quote (img_Name imageSpec) @ '' contains VERSION but Machine ''
                @ quote (om_Name (ma_meta machine)) @ '' does not have a Kubernetes version'')))
            else Inr (imageSpec\<lparr>img_Name := ReplaceAll (img_Name imageSpec) ''VERSION'' machineVersion\<rparr>))
         else Inr imageSpec)"

definition plain_image_of :: "LXCMachineImageSource \<Rightarrow> ImageFamily" where
  "plain_image_of imageSpec =
     PlainImage \<lparr>im_Fingerprint = img_Fingerprint imageSpec, im_Protocol = img_Protocol imageSpec,
                 im_Server = img_Server imageSpec, im_Alias = img_Name imageSpec\<rparr>"

text \<open>
  The image of an instance: the named one, the given source, or, when none is specified, a default
  for the Kubernetes version that must exist on its server.  The two launch functions differ in the
  default, the instance type it is checked for, and the message around a terminal error of the check.
\<close>

definition machine_image ::
  "'w Env \<Rightarrow> (string \<Rightarrow> Image) \<Rightarrow> string \<Rightarrow> (string \<Rightarrow> go_error \<Rightarrow> go_error) \<Rightarrow> Machine \<Rightarrow> LXCMachineImageSource
   \<Rightarrow> (request, 'w, ImageFamily) io_err" where
  "machine_image x default_image instTy explain machine imageSpec =
     (let machineVersion = machine_version machine in
      if img_Name imageSpec \<noteq> '''' then
        (case ParseImage (img_Name imageSpec) of
           Inl err \<Rightarrow> ret (Inl (Errorf (''failed to parse image '' @ quote (img_Name imageSpec) @ '': '') err))
         | Inr (Some parsed, True) \<Rightarrow> ret (Inr parsed)
         | Inr _ \<Rightarrow> ret (Inr (plain_image_of imageSpec)))
      else if IsZero imageSpec then
        (if machineVersion = '''' then
           ret (Inl (TerminalError (Err (''no image source specified on LXCMachineTemplate and Machine ''
             @ quote (om_Name (ma_meta machine)) @ '' does not have a Kubernetes version''))))
         else guard_err (Check (x_images x) (default_image machineVersion) instTy)
                (\<lambda>err. if IsTerminalError err then explain machineVersion err else err)
                (\<lambda>_. ret (Inr (PlainImage (default_image machineVersion)))))
      else ret (Inr (plain_image_of imageSpec)))"

definition consider_other :: string where
  "consider_other = ''. Please consider using a different Kubernetes version, or build your own base image and set the image source on the LXCMachineTemplate resource''"

definition explain_kubeadm :: "string \<Rightarrow> go_error \<Rightarrow> go_error" where
  "explain_kubeadm v err =
     Wrapf (''image not specified and default simplestreams server does not provide images for Kubernetes version ''
            @ quote v @ ''. The error was: '') err consider_other"

definition explain_kind :: "string \<Rightarrow> go_error \<Rightarrow> go_error" where
  "explain_kind v err =
     Wrapf (''image not specified and could not find kindest/node:'' @ v @ '' image on DockerHub. The error was: '')
       err consider_other"

definition machine_options ::
  "'w Env \<Rightarrow> Cluster \<Rightarrow> Machine \<Rightarrow> LXCMachine \<Rightarrow> string gomap gomap \<Rightarrow> ImageFamily \<Rightarrow> LaunchOptions \<Rightarrow> LaunchOptions" where
  "machine_options x cluster machine lxcMachine devs img opts =
     WithImage
       (WithConfig
         (WithConfig
           (WithDevices
             (WithProfiles (WithFlavor opts (Flavor (m_spec lxcMachine))) (Profiles (m_spec lxcMachine)))
             devs)
           (Config (m_spec lxcMachine)))
         [(''user.cluster-name'', om_Name (cl_meta cluster)), (''user.cluster-namespace'', om_Namespace (cl_meta cluster)),
          (''user.machine-name'', om_Name (ma_meta machine)), (''user.cluster-role'', machine_role x machine)])
       (Some img)"

text \<open>Files that the load balancer of the cluster needs on control plane instances.\<close>

definition with_lb_templates ::
  "'w Env \<Rightarrow> Cluster \<Rightarrow> LXCCluster \<Rightarrow> Machine \<Rightarrow> 'w Client \<Rightarrow> LaunchOptions \<Rightarrow> go_error + LaunchOptions" where
  "with_lb_templates x cluster lxcCluster machine c opts =
     (if u_IsControlPlaneMachine (x_capi x) machine then
        (case ControlPlaneInstanceTemplates (ManagerForCluster cluster lxcCluster c)
                (u_IsTrue (x_capi x) (cl_Conditions cluster) ControlPlaneInitializedCondition) of
           Inl err \<Rightarrow> Inl (Errorf ''failed to generate load balancer configuration files: '' err)
         | Inr files \<Rightarrow> Inr (WithInstanceTemplates opts files))
      else Inr opts)"

definition launchKindInstance ::
  "'w Env \<Rightarrow> go_context \<Rightarrow> Cluster \<Rightarrow> LXCCluster \<Rightarrow> Machine \<Rightarrow> LXCMachine \<Rightarrow> 'w Client \<Rightarrow> string
   \<Rightarrow> (request, 'w, string list) io_err" where
  "launchKindInstance x ctx cluster lxcCluster machine lxcMachine c cloudInit =
     guard_err (ret (SupportsInstanceOCI c))
       (\<lambda>err. TerminalError (Errorf ''cannot launch kind instance as OCI containers are not supported: '' err))
     (\<lambda>_. guard_err (ret (ToMap (Devices (m_spec lxcMachine))))
       (\<lambda>err. TerminalError (Errorf ''invalid .spec.devices on LXCMachine: '' err))
     (\<lambda>devs. guard_err (ret (image_spec machine lxcMachine)) id
     (\<lambda>imageSpec. guard_err (machine_image x KindestNodeImage Container explain_kind machine imageSpec) id
     (\<lambda>img. guard_err
       (ret (case map_of (Config (m_spec lxcMachine)) ''user.capn.x-kind-apt-install-cloud-init'' of
               None \<Rightarrow> Inr False
             | Some v \<Rightarrow> (case ParseBool v of
                 None \<Rightarrow> Inl (TerminalError (Errorf (''failed to parse user.capn.x-kind-apt-install-cloud-init=''
                           @ quote v @ '' as boolean: '')
                           (Err (''strconv.ParseBool: parsing '' @ quote v @ '': invalid syntax''))))
               | Some b \<Rightarrow> Inr b))) id
     (\<lambda>aptInstallCloudInit. guard_err
       (ret (KindLaunchOptions (x_scripts x) (x_unmarshal x) (x_marshal x)
               \<lparr>kd_KubernetesVersion = machine_version machine, kd_Privileged = \<not> Unprivileged (c_spec lxcCluster),
                kd_SkipProfile = SkipDefaultKubeadmProfile (c_spec lxcCluster),
                kd_PodNetworkCIDR = ClusterFirstPodNetworkCIDR cluster,
                kd_CloudInit = cloudInit, kd_CloudInitAptInstall = aptInstallCloudInit\<rparr>))
       (Errorf ''failed to generate kind instance launch options: '')
     (\<lambda>opts. guard_err
       (ret (with_lb_templates x cluster lxcCluster machine c (machine_options x cluster machine lxcMachine devs img opts))) id
     (\<lambda>launchOpts. WaitForLaunchInstance (WithTarget c (Target (m_spec lxcMachine))) ctx
        (GetInstanceName lxcMachine) launchOpts)))))))"

definition launchInstance ::
  "'w Env \<Rightarrow> go_context \<Rightarrow> Cluster \<Rightarrow> LXCCluster \<Rightarrow> Machine \<Rightarrow> LXCMachine \<Rightarrow> 'w Client \<Rightarrow> string
   \<Rightarrow> (request, 'w, string list) io_err" where
  "launchInstance x ctx cluster lxcCluster machine lxcMachine c cloudInit =
     (if InstanceType (m_spec lxcMachine) = ''kind'' then
        launchKindInstance x ctx cluster lxcCluster machine lxcMachine c cloudInit
      else
        let instTy = (if InstanceType (m_spec lxcMachine) \<noteq> '''' then InstanceType (m_spec lxcMachine) else Container) in
        guard_err (ret (ToMap (Devices (m_spec lxcMachine))))
          (\<lambda>err. TerminalError (Errorf ''invalid .spec.devices on LXCMachine: '' err))
        (\<lambda>devs. guard_err (ret (image_spec machine lxcMachine)) id
        (\<lambda>imageSpec. guard_err
          (machine_image x (\<lambda>v. CapnImage (''kubeadm/'' @ v)) instTy explain_kubeadm machine imageSpec) id
        (\<lambda>img. guard_err
          (ret (with_lb_templates x cluster lxcCluster machine c
            (machine_options x cluster machine lxcMachine devs img
              (KubeadmLaunchOptions (x_scripts x)
                \<lparr>ku_KubernetesVersion = machine_version machine, ku_InstanceType = instTy,
                 ku_Privileged = \<not> Unprivileged (c_spec lxcCluster),
                 ku_SkipProfile = SkipDefaultKubeadmProfile (c_spec lxcCluster),
                 ku_SkipInstallKubeadmScript = False, ku_ServerName = GetServerName c, ku_CloudInit = cloudInit\<rparr>)))) id
        (\<lambda>launchOpts. WaitForLaunchInstance (WithTarget c (Target (m_spec lxcMachine))) ctx
           (GetInstanceName lxcMachine) launchOpts)))))"

section \<open>Reconciling\<close>

text \<open>A machine that has a provider ID: look at its instance.\<close>

definition check_provisioned :: "'w Env \<Rightarrow> LXCMachine \<Rightarrow> 'w Client \<Rightarrow> ('w, LXCMachine) reconciled" where
  "check_provisioned x lxcMachine c =
     do { r \<leftarrow> GetInstanceState c (GetInstanceName lxcMachine);
          case r of
            Inl err \<Rightarrow>
              if Contains (error_msg err) ''Instance not found'' then
                ret (MarkFalse_m x (set_ready False lxcMachine) InstanceProvisionedCondition InstanceDeletedReason
                       ConditionSeverityError (''Instance '' @ GetInstanceName lxcMachine @ '' does not exist anymore''),
                     0, None)
              else ret (lxcMachine, 0, Some err)
          | Inr state \<Rightarrow>
              ret (setLXCMachineAddresses (MarkTrue_m x (set_ready True lxcMachine) InstanceProvisionedCondition)
                     (ParseHostAddresses (Some state)), 0, None) }"

definition launch_failed :: "'w Env \<Rightarrow> LXCMachine \<Rightarrow> go_error \<Rightarrow> LXCMachine \<times> Result \<times> go_error option" where
  "launch_failed x lxcMachine err =
     (if IsTerminalError err then
        (MarkFalse_m x lxcMachine InstanceProvisionedCondition InstanceProvisioningAbortedReason ConditionSeverityError
           (''Failed to create instance spec: '' @ error_msg err), 0, None)
      else if HasSuffix (error_msg err) ''context deadline exceeded'' then
        (MarkFalse_m x lxcMachine InstanceProvisionedCondition CreatingInstanceReason ConditionSeverityWarning
           (''Instance creation still in progress: '' @ error_msg err), 10 * second, None)
      else
        (MarkFalse_m x lxcMachine InstanceProvisionedCondition InstanceProvisioningFailedReason ConditionSeverityWarning
           (''Failed to create instance: '' @ error_msg err), 0, Some (Errorf ''failed to create instance: '' err)))"

definition provisioned :: "LXCMachine \<Rightarrow> LXCMachine" where
  "provisioned lxcMachine =
     set_ready True (lxcMachine\<lparr>m_spec := (m_spec lxcMachine)\<lparr>ProviderID := Some (GetExpectedProviderID lxcMachine)\<rparr>\<rparr>)"

definition launched ::
  "'w Env \<Rightarrow> go_context \<Rightarrow> Cluster \<Rightarrow> LXCCluster \<Rightarrow> Machine \<Rightarrow> LXCMachine \<Rightarrow> 'w Client \<Rightarrow> string list
   \<Rightarrow> ('w, LXCMachine) reconciled" where
  "launched x ctx cluster lxcCluster machine lxcMachine c addresses =
     (let lxcMachine = MarkTrue_m x (setLXCMachineAddresses lxcMachine addresses) InstanceProvisionedCondition
      in if u_IsControlPlaneMachine (x_capi x) machine \<and> \<not> LoadBalancerConfigured (m_status lxcMachine) then
           do { r \<leftarrow> Reconfigure (x_templates x) (ManagerForCluster cluster lxcCluster c) ctx;
                case r of
                  Inl err \<Rightarrow> ret (lxcMachine, 0, Some (Errorf ''failed to update loadbalancer configuration: '' err))
                | Inr _ \<Rightarrow>
                    ret (provisioned (lxcMachine\<lparr>m_status := (m_status lxcMachine)\<lparr>LoadBalancerConfigured := True\<rparr>\<rparr>),
                         0, None) }
         else ret (provisioned lxcMachine, 0, None))"

definition reconcileNormal_m ::
  "'w Env \<Rightarrow> go_context \<Rightarrow> Cluster \<Rightarrow> LXCCluster \<Rightarrow> Machine \<Rightarrow> LXCMachine \<Rightarrow> 'w Client \<Rightarrow> ('w, LXCMachine) reconciled" where
  "reconcileNormal_m x ctx cluster lxcCluster machine lxcMachine c =
     (if \<not> cl_InfrastructureReady cluster then
        ret (MarkFalse_m x lxcMachine InstanceProvisionedCondition WaitingForClusterInfrastructureReason
               ConditionSeverityInfo '''', 0, None)
      else if ProviderID (m_spec lxcMachine) \<noteq> None then check_provisioned x lxcMachine c
      else case ma_DataSecretName machine of
        None \<Rightarrow>
          if \<not> u_IsControlPlaneMachine (x_capi x) machine
             \<and> \<not> u_IsTrue (x_capi x) (cl_Conditions cluster) ControlPlaneInitializedCondition
          then ret (MarkFalse_m x lxcMachine InstanceProvisionedCondition WaitingForControlPlaneAvailableReason
                      ConditionSeverityInfo '''', 0, None)
          else ret (MarkFalse_m x lxcMachine InstanceProvisionedCondition WaitingForBootstrapDataReason
                      ConditionSeverityInfo '''', 0, None)
      | Some dataSecretName \<Rightarrow>
          do { b \<leftarrow> getBootstrapData x (om_Namespace (m_meta lxcMachine)) dataSecretName;
               case b of
                 Inl err \<Rightarrow> ret (lxcMachine, 0, Some (Errorf ''failed to retrieve bootstrap data: '' err))
               | Inr cloudInit \<Rightarrow>
                   do { r \<leftarrow> launchInstance x ctx cluster lxcCluster machine lxcMachine c cloudInit;
                        case r of
                          Inl err \<Rightarrow> ret (launch_failed x lxcMachine err)
                        | Inr addresses \<Rightarrow> launched x ctx cluster lxcCluster machine lxcMachine c addresses } })"

definition remove_finalizer_m :: "'w Env \<Rightarrow> LXCMachine \<Rightarrow> LXCMachine" where
  "remove_finalizer_m x lxcMachine =
     lxcMachine\<lparr>m_meta := (m_meta lxcMachine)\<lparr>om_Finalizers :=
       u_RemoveFinalizer (x_capi x) (om_Finalizers (m_meta lxcMachine)) MachineFinalizer\<rparr>\<rparr>"

definition reconcileDelete_m ::
  "'w Env \<Rightarrow> go_context \<Rightarrow> Cluster \<Rightarrow> LXCCluster \<Rightarrow> Machine \<Rightarrow> LXCMachine \<Rightarrow> 'w Client
   \<Rightarrow> (request, 'w, LXCMachine \<times> go_error option) io" where
  "reconcileDelete_m x ctx cluster lxcCluster machine lxcMachine c =
     do { h \<leftarrow> call (Kube (KNewHelperMachine lxcMachine)) (k_NewHelperMachine (x_kube x) lxcMachine);
          case h of
            Inl err \<Rightarrow> ret (lxcMachine, Some err)
          | Inr _ \<Rightarrow>
              do { (obj, perr) \<leftarrow> patchLXCMachine x lxcMachine
                     (MarkFalse_m x lxcMachine InstanceProvisionedCondition DeletingReason ConditionSeverityInfo '''');
                   case perr of
                     Some err \<Rightarrow> ret (obj, Some (Errorf ''failed to patch LXCMachine: '' err))
                   | None \<Rightarrow>
                       do { d \<leftarrow> WaitForDeleteInstance c ctx (om_Name (m_meta obj));
                            case d of
                              Inl err \<Rightarrow> ret (obj, Some (Errorf ''failed to delete the instance: '' err))
                            | Inr _ \<Rightarrow>
                                do { l \<leftarrow> (if u_IsControlPlaneMachine (x_capi x) machine
                                          \<and> IsZeroTime (om_DeletionTimestamp (cl_meta cluster))
                                       then Reconfigure (x_templates x) (ManagerForCluster cluster lxcCluster c) ctx
                                       else ret (Inr ()));
                                     case l of
                                       Inl err \<Rightarrow> ret (obj, Some (Errorf
                                         ''failed to reconfigure load balancer after removing control plane node: '' err))
                                     | Inr _ \<Rightarrow> ret (remove_finalizer_m x obj, None) } } } }"

definition reconcile_patched_m ::
  "'w Env \<Rightarrow> go_context \<Rightarrow> Cluster \<Rightarrow> LXCCluster \<Rightarrow> Machine \<Rightarrow> LXCMachine \<Rightarrow> 'w Client \<Rightarrow> 'w outcome" where
  "reconcile_patched_m x ctx cluster lxcCluster machine lxcMachine c =
     with_patch
       (if \<not> IsZeroTime (om_DeletionTimestamp (m_meta lxcMachine))
        then do { (obj, err) \<leftarrow> reconcileDelete_m x ctx cluster lxcCluster machine lxcMachine c; ret (obj, 0, err) }
        else reconcileNormal_m x ctx cluster lxcCluster machine lxcMachine c)
       (patchLXCMachine x lxcMachine)"

definition Reconcile_m :: "'w Env \<Rightarrow> go_context \<Rightarrow> NamespacedName \<Rightarrow> 'w outcome" where
  "Reconcile_m x ctx req =
     do { g \<leftarrow> call (Kube (KGetLXCMachine req)) (k_GetLXCMachine (x_kube x) req);
          case g of
            Inl err \<Rightarrow> if k_IsNotFound (x_kube x) err then ret (0, None) else ret (0, Some err)
          | Inr lxcMachine \<Rightarrow>
              or_return (call (Kube (KAddOwners lxcMachine)) (k_AddOwners (x_kube x) lxcMachine)) (\<lambda>_.
              or_return (call (Kube (KGetOwnerMachine (m_meta lxcMachine)))
                           (k_GetOwnerMachine (x_kube x) (m_meta lxcMachine))) (\<lambda>om. case om of None \<Rightarrow> ret (0, None)
              | Some machine \<Rightarrow>
              or_return (call (Kube (KGetClusterFromMetadata (ma_meta machine)))
                           (k_GetClusterFromMetadata (x_kube x) (ma_meta machine))) (\<lambda>oc. case oc of None \<Rightarrow> ret (0, None)
              | Some cluster \<Rightarrow>
              or_return (call (Kube (KEnsurePausedMachine cluster lxcMachine))
                           (k_EnsurePausedMachine (x_kube x) cluster lxcMachine)) (\<lambda>(lxcMachine, isPaused, conditionChanged).
              if isPaused \<or> conditionChanged then ret (0, None)
              else (case cl_InfrastructureRef cluster of
                None \<Rightarrow> ret (0, None)
              | Some refName \<Rightarrow>
                  do { lc \<leftarrow> call (Kube (KGetLXCCluster (om_Namespace (m_meta lxcMachine), refName)))
                               (k_GetLXCCluster (x_kube x) (om_Namespace (m_meta lxcMachine), refName));
                       case lc of
                         Inl _ \<Rightarrow> ret (0, None)
                       | Inr lxcCluster \<Rightarrow>
                           or_return (connect x (GetLXCSecretNamespacedName lxcCluster)) (\<lambda>c.
                           or_return (call (Kube (KEnsureFinalizerMachine lxcMachine MachineFinalizer))
                                        (k_EnsureFinalizerMachine (x_kube x) lxcMachine MachineFinalizer))
                             (\<lambda>(lxcMachine, finalizerAdded).
                                if finalizerAdded then ret (0, None)
                                else or_return (call (Kube (KNewHelperMachine lxcMachine))
                                         (k_NewHelperMachine (x_kube x) lxcMachine))
                                       (\<lambda>_. reconcile_patched_m x ctx cluster lxcCluster machine lxcMachine c))) }))))) }"

text \<open>\<^verbatim>\<open>LXCClusterToLXCMachines\<close>: the machines to reconcile when their LXCCluster changes.\<close>

definition LXCClusterToLXCMachines :: "'w Env \<Rightarrow> LXCCluster \<Rightarrow> (request, 'w, NamespacedName list) io" where
  "LXCClusterToLXCMachines x lxcCluster =
     do { r \<leftarrow> call (Kube (KGetOwnerCluster (c_meta lxcCluster))) (k_GetOwnerCluster (x_kube x) (c_meta lxcCluster));
          case r of
            Inr (Some cluster) \<Rightarrow>
              (let selector = [(ClusterNameLabel, om_Name (cl_meta cluster))]
               in do { ml \<leftarrow> call (Kube (KListMachines (om_Namespace (c_meta lxcCluster)) selector))
                               (k_ListMachines (x_kube x) (om_Namespace (c_meta lxcCluster)) selector);
                       case ml of
                         Inl _ \<Rightarrow> ret []
                       | Inr ms \<Rightarrow> ret (map (\<lambda>m. (om_Namespace (ma_meta m), ma_InfrastructureRefName m))
                                     (filter (\<lambda>m. ma_InfrastructureRefName m \<noteq> '''') ms)) })
          | _ \<Rightarrow> ret [] }"

section \<open>Rules\<close>

lemma machine_frame [simp]:
  "m_meta (MarkFalse_m x o1 t r sv m) = m_meta o1" "m_spec (MarkFalse_m x o1 t r sv m) = m_spec o1"
  "m_meta (MarkTrue_m x o1 t) = m_meta o1" "m_spec (MarkTrue_m x o1 t) = m_spec o1"
  "m_meta (summarize_m x o1) = m_meta o1" "m_spec (summarize_m x o1) = m_spec o1"
  "m_meta (set_ready b o1) = m_meta o1" "m_spec (set_ready b o1) = m_spec o1"
  "m_meta (setLXCMachineAddresses o1 addrs) = m_meta o1" "m_spec (setLXCMachineAddresses o1 addrs) = m_spec o1"
  "m_meta (provisioned o1) = m_meta o1"
  "m_spec (provisioned o1) = (m_spec o1)\<lparr>ProviderID := Some (GetExpectedProviderID o1)\<rparr>"
  by (simp_all add: MarkFalse_m_def MarkTrue_m_def summarize_m_def SetConditions_m_def set_ready_def
      setLXCMachineAddresses_def provisioned_def)

lemma machine_status_frame [simp]:
  "m_Ready (m_status (MarkFalse_m x o1 t r sv m)) = m_Ready (m_status o1)"
  "m_Ready (m_status (MarkTrue_m x o1 t)) = m_Ready (m_status o1)"
  "m_Ready (m_status (summarize_m x o1)) = m_Ready (m_status o1)"
  "m_Ready (m_status (set_ready b o1)) = b"
  "m_Ready (m_status (setLXCMachineAddresses o1 addrs)) = m_Ready (m_status o1)"
  "m_Ready (m_status (provisioned o1)) = True"
  "LoadBalancerConfigured (m_status (MarkFalse_m x o1 t r sv m)) = LoadBalancerConfigured (m_status o1)"
  "LoadBalancerConfigured (m_status (MarkTrue_m x o1 t)) = LoadBalancerConfigured (m_status o1)"
  "LoadBalancerConfigured (m_status (summarize_m x o1)) = LoadBalancerConfigured (m_status o1)"
  "LoadBalancerConfigured (m_status (set_ready b o1)) = LoadBalancerConfigured (m_status o1)"
  "LoadBalancerConfigured (m_status (setLXCMachineAddresses o1 addrs)) = LoadBalancerConfigured (m_status o1)"
  "LoadBalancerConfigured (m_status (provisioned o1)) = LoadBalancerConfigured (m_status o1)"
  by (simp_all add: MarkFalse_m_def MarkTrue_m_def summarize_m_def SetConditions_m_def set_ready_def
      setLXCMachineAddresses_def provisioned_def)

lemma machine_conditions [simp]:
  "GetConditions_m (MarkTrue_m x o1 t) = u_MarkTrue (x_capi x) (GetConditions_m o1) t"
  "GetConditions_m (MarkFalse_m x o1 t r sv m) = u_MarkFalse (x_capi x) (GetConditions_m o1) t r sv m"
  "GetConditions_m (set_ready b o1) = GetConditions_m o1"
  "GetConditions_m (setLXCMachineAddresses o1 addrs) = GetConditions_m o1"
  "GetConditions_m (provisioned o1) = GetConditions_m o1"
  by (simp_all add: MarkTrue_m_def MarkFalse_m_def GetConditions_m_def SetConditions_m_def set_ready_def
      setLXCMachineAddresses_def provisioned_def)

lemma instance_name_frame [simp]:
  "GetInstanceName (MarkFalse_m x o1 t r sv m) = GetInstanceName o1" "GetInstanceName (MarkTrue_m x o1 t) = GetInstanceName o1"
  "GetInstanceName (setLXCMachineAddresses o1 addrs) = GetInstanceName o1"
  "GetInstanceName (set_ready b o1) = GetInstanceName o1"
  "GetInstanceName (provisioned o1) = GetInstanceName o1" "GetInstanceName (summarize_m x o1) = GetInstanceName o1"
  by (simp_all add: GetInstanceName_def)

lemma launch_failed_frame [simp]:
  "m_meta (fst (launch_failed x o1 e)) = m_meta o1" "m_spec (fst (launch_failed x o1 e)) = m_spec o1"
  "m_Ready (m_status (fst (launch_failed x o1 e))) = m_Ready (m_status o1)"
  "LoadBalancerConfigured (m_status (fst (launch_failed x o1 e))) = LoadBalancerConfigured (m_status o1)"
  by (simp_all add: launch_failed_def)

definition is_patch_m :: "'w Env \<Rightarrow> LXCMachine \<Rightarrow> LXCMachine \<Rightarrow> request \<Rightarrow> bool" where
  "is_patch_m x before obj r \<longleftrightarrow> r = Kube (KPatchMachine before (summarize_m x obj) (infraConditions_m @ [ReadyCondition]))"

lemma run_patchLXCMachine:
  obtains perr s1 where "run_state (patchLXCMachine x before obj) s = ((summarize_m x obj, perr), s1)"
    "trace s1 = trace s @ [Kube (KPatchMachine before (summarize_m x obj) (infraConditions_m @ [ReadyCondition]))]"
proof -
  obtain r s1 where c: "run_state (call (Kube (KPatchMachine before (summarize_m x obj) (infraConditions_m @ [ReadyCondition])))
      (k_PatchMachine (x_kube x) before (summarize_m x obj) (infraConditions_m @ [ReadyCondition]))) s = (r, s1)"
    by (metis prod.collapse)
  show thesis
    by (rule that [of "error_of r" s1]) (simp_all add: patchLXCMachine_def Let_def c run_callE [OF c])
qed

interpretation machine_patch: object_patch "patchLXCMachine x" "\<lambda>o1. (m_meta o1, m_spec o1)" "is_patch_m x"
  for x :: "'w Env"
proof unfold_locales
  show "issues (is_patch_m x before obj) (patchLXCMachine x before obj)" for before obj
    unfolding patchLXCMachine_def Let_def by (intro issues_intros) (simp add: is_patch_m_def)
  show "(m_meta obj', m_spec obj') = (m_meta obj, m_spec obj)"
    if "run_state (patchLXCMachine x before obj) s = ((obj', err), s')" for before obj s obj' err s'
    using that run_patchLXCMachine [of x before obj s] by (metis machine_frame(5,6) prod.inject)
qed

subsection \<open>Requests of a launch\<close>

fun image_check :: "request \<Rightarrow> bool" where
  "image_check (ConnectSimpleStreams _) = True"
| "image_check (GetImageAliasType _ _ _) = True"
| "image_check (CraneHead _ _) = True"
| "image_check _ = False"

text \<open>The labels that tie an instance to its cluster.\<close>

definition cluster_labels :: "'w Env \<Rightarrow> Cluster \<Rightarrow> Machine \<Rightarrow> string gomap" where
  "cluster_labels x cluster machine =
     [(''user.cluster-name'', om_Name (cl_meta cluster)), (''user.cluster-namespace'', om_Namespace (cl_meta cluster)),
      (''user.machine-name'', om_Name (ma_meta machine)), (''user.cluster-role'', machine_role x machine)]"

definition labelled :: "'w Env \<Rightarrow> Cluster \<Rightarrow> Machine \<Rightarrow> string gomap \<Rightarrow> bool" where
  "labelled x cluster machine cfg \<longleftrightarrow>
     list_all (\<lambda>(k, v). map_of cfg k = Some v) (cluster_labels x cluster machine)"

definition machine_launch :: "'w Env \<Rightarrow> Cluster \<Rightarrow> Machine \<Rightarrow> LXCMachine \<Rightarrow> request \<Rightarrow> bool" where
  "machine_launch x cluster machine lxcMachine r \<longleftrightarrow>
     image_check r
     \<or> (\<exists>t q. r = Incus t q \<and> launch_request (GetInstanceName lxcMachine) q
          \<and> (\<forall>p. q = ReqCreateInstance p \<longrightarrow> labelled x cluster machine (p_Config p)))"

lemma issues_Check: "issues image_check (Check sv i ty)"
  unfolding Check_def Check_head_def Let_def by (intro issues_intros) simp_all

lemma issues_machine_image: "issues image_check (machine_image x d ty ex machine spec)"
  unfolding machine_image_def Let_def
  by (intro issues_intros issues_Check)
     (auto intro!: issues_intros split: option.splits bool.splits)

lemma labelled_machine_options:
  "labelled x cluster machine (config (machine_options x cluster machine lxcMachine devs img opts))"
proof -
  have "wf_map (cluster_labels x cluster machine)"
    by (simp add: cluster_labels_def wf_map_def)
  then have "map_of (config (WithConfig y (cluster_labels x cluster machine))) k = Some v"
    if "(k, v) \<in> set (cluster_labels x cluster machine)" for y k v
    using that by (simp add: with_config.get_put wf_map_def map_of_is_SomeI)
  then show ?thesis
    by (auto simp: labelled_def machine_options_def list_all_iff cluster_labels_def)
qed

lemma with_lb_templates_config:
  "with_lb_templates x cluster lxcCluster machine c opts = Inr opts' \<Longrightarrow> config opts' = config opts"
  by (auto simp: with_lb_templates_def split: if_splits sum.splits)

lemma complete_config: "complete opts srv = Inr opts' \<Longrightarrow> config opts' = config opts"
  by (auto simp: complete_Inr split: if_splits)

lemma launch_labelled:
  assumes "labelled x cluster machine (config opts)"
  shows "issues (machine_launch x cluster machine lxcMachine)
           (WaitForLaunchInstance c ctx (GetInstanceName lxcMachine) opts)"
proof (rule issues_mono [OF issues_launch_exact])
  fix r assume r: "sends c (launch_exact c (GetInstanceName lxcMachine) opts) r"
  then obtain q where q: "r = Incus (cli_target c) q" "launch_exact c (GetInstanceName lxcMachine) opts q"
    by (cases r) (auto simp: sends_def)
  have "labelled x cluster machine (p_Config p)" if "q = ReqCreateInstance p" for p
    using q(2) that assms complete_config
    by (auto simp: launch_exact_def create_request_def launch_post_def
        split: sum.splits option.splits ImageFamily.splits)
  with q show "machine_launch x cluster machine lxcMachine r"
    by (auto simp: machine_launch_def launch_exact_def)
qed

lemma issues_guard_ret:
  "(\<And>x. v = Inr x \<Longrightarrow> issues P (k x)) \<Longrightarrow> issues P (guard_err (ret v) wrap k)"
  by (cases v) (auto simp: guard_err_def intro: issues_ret)

lemma image_check_launch: "image_check r \<Longrightarrow> machine_launch x cluster machine lxcMachine r"
  by (simp add: machine_launch_def)

lemma issues_launchKindInstance:
  "issues (machine_launch x cluster machine lxcMachine)
     (launchKindInstance x ctx cluster lxcCluster machine lxcMachine c cloudInit)"
  unfolding launchKindInstance_def
  by (intro issues_guard_ret issues_guard_err issues_mono [OF issues_machine_image] image_check_launch launch_labelled)
     (simp_all add: with_lb_templates_config labelled_machine_options)

lemma issues_launchInstance:
  "issues (machine_launch x cluster machine lxcMachine)
     (launchInstance x ctx cluster lxcCluster machine lxcMachine c cloudInit)"
  unfolding launchInstance_def Let_def
  by (intro issues_if issues_launchKindInstance issues_guard_ret issues_guard_err issues_mono [OF issues_machine_image]
      image_check_launch launch_labelled)
     (simp_all add: with_lb_templates_config labelled_machine_options)

text \<open>What is created is well formed.\<close>

definition wf_post :: "InstancesPost \<Rightarrow> bool" where
  "wf_post p \<longleftrightarrow> wf_map (p_Config p) \<and> wf_devices (p_Devices p)"

lemma wf_ToMap: "ToMap ds = Inr m \<Longrightarrow> wf_devices m"
proof -
  have args: "wf_map dev' " if "ToMap_args spec as dev = Inr dev'" "wf_map dev" for spec as dev dev'
    using that by (induction spec as dev rule: ToMap_args.induct) (auto split: prod.splits if_splits)
  have lookup: "wf_map d" if "wf_devices m" "map_of m k = Some d" for m k d
    using that by (auto simp: wf_devices_def list_all_iff dest: map_of_SomeD)
  have set: "wf_devices (map_set k d m)" if "wf_devices m" "wf_map d" for k d m
    using that wf_devices_Copy [of m "[(k, d)]"] by (simp add: wf_devices_def)
  have "wf_devices m'" if "ToMap_loop ds m = Inr m'" "wf_devices m" for ds m m'
    using that
  proof (induction ds m rule: ToMap_loop.induct)
    case (2 spec ds m)
    obtain name as f where cut: "Cut spec '','' = (name, as, f)" by (cases "Cut spec '',''") auto
    define dev where "dev = (case map_of m name of None \<Rightarrow> [] | Some dev \<Rightarrow> dev)"
    obtain dev' where dev': "ToMap_args spec (Split as '','') dev = Inr dev'" and f: f
      using 2(2) cut by (cases "ToMap_args spec (Split as '','') dev") (auto simp: dev_def [symmetric] split: if_splits)
    have "wf_map dev" using lookup [OF 2(3)] by (auto simp: dev_def split: option.split)
    then have "wf_devices (map_set name dev' m)" using set 2(3) args [OF dev'] by blast
    then show ?case using 2 cut f dev' by (simp add: dev_def)
  qed simp
  then show "ToMap ds = Inr m \<Longrightarrow> wf_devices m"
    by (auto simp: ToMap_def wf_devices_def split: if_splits)
qed

lemma wf_machine_options:
  "wf_options opts \<Longrightarrow> wf_devices devs \<Longrightarrow> wf_map (Config (m_spec lxcMachine)) \<Longrightarrow>
   wf_options (machine_options x cluster machine lxcMachine devs img opts)"
  unfolding machine_options_def by (auto intro!: wf_options_intros simp: wf_map_def)

lemma wf_lb_templates:
  assumes "with_lb_templates x cluster lxcCluster machine c opts = Inr opts'" and "wf_options opts"
  shows "wf_options opts'"
proof -
  have "wf_map fs" if "ControlPlaneInstanceTemplates m b = Inr fs" for m :: "'a Manager" and b fs
    using that by (cases m) (auto simp: ControlPlaneInstanceTemplates_KubeVIP_def split: sum.splits)
  then show ?thesis using assms by (auto simp: with_lb_templates_def split: if_splits sum.splits)
qed

lemma creates_well_formed: "wf_options opts \<Longrightarrow> issues (creates wf_post) (WaitForLaunchInstance c ctx name opts)"
  using complete_wf by (intro creates_launch) (auto simp: wf_post_def launch_post_def wf_options_def)

lemma creates_image_check: "image_check r \<Longrightarrow> creates P r"
  by (cases r) (auto simp: creates_def)

lemma launchInstance_creates_wf:
  assumes "wf_map (Config (m_spec lxcMachine))"
  shows "issues (creates wf_post) (launchInstance x ctx cluster lxcCluster machine lxcMachine c cloudInit)"
  unfolding launchInstance_def launchKindInstance_def Let_def
  by (intro issues_if issues_guard_ret issues_guard_err issues_mono [OF issues_machine_image] creates_image_check creates_well_formed)
    (assumption | erule wf_lb_templates | rule wf_machine_options assms wf_kubeadm_options | erule wf_kind_options wf_ToMap)+

section \<open>Properties\<close>

text \<open>
  C17: Whatever the outside answers, launching the instance of a machine touches no other instance: every
  request is a check of the image, or a launch request for the instance of that machine; and an
  instance is only ever created with the labels of its cluster, machine and role, whatever
  configuration the user gave.
\<close>

theorem launchInstance_own_instance:
  "\<exists>rs. trace (snd (run_state (launchInstance x ctx cluster lxcCluster machine lxcMachine c cloudInit) s)) = trace s @ rs
     \<and> list_all (\<lambda>r. image_check r
          \<or> (\<exists>t q. r = Incus t q \<and> launch_request (GetInstanceName lxcMachine) q
               \<and> (case q of ReqCreateInstance p \<Rightarrow> labelled x cluster machine (p_Config p) | _ \<Rightarrow> True))) rs"
proof -
  have "machine_launch x cluster machine lxcMachine r \<Longrightarrow> image_check r
          \<or> (\<exists>t q. r = Incus t q \<and> launch_request (GetInstanceName lxcMachine) q
               \<and> (case q of ReqCreateInstance p \<Rightarrow> labelled x cluster machine (p_Config p) | _ \<Rightarrow> True))" for r
    unfolding machine_launch_def by (elim disjE exE conjE; simp split: incus_request.split)
  note own = issues_mono [OF issues_launchInstance this]
  obtain r s' where "run_state (launchInstance x ctx cluster lxcCluster machine lxcMachine c cloudInit) s = (r, s')"
    by (cases "run_state (launchInstance x ctx cluster lxcCluster machine lxcMachine c cloudInit) s")
  with issuesD [OF own this] show ?thesis by simp
qed

text \<open>
  C18: The label contract between the machine controller and the load balancer: an instance with the
  labels of its launch is selected as a backend of the cluster exactly when its machine is a control
  plane machine.
\<close>

theorem labels_select_control_plane:
  assumes "labelled x cluster machine (i_Config i)"
  shows "filterClusterControlPlaneInstances (om_Name (cl_meta cluster)) (om_Namespace (cl_meta cluster)) i
           \<longleftrightarrow> u_IsControlPlaneMachine (x_capi x) machine"
  using assms
  by (simp add: labelled_def cluster_labels_def filterClusterControlPlaneInstances_def WithConfig_filter_def
      get_str_def machine_role_def)

definition sample_machine :: "bool \<Rightarrow> Machine" where
  "sample_machine cp =
     \<lparr>ma_meta = (sample_meta ''m'' [])\<lparr>om_Labels := (if cp then [(''cluster.x-k8s.io/control-plane'', '''')] else [])\<rparr>,
      ma_Version = Some ''v1.33.0'', ma_DataSecretName = Some ''boot'', ma_InfrastructureRefName = ''m''\<rparr>"

theorem labels_select_control_plane_witness:
  "filterClusterControlPlaneInstances ''c'' ''ns''
     \<lparr>i_Name = ''m'', i_Type = Container, i_Config = cluster_labels (sample_env :: unit Env) sample_cluster (sample_machine True), i_Devices = [],
      i_State = None\<rparr>"
proof -
  let ?i = "\<lparr>i_Name = ''m'', i_Type = Container, i_Config = cluster_labels (sample_env :: unit Env) sample_cluster (sample_machine True), i_Devices = [],
      i_State = None\<rparr>"
  have "labelled (sample_env :: unit Env) sample_cluster (sample_machine True) (i_Config ?i)"
    by (simp add: labelled_def cluster_labels_def)
  from labels_select_control_plane [OF this] show ?thesis
    by (simp add: sample_cluster_def sample_meta_def sample_env_def sample_capi_def sample_machine_def)
qed

subsection \<open>Normal reconciliation\<close>

lemma reconcileNormal_m_cases:
  assumes run: "run_state (reconcileNormal_m x ctx cluster lxcCluster machine m c) s = ((m', res, err), s')"
  obtains (waiting) reason where "err = None" "res = 0" "s' = s"
      "m' = MarkFalse_m x m InstanceProvisionedCondition reason ConditionSeverityInfo ''''"
  | (checked) "ProviderID (m_spec m) \<noteq> None" "run_state (check_provisioned x m c) s = ((m', res, err), s')"
  | (no_data) e where "m' = m" "err = Some e" "ProviderID (m_spec m) = None"
  | (failed) e s1 ci where "ProviderID (m_spec m) = None" "launch_failed x m e = (m', res, err)"
      "run_state (launchInstance x ctx cluster lxcCluster machine m c ci) s1 = (Inl e, s')"
  | (started) addrs s1 s2 ci where "ProviderID (m_spec m) = None"
      "run_state (launchInstance x ctx cluster lxcCluster machine m c ci) s1 = (Inr addrs, s2)"
      "run_state (launched x ctx cluster lxcCluster machine m c addrs) s2 = ((m', res, err), s')"
proof (cases "cl_InfrastructureReady cluster")
  case False
  then show thesis using run waiting by (auto simp: reconcileNormal_m_def)
next
  case ready: True
  show thesis
  proof (cases "ProviderID (m_spec m)")
    case (Some p)
    then show thesis using run ready checked by (auto simp: reconcileNormal_m_def)
  next
    case unset: None
    show thesis
    proof (cases "ma_DataSecretName machine")
      case None
      then show thesis using run ready unset waiting by (auto simp: reconcileNormal_m_def split: if_splits)
    next
      case (Some n)
      obtain b s1 where b: "run_state (getBootstrapData x (om_Namespace (m_meta m)) n) s = (b, s1)"
        by (metis prod.collapse)
      show thesis
      proof (cases b)
        case (Inl e)
        then show thesis using run ready unset Some b no_data by (auto simp: reconcileNormal_m_def)
      next
        case (Inr ci)
        obtain l s2 where l: "run_state (launchInstance x ctx cluster lxcCluster machine m c ci) s1 = (l, s2)"
          by (metis prod.collapse)
        show thesis
          using run ready unset Some b Inr l failed started
          by (cases l) (auto simp: reconcileNormal_m_def)
      qed
    qed
  qed
qed

lemma launched_cases:
  assumes "run_state (launched x ctx cluster lxcCluster machine m c addrs) s = ((m', res, err), s')"
  obtains (lb_failed) e where "err = Some e" "m_spec m' = m_spec m" "m_meta m' = m_meta m"
      "m_Ready (m_status m') = m_Ready (m_status m)"
      "LoadBalancerConfigured (m_status m') = LoadBalancerConfigured (m_status m)"
  | (finished) "err = None" "m_spec m' = (m_spec m)\<lparr>ProviderID := Some (GetExpectedProviderID m)\<rparr>" "m_meta m' = m_meta m"
      "m_Ready (m_status m')"
      "LoadBalancerConfigured (m_status m') = (LoadBalancerConfigured (m_status m) \<or> u_IsControlPlaneMachine (x_capi x) machine)"
      "Addresses (m_status m') = Addresses (m_status (setLXCMachineAddresses m addrs))"
      "u_IsControlPlaneMachine (x_capi x) machine \<longrightarrow> LoadBalancerConfigured (m_status m)
         \<or> fst (run_state (Reconfigure (x_templates x) (ManagerForCluster cluster lxcCluster c) ctx) s) = Inr ()"
  using assms
  by (auto simp: launched_def Let_def GetExpectedProviderID_def GetInstanceName_def provisioned_def MarkTrue_m_def
      SetConditions_m_def set_ready_def setLXCMachineAddresses_def split: if_splits prod.splits sum.splits)

text \<open>
  C3: A machine gets its provider ID only when its instance was launched, and for a control plane machine
  only after the load balancer was configured with it (now or before); the ID is then the one
  expected for the instance, the machine is ready, and the addresses are those of the launch.
\<close>

theorem provider_id_after_launch:
  assumes run: "run_state (reconcileNormal_m x ctx cluster lxcCluster machine m c) s = ((m', res, err), s')"
    and before: "ProviderID (m_spec m) = None" and after: "ProviderID (m_spec m') \<noteq> None"
  shows "ProviderID (m_spec m') = Some (''lxc:///'' @ om_Name (m_meta m)) \<and> m_Ready (m_status m') \<and> err = None
    \<and> (\<exists>ci s1 s2 addrs. run_state (launchInstance x ctx cluster lxcCluster machine m c ci) s1 = (Inr addrs, s2)
         \<and> Addresses (m_status m') = Addresses (m_status (setLXCMachineAddresses m addrs))
         \<and> (u_IsControlPlaneMachine (x_capi x) machine \<longrightarrow> LoadBalancerConfigured (m_status m')
              \<and> (LoadBalancerConfigured (m_status m)
                 \<or> fst (run_state (Reconfigure (x_templates x) (ManagerForCluster cluster lxcCluster c) ctx) s2) = Inr ())))"
  using run
proof (cases rule: reconcileNormal_m_cases)
  case (started addrs s1 s2 ci)
  from started(3) show ?thesis
  proof (cases rule: launched_cases)
    case finished
    with started(2) show ?thesis
      by (auto simp: GetExpectedProviderID_def GetInstanceName_def)
  qed (use before after in auto)
next
  case (failed e s1 ci)
  then have "m_spec m' = m_spec m" by (metis launch_failed_frame(2) fst_conv)
  with before after show ?thesis by simp
qed (use before after in auto)

definition sample_lxcMachine :: LXCMachine where
  "sample_lxcMachine =
     \<lparr>m_meta = sample_meta ''m'' [MachineFinalizer],
      m_spec = \<lparr>ProviderID = None, InstanceType = '''', Flavor = '''', Profiles = [], Devices = [], Config = [],
        m_Image = \<lparr>img_Name = ''x'', img_Fingerprint = '''', img_Server = '''', img_Protocol = ''''\<rparr>, Target = ''''\<rparr>,
      m_status = \<lparr>m_Ready = False, LoadBalancerConfigured = False, Addresses = [], m_Conditions = [], m_V1Beta2 = None\<rparr>\<rparr>"

definition boot_env :: "'w Env" where
  "boot_env = sample_env\<lparr>x_kube := sample_kube\<lparr>k_GetSecret :=
     \<lambda>_ w. (Inr \<lparr>sec_meta = sample_meta ''boot'' [], sec_Data = [(''value'', ''data'')]\<rparr>, 1, w)\<rparr>\<rparr>"

lemma boot_env_simps [simp]:
  "x_capi boot_env = sample_capi" "u_IsControlPlaneMachine sample_capi (sample_machine cp) = cp"
  "k_GetSecret (x_kube boot_env) n w =
     (Inr \<lparr>sec_meta = sample_meta ''boot'' [], sec_Data = [(''value'', ''data'')]\<rparr>, 1, w)"
  by (simp_all add: boot_env_def sample_env_def sample_capi_def sample_machine_def)

lemma sample_spec [simp]:
  "m_spec sample_lxcMachine = \<lparr>ProviderID = None, InstanceType = '''', Flavor = '''', Profiles = [], Devices = [], Config = [],
        m_Image = \<lparr>img_Name = ''x'', img_Fingerprint = '''', img_Server = '''', img_Protocol = ''''\<rparr>, Target = ''''\<rparr>"
  "m_meta sample_lxcMachine = sample_meta ''m'' [MachineFinalizer]"
  by (simp_all add: sample_lxcMachine_def)

lemma sample_projections [simp]:
  "cl_InfrastructureReady sample_cluster" "ma_DataSecretName (sample_machine cp) = Some ''boot''"
  "om_Namespace (sample_meta n fs) = ''ns''" "om_Name (sample_meta n fs) = n"
  by (simp_all add: sample_cluster_def sample_machine_def sample_meta_def)

definition sample_launch_options :: "string \<Rightarrow> LaunchOptions" where
  "sample_launch_options ci =
     machine_options (boot_env :: unit Env) sample_cluster (sample_machine False) sample_lxcMachine []
       (plain_image_of \<lparr>img_Name = ''x'', img_Fingerprint = '''', img_Server = '''', img_Protocol = ''''\<rparr>)
       (KubeadmLaunchOptions (x_scripts (boot_env :: unit Env))
          \<lparr>ku_KubernetesVersion = machine_version (sample_machine False), ku_InstanceType = Container,
           ku_Privileged = \<not> Unprivileged (c_spec sample_lxcCluster), ku_SkipProfile = SkipDefaultKubeadmProfile (c_spec sample_lxcCluster),
           ku_SkipInstallKubeadmScript = False, ku_ServerName = ''incus'', ku_CloudInit = ci\<rparr>)"

lemma sample_launch_step:
  "run_state (launchInstance boot_env ctx sample_cluster sample_lxcCluster (sample_machine False) sample_lxcMachine (sample_client srv) ci) s
   = run_state (WaitForLaunchInstance (sample_client srv) ctx ''m'' (sample_launch_options ci)) s"
proof -
  have "image_spec (sample_machine False) sample_lxcMachine
      = Inr \<lparr>img_Name = ''x'', img_Fingerprint = '''', img_Server = '''', img_Protocol = ''''\<rparr>"
    by (simp add: image_spec_def Let_def Contains.simps HasPrefix_def)
  moreover have "machine_image (boot_env :: 'a Env) d ty ex (sample_machine False)
      \<lparr>img_Name = ''x'', img_Fingerprint = '''', img_Server = '''', img_Protocol = ''''\<rparr>
      = ret (Inr (plain_image_of \<lparr>img_Name = ''x'', img_Fingerprint = '''', img_Server = '''', img_Protocol = ''''\<rparr>))" for d ty ex
    by (simp add: machine_image_def ParseImage_def Split_single_absent)
  moreover have "WithTarget (sample_client srv) t = sample_client srv" for t
    by (simp add: WithTarget_def SupportsInstanceTarget_def sample_client_def)
  moreover have "GetServerName (sample_client srv) = ''incus''"
    by (simp add: GetServerName_def sample_client_def IncusServer_def)
  moreover have "machine_options (boot_env :: 'a Env) = machine_options (boot_env :: unit Env)"
    by (simp add: fun_eq_iff machine_options_def machine_role_def)
  moreover have "x_scripts (boot_env :: 'a Env) = x_scripts (boot_env :: unit Env)"
    by (simp add: boot_env_def sample_env_def)
  ultimately show ?thesis
    by (simp add: launchInstance_def Let_def run_state_guard_err ToMap_def with_lb_templates_def sample_launch_options_def GetInstanceName_def)
qed

lemma sample_launch:
  "\<exists>s'. run_state (launchInstance boot_env ctx sample_cluster sample_lxcCluster (sample_machine False) sample_lxcMachine
          (sample_client running_server) ci) s = (Inr [''10.0.0.2''], s')"
  unfolding sample_launch_step by (rule run_launch_running)

lemma sample_reconcile:
  obtains m' s' where "run_state (reconcileNormal_m boot_env Background sample_cluster sample_lxcCluster (sample_machine False)
        sample_lxcMachine (sample_client running_server)) s = ((m', 0, None), s')" "ProviderID (m_spec m') \<noteq> None"
proof -
  let ?s = "s\<lparr>clock := Suc (clock s), trace := trace s @ [Kube (KGetSecret (''ns'', ''boot''))], outside := outside s\<rparr>"
  obtain s' where l: "run_state (launchInstance boot_env Background sample_cluster sample_lxcCluster (sample_machine False)
      sample_lxcMachine (sample_client running_server) ''data'') ?s = (Inr [''10.0.0.2''], s')"
    using sample_launch by blast
  show thesis
    by (rule that [of "provisioned (MarkTrue_m boot_env (setLXCMachineAddresses sample_lxcMachine [''10.0.0.2''])
          InstanceProvisionedCondition)" s'])
       (simp_all add: reconcileNormal_m_def getBootstrapData_def run_state_guard_err call_def l [simplified] launched_def Let_def)
qed

theorem provider_id_after_launch_witness:
  "\<exists>m' s'. run_state (reconcileNormal_m boot_env Background sample_cluster sample_lxcCluster (sample_machine False)
        sample_lxcMachine (sample_client running_server)) (initial_world ()) = ((m', 0, None), s')
     \<and> ProviderID (m_spec m') = Some ''lxc:///m'' \<and> m_Ready (m_status m')"
proof -
  obtain m' s' where run: "run_state (reconcileNormal_m boot_env Background sample_cluster sample_lxcCluster (sample_machine False)
        sample_lxcMachine (sample_client running_server)) (initial_world ()) = ((m', 0, None), s')"
    and p: "ProviderID (m_spec m') \<noteq> None"
    by (rule sample_reconcile)
  have "ProviderID (m_spec sample_lxcMachine) = None" by simp
  from provider_id_after_launch [OF run this p] run show ?thesis by (auto simp: sample_meta_def)
qed

text \<open>
  A launch that fails never gives the machine a provider ID.  A terminal error is recorded with severity
  Error and not retried; a launch that ran out of time is reported as in progress and retried after
  ten seconds; any other error is recorded as a warning and returned, so that it is retried.  This is what the code sets; the comment on
  \<^verbatim>\<open>CreatingInstanceReason\<close> in \<^verbatim>\<open>condition_consts.go\<close> documents the severity Info for the second case.
\<close>

theorem launch_error_classified:
  assumes laws: "capi_conditions_law (x_capi x)"
    and "cl_InfrastructureReady cluster" and "ProviderID (m_spec m) = None" and "ma_DataSecretName machine = Some n"
    and "run_state (getBootstrapData x (om_Namespace (m_meta m)) n) s = (Inr ci, s1)"
    and "run_state (launchInstance x ctx cluster lxcCluster machine m c ci) s1 = (Inl e, s2)"
  shows "\<exists>m' res err cond. run_state (reconcileNormal_m x ctx cluster lxcCluster machine m c) s = ((m', res, err), s2)
    \<and> m_spec m' = m_spec m \<and> m_meta m' = m_meta m
    \<and> find_condition (GetConditions_m m') InstanceProvisionedCondition = Some cond \<and> c_Status cond = ''False''
    \<and> (if IsTerminalError e then
         c_Severity cond = ConditionSeverityError \<and> c_Reason cond = InstanceProvisioningAbortedReason \<and> res = 0 \<and> err = None
       else if HasSuffix (error_msg e) ''context deadline exceeded'' then
         c_Severity cond = ConditionSeverityWarning \<and> c_Reason cond = CreatingInstanceReason \<and> res = 10 * second \<and> err = None
       else c_Severity cond = ConditionSeverityWarning \<and> c_Reason cond = InstanceProvisioningFailedReason
         \<and> res = 0 \<and> err = Some (Errorf ''failed to create instance: '' e))"
  using assms
  by (simp add: reconcileNormal_m_def launch_failed_def capi_conditions_law_def)

text \<open>A machine whose image names no Kubernetes version.\<close>

definition versionless :: "Machine" where
  "versionless = (sample_machine False)\<lparr>ma_Version := None\<rparr>"

definition unspecified :: LXCMachine where
  "unspecified = sample_lxcMachine\<lparr>m_spec := (m_spec sample_lxcMachine)\<lparr>m_Image :=
     \<lparr>img_Name = '''', img_Fingerprint = '''', img_Server = '''', img_Protocol = ''''\<rparr>\<rparr>\<rparr>"

theorem launch_error_classified_witness:
  "\<exists>m' s'. run_state (reconcileNormal_m boot_env Background sample_cluster sample_lxcCluster versionless unspecified
        (sample_client running_server)) (initial_world ()) = ((m', 0, None), s')
     \<and> (\<exists>cond. find_condition (GetConditions_m m') InstanceProvisionedCondition = Some cond
          \<and> c_Severity cond = ConditionSeverityError)"
proof -
  have laws: "capi_conditions_law (x_capi (boot_env :: unit Env))" by (simp add: sample_capi_laws)
  have pre: "cl_InfrastructureReady sample_cluster" "ProviderID (m_spec unspecified) = None"
      "ma_DataSecretName versionless = Some ''boot''"
    by (simp_all add: unspecified_def versionless_def)
  have meta: "m_meta unspecified = sample_meta ''m'' [MachineFinalizer]" by (simp add: unspecified_def)
  obtain s1 where boot: "run_state (getBootstrapData (boot_env :: unit Env) (om_Namespace (m_meta unspecified)) ''boot'')
      (initial_world ()) = (Inr ''data'', s1)"
    by (simp add: getBootstrapData_def run_state_guard_err call_def meta)
  have "image_spec versionless unspecified = Inr \<lparr>img_Name = '''', img_Fingerprint = '''', img_Server = '''', img_Protocol = ''''\<rparr>"
    by (simp add: image_spec_def unspecified_def Contains.simps)
  then obtain e where launch: "run_state (launchInstance (boot_env :: unit Env) Background sample_cluster sample_lxcCluster
        versionless unspecified (sample_client running_server) ''data'') s1 = (Inl e, s1)" and e: "IsTerminalError e"
    by (simp add: launchInstance_def Let_def run_state_guard_err unspecified_def ToMap_def machine_image_def IsZero_def
        machine_version_def versionless_def)
  from launch_error_classified [OF laws pre boot launch] e show ?thesis by auto
qed

subsection \<open>Which requests a reconciliation sends\<close>

definition normal_request :: "'w Env \<Rightarrow> Cluster \<Rightarrow> LXCCluster \<Rightarrow> Machine \<Rightarrow> LXCMachine \<Rightarrow> 'w Client \<Rightarrow> request \<Rightarrow> bool" where
  "normal_request x cluster lxcCluster machine m c r \<longleftrightarrow>
     machine_launch x cluster machine m r
     \<or> lb_configures (ManagerForCluster cluster lxcCluster c) r
     \<or> (\<exists>n. r = Kube (KGetSecret (om_Namespace (m_meta m), n)))"

lemma issues_reconcileNormal_m:
  "issues (normal_request x cluster lxcCluster machine m c) (reconcileNormal_m x ctx cluster lxcCluster machine m c)"
proof -
  let ?P = "normal_request x cluster lxcCluster machine m c"
  have "issues ?P (check_provisioned x m c)"
    unfolding check_provisioned_def by (intro issues_intros) (simp add: normal_request_def machine_launch_def)
  moreover have "issues ?P (getBootstrapData x (om_Namespace (m_meta m)) n)" for n
    unfolding getBootstrapData_def by (intro issues_intros) (simp add: normal_request_def)
  moreover have "issues ?P (launchInstance x ctx cluster lxcCluster machine m c ci)" for ci
    by (rule issues_mono [OF issues_launchInstance]) (simp add: normal_request_def)
  moreover have "issues ?P (Reconfigure (x_templates x) (ManagerForCluster cluster lxcCluster c) ctx)"
    by (rule issues_mono [OF lb.reconfigure_issues]) (simp add: normal_request_def)
  then have "issues ?P (launched x ctx cluster lxcCluster machine m c addrs)" for addrs
    unfolding launched_def Let_def by (intro issues_intros)
  ultimately show ?thesis
    unfolding reconcileNormal_m_def by (intro issues_intros)
qed

lemma reconcileNormal_m_meta:
  assumes "run_state (reconcileNormal_m x ctx cluster lxcCluster machine m c) s = ((m', res, err), s')"
  shows "m_meta m' = m_meta m"
  using assms
proof (cases rule: reconcileNormal_m_cases)
  case checked
  then show ?thesis
    by (auto simp: check_provisioned_def split: prod.splits sum.splits if_splits)
next
  case (failed e s1 ci)
  then show ?thesis by (metis launch_failed_frame(1) fst_conv)
next
  case (started addrs s1 s2 ci)
  from started(3) show ?thesis by (cases rule: launched_cases) auto
qed auto

text \<open>
  C12: Reconciling a machine that is not being deleted never deletes or stops anything: it reads its bootstrap
  secret, launches its own instance, and writes the configuration of the cluster's load balancer;
  it ends with one patch of the object that keeps all of its metadata, its finalizers in particular.
\<close>

theorem reconcile_normal_m_safe:
  assumes alive: "IsZeroTime (om_DeletionTimestamp (m_meta m))"
  shows "\<exists>rs m'. trace (snd (run_state (reconcile_patched_m x ctx cluster lxcCluster machine m c) s))
            = trace s @ rs @ [Kube (KPatchMachine m m' (infraConditions_m @ [ReadyCondition]))]
        \<and> m_meta m' = m_meta m
        \<and> list_all (normal_request x cluster lxcCluster machine m c) rs
        \<and> list_all (\<lambda>r. case r of
              Incus _ (ReqDeleteInstance _) \<Rightarrow> False
            | Incus _ (ReqDeleteNetworkLoadBalancer _ _) \<Rightarrow> False
            | Incus _ (ReqUpdateInstanceState _ action _) \<Rightarrow> action = ''start''
            | _ \<Rightarrow> True) rs"
proof -
  obtain m1 res err s1 where n: "run_state (reconcileNormal_m x ctx cluster lxcCluster machine m c) s = ((m1, res, err), s1)"
    by (metis prod.collapse)
  from issuesD [OF issues_reconcileNormal_m n] obtain rs where
    rs: "trace s1 = trace s @ rs" "list_all (normal_request x cluster lxcCluster machine m c) rs" by blast
  obtain perr s2 where p: "run_state (patchLXCMachine x m m1) s1 = ((summarize_m x m1, perr), s2)"
      "trace s2 = trace s1 @ [Kube (KPatchMachine m (summarize_m x m1) (infraConditions_m @ [ReadyCondition]))]"
    by (rule run_patchLXCMachine)
  have "case r of Incus _ (ReqDeleteInstance _) \<Rightarrow> False
            | Incus _ (ReqDeleteNetworkLoadBalancer _ _) \<Rightarrow> False
            | Incus _ (ReqUpdateInstanceState _ action _) \<Rightarrow> action = ''start''
            | _ \<Rightarrow> True" if "normal_request x cluster lxcCluster machine m c r" for r
    using that
    by (cases "ManagerForCluster cluster lxcCluster c"; cases r)
       (auto simp: normal_request_def machine_launch_def incus_kind_def split: incus_request.splits)
  with rs(2) have "list_all (\<lambda>r. case r of Incus _ (ReqDeleteInstance _) \<Rightarrow> False
            | Incus _ (ReqDeleteNetworkLoadBalancer _ _) \<Rightarrow> False
            | Incus _ (ReqUpdateInstanceState _ action _) \<Rightarrow> action = ''start''
            | _ \<Rightarrow> True) rs"
    unfolding list_all_iff by blast
  with rs p n alive reconcileNormal_m_meta [OF n] show ?thesis
    by (intro exI [of _ rs] exI [of _ "summarize_m x m1"]) (simp add: reconcile_patched_m_def with_patch_def)
qed

theorem reconcile_normal_m_safe_witness:
  "\<exists>rs m'. trace (snd (run_state (reconcile_patched_m boot_env Background sample_cluster sample_lxcCluster
        (sample_machine False) sample_lxcMachine (sample_client running_server)) (initial_world ())))
      = rs @ [Kube (KPatchMachine sample_lxcMachine m' (infraConditions_m @ [ReadyCondition]))]
    \<and> om_Finalizers (m_meta m') = [MachineFinalizer]"
proof -
  have "IsZeroTime (om_DeletionTimestamp (m_meta sample_lxcMachine))"
    by (simp add: sample_meta_def IsZeroTime_def)
  from reconcile_normal_m_safe [OF this, of boot_env Background sample_cluster sample_lxcCluster "sample_machine False"
      "sample_client running_server" "initial_world ()"]
  show ?thesis by (auto simp: sample_meta_def)
qed

subsection \<open>Deletion\<close>

definition mark_deleting_m :: "'w Env \<Rightarrow> LXCMachine \<Rightarrow> LXCMachine" where
  "mark_deleting_m x m = summarize_m x
     (MarkFalse_m x m InstanceProvisionedCondition DeletingReason ConditionSeverityInfo '''')"

lemma mark_deleting_frame [simp]:
  "m_meta (mark_deleting_m x m) = m_meta m" "m_spec (mark_deleting_m x m) = m_spec m"
  "m_Ready (m_status (mark_deleting_m x m)) = m_Ready (m_status m)"
  "LoadBalancerConfigured (m_status (mark_deleting_m x m)) = LoadBalancerConfigured (m_status m)"
  by (simp_all add: mark_deleting_m_def)

lemma reconcileDelete_m_cases:
  assumes run: "run_state (reconcileDelete_m x ctx cluster lxcCluster machine m c) s = ((m', err), s')"
  obtains (failed) e where "err = Some e" "m' = m \<or> m' = mark_deleting_m x m"
  | (deleted) s1 s2 where "err = None" "m' = remove_finalizer_m x (mark_deleting_m x m)"
      "run_state (WaitForDeleteInstance c ctx (om_Name (m_meta m))) s1 = (Inr (), s2)"
      "if u_IsControlPlaneMachine (x_capi x) machine \<and> IsZeroTime (om_DeletionTimestamp (cl_meta cluster))
       then run_state (Reconfigure (x_templates x) (ManagerForCluster cluster lxcCluster c) ctx) s2 = (Inr (), s')
       else s' = s2"
proof -
  obtain h s0 where h: "run_state (call (Kube (KNewHelperMachine m)) (k_NewHelperMachine (x_kube x) m)) s = (h, s0)"
    by (metis prod.collapse)
  obtain perr s1 where p: "run_state (patchLXCMachine x m
      (MarkFalse_m x m InstanceProvisionedCondition DeletingReason ConditionSeverityInfo '''')) s0
      = ((mark_deleting_m x m, perr), s1)"
    unfolding mark_deleting_m_def by (rule run_patchLXCMachine)
  obtain d s2 where d: "run_state (WaitForDeleteInstance c ctx (om_Name (m_meta m))) s1 = (d, s2)"
    by (metis prod.collapse)
  obtain l s3 where l: "run_state (if u_IsControlPlaneMachine (x_capi x) machine
        \<and> IsZeroTime (om_DeletionTimestamp (cl_meta cluster))
      then Reconfigure (x_templates x) (ManagerForCluster cluster lxcCluster c) ctx else ret (Inr ())) s2 = (l, s3)"
    by (metis prod.collapse)
  consider (h) e where "h = Inl e" | (p) e where "h = Inr ()" "perr = Some e"
    | (d) e where "h = Inr ()" "perr = None" "d = Inl e"
    | (l) e where "h = Inr ()" "perr = None" "d = Inr ()" "l = Inl e"
    | (ok) "h = Inr ()" "perr = None" "d = Inr ()" "l = Inr ()"
    by (cases h; cases perr; cases d; cases l) auto
  then show thesis
  proof cases
    case ok
    then have "m' = remove_finalizer_m x (mark_deleting_m x m)" "err = None" "s' = s3"
      using run h p d l by (simp_all add: reconcileDelete_m_def)
    with ok d l show thesis by (intro deleted [of s1 s2]) (auto split: if_splits)
  qed (use run h p d l failed in \<open>auto simp: reconcileDelete_m_def\<close>)
qed

text \<open>
  C4: A machine loses its finalizer only after its instance was deleted, or found not to exist, without an
  error, and, for a control plane machine of a cluster that is not itself being deleted, after the
  load balancer was reconfigured without it; every failure on the way keeps the finalizer and is
  returned, so that the deletion is retried.
\<close>

theorem reconcileDelete_m_finalizer:
  assumes run: "run_state (reconcileDelete_m x ctx cluster lxcCluster machine m c) s = ((m', err), s')"
  shows "case err of
      Some e \<Rightarrow> m_meta m' = m_meta m
    | None \<Rightarrow> om_Finalizers (m_meta m') = u_RemoveFinalizer (x_capi x) (om_Finalizers (m_meta m)) MachineFinalizer
        \<and> (\<exists>s1 s2. run_state (WaitForDeleteInstance c ctx (om_Name (m_meta m))) s1 = (Inr (), s2)
             \<and> (u_IsControlPlaneMachine (x_capi x) machine \<and> IsZeroTime (om_DeletionTimestamp (cl_meta cluster)) \<longrightarrow>
                  run_state (Reconfigure (x_templates x) (ManagerForCluster cluster lxcCluster c) ctx) s2 = (Inr (), s')))"
  using run
proof (cases rule: reconcileDelete_m_cases)
  case (failed e)
  then show ?thesis by auto
next
  case (deleted s1 s2)
  then show ?thesis
    by (simp add: remove_finalizer_m_def) (rule exI [of _ s1], rule exI [of _ s2], simp)
qed

definition gone_server :: "'w InstanceServer" where
  "gone_server = refusing_server\<lparr>srv_GetInstanceState := \<lambda>_ _ w. (Inl (Err ''Instance not found''), 1, w)\<rparr>"

lemma delete_gone:
  "\<exists>s'. run_state (WaitForDeleteInstance (sample_client gone_server) ctx n) s = (Inr (), s')"
proof -
  have "Contains (error_msg (Errorf ''failed to GetInstanceState: '' (Err ''Instance not found''))) ''Instance not found''"
    by (rule Contains_Wrapf) simp
  then show ?thesis
    by (simp add: WaitForDeleteInstance_def WaitForStopInstance_def run_state_guard_err incus_call_def
        call_def sample_client_def gone_server_def)
qed

theorem reconcileDelete_m_finalizer_witness:
  "\<exists>m' s'. run_state (reconcileDelete_m boot_env Background sample_cluster sample_lxcCluster (sample_machine False)
        sample_lxcMachine (sample_client gone_server)) (initial_world ()) = ((m', None), s')
     \<and> om_Finalizers (m_meta m') = []"
proof -
  have k: "k_NewHelperMachine (x_kube (boot_env :: unit Env)) m w = (Inr (), 0, w)"
    "k_PatchMachine (x_kube (boot_env :: unit Env)) b m ow w = (Inr (), 0, w)" for m b ow w
    by (simp_all add: boot_env_def sample_env_def sample_kube_def)
  obtain s2 where d: "run_state (WaitForDeleteInstance (sample_client gone_server) Background ''m'')
      (initial_world () \<lparr>trace := [Kube (KNewHelperMachine sample_lxcMachine),
         Kube (KPatchMachine sample_lxcMachine (mark_deleting_m (boot_env :: unit Env) sample_lxcMachine)
           (infraConditions_m @ [ReadyCondition]))]\<rparr>) = (Inr (), s2)"
    using delete_gone by blast
  have run: "run_state (reconcileDelete_m boot_env Background sample_cluster sample_lxcCluster (sample_machine False)
        sample_lxcMachine (sample_client gone_server)) (initial_world ())
      = ((remove_finalizer_m (boot_env :: unit Env) (mark_deleting_m (boot_env :: unit Env) sample_lxcMachine), None), s2)"
    using d by (simp add: reconcileDelete_m_def patchLXCMachine_def call_def k Let_def error_of_def
        mark_deleting_m_def [symmetric] initial_world_def)
  from reconcileDelete_m_finalizer [OF run] run show ?thesis
    by (auto simp: sample_capi_def sample_meta_def)
qed

subsection \<open>The life of a machine\<close>

text \<open>
  The steps of a machine object \<open>m\<close> with a fixed role (\<open>cp\<close>: control plane): a normal or a delete
  reconciliation with any cluster state, client and answers of the outside, and the summary that
  a patch writes.
\<close>

inductive machine_step :: "'w Env \<Rightarrow> bool \<Rightarrow> LXCMachine \<Rightarrow> LXCMachine \<Rightarrow> bool" for x cp where
  normal: "run_state (reconcileNormal_m x ctx cluster lxcCluster machine m c) s = ((m', res, err), s') \<Longrightarrow>
     u_IsControlPlaneMachine (x_capi x) machine = cp \<Longrightarrow> machine_step x cp m m'"
| delete: "run_state (reconcileDelete_m x ctx cluster lxcCluster machine m c) s = ((m', err), s') \<Longrightarrow>
     u_IsControlPlaneMachine (x_capi x) machine = cp \<Longrightarrow> machine_step x cp m m'"
| summary: "machine_step x cp m (summarize_m x m)"

definition fresh_machine :: "LXCMachine \<Rightarrow> bool" where
  "fresh_machine m \<longleftrightarrow> ProviderID (m_spec m) = None \<and> \<not> m_Ready (m_status m) \<and> \<not> LoadBalancerConfigured (m_status m)"

inductive machine_reachable :: "'w Env \<Rightarrow> bool \<Rightarrow> LXCMachine \<Rightarrow> bool" for x cp where
  fresh: "fresh_machine m \<Longrightarrow> machine_reachable x cp m"
| step: "machine_reachable x cp m \<Longrightarrow> machine_step x cp m m' \<Longrightarrow> machine_reachable x cp m'"

text \<open>What a step may do to the provider ID, readiness and the load balancer flag.\<close>

definition keeps_or_provisions :: "bool \<Rightarrow> LXCMachine \<Rightarrow> LXCMachine \<Rightarrow> bool" where
  "keeps_or_provisions cp m m' \<longleftrightarrow>
     GetInstanceName m' = GetInstanceName m
     \<and> (ProviderID (m_spec m) \<noteq> None \<longrightarrow> ProviderID (m_spec m') = ProviderID (m_spec m)
          \<and> LoadBalancerConfigured (m_status m') = LoadBalancerConfigured (m_status m))
     \<and> (ProviderID (m_spec m) = None \<longrightarrow>
          (ProviderID (m_spec m') = None \<and> m_Ready (m_status m') = m_Ready (m_status m)
             \<and> LoadBalancerConfigured (m_status m') = LoadBalancerConfigured (m_status m))
          \<or> (ProviderID (m_spec m') = Some (GetExpectedProviderID m) \<and> m_Ready (m_status m')
             \<and> LoadBalancerConfigured (m_status m') = (LoadBalancerConfigured (m_status m) \<or> cp)))"

lemma check_provisioned_keeps:
  assumes "run_state (check_provisioned x m c) s = ((m', res, err), s')"
  shows "m_spec m' = m_spec m \<and> m_meta m' = m_meta m
    \<and> LoadBalancerConfigured (m_status m') = LoadBalancerConfigured (m_status m)"
  using assms by (auto simp: check_provisioned_def split: prod.splits sum.splits if_splits)

lemma machine_step_keeps:
  assumes "machine_step x cp m m'"
  shows "keeps_or_provisions cp m m'"
  using assms
proof (induction rule: machine_step.induct)
  case (normal ctx cluster lxcCluster machine m c s m' res err s')
  from normal(1) show ?case
  proof (cases rule: reconcileNormal_m_cases)
    case checked
    then obtain p where "ProviderID (m_spec m) = Some p" by auto
    with check_provisioned_keeps [OF checked(2)] show ?thesis
      by (simp add: keeps_or_provisions_def GetInstanceName_def)
  next
    case (failed e s1 ci)
    then have "m' = fst (launch_failed x m e)" by simp
    with failed(1) show ?thesis by (simp add: keeps_or_provisions_def GetInstanceName_def)
  next
    case (started addrs s1 s2 ci)
    from started(3) show ?thesis
      by (cases rule: launched_cases) (use started(1) normal(2) in \<open>simp_all add: keeps_or_provisions_def GetInstanceName_def\<close>)
  qed (simp_all add: keeps_or_provisions_def)
next
  case (delete ctx cluster lxcCluster machine m c s m' err s')
  from delete(1) show ?case
    by (cases rule: reconcileDelete_m_cases)
       (auto simp: keeps_or_provisions_def GetInstanceName_def remove_finalizer_m_def)
next
  case (summary m)
  then show ?case by (simp add: keeps_or_provisions_def)
qed

text \<open>
  C1: Invariant of the life of a machine.  However often and in whatever order a new machine is reconciled,
  and whatever the outside answers: its provider ID, once there, is the one of its instance; it is ready only
  with a provider ID; and a control plane machine has a provider ID only if the load balancer was
  configured with it, while the load balancer is never configured for a worker.  A step starts from the
  object the previous one left in memory; stale copies and half-applied patches of the stored object are the subject of the store of machines.
\<close>

theorem machine_invariant:
  assumes "machine_reachable x cp m"
  shows "ProviderID (m_spec m) \<in> {None, Some (''lxc:///'' @ om_Name (m_meta m))}
    \<and> (m_Ready (m_status m) \<longrightarrow> ProviderID (m_spec m) \<noteq> None)
    \<and> (ProviderID (m_spec m) \<noteq> None \<longrightarrow> LoadBalancerConfigured (m_status m) = cp)
    \<and> (LoadBalancerConfigured (m_status m) \<longrightarrow> cp)"
  using assms
proof (induction rule: machine_reachable.induct)
  case (step m m')
  from machine_step_keeps [OF step.hyps(2)] step.IH show ?case
    by (auto simp: keeps_or_provisions_def GetExpectedProviderID_def GetInstanceName_def)
qed (auto simp: fresh_machine_def)

theorem machine_invariant_witness:
  "\<exists>m. machine_reachable (boot_env :: unit Env) False m \<and> ProviderID (m_spec m) = Some ''lxc:///m''
     \<and> \<not> LoadBalancerConfigured (m_status m)"
proof -
  obtain m' s' where run: "run_state (reconcileNormal_m (boot_env :: unit Env) Background sample_cluster sample_lxcCluster
      (sample_machine False) sample_lxcMachine (sample_client running_server)) (initial_world ()) = ((m', 0, None), s')"
    and p: "ProviderID (m_spec m') \<noteq> None"
    by (rule sample_reconcile)
  have "machine_step (boot_env :: unit Env) False sample_lxcMachine m'" by (rule machine_step.normal [OF run]) simp
  moreover have "machine_reachable (boot_env :: unit Env) False sample_lxcMachine"
    by (rule machine_reachable.fresh) (simp add: fresh_machine_def, simp add: sample_lxcMachine_def)
  ultimately have r: "machine_reachable (boot_env :: unit Env) False m'" by (rule machine_reachable.step [rotated])
  from machine_invariant [OF r] p reconcileNormal_m_meta [OF run] r show ?thesis by (auto intro!: exI [of _ m'])
qed

text \<open>
  Progress is never lost: once a machine has its provider ID, no reconciliation, normal or
  delete, changes that ID, and the instance it names stays the same.
\<close>

theorem provider_id_stable:
  assumes "machine_step x cp m m'" and "ProviderID (m_spec m) = Some p"
  shows "ProviderID (m_spec m') = Some p \<and> GetInstanceName m' = GetInstanceName m"
  using machine_step_keeps [OF assms(1)] assms(2) by (simp add: keeps_or_provisions_def)

theorem provider_id_stable_witness:
  "ProviderID (m_spec (summarize_m (boot_env :: unit Env) (sample_lxcMachine\<lparr>m_spec :=
      (m_spec sample_lxcMachine)\<lparr>ProviderID := Some ''lxc:///m''\<rparr>\<rparr>))) = Some ''lxc:///m''"
  using provider_id_stable [OF machine_step.summary [of "boot_env :: unit Env" False
        "sample_lxcMachine\<lparr>m_spec := (m_spec sample_lxcMachine)\<lparr>ProviderID := Some ''lxc:///m''\<rparr>\<rparr>"], of "''lxc:///m''"]
  by simp

subsection \<open>Reconcile and events\<close>

fun bookkeeping_m :: "request \<Rightarrow> bool" where
  "bookkeeping_m (Kube (KPatchMachine _ _ _)) = False"
| "bookkeeping_m (Kube (KEnsureFinalizerMachine _ _)) = False"
| "bookkeeping_m (Kube _) = True"
| "bookkeeping_m _ = False"

text \<open>
  A paused machine is left alone: apart from reading its objects and recording the pause, reconciling
  it sends no request, and it does not even connect to the server.
\<close>

theorem Reconcile_m_paused:
  assumes paused: "\<And>cl ob w d w' ob' p ch.
      k_EnsurePausedMachine (x_kube x) cl ob w = (Inr (ob', p, ch), d, w') \<Longrightarrow> p \<or> ch"
  shows "\<exists>rs. trace (snd (run_state (Reconcile_m x ctx req) s)) = trace s @ rs \<and> list_all bookkeeping_m rs"
proof -
  have "issues bookkeeping_m (Reconcile_m x ctx req)"
    unfolding Reconcile_m_def
    by (intro issues_intros issues_or_return_call) (auto dest: paused)
  from issuesD [OF this] show ?thesis by (metis prod.collapse)
qed

theorem Reconcile_m_paused_witness:
  "\<exists>rs. trace (snd (run_state (Reconcile_m (sample_env :: unit Env) Background (''ns'', ''m'')) (initial_world ()))) = rs
      \<and> list_all bookkeeping_m rs"
proof -
  have "k_EnsurePausedMachine (x_kube (sample_env :: unit Env)) cl ob w = (Inr (ob', p, ch), d, w') \<Longrightarrow> p \<or> ch"
    for cl ob w ob' p ch d w'
    by (simp add: sample_env_def sample_kube_def)
  from Reconcile_m_paused [of sample_env Background "(''ns'', ''m'')" "initial_world ()", OF this]
  show ?thesis by simp
qed

text \<open>
  An event of an LXCCluster reconciles exactly the infrastructure objects named by the Machines of its
  owner cluster; Machines without a reference, and any failure to find them, give no request.
\<close>

theorem LXCClusterToLXCMachines_exact:
  "fst (run_state (LXCClusterToLXCMachines x o1) s) =
     (case k_GetOwnerCluster (x_kube x) (c_meta o1) (outside s) of
        (Inr (Some cluster), _, w) \<Rightarrow>
          (case k_ListMachines (x_kube x) (om_Namespace (c_meta o1)) [(ClusterNameLabel, om_Name (cl_meta cluster))] w of
             (Inr ms, _) \<Rightarrow> [(om_Namespace (ma_meta m), ma_InfrastructureRefName m). m \<leftarrow> ms, ma_InfrastructureRefName m \<noteq> '''']
           | _ \<Rightarrow> [])
      | _ \<Rightarrow> [])"
proof -
  have "map f (filter P ms) = concat (map (\<lambda>m. if P m then [f m] else []) ms)"
    for f :: "Machine \<Rightarrow> NamespacedName" and P ms by (induction ms) auto
  then show ?thesis
    by (auto simp: LXCClusterToLXCMachines_def Let_def call_def split: prod.splits sum.splits option.splits)
qed

text \<open>
  Representation of Go's maps.  The association lists for the configuration and the devices of whatever instance the machine
  controller asks for have every key once, so that they stand for maps, whatever the devices of the machine say and whichever
  profile applies.
\<close>

theorem launchInstance_well_typed:
  assumes "wf_map (Config (m_spec lxcMachine))"
    and "run_state (launchInstance x ctx cluster lxcCluster machine lxcMachine c cloudInit) s = (r, s')"
  shows "\<exists>rs. trace s' = trace s @ rs \<and> list_all (creates wf_post) rs"
  using issuesD [OF launchInstance_creates_wf [OF assms(1)] assms(2)] by simp

lemma sample_launch_asks:
  "\<exists>err s' post. run_state (launchInstance boot_env ctx sample_cluster sample_lxcCluster (sample_machine False) sample_lxcMachine
          (sample_client refusing_server) ci) s = (Inl err, s') \<and> Incus [] (ReqCreateInstance post) \<in> set (trace s')"
proof -
  let ?opts = "sample_launch_options ci"
  obtain img where "opt_image ?opts = Some (PlainImage img)"
    by (simp add: sample_launch_options_def machine_options_def plain_image_of_def)
  moreover have "instanceType ?opts = Container" "\<not> unixSocket ?opts"
    by (simp_all add: sample_launch_options_def machine_options_def KubeadmLaunchOptions_def Let_def)
  ultimately have "complete ?opts ''incus'' = Inr (?opts\<lparr>opt_image := Some (PlainImage (drop_tag img))\<rparr>)"
    by (intro complete_plain) (simp_all add: Container_def VirtualMachine_def)
  from sample_refused [OF this, of _ ctx "''m''" s] show ?thesis
    unfolding sample_launch_step by auto
qed

theorem launchInstance_well_typed_witness:
  "\<exists>err s' post. run_state (launchInstance boot_env Background sample_cluster sample_lxcCluster (sample_machine False) sample_lxcMachine
          (sample_client refusing_server) ''data'') (initial_world ()) = (Inl err, s')
     \<and> Incus [] (ReqCreateInstance post) \<in> set (trace s') \<and> wf_post post"
proof -
  obtain err s' post where run: "run_state (launchInstance boot_env Background sample_cluster sample_lxcCluster (sample_machine False)
      sample_lxcMachine (sample_client refusing_server) ''data'') (initial_world ()) = (Inl err, s')"
    and asked: "Incus [] (ReqCreateInstance post) \<in> set (trace s')"
    using sample_launch_asks by blast
  have "wf_map (Config (m_spec sample_lxcMachine))" by simp
  from launchInstance_well_typed [OF this run] asked have "creates wf_post (Incus [] (ReqCreateInstance post))"
    by (auto simp: list_all_iff)
  then show ?thesis using run asked by (auto simp: creates_def)
qed

end
