(* ===== verification/Controller_Manager.thy ===== *)
theory Controller_Manager
  imports Cluster_Controller Machine_Controller
begin

text \<open>
  The manager binary, \<^verbatim>\<open>cmd/main.go\<close>, and the registration of the two controllers with it (\<^verbatim>\<open>SetupWithManager\<close>): flags
  and their defaults, the options of the manager, the controllers with what they watch, the health checks, and
  the order in which all of it happens.  controller-runtime, pflag and klog are parameters.
\<close>

section \<open>Flags\<close>

text \<open>Durations are in milliseconds; a \<^verbatim>\<open>float32\<close> is its bits; \<open>'o\<close> are the options that Cluster API adds.\<close>

record 'o Flags =
  enableLeaderElection :: bool
  leaderElectionLeaseDuration :: nat
  leaderElectionRenewDeadline :: nat
  leaderElectionRetryPeriod :: nat
  watchFilterValue :: string
  watchNamespace :: string
  profilerAddress :: string
  enableContentionProfiling :: bool
  syncPeriod :: nat
  restConfigQPS :: "32 word"
  restConfigBurst :: int
  webhookPort :: int
  webhookCertDir :: string
  webhookCertName :: string
  webhookKeyName :: string
  healthAddr :: string
  concurrency :: int
  managerOptions :: 'o

definition InitFlags :: "'o \<Rightarrow> 'o Flags" where
  "InitFlags options =
     \<lparr>enableLeaderElection = False, leaderElectionLeaseDuration = 15 * second, leaderElectionRenewDeadline = 10 * second,
      leaderElectionRetryPeriod = 2 * second, watchFilterValue = '''', watchNamespace = '''', profilerAddress = '''',
      enableContentionProfiling = False, syncPeriod = 10 * 60 * second, restConfigQPS = 0x41A00000, restConfigBurst = 30,
      webhookPort = 9443, webhookCertDir = ''/tmp/k8s-webhook-server/serving-certs/'', webhookCertName = ''tls.crt'',
      webhookKeyName = ''tls.key'', healthAddr = '':9440'', concurrency = 10, managerOptions = options\<rparr>"

section \<open>Controllers and what they watch\<close>

datatype object_kind = LXCMachine_kind | LXCCluster_kind | Machine_kind | Cluster_kind | Secret_kind | ConfigMap_kind

type_synonym GroupVersionKind = "string \<times> string \<times> string"

definition GroupVersion :: "string \<times> string" where
  "GroupVersion = (''infrastructure.cluster.x-k8s.io'', ''v1alpha2'')"

definition WithKind :: "string \<times> string \<Rightarrow> string \<Rightarrow> GroupVersionKind" where
  "WithKind gv kind = (fst gv, snd gv, kind)"

datatype map_func =
    MachineToInfrastructureMapFunc GroupVersionKind
  | ClusterToInfrastructureMapFunc GroupVersionKind object_kind
  | ClusterToTypedObjectsMapper object_kind
  | LXCClusterToLXCMachines_func

datatype watch_predicate = ClusterPausedTransitions | ClusterPausedTransitionsOrInfrastructureReady

record watch =
  w_object :: object_kind
  w_handler :: map_func
  w_predicates :: "watch_predicate list"

text \<open>A controller before \<^verbatim>\<open>Complete\<close>: its objects, \<^verbatim>\<open>MaxConcurrentReconciles\<close> (zero: the default), the label value of its event filter, its watches.\<close>

record controller_builder =
  b_For :: object_kind
  b_MaxConcurrentReconciles :: int
  b_filter :: string
  b_watches :: "watch list"

record 'w Reconciler =
  r_Client :: "'w KubeClient option"
  r_WatchFilterValue :: string

section \<open>The library\<close>

record ctrl_Options =
  LeaderElection :: bool
  LeaderElectionID :: string
  LeaseDuration :: nat
  RenewDeadline :: nat
  RetryPeriod :: nat
  LeaderElectionResourceLock :: string
  HealthProbeBindAddress :: string
  PprofBindAddress :: string
  DefaultNamespaces :: "(string \<times> unit) list option"
  SyncPeriod :: nat
  ByObject :: "(object_kind \<times> string) list"
  DisableFor :: "object_kind list"
  Unstructured :: bool
  Webhook_Port :: int
  Webhook_CertDir :: string
  Webhook_CertName :: string
  Webhook_KeyName :: string

record RestOptions =
  QPS :: "32 word"
  Burst :: int
  UserAgent :: string

datatype manager_request =
    AddToScheme string
  | ReadDir string
  | SetFlag string string
  | ParseFlags
  | GetConfigOrDie
  | GetManagerOptions
  | SetBlockProfileRate int
  | CreateManager RestOptions ctrl_Options
  | SetupSignalHandler
  | MakeMapper object_kind
  | Complete controller_builder
  | AddHealthzCheck string
  | AddReadyzCheck string
  | StartManager

text \<open>\<open>lib_Parse\<close> answers the status with which pflag ends the process when it does not return.\<close>

record ('w, 'o, 't, 'k) ManagerLib =
  lib_AddToScheme :: "string \<Rightarrow> ('w, unit) api_err"
  lib_ReadDir :: "string \<Rightarrow> ('w, string list) api_err"
  lib_SetFlag :: "string \<Rightarrow> string \<Rightarrow> ('w, unit) api_err"
  lib_Parse :: "'o Flags \<Rightarrow> ('w, nat + 'o Flags) api"
  lib_GetConfigOrDie :: "('w, unit) api_err"
  lib_GetManagerOptions :: "'o \<Rightarrow> ('w, 't) api_err"
  lib_SetBlockProfileRate :: "int \<Rightarrow> ('w, unit) api"
  lib_NewManager :: "RestOptions \<Rightarrow> ctrl_Options \<Rightarrow> 't \<Rightarrow> ('w, unit) api_err"
  lib_SetupSignalHandler :: "('w, unit) api"
  lib_GetClient :: "'k KubeClient option"
  lib_TypedObjectsMapper :: "object_kind \<Rightarrow> ('w, unit) api_err"
  lib_Complete :: "controller_builder \<Rightarrow> ('w, unit) api_err"
  lib_AddHealthzCheck :: "string \<Rightarrow> ('w, unit) api_err"
  lib_AddReadyzCheck :: "string \<Rightarrow> ('w, unit) api_err"
  lib_Start :: "('w, unit) api_err"
  lib_DefaultUserAgent :: "string \<Rightarrow> string"

type_synonym ('w, 'a) starting = "(manager_request, 'w, 'a) io"

section \<open>Registration of the controllers\<close>

definition lxccluster_builder :: "string \<Rightarrow> int \<Rightarrow> controller_builder" where
  "lxccluster_builder filterValue options =
     \<lparr>b_For = LXCCluster_kind, b_MaxConcurrentReconciles = options, b_filter = filterValue,
      b_watches =
        [\<lparr>w_object = Cluster_kind, w_handler = ClusterToInfrastructureMapFunc (WithKind GroupVersion ''LXCCluster'') LXCCluster_kind,
          w_predicates = [ClusterPausedTransitions]\<rparr>]\<rparr>"

definition SetupWithManager_c ::
  "('w, 'o, 't, 'k) ManagerLib \<Rightarrow> 'k Reconciler \<Rightarrow> int \<Rightarrow> ('w, go_error + unit) starting" where
  "SetupWithManager_c l r options =
     (if r_Client r = None then ret (Inl (Err ''required field Client must not be nil''))
      else guard_err (call (Complete (lxccluster_builder (r_WatchFilterValue r) options)) (lib_Complete l (lxccluster_builder (r_WatchFilterValue r) options)))
             (Errorf ''failed setting up with a controller manager: '') (\<lambda>_. ret (Inr ())))"

definition lxcmachine_builder :: "string \<Rightarrow> int \<Rightarrow> controller_builder" where
  "lxcmachine_builder filterValue options =
     \<lparr>b_For = LXCMachine_kind, b_MaxConcurrentReconciles = options, b_filter = filterValue,
      b_watches =
        [\<lparr>w_object = Machine_kind, w_handler = MachineToInfrastructureMapFunc (WithKind GroupVersion ''LXCMachine''),
          w_predicates = []\<rparr>,
         \<lparr>w_object = LXCCluster_kind, w_handler = LXCClusterToLXCMachines_func, w_predicates = []\<rparr>,
         \<lparr>w_object = Cluster_kind, w_handler = ClusterToTypedObjectsMapper LXCMachine_kind,
          w_predicates = [ClusterPausedTransitionsOrInfrastructureReady]\<rparr>]\<rparr>"

definition SetupWithManager_m ::
  "('w, 'o, 't, 'k) ManagerLib \<Rightarrow> 'k Reconciler \<Rightarrow> int \<Rightarrow> ('w, go_error + unit) starting" where
  "SetupWithManager_m l r options =
     (if r_Client r = None then ret (Inl (Err ''required field Client must not be nil''))
      else guard_err (call (MakeMapper LXCMachine_kind) (lib_TypedObjectsMapper l LXCMachine_kind)) id
        (\<lambda>_. guard_err (call (Complete (lxcmachine_builder (r_WatchFilterValue r) options)) (lib_Complete l (lxcmachine_builder (r_WatchFilterValue r) options)))
              (Errorf ''failed setting up with a controller manager: '') (\<lambda>_. ret (Inr ()))))"

section \<open>Starting\<close>

text \<open>A process that ended with a status, or a function that returned.\<close>

datatype 'a exited = Exit nat | Returned 'a

text \<open>\<^verbatim>\<open>if err := m; err != nil { os.Exit(1) }\<close>\<close>

definition or_exit :: "('s, go_error + 'a) state \<Rightarrow> ('a \<Rightarrow> ('s, 'b exited) state) \<Rightarrow> ('s, 'b exited) state" where
  "or_exit m k = do { r \<leftarrow> m; case r of Inl _ \<Rightarrow> ret (Exit 1) | Inr x \<Rightarrow> k x }"

definition then_continue :: "('s, 'a exited) state \<Rightarrow> ('a \<Rightarrow> ('s, 'b exited) state) \<Rightarrow> ('s, 'b exited) state" where
  "then_continue m k = do { r \<leftarrow> m; case r of Exit n \<Rightarrow> ret (Exit n) | Returned x \<Rightarrow> k x }"

text \<open>\<^verbatim>\<open>utilruntime.Must\<close> panics, which ends the process with status 2.\<close>

fun init_scheme :: "('w, 'o, 't, 'k) ManagerLib \<Rightarrow> string list \<Rightarrow> ('w, unit exited) starting" where
  "init_scheme l [] = ret (Returned ())"
| "init_scheme l (g # gs) =
     do { r \<leftarrow> call (AddToScheme g) (lib_AddToScheme l g);
          case r of Inl _ \<Rightarrow> ret (Exit 2) | Inr _ \<Rightarrow> init_scheme l gs }"

definition schemes :: "string list" where
  "schemes = [''clientgoscheme'', ''clusterv1'', ''infrav1'']"

definition setupChecks :: "('w, 'o, 't, 'k) ManagerLib \<Rightarrow> ('w, unit exited) starting" where
  "setupChecks l =
     or_exit (call (AddHealthzCheck ''healthz'') (lib_AddHealthzCheck l ''healthz'')) (\<lambda>_.
     or_exit (call (AddReadyzCheck ''readyz'') (lib_AddReadyzCheck l ''readyz'')) (\<lambda>_. ret (Returned ())))"

definition setupReconcilers :: "('w, 'o, 't, 'k) ManagerLib \<Rightarrow> 'o Flags \<Rightarrow> ('w, unit exited) starting" where
  "setupReconcilers l fl =
     or_exit (SetupWithManager_c l \<lparr>r_Client = lib_GetClient l, r_WatchFilterValue = watchFilterValue fl\<rparr> 0) (\<lambda>_.
     or_exit (SetupWithManager_m l \<lparr>r_Client = lib_GetClient l, r_WatchFilterValue = watchFilterValue fl\<rparr> (concurrency fl))
       (\<lambda>_. ret (Returned ())))"

definition controllerName :: string where
  "controllerName = ''cluster-api-incus-controller-manager''"

definition rest_options :: "('w, 'o, 't, 'k) ManagerLib \<Rightarrow> 'o Flags \<Rightarrow> RestOptions" where
  "rest_options l fl = \<lparr>QPS = restConfigQPS fl, Burst = restConfigBurst fl, UserAgent = lib_DefaultUserAgent l controllerName\<rparr>"

definition watchNamespaces :: "'o Flags \<Rightarrow> (string \<times> unit) list option" where
  "watchNamespaces fl = (if watchNamespace fl \<noteq> '''' then Some [(watchNamespace fl, ())] else None)"

definition ctrlOptions :: "'o Flags \<Rightarrow> ctrl_Options" where
  "ctrlOptions fl =
     \<lparr>LeaderElection = enableLeaderElection fl, LeaderElectionID = ''controller-leader-election-capn'',
      LeaseDuration = leaderElectionLeaseDuration fl, RenewDeadline = leaderElectionRenewDeadline fl,
      RetryPeriod = leaderElectionRetryPeriod fl, LeaderElectionResourceLock = ''leases'',
      HealthProbeBindAddress = healthAddr fl, PprofBindAddress = profilerAddress fl,
      DefaultNamespaces = watchNamespaces fl, SyncPeriod = syncPeriod fl,
      ByObject = [(Secret_kind, ClusterNameLabel)], DisableFor = [ConfigMap_kind, Secret_kind], Unstructured = True,
      Webhook_Port = webhookPort fl, Webhook_CertDir = webhookCertDir fl, Webhook_CertName = webhookCertName fl,
      Webhook_KeyName = webhookKeyName fl\<rparr>"

definition start_manager :: "('w, 'o, 't, 'k) ManagerLib \<Rightarrow> 'o Flags \<Rightarrow> 't \<Rightarrow> ('w, unit exited) starting" where
  "start_manager l fl tls =
     do { (if enableContentionProfiling fl then call (SetBlockProfileRate 1) (lib_SetBlockProfileRate l 1) else ret ());
          or_exit (call (CreateManager (rest_options l fl) (ctrlOptions fl)) (lib_NewManager l (rest_options l fl) (ctrlOptions fl) tls)) (\<lambda>_.
            do { call SetupSignalHandler (lib_SetupSignalHandler l);
                 then_continue (setupReconcilers l fl) (\<lambda>_.
                 then_continue (setupChecks l) (\<lambda>_.
                 or_exit (call StartManager (lib_Start l)) (\<lambda>_. ret (Returned ())))) }) }"

definition manager_main :: "('w, 'o, 't, 'k) ManagerLib \<Rightarrow> 'o \<Rightarrow> ('w, unit exited) starting" where
  "manager_main l options =
     or_exit (call (ReadDir ''/tmp/'') (lib_ReadDir l ''/tmp/'')) (\<lambda>_.
     or_exit (call (SetFlag ''v'' ''2'') (lib_SetFlag l ''v'' ''2'')) (\<lambda>_.
     do { p \<leftarrow> call ParseFlags (lib_Parse l (InitFlags options));
          case p of
            Inl status \<Rightarrow> ret (Exit status)
          | Inr fl \<Rightarrow>
              or_exit (call GetConfigOrDie (lib_GetConfigOrDie l)) (\<lambda>_.
              or_exit (call GetManagerOptions (lib_GetManagerOptions l (managerOptions fl))) (\<lambda>tls.
              start_manager l fl tls)) }))"

definition manager_process :: "('w, 'o, 't, 'k) ManagerLib \<Rightarrow> 'o \<Rightarrow> ('w, unit exited) starting" where
  "manager_process l options = then_continue (init_scheme l schemes) (\<lambda>_. manager_main l options)"

section \<open>The order of starting\<close>

text \<open>
  Starting as a plan: a list of steps, each of which asks the library for something, or for nothing, by the flags in force.
  \<open>answer\<close> is what the library makes of a request: the exit status when it fails, and what is known afterwards.  \<open>attempt\<close>
  works a plan off until a step fails, and reports the requests it made.
\<close>

record ('w, 'o, 't) boot =
  bt_world :: 'w
  bt_flags :: "'o Flags"
  bt_tls :: "'t option"

definition answered :: "nat \<Rightarrow> ('w, 'a) api_err \<Rightarrow> ('w, 'o, 't) boot \<Rightarrow> nat option \<times> ('w, 'o, 't) boot" where
  "answered n f b =
     (case f (bt_world b) of (x, d, w) \<Rightarrow> (case x of Inl _ \<Rightarrow> Some n | Inr _ \<Rightarrow> None, b\<lparr>bt_world := w\<rparr>))"

fun answer :: "('w, 'o, 't, 'k) ManagerLib \<Rightarrow> manager_request \<Rightarrow> ('w, 'o, 't) boot \<Rightarrow> nat option \<times> ('w, 'o, 't) boot" where
  "answer l (AddToScheme g) b = answered 2 (lib_AddToScheme l g) b"
| "answer l (ReadDir p) b = answered 1 (lib_ReadDir l p) b"
| "answer l (SetFlag k v) b = answered 1 (lib_SetFlag l k v) b"
| "answer l ParseFlags b =
     (case lib_Parse l (bt_flags b) (bt_world b) of
        (Inl status, d, w) \<Rightarrow> (Some status, b\<lparr>bt_world := w\<rparr>)
      | (Inr fl, d, w) \<Rightarrow> (None, b\<lparr>bt_world := w, bt_flags := fl\<rparr>))"
| "answer l GetConfigOrDie b = answered 1 (lib_GetConfigOrDie l) b"
| "answer l GetManagerOptions b =
     (case lib_GetManagerOptions l (managerOptions (bt_flags b)) (bt_world b) of
        (Inl _, d, w) \<Rightarrow> (Some 1, b\<lparr>bt_world := w\<rparr>)
      | (Inr tls, d, w) \<Rightarrow> (None, b\<lparr>bt_world := w, bt_tls := Some tls\<rparr>))"
| "answer l (SetBlockProfileRate n) b = (None, b\<lparr>bt_world := snd (snd (lib_SetBlockProfileRate l n (bt_world b)))\<rparr>)"
| "answer l (CreateManager r opts) b =
     (case bt_tls b of None \<Rightarrow> (Some 1, b) | Some tls \<Rightarrow> answered 1 (lib_NewManager l r opts tls) b)"
| "answer l SetupSignalHandler b = (None, b\<lparr>bt_world := snd (snd (lib_SetupSignalHandler l (bt_world b)))\<rparr>)"
| "answer l (MakeMapper k) b = answered 1 (lib_TypedObjectsMapper l k) b"
| "answer l (Complete c) b = answered 1 (lib_Complete l c) b"
| "answer l (AddHealthzCheck n) b = answered 1 (lib_AddHealthzCheck l n) b"
| "answer l (AddReadyzCheck n) b = answered 1 (lib_AddReadyzCheck l n) b"
| "answer l StartManager b = answered 1 (lib_Start l) b"

type_synonym 'o plan = "('o Flags \<Rightarrow> manager_request option) list"

fun attempt ::
  "('w, 'o, 't, 'k) ManagerLib \<Rightarrow> 'o plan \<Rightarrow> ('w, 'o, 't) boot \<Rightarrow> manager_request list \<times> nat option \<times> ('w, 'o, 't) boot" where
  "attempt l [] b = ([], None, b)"
| "attempt l (p # ps) b =
     (case p (bt_flags b) of
        None \<Rightarrow> attempt l ps b
      | Some q \<Rightarrow>
          (case answer l q b of
             (Some status, b') \<Rightarrow> ([q], Some status, b')
           | (None, b') \<Rightarrow> (case attempt l ps b' of (qs, e, b'') \<Rightarrow> (q # qs, e, b''))))"

definition startup :: "('w, 'o, 't, 'k) ManagerLib \<Rightarrow> 'o plan" where
  "startup l =
    [\<lambda>_. Some (AddToScheme ''clientgoscheme''), \<lambda>_. Some (AddToScheme ''clusterv1''), \<lambda>_. Some (AddToScheme ''infrav1''),
     \<lambda>_. Some (ReadDir ''/tmp/''), \<lambda>_. Some (SetFlag ''v'' ''2''), \<lambda>_. Some ParseFlags,
     \<lambda>_. Some GetConfigOrDie, \<lambda>_. Some GetManagerOptions,
     \<lambda>fl. if enableContentionProfiling fl then Some (SetBlockProfileRate 1) else None,
     \<lambda>fl. Some (CreateManager (rest_options l fl) (ctrlOptions fl)), \<lambda>_. Some SetupSignalHandler,
     \<lambda>fl. Some (Complete (lxccluster_builder (watchFilterValue fl) 0)),
     \<lambda>_. Some (MakeMapper LXCMachine_kind),
     \<lambda>fl. Some (Complete (lxcmachine_builder (watchFilterValue fl) (concurrency fl))),
     \<lambda>_. Some (AddHealthzCheck ''healthz''), \<lambda>_. Some (AddReadyzCheck ''readyz''), \<lambda>_. Some StartManager]"

text \<open>\<open>boots l m ps b\<close>: from a world that looks like \<open>b\<close>, running \<open>m\<close> is attempting the plan \<open>ps\<close>.\<close>

definition boots ::
  "('w, 'o, 't, 'k) ManagerLib \<Rightarrow> ('w, unit exited) starting \<Rightarrow> 'o plan \<Rightarrow> ('w, 'o, 't) boot \<Rightarrow> bool" where
  "boots l m ps b \<longleftrightarrow>
     (\<forall>s r s'. outside s = bt_world b \<longrightarrow> run_state m s = (r, s') \<longrightarrow>
        (case attempt l ps b of (qs, e, b') \<Rightarrow>
           trace s' = trace s @ qs \<and> outside s' = bt_world b' \<and> r = (case e of None \<Rightarrow> Returned () | Some n \<Rightarrow> Exit n)))"

lemma boots_ret: "boots l (ret (Returned ())) [] b"
  by (simp add: boots_def)

lemma boots_skip: "p (bt_flags b) = None \<Longrightarrow> boots l m ps b \<Longrightarrow> boots l m (p # ps) b"
  by (simp add: boots_def)

lemma boots_call:
  assumes p: "p (bt_flags b) = Some q"
    and k: "\<And>x d w. f (bt_world b) = (x, d, w) \<Longrightarrow>
      (case answer l q b of
         (Some n, b') \<Rightarrow> bt_world b' = w \<and> k x = ret (Exit n)
       | (None, b') \<Rightarrow> bt_world b' = w \<and> boots l (k x) ps b')"
  shows "boots l (State_Monad.bind (call q f) k) (p # ps) b"
  unfolding boots_def
proof (intro allI impI)
  fix s r s'
  assume s: "outside s = bt_world b" and run: "run_state (State_Monad.bind (call q f) k) s = (r, s')"
  obtain x d w where f: "f (bt_world b) = (x, d, w)" by (metis prod_cases3)
  let ?s = "s\<lparr>clock := clock s + d, trace := trace s @ [q], outside := w\<rparr>"
  have kx: "run_state (k x) ?s = (r, s')" using run s f by (simp add: call_def)
  obtain e b' where a: "answer l q b = (e, b')" by fastforce
  show "case attempt l (p # ps) b of (qs, e, b') \<Rightarrow>
      trace s' = trace s @ qs \<and> outside s' = bt_world b' \<and> r = (case e of None \<Rightarrow> Returned () | Some n \<Rightarrow> Exit n)"
  proof (cases e)
    case None
    with k [OF f] a have "bt_world b' = w" "boots l (k x) ps b'" by simp_all
    from this(2) [unfolded boots_def, rule_format, of ?s, OF _ kx] this(1)
    have "case attempt l ps b' of (qs, e, b') \<Rightarrow>
        trace s' = trace ?s @ qs \<and> outside s' = bt_world b' \<and> r = (case e of None \<Rightarrow> Returned () | Some n \<Rightarrow> Exit n)"
      by simp
    then show ?thesis using p a None by (auto split: prod.splits)
  next
    case (Some n)
    with k [OF f] a kx p show ?thesis by auto
  qed
qed

lemma boots_or_exit:
  assumes "p (bt_flags b) = Some q" and "answer l q b = answered 1 f b" and "\<And>x w. boots l (k x) ps (b\<lparr>bt_world := w\<rparr>)"
  shows "boots l (or_exit (call q f) k) (p # ps) b"
  unfolding or_exit_def
  by (rule boots_call, rule assms(1)) (use assms(2,3) in \<open>auto simp: answered_def split: sum.splits\<close>)

lemma boots_panic:
  assumes "\<And>w. boots l (then_continue (init_scheme l gs) k) ps (b\<lparr>bt_world := w\<rparr>)" and "p (bt_flags b) = Some (AddToScheme g)"
  shows "boots l (then_continue (init_scheme l (g # gs)) k) (p # ps) b"
proof -
  have "then_continue (init_scheme l (g # gs)) k = do { r \<leftarrow> call (AddToScheme g) (lib_AddToScheme l g);
      case r of Inl _ \<Rightarrow> ret (Exit 2) | Inr _ \<Rightarrow> then_continue (init_scheme l gs) k }"
    by (rule State_Monad.state.expand) (auto simp: fun_eq_iff then_continue_def split: prod.splits sum.splits)
  then show ?thesis
    by (auto intro!: boots_call assms simp: answered_def split: sum.splits)
qed

text \<open>Sequences of steps, flattened.\<close>

lemma then_continue_or_exit: "then_continue (or_exit m k) k' = or_exit m (\<lambda>x. then_continue (k x) k')"
  by (rule State_Monad.state.expand) (auto simp: fun_eq_iff then_continue_def or_exit_def split: prod.splits sum.splits)

lemma then_continue_ret: "then_continue (ret (Returned x)) k = k x"
  by (rule State_Monad.state.expand) (simp add: fun_eq_iff then_continue_def)

lemma or_exit_SetupWithManager_c:
  "r_Client r \<noteq> None \<Longrightarrow> or_exit (SetupWithManager_c l r n) k =
     or_exit (call (Complete (lxccluster_builder (r_WatchFilterValue r) n)) (lib_Complete l (lxccluster_builder (r_WatchFilterValue r) n))) k"
  by (rule State_Monad.state.expand)
     (auto simp: fun_eq_iff or_exit_def SetupWithManager_c_def run_state_guard_err split: prod.splits sum.splits)

lemma or_exit_SetupWithManager_m:
  "r_Client r \<noteq> None \<Longrightarrow> or_exit (SetupWithManager_m l r n) k =
     or_exit (call (MakeMapper LXCMachine_kind) (lib_TypedObjectsMapper l LXCMachine_kind)) (\<lambda>_.
     or_exit (call (Complete (lxcmachine_builder (r_WatchFilterValue r) n)) (lib_Complete l (lxcmachine_builder (r_WatchFilterValue r) n))) k)"
  by (rule State_Monad.state.expand)
     (auto simp: fun_eq_iff or_exit_def SetupWithManager_m_def run_state_guard_err split: prod.splits sum.splits)

lemmas flatten = then_continue_or_exit then_continue_ret or_exit_SetupWithManager_c or_exit_SetupWithManager_m

lemma boots_start_manager:
  assumes "lib_GetClient l \<noteq> None" and "bt_tls b = Some tls" and "bt_flags b = fl"
  shows "boots l (start_manager l fl tls) (drop 8 (startup l)) b"
proof -
  have reg: "boots l (or_exit (call (CreateManager (rest_options l fl) (ctrlOptions fl)) (lib_NewManager l (rest_options l fl) (ctrlOptions fl) tls)) (\<lambda>_.
            do { call SetupSignalHandler (lib_SetupSignalHandler l);
                 then_continue (setupReconcilers l fl) (\<lambda>_.
                 then_continue (setupChecks l) (\<lambda>_.
                 or_exit (call StartManager (lib_Start l)) (\<lambda>_. ret (Returned ())))) }))
      (drop 9 (startup l)) b" if "bt_tls b = Some tls" "bt_flags b = fl" for b
    using assms(1) that unfolding setupReconcilers_def setupChecks_def
    by (simp add: startup_def flatten)
      (auto intro!: boots_or_exit boots_call boots_ret)
  show ?thesis
  proof (cases "enableContentionProfiling fl")
    case True
    then show ?thesis
      using reg assms(2,3) by (auto simp: start_manager_def startup_def intro!: boots_call)
  next
    case False
    then show ?thesis
      using reg [OF assms(2,3)] assms(3) by (auto simp: start_manager_def startup_def intro!: boots_skip)
  qed
qed

lemma boots_manager_process:
  assumes "lib_GetClient l \<noteq> None" and "bt_flags b = InitFlags options"
  shows "boots l (manager_process l options) (startup l) b"
proof -
  have tail: "boots l (or_exit (call GetConfigOrDie (lib_GetConfigOrDie l)) (\<lambda>_.
              or_exit (call GetManagerOptions (lib_GetManagerOptions l (managerOptions fl))) (\<lambda>tls. start_manager l fl tls)))
      (drop 6 (startup l)) b" if "bt_flags b = fl" for b fl
  proof -
    have "boots l (or_exit (call GetManagerOptions (lib_GetManagerOptions l (managerOptions fl))) (\<lambda>tls. start_manager l fl tls))
        ((\<lambda>_. Some GetManagerOptions) # drop 8 (startup l)) b" if "bt_flags b = fl" for b
      unfolding or_exit_def
      by (rule boots_call) (use that in \<open>auto intro!: boots_start_manager [OF assms(1)] split: sum.splits\<close>)
    moreover have "drop 6 (startup l) = (\<lambda>_. Some GetConfigOrDie) # (\<lambda>_. Some GetManagerOptions) # drop 8 (startup l)"
      by (simp add: startup_def)
    ultimately show ?thesis using that by (simp only:) (rule boots_or_exit; simp)
  qed
  have main: "boots l (manager_main l options) (drop 3 (startup l)) b" if "bt_flags b = InitFlags options" for b
  proof -
    have "drop 3 (startup l) = (\<lambda>_. Some (ReadDir ''/tmp/'')) # (\<lambda>_. Some (SetFlag ''v'' ''2'')) # (\<lambda>_. Some ParseFlags) # drop 6 (startup l)"
      by (simp add: startup_def)
    then show ?thesis
      using that unfolding manager_main_def by (auto intro!: boots_or_exit boots_call tail split: sum.splits)
  qed
  have "boots l (then_continue (init_scheme l []) (\<lambda>_. manager_main l options)) (drop 3 (startup l)) b"
    if "bt_flags b = InitFlags options" for b
    using main [OF that] by (simp add: then_continue_ret)
  then have "boots l (manager_process l options) ((\<lambda>_. Some (AddToScheme ''clientgoscheme'')) #
      (\<lambda>_. Some (AddToScheme ''clusterv1'')) # (\<lambda>_. Some (AddToScheme ''infrav1'')) # drop 3 (startup l)) b"
    unfolding manager_process_def schemes_def using assms(2) by (intro boots_panic) simp_all
  then show ?thesis by (simp add: startup_def)
qed

text \<open>
  C15: The manager binary works off one plan, whatever the libraries answer: the scheme, the flags, the connection, the manager with
  the options that the \<^emph>\<open>parsed\<close> flags give, the LXCCluster controller (with the default concurrency) and the LXCMachine controller (with that of the
  flags), each with its watches and the filter of the flags, then both health checks, and last the start of the manager.  It stops at the first step that
  fails, having asked for nothing after it, with status 2 for the scheme, the status of pflag for the flags, and 1 otherwise; it returns
  exactly when all steps succeed.  The client that the manager hands to the controllers is supposed not to be nil.
\<close>

theorem manager_startup:
  assumes "run_state (manager_process l options) s = (r, s')" and "lib_GetClient l \<noteq> None"
  shows "case attempt l (startup l) \<lparr>bt_world = outside s, bt_flags = InitFlags options, bt_tls = None\<rparr> of (qs, e, b) \<Rightarrow>
     trace s' = trace s @ qs \<and> outside s' = bt_world b \<and> r = (case e of None \<Rightarrow> Returned () | Some n \<Rightarrow> Exit n)"
  using boots_manager_process [OF assms(2), of "\<lparr>bt_world = outside s, bt_flags = InitFlags options, bt_tls = None\<rparr>" options] assms(1)
  by (simp add: boots_def)

text \<open>A library in which every step succeeds, until the health check; the command line asks for contention profiling.\<close>

definition sample_lib :: "(unit, unit, unit, unit) ManagerLib" where
  "sample_lib =
     \<lparr>lib_AddToScheme = \<lambda>_ w. (Inr (), 0, w), lib_ReadDir = \<lambda>_ w. (Inr [], 0, w), lib_SetFlag = \<lambda>_ _ w. (Inr (), 0, w),
      lib_Parse = \<lambda>fl w. (Inr (fl\<lparr>enableContentionProfiling := True\<rparr>), 0, w), lib_GetConfigOrDie = \<lambda>w. (Inr (), 0, w),
      lib_GetManagerOptions = \<lambda>_ w. (Inr (), 0, w),
      lib_SetBlockProfileRate = \<lambda>_ w. ((), 0, w), lib_NewManager = \<lambda>_ _ _ w. (Inr (), 0, w), lib_SetupSignalHandler = \<lambda>w. ((), 0, w),
      lib_GetClient = Some sample_kube, lib_TypedObjectsMapper = \<lambda>_ w. (Inr (), 0, w), lib_Complete = \<lambda>_ w. (Inr (), 0, w),
      lib_AddHealthzCheck = \<lambda>_ w. (Inr (), 0, w), lib_AddReadyzCheck = \<lambda>_ w. (Inl (Err ''no''), 0, w), lib_Start = \<lambda>w. (Inr (), 0, w),
      lib_DefaultUserAgent = id\<rparr>"

definition quiet_world :: "(manager_request, unit) world" where
  "quiet_world = \<lparr>clock = 0, trace = [], outside = ()\<rparr>"

theorem manager_startup_witness:
  "\<exists>s'. run_state (manager_process sample_lib ()) quiet_world = (Exit 1, s') \<and> SetBlockProfileRate 1 \<in> set (trace s')
     \<and> Complete (lxcmachine_builder '''' 10) \<in> set (trace s') \<and> last (trace s') = AddReadyzCheck ''readyz''"
proof -
  obtain r s' where run: "run_state (manager_process sample_lib ()) quiet_world = (r, s')" by fastforce
  have "attempt sample_lib (startup sample_lib) \<lparr>bt_world = (), bt_flags = InitFlags (), bt_tls = None\<rparr> =
      (map (\<lambda>p. the (p ((InitFlags ())\<lparr>enableContentionProfiling := True\<rparr>))) (butlast (startup sample_lib)), Some 1,
       \<lparr>bt_world = (), bt_flags = (InitFlags ())\<lparr>enableContentionProfiling := True\<rparr>, bt_tls = Some ()\<rparr>)"
    by (simp add: startup_def answered_def sample_lib_def)
  moreover have "concurrency (InitFlags () :: unit Flags) = 10" "watchFilterValue (InitFlags () :: unit Flags) = ''''"
    by (simp_all add: InitFlags_def)
  ultimately show ?thesis
    using manager_startup [OF run] run by (simp add: sample_lib_def quiet_world_def startup_def)
qed

text \<open>
  The defaults of the flags satisfy what leader election demands of its three times: a lease outlasts the renewal, and the
  renewal outlasts a retry with its jitter of one fifth.
\<close>

lemma InitFlags_leader_election:
  "leaderElectionRenewDeadline (InitFlags o1) < leaderElectionLeaseDuration (InitFlags o1)
   \<and> 6 * leaderElectionRetryPeriod (InitFlags o1) < 5 * leaderElectionRenewDeadline (InitFlags o1)"
  by (simp add: InitFlags_def second_def)

end
