(* ===== verification/Machine_Store.thy ===== *)
theory Machine_Store
  imports Machine_Controller
begin

text \<open>
  Machines as the API server stores them, while reconciliations and other controllers change them in any order.
  A reconciliation reads its object from a cache, which may lag behind, and writes by patches: the
  difference between the object it read and the object it leaves.  The history of a stored machine is
  the list of its versions, the newest first; every patch that some run of \<^verbatim>\<open>Reconcile\<close> sends is a step of its
  own, so that the patches of several runs, and the changes of others, may come in any order.
\<close>

section \<open>What the controller reads and writes\<close>

text \<open>The fields that the statements below are about.\<close>

definition view :: "LXCMachine \<Rightarrow> string \<times> nat option \<times> string option \<times> bool \<times> bool" where
  "view m = (om_Name (m_meta m), om_DeletionTimestamp (m_meta m), ProviderID (m_spec m), m_Ready (m_status m),
     LoadBalancerConfigured (m_status m))"

text \<open>
  Documented behaviour of the Cluster API helpers that change the object before the reconciliation proper: they set a
  condition and a finalizer, and nothing else.
\<close>

definition kube_helpers_law :: "'w KubeClient \<Rightarrow> bool" where
  "kube_helpers_law k \<longleftrightarrow>
     (\<forall>cl m w m' p ch d w'. k_EnsurePausedMachine k cl m w = (Inr (m', p, ch), d, w') \<longrightarrow> view m' = view m)
   \<and> (\<forall>m f w m' added d w'. k_EnsureFinalizerMachine k m f w = (Inr (m', added), d, w') \<longrightarrow> view m' = view m)"

text \<open>A patch that a reconciliation of \<open>v\<close> may send; other requests are not restricted.\<close>

definition patch_allowed :: "bool \<Rightarrow> LXCMachine \<Rightarrow> request \<Rightarrow> bool" where
  "patch_allowed cp v r \<longleftrightarrow>
     (case r of Kube (KPatchMachine b a _) \<Rightarrow>
        view b = view v \<and> keeps_or_provisions cp b a
        \<and> (IsZeroTime (om_DeletionTimestamp (m_meta b)) \<longrightarrow> om_Finalizers (m_meta a) = om_Finalizers (m_meta b))
      | _ \<Rightarrow> True)"

lemma patch_allowed_others [simp]:
  "patch_allowed cp v (Incus t q)" "patch_allowed cp v (ConnectSimpleStreams u)" "patch_allowed cp v (GetImageAliasType u i ty)"
  "patch_allowed cp v (CraneHead i k)" "patch_allowed cp v (Kube (KGetSecret n))"
  "patch_allowed cp v (Kube (KGetLXCMachine n))" "patch_allowed cp v (Kube (KGetLXCCluster n))"
  "patch_allowed cp v (Kube (KAddOwners m))" "patch_allowed cp v (Kube (KGetOwnerMachine om))"
  "patch_allowed cp v (Kube (KGetClusterFromMetadata om))" "patch_allowed cp v (Kube (KEnsurePausedMachine cl m))"
  "patch_allowed cp v (Kube (KEnsureFinalizerMachine m f))" "patch_allowed cp v (Kube (KNewHelperMachine m))"
  by (simp_all add: patch_allowed_def)

lemma patch_allowed_connect: "connect_request r \<Longrightarrow> patch_allowed cp v r"
  by (cases r rule: connect_request.cases) (auto simp: patch_allowed_def)

lemma patch_allowed_normal: "normal_request x cluster lxcCluster machine m c r \<Longrightarrow> patch_allowed cp v r"
  by (cases "ManagerForCluster cluster lxcCluster c"; cases r)
     (auto simp: normal_request_def machine_launch_def incus_kind_def patch_allowed_def)

lemma patch_allowed_reconfigures: "lb_configures l r \<Longrightarrow> patch_allowed cp v r"
  by (cases l; cases r) (auto simp: incus_kind_def)

lemma patch_allowed_sends: "sends c q r \<Longrightarrow> patch_allowed cp v r"
  by (cases r) (auto simp: sends_def)

section \<open>The patches of a reconciliation\<close>

lemma keeps_or_provisions_summary [simp]:
  "keeps_or_provisions cp m (summarize_m x m') = keeps_or_provisions cp m m'"
  by (simp add: keeps_or_provisions_def)

lemma keeps_or_provisions_marked [simp]: "keeps_or_provisions cp m (mark_deleting_m x m)"
  by (simp add: keeps_or_provisions_def GetInstanceName_def)

lemma issues_patch_allowed:
  assumes "view m = view v" "keeps_or_provisions cp m m'"
    "IsZeroTime (om_DeletionTimestamp (m_meta m)) \<Longrightarrow> om_Finalizers (m_meta m') = om_Finalizers (m_meta m)"
  shows "issues (patch_allowed cp v) (patchLXCMachine x m m')"
  by (rule issues_mono [OF machine_patch.patch_issues]) (use assms in \<open>auto simp: is_patch_m_def patch_allowed_def\<close>)

lemma issues_reconcileDelete_m:
  assumes "view m = view v"
  shows "issues (patch_allowed cp v) (reconcileDelete_m x ctx cluster lxcCluster machine m c)"
proof -
  have p: "issues (patch_allowed cp v) (patchLXCMachine x m
      (MarkFalse_m x m InstanceProvisionedCondition DeletingReason ConditionSeverityInfo ''''))"
    by (rule issues_patch_allowed) (use assms in \<open>simp_all add: keeps_or_provisions_def\<close>)
  have d: "issues (patch_allowed cp v) (WaitForDeleteInstance c ctx n)" for n
    by (rule issues_mono [OF issues_WaitForDeleteInstance]) (rule patch_allowed_sends)
  have l: "issues (patch_allowed cp v) (Reconfigure (x_templates x) (ManagerForCluster cluster lxcCluster c) ctx)"
    by (rule issues_mono [OF lb.reconfigure_issues]) (rule patch_allowed_reconfigures)
  show ?thesis unfolding reconcileDelete_m_def by (intro issues_intros p d l patch_allowed_others)
qed

lemma issues_reconcile_patched_m:
  assumes v: "view m = view v" and cp: "u_IsControlPlaneMachine (x_capi x) machine = cp"
  shows "issues (patch_allowed cp v) (reconcile_patched_m x ctx cluster lxcCluster machine m c)"
proof -
  let ?body = "if \<not> IsZeroTime (om_DeletionTimestamp (m_meta m))
        then do { (obj, err) \<leftarrow> reconcileDelete_m x ctx cluster lxcCluster machine m c; ret (obj, 0, err) }
        else reconcileNormal_m x ctx cluster lxcCluster machine m c"
  have "issues (patch_allowed cp v) ?body"
    by (intro issues_intros issues_reconcileDelete_m v issues_mono [OF issues_reconcileNormal_m] patch_allowed_normal)
  moreover have "issues (patch_allowed cp v) (patchLXCMachine x m m')"
    if run: "run_state ?body s = ((m', res, err), s')" for s m' res err s'
  proof (rule issues_patch_allowed [OF v])
    show "keeps_or_provisions cp m m'"
    proof (cases "IsZeroTime (om_DeletionTimestamp (m_meta m))")
      case True
      with run have "run_state (reconcileNormal_m x ctx cluster lxcCluster machine m c) s = ((m', res, err), s')" by simp
      from machine_step.normal [OF this cp] show ?thesis by (rule machine_step_keeps)
    next
      case False
      with run obtain err' s'' where "run_state (reconcileDelete_m x ctx cluster lxcCluster machine m c) s = ((m', err'), s'')"
        by (auto split: prod.splits)
      from machine_step.delete [OF this cp] show ?thesis by (rule machine_step_keeps)
    qed
    show "om_Finalizers (m_meta m') = om_Finalizers (m_meta m)" if "IsZeroTime (om_DeletionTimestamp (m_meta m))"
      using run that reconcileNormal_m_meta by fastforce
  qed
  ultimately show ?thesis
    unfolding reconcile_patched_m_def with_patch_def
    by (intro issues_bind_result) (auto intro!: issues_intros simp: case_prod_beta)
qed

text \<open>Once the object is read, every patch is allowed.\<close>

lemma issues_wp:
  assumes "issues P m" "trace s1 = trace s @ rs" "list_all P rs"
  shows "wp m (\<lambda>_ s'. \<exists>rs. trace s' = trace s @ rs \<and> list_all P rs) s1"
proof (rule wpI)
  fix y s2 assume "run_state m s1 = (y, s2)"
  from issuesD [OF assms(1) this] assms(2,3) show "\<exists>rs. trace s2 = trace s @ rs \<and> list_all P rs" by force
qed

lemma Reconcile_m_patches:
  assumes law: "kube_helpers_law (x_kube x)"
    and role: "\<And>w machine d w'. k_GetOwnerMachine (x_kube x) (m_meta v) w = (Inr (Some machine), d, w') \<Longrightarrow>
      u_IsControlPlaneMachine (x_capi x) machine = cp"
    and get: "k_GetLXCMachine (x_kube x) req (outside s) = (Inr v, d, w)"
    and run: "run_state (Reconcile_m x ctx req) s = (r, s')"
  shows "\<exists>rs. trace s' = trace s @ rs \<and> list_all (patch_allowed cp v) rs"
proof -
  have paused: "view m' = view m" if "k_EnsurePausedMachine (x_kube x) cl m w = (Inr (m', p, ch), d, w')" for cl m w m' p ch d w'
    using law that by (simp add: kube_helpers_law_def) blast
  have fin: "view m' = view m" if "k_EnsureFinalizerMachine (x_kube x) m f w = (Inr (m', b), d, w')" for m f w m' b d w'
    using law that by (simp add: kube_helpers_law_def) blast
  have "wp (Reconcile_m x ctx req) (\<lambda>_ s'. \<exists>rs. trace s' = trace s @ rs \<and> list_all (patch_allowed cp v) rs) s"
    unfolding Reconcile_m_def wp_bind wp_call get prod.case sum.case
    by (rule issues_wp [where rs = "[Kube (KGetLXCMachine req)]"],
        intro issues_or_return_call issues_intros issues_mono [OF issues_connect] issues_reconcile_patched_m)
       (auto intro: patch_allowed_connect, (metis paused fin role)+)
  from wpD [OF this run] show ?thesis .
qed

section \<open>Histories\<close>

text \<open>
  What the server makes of a patch, by the documentation of the patch helper: the metadata and spec on one hand and the status on the other are
  patched by separate requests, either of which may fail; a field that the patch changes gets the new
  value, any other field keeps the value it has on the server.  The deletion timestamp is the server's.
\<close>

definition merged :: "'a \<Rightarrow> 'a \<Rightarrow> 'a \<Rightarrow> 'a" where
  "merged b a current = (if a = b then current else a)"

definition main_patch :: "LXCMachine \<Rightarrow> LXCMachine \<Rightarrow> LXCMachine \<Rightarrow> LXCMachine \<Rightarrow> bool" where
  "main_patch b a m m' \<longleftrightarrow>
     ProviderID (m_spec m') = merged (ProviderID (m_spec b)) (ProviderID (m_spec a)) (ProviderID (m_spec m))
   \<and> om_Finalizers (m_meta m') = merged (om_Finalizers (m_meta b)) (om_Finalizers (m_meta a)) (om_Finalizers (m_meta m))"

definition main_kept :: "LXCMachine \<Rightarrow> LXCMachine \<Rightarrow> bool" where
  "main_kept m m' \<longleftrightarrow> ProviderID (m_spec m') = ProviderID (m_spec m) \<and> om_Finalizers (m_meta m') = om_Finalizers (m_meta m)"

definition status_patch :: "LXCMachine \<Rightarrow> LXCMachine \<Rightarrow> LXCMachine \<Rightarrow> LXCMachine \<Rightarrow> bool" where
  "status_patch b a m m' \<longleftrightarrow>
     m_Ready (m_status m') = merged (m_Ready (m_status b)) (m_Ready (m_status a)) (m_Ready (m_status m))
   \<and> LoadBalancerConfigured (m_status m')
       = merged (LoadBalancerConfigured (m_status b)) (LoadBalancerConfigured (m_status a)) (LoadBalancerConfigured (m_status m))"

definition status_kept :: "LXCMachine \<Rightarrow> LXCMachine \<Rightarrow> bool" where
  "status_kept m m' \<longleftrightarrow> m_Ready (m_status m') = m_Ready (m_status m)
     \<and> LoadBalancerConfigured (m_status m') = LoadBalancerConfigured (m_status m)"

definition patch_applied :: "LXCMachine \<Rightarrow> LXCMachine \<Rightarrow> LXCMachine \<Rightarrow> LXCMachine \<Rightarrow> bool" where
  "patch_applied b a m m' \<longleftrightarrow>
     om_Name (m_meta m') = om_Name (m_meta m) \<and> om_DeletionTimestamp (m_meta m') = om_DeletionTimestamp (m_meta m)
   \<and> (main_patch b a m m' \<or> main_kept m m') \<and> (status_patch b a m m' \<or> status_kept m m')"

text \<open>
  What others do: they leave the fields of the controller and its finalizer alone, and a machine whose
  deletion was requested stays so.
\<close>

definition foreign_change :: "LXCMachine \<Rightarrow> LXCMachine \<Rightarrow> bool" where
  "foreign_change m m' \<longleftrightarrow>
     om_Name (m_meta m') = om_Name (m_meta m) \<and> ProviderID (m_spec m') = ProviderID (m_spec m) \<and> status_kept m m'
   \<and> (MachineFinalizer \<in> set (om_Finalizers (m_meta m)) \<longrightarrow> MachineFinalizer \<in> set (om_Finalizers (m_meta m')))
   \<and> (\<not> IsZeroTime (om_DeletionTimestamp (m_meta m)) \<longrightarrow> \<not> IsZeroTime (om_DeletionTimestamp (m_meta m')))"

text \<open>A reconciliation that reads the version \<open>v\<close> and, at some point, sends the patch from \<open>b\<close> to \<open>a\<close>.\<close>

definition run_patches :: "'w Env \<Rightarrow> bool \<Rightarrow> LXCMachine \<Rightarrow> LXCMachine \<Rightarrow> LXCMachine \<Rightarrow> bool" where
  "run_patches x cp v b a \<longleftrightarrow>
     (\<forall>w machine d w'. k_GetOwnerMachine (x_kube x) (m_meta v) w = (Inr (Some machine), d, w') \<longrightarrow>
        u_IsControlPlaneMachine (x_capi x) machine = cp)
   \<and> (\<exists>ctx req s d w owned.
        k_GetLXCMachine (x_kube x) req (outside s) = (Inr v, d, w)
      \<and> Kube (KPatchMachine b a owned)
          \<in> set (drop (length (trace s)) (trace (snd (run_state (Reconcile_m x ctx req) s)))))"

inductive stored :: "'w Env \<Rightarrow> bool \<Rightarrow> LXCMachine list \<Rightarrow> bool" for x cp where
  created: "fresh_machine m \<Longrightarrow> stored x cp [m]"
| foreign: "stored x cp (m # h) \<Longrightarrow> foreign_change m m' \<Longrightarrow> stored x cp (m' # m # h)"
| patched: "stored x cp (m # h) \<Longrightarrow> v \<in> set (m # h) \<Longrightarrow> run_patches x cp v b a \<Longrightarrow> patch_applied b a m m' \<Longrightarrow>
     stored x cp (m' # m # h)"

lemma run_patches_allowed:
  assumes "kube_helpers_law (x_kube x)" "run_patches x cp v b a"
  shows "view b = view v" "keeps_or_provisions cp b a"
    "IsZeroTime (om_DeletionTimestamp (m_meta b)) \<Longrightarrow> om_Finalizers (m_meta a) = om_Finalizers (m_meta b)"
proof -
  obtain ctx req s d w owned r s' where get: "k_GetLXCMachine (x_kube x) req (outside s) = (Inr v, d, w)"
    and run: "run_state (Reconcile_m x ctx req) s = (r, s')"
    and sent: "Kube (KPatchMachine b a owned) \<in> set (drop (length (trace s)) (trace s'))"
    using assms(2) unfolding run_patches_def by (metis prod.collapse)
  have role: "u_IsControlPlaneMachine (x_capi x) machine = cp"
    if "k_GetOwnerMachine (x_kube x) (m_meta v) w = (Inr (Some machine), d, w')" for w machine d w'
    using assms(2) that unfolding run_patches_def by blast
  have "\<exists>rs. trace s' = trace s @ rs \<and> list_all (patch_allowed cp v) rs"
    by (rule Reconcile_m_patches [OF assms(1) _ get run]) (rule role)
  with sent have "patch_allowed cp v (Kube (KPatchMachine b a owned))" by (auto simp: list_all_iff)
  then show "view b = view v" "keeps_or_provisions cp b a"
    "IsZeroTime (om_DeletionTimestamp (m_meta b)) \<Longrightarrow> om_Finalizers (m_meta a) = om_Finalizers (m_meta b)"
    by (auto simp: patch_allowed_def)
qed

text \<open>What holds of a history, and that each step keeps it.\<close>

definition deleting :: "LXCMachine \<Rightarrow> bool" where
  "deleting m \<longleftrightarrow> \<not> IsZeroTime (om_DeletionTimestamp (m_meta m))"

definition newest_bounds :: "LXCMachine \<Rightarrow> LXCMachine \<Rightarrow> bool" where
  "newest_bounds m v \<longleftrightarrow>
     om_Name (m_meta m) = om_Name (m_meta v)
   \<and> (\<forall>p. ProviderID (m_spec v) = Some p \<longrightarrow> ProviderID (m_spec m) = Some p)
   \<and> (deleting v \<longrightarrow> deleting m)
   \<and> (MachineFinalizer \<in> set (om_Finalizers (m_meta v)) \<longrightarrow> MachineFinalizer \<in> set (om_Finalizers (m_meta m)) \<or> deleting m)"

definition consistent :: "bool \<Rightarrow> LXCMachine \<Rightarrow> bool" where
  "consistent cp m \<longleftrightarrow> ProviderID (m_spec m) \<in> {None, Some (GetExpectedProviderID m)} \<and> (LoadBalancerConfigured (m_status m) \<longrightarrow> cp)"

lemma newest_bounds_trans: "newest_bounds m2 m1 \<Longrightarrow> newest_bounds m1 v \<Longrightarrow> newest_bounds m2 v"
  by (auto simp: newest_bounds_def)

lemma newest_bounds_refl [simp]: "newest_bounds m m"
  by (simp add: newest_bounds_def)

lemma foreign_step:
  assumes "foreign_change m m'"
  shows "newest_bounds m' m" and "consistent cp m \<Longrightarrow> consistent cp m'"
  using assms
  by (auto simp: foreign_change_def newest_bounds_def consistent_def status_kept_def deleting_def GetExpectedProviderID_def
      GetInstanceName_def)

lemma patch_step:
  assumes "view b = view v" "keeps_or_provisions cp b a"
    and live: "IsZeroTime (om_DeletionTimestamp (m_meta b)) \<Longrightarrow> om_Finalizers (m_meta a) = om_Finalizers (m_meta b)"
    and "newest_bounds m v" "consistent cp m" "patch_applied b a m m'"
  shows "newest_bounds m' m" and "consistent cp m'"
proof -
  have name: "om_Name (m_meta b) = om_Name (m_meta m)" "om_Name (m_meta m') = om_Name (m_meta m)"
    and time: "om_DeletionTimestamp (m_meta m') = om_DeletionTimestamp (m_meta m)"
    using assms by (auto simp: view_def newest_bounds_def patch_applied_def)
  have id: "ProviderID (m_spec m') = ProviderID (m_spec m)
      \<or> ProviderID (m_spec m) \<in> {None, Some (GetExpectedProviderID m)} \<and> ProviderID (m_spec m') = Some (GetExpectedProviderID m)"
    using assms name
    by (auto simp: patch_applied_def main_patch_def main_kept_def merged_def keeps_or_provisions_def consistent_def
        GetExpectedProviderID_def GetInstanceName_def split: if_splits)
  have fin: "om_Finalizers (m_meta m') = om_Finalizers (m_meta m) \<or> deleting m"
    using assms(1,4,6) live
    by (auto simp: patch_applied_def main_patch_def main_kept_def merged_def view_def newest_bounds_def deleting_def split: if_splits)
  have lb: "LoadBalancerConfigured (m_status m') \<longrightarrow> LoadBalancerConfigured (m_status m) \<or> cp"
    using assms(2,6)
    by (auto simp: patch_applied_def status_patch_def status_kept_def merged_def keeps_or_provisions_def split: if_splits)
  show "newest_bounds m' m" using name time id fin by (auto simp: newest_bounds_def deleting_def)
  show "consistent cp m'" using name id lb assms(5) by (auto simp: consistent_def GetExpectedProviderID_def GetInstanceName_def)
qed

lemma stored_consistent:
  assumes "kube_helpers_law (x_kube x)" "stored x cp h"
  shows "list_all (consistent cp) h \<and> list_all (newest_bounds (hd h)) h"
  using assms(2)
proof (induction rule: stored.induct)
  case (created m)
  then show ?case by (simp add: fresh_machine_def consistent_def)
next
  case (foreign m h m')
  with foreign_step [OF foreign.hyps(2)] show ?case
    by (auto simp: list_all_iff intro: newest_bounds_trans)
next
  case (patched m h v b a m')
  then have "newest_bounds m v" "consistent cp m" by (auto simp: list_all_iff)
  note step = patch_step [OF run_patches_allowed [OF assms(1) patched.hyps(3)] this patched.hyps(4)]
  from patched.IH step show ?case by (auto simp: list_all_iff intro: newest_bounds_trans)
qed

text \<open>
  C2: Machines on the server, whatever the interleaving.  Any number of reconciliations of a machine, each from a version of the object that may be
  out of date, and changes by others may come in any order, and each half of a patch may fail on its own.  Others are supposed to leave
  the provider ID, the flags \<^verbatim>\<open>Ready\<close> and \<^verbatim>\<open>LoadBalancerConfigured\<close> of the status and the finalizer of the
  controller alone, and not to take back a request for deletion.  Then the provider ID of every
  version is the one of its instance, and once set it never changes; only control plane machines count as configured in the load balancer; and the finalizer,
  once there, stays until the deletion of the machine is requested.
\<close>

theorem stored_machine_safe:
  assumes "kube_helpers_law (x_kube x)" and "stored x cp h" and "v \<in> set h"
  shows "ProviderID (m_spec v) \<in> {None, Some (''lxc:///'' @ om_Name (m_meta v))}
    \<and> (\<forall>p. ProviderID (m_spec v) = Some p \<longrightarrow> ProviderID (m_spec (hd h)) = Some p)
    \<and> (LoadBalancerConfigured (m_status v) \<longrightarrow> cp)
    \<and> (MachineFinalizer \<in> set (om_Finalizers (m_meta v)) \<longrightarrow>
         MachineFinalizer \<in> set (om_Finalizers (m_meta (hd h))) \<or> \<not> IsZeroTime (om_DeletionTimestamp (m_meta (hd h))))"
  using stored_consistent [OF assms(1,2)] assms(3)
  by (auto simp: list_all_iff consistent_def newest_bounds_def deleting_def GetExpectedProviderID_def GetInstanceName_def)

text \<open>A server with one machine whose cluster is ready; a reconciliation of it ends with the patch that sets the provider ID.\<close>

definition store_env :: "'w Env" where
  "store_env = boot_env\<lparr>x_kube := (x_kube boot_env)
     \<lparr>k_GetLXCMachine := \<lambda>_ w. (Inr sample_lxcMachine, 0, w), k_GetLXCCluster := \<lambda>_ w. (Inr sample_lxcCluster, 0, w),
      k_GetOwnerMachine := \<lambda>_ w. (Inr (Some (sample_machine False)), 0, w),
      k_GetClusterFromMetadata := \<lambda>_ w. (Inr (Some sample_cluster), 0, w),
      k_EnsurePausedMachine := \<lambda>_ m w. (Inr (m, False, False), 0, w),
      k_GetSecret := \<lambda>_ w. (Inr \<lparr>sec_meta = sample_meta ''boot'' [],
        sec_Data = [(''value'', ''data''), (''server'', ''https://host'')]\<rparr>, 1, w)\<rparr>,
     x_connector := (x_connector boot_env)\<lparr>con_GetServer := \<lambda>_ w. (Inr (serverInfo (sample_client running_server :: unit Client)), 1, w)\<rparr>\<rparr>"

lemma store_env_helpers: "kube_helpers_law (x_kube (store_env :: 'w Env))"
  by (simp add: kube_helpers_law_def store_env_def boot_env_def sample_env_def sample_kube_def)

lemma store_env_connect:
  "\<exists>s'. run_state (connect store_env n) s = (Inr (sample_client running_server), s')"
  by (simp add: connect_def New_def connect_https_def run_state_guard_err call_def store_env_def boot_env_def sample_env_def sample_client_def
      ConfigurationFromKubernetesSecret_def get_str_def HasPrefix_def Let_def)

lemma store_env_connect_wp:
  "(\<And>s'. Q (Inr (sample_client running_server)) s') \<Longrightarrow> wp (connect store_env n) Q s"
  using store_env_connect [of n s] by (auto simp: wp_def)

lemma store_env_frame:
  "x_capi (store_env :: 'w Env) = x_capi (boot_env :: 'w Env)" "x_images (store_env :: 'w Env) = x_images (boot_env :: 'w Env)"
  "x_scripts (store_env :: 'w Env) = x_scripts (boot_env :: 'w Env)"
  "x_unmarshal (store_env :: 'w Env) = x_unmarshal (boot_env :: 'w Env)" "x_marshal (store_env :: 'w Env) = x_marshal (boot_env :: 'w Env)"
  by (simp_all add: store_env_def)

lemma store_env_secret:
  "k_GetSecret (x_kube store_env) n w = (Inr \<lparr>sec_meta = sample_meta ''boot'' [],
     sec_Data = [(''value'', ''data''), (''server'', ''https://host'')]\<rparr>, 1, w)"
  by (simp add: store_env_def)

lemma store_env_launch: "launchInstance store_env = launchInstance boot_env"
  unfolding fun_eq_iff launchInstance_def launchKindInstance_def machine_image_def machine_options_def machine_role_def with_lb_templates_def
    store_env_frame by (intro allI refl)

lemma store_env_reconcile:
  "\<exists>m' s'. run_state (reconcileNormal_m store_env Background sample_cluster sample_lxcCluster (sample_machine False)
        sample_lxcMachine (sample_client running_server)) s = ((m', 0, None), s') \<and> ProviderID (m_spec m') = Some ''lxc:///m''
     \<and> m_meta m' = m_meta sample_lxcMachine"
proof -
  let ?s = "s\<lparr>clock := Suc (clock s), trace := trace s @ [Kube (KGetSecret (''ns'', ''boot''))], outside := outside s\<rparr>"
  obtain s' where l: "run_state (launchInstance store_env Background sample_cluster sample_lxcCluster (sample_machine False)
      sample_lxcMachine (sample_client running_server) ''data'') ?s = (Inr [''10.0.0.2''], s')"
    using sample_launch store_env_launch by metis
  show ?thesis
    by (simp add: reconcileNormal_m_def getBootstrapData_def run_state_guard_err call_def l [simplified] launched_def Let_def store_env_frame store_env_secret
        GetExpectedProviderID_def GetInstanceName_def)
qed

lemma store_env_run:
  "\<exists>a owned. Kube (KPatchMachine sample_lxcMachine a owned)
       \<in> set (trace (snd (run_state (Reconcile_m store_env Background (''ns'', ''m'')) (initial_world ()))))
     \<and> ProviderID (m_spec a) = Some ''lxc:///m'' \<and> m_meta a = m_meta sample_lxcMachine"
proof -
  let ?Q = "\<lambda>_ s'. \<exists>a owned. Kube (KPatchMachine sample_lxcMachine a owned) \<in> set (trace s')
     \<and> ProviderID (m_spec a) = Some ''lxc:///m'' \<and> m_meta a = m_meta sample_lxcMachine"
  have k: "k_GetLXCMachine (x_kube (store_env :: unit Env)) n w = (Inr sample_lxcMachine, 0, w)"
    "k_AddOwners (x_kube (store_env :: unit Env)) m w = (Inr (), 0, w)"
    "k_GetOwnerMachine (x_kube (store_env :: unit Env)) om w = (Inr (Some (sample_machine False)), 0, w)"
    "k_GetClusterFromMetadata (x_kube (store_env :: unit Env)) om w = (Inr (Some sample_cluster), 0, w)"
    "k_EnsurePausedMachine (x_kube (store_env :: unit Env)) cl m w = (Inr (m, False, False), 0, w)"
    "k_GetLXCCluster (x_kube (store_env :: unit Env)) n w = (Inr sample_lxcCluster, 0, w)"
    "k_EnsureFinalizerMachine (x_kube (store_env :: unit Env)) m f w = (Inr (m, False), 0, w)"
    "k_NewHelperMachine (x_kube (store_env :: unit Env)) m w = (Inr (), 0, w)" for n m om cl f w
    by (simp_all add: store_env_def boot_env_def sample_env_def sample_kube_def)
  have ref: "cl_InfrastructureRef sample_cluster = Some ''c''" by (simp add: sample_cluster_def)
  have patched: "wp (reconcile_patched_m store_env Background sample_cluster sample_lxcCluster (sample_machine False) sample_lxcMachine
      (sample_client running_server)) ?Q s" for s :: "(request, unit) world"
  proof -
    obtain m1 s1 where n: "run_state (reconcileNormal_m store_env Background sample_cluster sample_lxcCluster (sample_machine False)
        sample_lxcMachine (sample_client running_server)) s = ((m1, 0, None), s1)"
      and m1: "ProviderID (m_spec m1) = Some ''lxc:///m''" "m_meta m1 = m_meta sample_lxcMachine"
      using store_env_reconcile by blast
    obtain perr s2 where p: "run_state (patchLXCMachine store_env sample_lxcMachine m1) s1 = ((summarize_m (store_env :: unit Env) m1, perr), s2)"
      "trace s2 = trace s1 @ [Kube (KPatchMachine sample_lxcMachine (summarize_m (store_env :: unit Env) m1) (infraConditions_m @ [ReadyCondition]))]"
      by (rule run_patchLXCMachine)
    have "IsZeroTime (om_DeletionTimestamp (m_meta sample_lxcMachine))" by (simp add: sample_meta_def IsZeroTime_def)
    with n p m1 show ?thesis
      by (auto simp: wp_def reconcile_patched_m_def with_patch_def intro!: exI [of _ "summarize_m (store_env :: unit Env) m1"])
  qed
  have "wp (Reconcile_m store_env Background (''ns'', ''m'')) ?Q (initial_world ())"
    by (simp add: Reconcile_m_def wp_simps k ref, rule store_env_connect_wp, simp add: wp_simps k patched [simplified])
  then show ?thesis by (simp add: wp_def case_prod_beta)
qed

theorem stored_machine_safe_witness:
  "\<exists>a. stored (store_env :: unit Env) False [a, sample_lxcMachine] \<and> ProviderID (m_spec a) = Some ''lxc:///m''
     \<and> \<not> LoadBalancerConfigured (m_status a) \<and> MachineFinalizer \<in> set (om_Finalizers (m_meta a))"
proof -
  obtain a owned where sent: "Kube (KPatchMachine sample_lxcMachine a owned)
       \<in> set (trace (snd (run_state (Reconcile_m store_env Background (''ns'', ''m'')) (initial_world ()))))"
    and a: "ProviderID (m_spec a) = Some ''lxc:///m''" "m_meta a = m_meta sample_lxcMachine"
    using store_env_run by blast
  have role: "u_IsControlPlaneMachine (x_capi (store_env :: unit Env)) machine = False"
    if "k_GetOwnerMachine (x_kube (store_env :: unit Env)) om w = (Inr (Some machine), d, w')" for om w machine d w'
    using that by (auto simp: store_env_def)
  have "k_GetLXCMachine (x_kube (store_env :: unit Env)) (''ns'', ''m'') (outside (initial_world ())) = (Inr sample_lxcMachine, 0, ())"
    by (simp add: store_env_def)
  with sent role have "run_patches (store_env :: unit Env) False sample_lxcMachine sample_lxcMachine a"
    unfolding run_patches_def by (metis drop0 initial_trace list.size(3))
  moreover have "fresh_machine sample_lxcMachine" by (simp add: fresh_machine_def) (simp add: sample_lxcMachine_def)
  moreover have "patch_applied sample_lxcMachine a sample_lxcMachine a"
    using a by (auto simp: patch_applied_def main_patch_def status_patch_def merged_def)
  ultimately have h: "stored (store_env :: unit Env) False [a, sample_lxcMachine]"
    by (intro stored.patched [where v = sample_lxcMachine]) (auto intro: stored.created)
  from stored_machine_safe [OF store_env_helpers h, of a] stored_machine_safe [OF store_env_helpers h, of sample_lxcMachine] h a
  show ?thesis by (auto simp: sample_meta_def)
qed

end
