(* ===== verification/Go_Memory.thy ===== *)
theory Go_Memory
  imports Go_Effects
begin

text \<open>
  Memory, for code whose correctness is about sharing.  A memory maps addresses to cells and knows the next free
  address; a pointer is an address or nil, a slice is a part of an array, a map is a reference to a cell.  What a kind of cell
  holds is described by a \<open>kind\<close>: how a value is put into a cell and read back, and its zero value.  The locale \<open>deep_copy\<close>
  is the contract of a deep copy; it is closed under pointers, slices, maps and structs.
\<close>

section \<open>Memories\<close>

type_synonym addr = nat

record 'c mem =
  cells :: "addr \<Rightarrow> 'c option"
  limit :: addr

record ('c, 'a) kind =
  put :: "'a \<Rightarrow> 'c"
  got :: "'c \<Rightarrow> 'a option"
  zero :: 'a

definition kind_law :: "('c, 'a) kind \<Rightarrow> bool" where
  "kind_law k \<longleftrightarrow> (\<forall>x. got k (put k x) = Some x)"

definition peek :: "('c, 'a) kind \<Rightarrow> 'c mem \<Rightarrow> addr \<Rightarrow> 'a" where
  "peek k h a = (case cells h a of None \<Rightarrow> zero k | Some c \<Rightarrow> (case got k c of None \<Rightarrow> zero k | Some x \<Rightarrow> x))"

definition holds :: "('c, 'a) kind \<Rightarrow> 'c mem \<Rightarrow> addr \<Rightarrow> bool" where
  "holds k h a \<longleftrightarrow> (\<exists>x. cells h a = Some (put k x))"

definition load :: "('c, 'a) kind \<Rightarrow> addr \<Rightarrow> ('c mem, 'a) state" where
  "load k a = State (\<lambda>h. (peek k h a, h))"

definition store :: "('c, 'a) kind \<Rightarrow> addr \<Rightarrow> 'a \<Rightarrow> ('c mem, unit) state" where
  "store k a x = State (\<lambda>h. ((), h\<lparr>cells := (cells h)(a \<mapsto> put k x)\<rparr>))"

definition alloc :: "('c, 'a) kind \<Rightarrow> 'a \<Rightarrow> ('c mem, addr) state" where
  "alloc k x = State (\<lambda>h. (limit h, h\<lparr>cells := (cells h)(limit h \<mapsto> put k x), limit := Suc (limit h)\<rparr>))"

definition wf_mem :: "'c mem \<Rightarrow> bool" where
  "wf_mem h \<longleftrightarrow> dom (cells h) \<subseteq> {..<limit h}"

text \<open>Nothing that was there is changed.\<close>

definition grows :: "'c mem \<Rightarrow> 'c mem \<Rightarrow> bool" where
  "grows h h' \<longleftrightarrow> wf_mem h' \<and> limit h \<le> limit h' \<and> (\<forall>a < limit h. cells h' a = cells h a)"

lemma grows_trans: "grows h h1 \<Longrightarrow> grows h1 h2 \<Longrightarrow> grows h h2"
  by (fastforce simp: grows_def)

lemma grows_refl: "wf_mem h \<Longrightarrow> grows h h"
  by (simp add: grows_def)

lemma run_load [simp]: "run_state (load k a) h = (peek k h a, h)"
  by (simp add: load_def)

lemma run_store [simp]: "run_state (store k a x) h = ((), h\<lparr>cells := (cells h)(a \<mapsto> put k x)\<rparr>)"
  by (simp add: store_def)

lemma run_alloc [simp]:
  "run_state (alloc k x) h = (limit h, h\<lparr>cells := (cells h)(limit h \<mapsto> put k x), limit := Suc (limit h)\<rparr>)"
  by (simp add: alloc_def)

lemma peek_put [simp]: "kind_law k \<Longrightarrow> cells h a = Some (put k x) \<Longrightarrow> peek k h a = x"
  by (simp add: peek_def kind_law_def)

lemma peek_cong: "cells h' a = cells h a \<Longrightarrow> peek k h' a = peek k h a"
  by (simp add: peek_def)

lemma holds_cong: "cells h' a = cells h a \<Longrightarrow> holds k h' a = holds k h a"
  by (simp add: holds_def)

lemma holds_bound: "wf_mem h \<Longrightarrow> holds k h a \<Longrightarrow> a < limit h"
  by (auto simp: wf_mem_def holds_def)

lemma grows_alloc: "wf_mem h \<Longrightarrow> grows h (h\<lparr>cells := (cells h)(limit h \<mapsto> c), limit := Suc (limit h)\<rparr>)"
  by (auto simp: grows_def wf_mem_def)

text \<open>A write to a cell that is newer than \<open>h\<close>.\<close>

lemma grows_store: "grows h h' \<Longrightarrow> limit h \<le> a \<Longrightarrow> a < limit h' \<Longrightarrow> grows h (h'\<lparr>cells := (cells h')(a \<mapsto> c)\<rparr>)"
  by (auto simp: grows_def wf_mem_def)

section \<open>The contract of a deep copy\<close>

text \<open>
  \<open>valid h m\<close>: the references of \<open>m\<close> lead to cells of the right kind; \<open>refs h m\<close>: all cells that can be reached from \<open>m\<close>; \<open>content h m\<close>: the
  value that \<open>m\<close> stands for.
\<close>

locale deep_copy =
  fixes copy :: "'m \<Rightarrow> ('c mem, 'm) state"
    and valid :: "'c mem \<Rightarrow> 'm \<Rightarrow> bool"
    and refs :: "'c mem \<Rightarrow> 'm \<Rightarrow> addr set"
    and content :: "'c mem \<Rightarrow> 'm \<Rightarrow> 'v"
  assumes copy_ok: "wf_mem h \<Longrightarrow> valid h m \<Longrightarrow> run_state (copy m) h = (m', h') \<Longrightarrow>
      grows h h' \<and> valid h' m' \<and> refs h' m' \<subseteq> {limit h..<limit h'} \<and> content h' m' = content h m"
    and frame: "valid h m \<Longrightarrow> (\<And>a. a \<in> refs h m \<Longrightarrow> cells h' a = cells h a) \<Longrightarrow>
      valid h' m \<and> refs h' m = refs h m \<and> content h' m = content h m"
    and bounded: "wf_mem h \<Longrightarrow> valid h m \<Longrightarrow> refs h m \<subseteq> {..<limit h}"
begin

lemma keeps:
  assumes "wf_mem h" "valid h m" "grows h h'"
  shows "valid h' m \<and> refs h' m = refs h m \<and> content h' m = content h m"
  using assms bounded [OF assms(1,2)] by (intro frame) (auto simp: grows_def)

text \<open>The original is as it was, and whatever is later written to the cells of one of the two, the other keeps its content.\<close>

lemma independent:
  assumes "wf_mem h" "valid h m" "run_state (copy m) h = (m', h')"
  shows "content h' m' = content h m" "content h' m = content h m" "refs h' m \<inter> refs h' m' = {}"
    and "(\<And>a. a \<notin> refs h' m \<Longrightarrow> cells h2 a = cells h' a) \<Longrightarrow> content h2 m' = content h m"
    and "(\<And>a. a \<notin> refs h' m' \<Longrightarrow> cells h2 a = cells h' a) \<Longrightarrow> content h2 m = content h m"
proof -
  note c = copy_ok [OF assms]
  note k = keeps [OF assms(1,2), of h']
  show 1: "content h' m' = content h m" using c by simp
  show 2: "content h' m = content h m" using c k by simp
  show 3: "refs h' m \<inter> refs h' m' = {}" using c k bounded [OF assms(1,2)] by fastforce
  show "content h2 m' = content h m" if "\<And>a. a \<notin> refs h' m \<Longrightarrow> cells h2 a = cells h' a"
    using frame [of h' m' h2] c 3 that by fastforce
  show "content h2 m = content h m" if "\<And>a. a \<notin> refs h' m' \<Longrightarrow> cells h2 a = cells h' a"
    using frame [of h' m h2] c k 3 that by fastforce
qed

end

section \<open>Values, pairs and structs\<close>

lemma deep_copy_value: "deep_copy ret (\<lambda>_ _. True) (\<lambda>_ _. {}) (\<lambda>_ m. m)"
  by unfold_locales (auto simp: grows_refl)

definition copy_pair :: "('a \<Rightarrow> ('c mem, 'a) state) \<Rightarrow> ('b \<Rightarrow> ('c mem, 'b) state) \<Rightarrow> 'a \<times> 'b \<Rightarrow> ('c mem, 'a \<times> 'b) state" where
  "copy_pair c1 c2 = (\<lambda>(x, y). do { x \<leftarrow> c1 x; y \<leftarrow> c2 y; ret (x, y) })"

lemma deep_copy_pair:
  fixes c1 :: "'a \<Rightarrow> ('c mem, 'a) state" and c2 :: "'b \<Rightarrow> ('c mem, 'b) state"
  assumes "deep_copy c1 v1 r1 a1" "deep_copy c2 v2 r2 a2"
  shows "deep_copy (copy_pair c1 c2) (\<lambda>h (x, y). v1 h x \<and> v2 h y) (\<lambda>h (x, y). r1 h x \<union> r2 h y) (\<lambda>h (x, y). (a1 h x, a2 h y))"
proof (intro deep_copy.intro)
  note d1 = deep_copy.copy_ok [OF assms(1)] deep_copy.keeps [OF assms(1)] and d2 = deep_copy.copy_ok [OF assms(2)] deep_copy.keeps [OF assms(2)]
  fix h m m' h'
  assume wf: "wf_mem h" and valid: "case m of (x, y) \<Rightarrow> v1 h x \<and> v2 h y" and run: "run_state (copy_pair c1 c2 m) h = (m', h')"
  obtain x y x' y' h1 where m: "m = (x, y)" "m' = (x', y')" and x: "run_state (c1 x) h = (x', h1)" and y: "run_state (c2 y) h1 = (y', h')"
    using run by (cases m) (auto simp: copy_pair_def split: prod.splits)
  have vx: "v1 h x" and vy: "v2 h y" using valid m by auto
  note 1 = d1(1) [OF wf vx x]
  then have wf1: "wf_mem h1" and g1: "grows h h1" by (auto simp: grows_def)
  note k = d2(2) [OF wf vy g1]
  note 2 = d2(1) [OF wf1 _ y]
  have v1: "v1 h1 x'" and 3: "v2 h1 y" using 1 k by auto
  note 2 = 2 [OF 3]
  note 4 = d1(2) [OF wf1 v1, of h']
  show "grows h h' \<and> (case m' of (x, y) \<Rightarrow> v1 h' x \<and> v2 h' y)
      \<and> (case m' of (x, y) \<Rightarrow> r1 h' x \<union> r2 h' y) \<subseteq> {limit h..<limit h'}
      \<and> (case m' of (x, y) \<Rightarrow> (a1 h' x, a2 h' y)) = (case m of (x, y) \<Rightarrow> (a1 h x, a2 h y))"
    using 1 2 4 k grows_trans [OF g1, of h'] m by (auto simp: grows_def)
next
  fix h h' :: "'c mem" and m
  assume "case m of (x, y) \<Rightarrow> v1 h x \<and> v2 h y" and "\<And>a. a \<in> (case m of (x, y) \<Rightarrow> r1 h x \<union> r2 h y) \<Longrightarrow> cells h' a = cells h a"
  then show "(case m of (x, y) \<Rightarrow> v1 h' x \<and> v2 h' y)
      \<and> (case m of (x, y) \<Rightarrow> r1 h' x \<union> r2 h' y) = (case m of (x, y) \<Rightarrow> r1 h x \<union> r2 h y)
      \<and> (case m of (x, y) \<Rightarrow> (a1 h' x, a2 h' y)) = (case m of (x, y) \<Rightarrow> (a1 h x, a2 h y))"
    using deep_copy.frame [OF assms(1), of h "fst m" h'] deep_copy.frame [OF assms(2), of h "snd m" h'] by (auto split: prod.splits)
next
  fix h m assume "wf_mem h" "case m of (x, y) \<Rightarrow> v1 h x \<and> v2 h y"
  then show "(case m of (x, y) \<Rightarrow> r1 h x \<union> r2 h y) \<subseteq> {..<limit h}"
    using deep_copy.bounded [OF assms(1), of h "fst m"] deep_copy.bounded [OF assms(2), of h "snd m"] by (auto split: prod.splits)
qed

text \<open>
  A struct: \<^verbatim>\<open>*out = *in\<close>, and then some of its fields, \<open>get m\<close>, are copied.  The content is put together by \<open>whole\<close> from the copied fields
  and the others.
\<close>

lemma deep_copy_struct:
  assumes "deep_copy c v r a" and get_upd: "\<And>m t. get (upd m t) = t" and whole: "\<And>m t x. whole (upd m t) x = whole m x"
  shows "deep_copy (\<lambda>m. do { t \<leftarrow> c (get m); ret (upd m t) }) (\<lambda>h m. v h (get m)) (\<lambda>h m. r h (get m)) (\<lambda>h m. whole m (a h (get m)))"
proof (intro deep_copy.intro)
  fix h m m' h'
  assume wf: "wf_mem h" "v h (get m)" and run: "run_state (do { t \<leftarrow> c (get m); ret (upd m t) }) h = (m', h')"
  from run obtain t where t: "run_state (c (get m)) h = (t, h')" "m' = upd m t" by (auto split: prod.splits)
  with deep_copy.copy_ok [OF assms(1) wf t(1)] show "grows h h' \<and> v h' (get m') \<and> r h' (get m') \<subseteq> {limit h..<limit h'}
      \<and> whole m' (a h' (get m')) = whole m (a h (get m))" by (simp add: get_upd whole)
next
  show "v h' (get m) \<and> r h' (get m) = r h (get m) \<and> whole m (a h' (get m)) = whole m (a h (get m))"
    if "v h (get m)" "\<And>a. a \<in> r h (get m) \<Longrightarrow> cells h' a = cells h a" for h m h'
    using deep_copy.frame [OF assms(1) that] by simp
  show "r h (get m) \<subseteq> {..<limit h}" if "wf_mem h" "v h (get m)" for h m
    using deep_copy.bounded [OF assms(1) that] .
qed

section \<open>Pointers\<close>

definition copy_pointer :: "('c, 'a) kind \<Rightarrow> ('a \<Rightarrow> ('c mem, 'a) state) \<Rightarrow> addr option \<Rightarrow> ('c mem, addr option) state" where
  "copy_pointer k into p =
     (case p of None \<Rightarrow> ret None
      | Some a \<Rightarrow> do { out \<leftarrow> alloc k (zero k); x \<leftarrow> load k a; y \<leftarrow> into x; store k out y; ret (Some out) })"

definition valid_pointer :: "('c, 'a) kind \<Rightarrow> ('c mem \<Rightarrow> 'a \<Rightarrow> bool) \<Rightarrow> 'c mem \<Rightarrow> addr option \<Rightarrow> bool" where
  "valid_pointer k v h p = (case p of None \<Rightarrow> True | Some a \<Rightarrow> holds k h a \<and> v h (peek k h a))"

definition refs_pointer :: "('c, 'a) kind \<Rightarrow> ('c mem \<Rightarrow> 'a \<Rightarrow> addr set) \<Rightarrow> 'c mem \<Rightarrow> addr option \<Rightarrow> addr set" where
  "refs_pointer k r h p = (case p of None \<Rightarrow> {} | Some a \<Rightarrow> insert a (r h (peek k h a)))"

definition content_pointer :: "('c, 'a) kind \<Rightarrow> ('c mem \<Rightarrow> 'a \<Rightarrow> 'v) \<Rightarrow> 'c mem \<Rightarrow> addr option \<Rightarrow> 'v option" where
  "content_pointer k f h p = map_option (\<lambda>a. f h (peek k h a)) p"

lemma deep_copy_pointer:
  fixes c :: "'a \<Rightarrow> ('c mem, 'a) state"
  assumes k: "kind_law k" and c: "deep_copy c v r f"
  shows "deep_copy (copy_pointer k c) (valid_pointer k v) (refs_pointer k r) (content_pointer k f)"
proof (intro deep_copy.intro)
  fix h h' :: "'c mem" and p p'
  assume wf: "wf_mem h" and valid: "valid_pointer k v h p" and run: "run_state (copy_pointer k c p) h = (p', h')"
  show "grows h h' \<and> valid_pointer k v h' p' \<and> refs_pointer k r h' p' \<subseteq> {limit h..<limit h'}
      \<and> content_pointer k f h' p' = content_pointer k f h p"
  proof (cases p)
    case None
    with run wf show ?thesis
      by (simp add: copy_pointer_def valid_pointer_def refs_pointer_def content_pointer_def grows_refl)
  next
    case (Some a)
    let ?h1 = "h\<lparr>cells := (cells h)(limit h \<mapsto> put k (zero k)), limit := Suc (limit h)\<rparr>"
    have g1: "grows h ?h1" using wf by (rule grows_alloc)
    have a: "a < limit h" and x: "v h (peek k h a)"
      using valid Some wf by (auto simp: valid_pointer_def dest: holds_bound)
    then have same: "peek k ?h1 a = peek k h a" by (intro peek_cong) simp
    obtain y h2 where y: "run_state (c (peek k h a)) ?h1 = (y, h2)" by (metis prod.collapse)
    note old = deep_copy.keeps [OF c wf x g1]
    note new = deep_copy.copy_ok [OF c _ _ y]
    have wf1: "wf_mem ?h1" using g1 by (simp add: grows_def)
    note new = new [OF wf1 conjunct1 [OF old]]
    have h': "h' = h2\<lparr>cells := (cells h2)(limit h \<mapsto> put k y)\<rparr>" and p': "p' = Some (limit h)"
      using run Some same y by (simp_all add: copy_pointer_def)
    have fr: "v h' y \<and> r h' y = r h2 y \<and> f h' y = f h2 y"
      using new by (intro deep_copy.frame [OF c]) (auto simp: h')
    have "peek k h' (limit h) = y" using k by (simp add: h')
    moreover have "grows h h'"
      unfolding h' using grows_trans [OF g1, of h2] new by (intro grows_store) (auto simp: grows_def)
    ultimately show ?thesis
      using new fr old Some p' h'
      by (auto simp: valid_pointer_def refs_pointer_def content_pointer_def holds_def grows_def)
  qed
next
  fix h h' :: "'c mem" and p
  assume "valid_pointer k v h p" and "\<And>a. a \<in> refs_pointer k r h p \<Longrightarrow> cells h' a = cells h a"
  then show "valid_pointer k v h' p \<and> refs_pointer k r h' p = refs_pointer k r h p \<and> content_pointer k f h' p = content_pointer k f h p"
    using deep_copy.frame [OF c, of h "peek k h (the p)" h'] holds_cong [of h' "the p" h k] peek_cong [of h' "the p" h k]
    by (cases p) (auto simp: valid_pointer_def refs_pointer_def content_pointer_def)
next
  fix h :: "'c mem" and p assume "wf_mem h" "valid_pointer k v h p"
  then show "refs_pointer k r h p \<subseteq> {..<limit h}"
    using deep_copy.bounded [OF c, of h "peek k h (the p)"]
    by (cases p) (auto simp: valid_pointer_def refs_pointer_def dest: holds_bound)
qed

section \<open>Slices\<close>

text \<open>A part of an array; the array is a cell with a list.\<close>

record slice =
  s_array :: addr
  s_offset :: nat
  s_len :: nat

definition part :: "slice \<Rightarrow> 'a list \<Rightarrow> 'a list" where
  "part s xs = take (s_len s) (drop (s_offset s) xs)"

definition elements :: "('c, 'a list) kind \<Rightarrow> 'c mem \<Rightarrow> slice \<Rightarrow> 'a list" where
  "elements k h s = part s (peek k h (s_array s))"

text \<open>\<^verbatim>\<open>make([]T, n)\<close>\<close>

definition make_slice :: "('c, 'a list) kind \<Rightarrow> 'a \<Rightarrow> nat \<Rightarrow> ('c mem, addr) state" where
  "make_slice k z n = alloc k (replicate n z)"

text \<open>\<^verbatim>\<open>copy(*out, *in)\<close>, for elements without references.\<close>

definition copy_values :: "('c, 'a list) kind \<Rightarrow> 'a \<Rightarrow> slice option \<Rightarrow> ('c mem, slice option) state" where
  "copy_values k z p =
     (case p of None \<Rightarrow> ret None
      | Some s \<Rightarrow> do { out \<leftarrow> make_slice k z (s_len s); xs \<leftarrow> load k (s_array s); store k out (part s xs);
                      ret (Some \<lparr>s_array = out, s_offset = 0, s_len = s_len s\<rparr>) })"

text \<open>\<^verbatim>\<open>for i := range *in { (*in)[i].DeepCopyInto(&(*out)[i]) }\<close>\<close>

fun copy_loop :: "('c, 'a list) kind \<Rightarrow> ('a \<Rightarrow> ('c mem, 'a) state) \<Rightarrow> addr \<Rightarrow> nat \<Rightarrow> 'a list \<Rightarrow> ('c mem, unit) state" where
  "copy_loop k into out i [] = ret ()"
| "copy_loop k into out i (x # xs) =
     do { y \<leftarrow> into x; ys \<leftarrow> load k out; store k out (ys[i := y]); copy_loop k into out (Suc i) xs }"

definition copy_each :: "('c, 'a list) kind \<Rightarrow> 'a \<Rightarrow> ('a \<Rightarrow> ('c mem, 'a) state) \<Rightarrow> slice option \<Rightarrow> ('c mem, slice option) state" where
  "copy_each k z into p =
     (case p of None \<Rightarrow> ret None
      | Some s \<Rightarrow> do { out \<leftarrow> make_slice k z (s_len s); xs \<leftarrow> load k (s_array s); copy_loop k into out 0 (part s xs);
                      ret (Some \<lparr>s_array = out, s_offset = 0, s_len = s_len s\<rparr>) })"

definition valid_slice :: "('c, 'a list) kind \<Rightarrow> ('c mem \<Rightarrow> 'a \<Rightarrow> bool) \<Rightarrow> 'c mem \<Rightarrow> slice option \<Rightarrow> bool" where
  "valid_slice k v h p = (case p of None \<Rightarrow> True
     | Some s \<Rightarrow> holds k h (s_array s) \<and> s_offset s + s_len s \<le> length (peek k h (s_array s)) \<and> (\<forall>x \<in> set (elements k h s). v h x))"

definition refs_slice :: "('c, 'a list) kind \<Rightarrow> ('c mem \<Rightarrow> 'a \<Rightarrow> addr set) \<Rightarrow> 'c mem \<Rightarrow> slice option \<Rightarrow> addr set" where
  "refs_slice k r h p = (case p of None \<Rightarrow> {} | Some s \<Rightarrow> insert (s_array s) (\<Union>x \<in> set (elements k h s). r h x))"

definition content_slice :: "('c, 'a list) kind \<Rightarrow> ('c mem \<Rightarrow> 'a \<Rightarrow> 'v) \<Rightarrow> 'c mem \<Rightarrow> slice option \<Rightarrow> 'v list option" where
  "content_slice k f h p = map_option (\<lambda>s. map (f h) (elements k h s)) p"

lemma elements_cong: "cells h' (s_array s) = cells h (s_array s) \<Longrightarrow> elements k h' s = elements k h s"
  using peek_cong [of h' "s_array s" h k] by (simp add: elements_def)

lemma length_part: "s_offset s + s_len s \<le> length xs \<Longrightarrow> length (part s xs) = s_len s"
  by (simp add: part_def)

lemma part_whole: "s_offset s = 0 \<Longrightarrow> s_len s = length xs \<Longrightarrow> part s xs = xs"
  by (simp add: part_def)

text \<open>The loop fills the array from \<open>i\<close> on with copies, and changes nothing else that was there.\<close>

lemma copy_loop_ok:
  fixes h h' :: "'c mem"
  assumes k: "kind_law k" and c: "deep_copy c v r f"
  shows "run_state (copy_loop k c out i xs) h = ((), h') \<Longrightarrow> wf_mem h \<Longrightarrow> cells h out = Some (put k ys) \<Longrightarrow>
    i + length xs \<le> length ys \<Longrightarrow> (\<And>x. x \<in> set xs \<Longrightarrow> v h x \<and> out \<notin> r h x) \<Longrightarrow>
    \<exists>zs. wf_mem h' \<and> limit h \<le> limit h' \<and> (\<forall>a < limit h. a \<noteq> out \<longrightarrow> cells h' a = cells h a)
      \<and> cells h' out = Some (put k (take i ys @ zs @ drop (i + length xs) ys))
      \<and> (\<forall>z \<in> set zs. v h' z \<and> r h' z \<subseteq> {limit h..<limit h'}) \<and> map (f h') zs = map (f h) xs"
proof (induction xs arbitrary: i h ys)
  case Nil
  then show ?case by (intro exI [of _ "[]"]) simp
next
  case (Cons x xs)
  obtain y h1 where y: "run_state (c x) h = (y, h1)" by (metis prod.collapse)
  note 1 = deep_copy.copy_ok [OF c Cons.prems(2) _ y]
  have vx: "v h x" using Cons.prems(5) by simp
  note 1 = 1 [OF vx]
  have out: "out < limit h" using Cons.prems(2,3) by (auto simp: wf_mem_def)
  then have out1: "cells h1 out = Some (put k ys)" using 1 Cons.prems(3) by (simp add: grows_def)
  define h2 where "h2 = h1\<lparr>cells := (cells h1)(out \<mapsto> put k (ys[i := y]))\<rparr>"
  have run: "run_state (copy_loop k c out (Suc i) xs) h2 = ((), h')"
    using Cons.prems(1) y out1 k by (simp add: h2_def)
  have wf2: "wf_mem h2" "limit h2 = limit h1" "limit h \<le> limit h1" using 1 out by (auto simp: h2_def grows_def wf_mem_def)
  have fr: "v h2 x' \<and> r h2 x' = r h x' \<and> f h2 x' = f h x'" if "x' \<in> set xs" for x'
    using Cons.prems(5) [of x'] that 1 deep_copy.bounded [OF c Cons.prems(2), of x']
    by (intro deep_copy.frame [OF c]) (auto simp: h2_def grows_def)
  from Cons.IH [OF run wf2(1), of "ys[i := y]"] fr Cons.prems(4,5) obtain zs where zs: "wf_mem h'" "limit h2 \<le> limit h'"
      "\<forall>a < limit h2. a \<noteq> out \<longrightarrow> cells h' a = cells h2 a"
      "cells h' out = Some (put k (take (Suc i) (ys[i := y]) @ zs @ drop (Suc i + length xs) (ys[i := y])))"
      "\<forall>z \<in> set zs. v h' z \<and> r h' z \<subseteq> {limit h2..<limit h'}" "map (f h') zs = map (f h2) xs"
    by (auto simp: h2_def)
  have y': "v h' y \<and> r h' y = r h1 y \<and> f h' y = f h1 y"
    using 1 zs(3) out by (intro deep_copy.frame [OF c]) (auto simp: h2_def)
  have "take (Suc i) (ys[i := y]) = take i ys @ [y]" using Cons.prems(4) by (simp add: take_Suc_conv_app_nth)
  moreover have "map (f h2) xs = map (f h) xs" using fr by simp
  ultimately show ?case
    using zs y' 1 wf2 out by (intro exI [of _ "y # zs"]) (fastforce simp: h2_def grows_def)
qed

lemma frame_slice:
  fixes h h' :: "'c mem"
  assumes c: "deep_copy c v r f" and "valid_slice k v h p" and same: "\<And>a. a \<in> refs_slice k r h p \<Longrightarrow> cells h' a = cells h a"
  shows "valid_slice k v h' p \<and> refs_slice k r h' p = refs_slice k r h p \<and> content_slice k f h' p = content_slice k f h p"
proof (cases p)
  case (Some s)
  with same have arr: "cells h' (s_array s) = cells h (s_array s)" by (simp add: refs_slice_def)
  have el: "v h' x \<and> r h' x = r h x \<and> f h' x = f h x" if "x \<in> set (elements k h s)" for x
    using assms(2) Some that same by (intro deep_copy.frame [OF c]) (auto simp: valid_slice_def refs_slice_def)
  show ?thesis
    using assms(2) Some el elements_cong [OF arr, of k] holds_cong [OF arr, of k] peek_cong [OF arr, of k]
    by (auto simp: valid_slice_def refs_slice_def content_slice_def)
qed (simp add: valid_slice_def refs_slice_def content_slice_def)

lemma bounded_slice:
  assumes c: "deep_copy c v r f" and "wf_mem h" "valid_slice k v h p"
  shows "refs_slice k r h p \<subseteq> {..<limit h}"
  using assms(2,3) deep_copy.bounded [OF c assms(2)]
  by (cases p) (auto simp: valid_slice_def refs_slice_def dest: holds_bound)

lemma copy_each_ok:
  fixes h h' :: "'c mem"
  assumes k: "kind_law k" and c: "deep_copy c v r f"
    and wf: "wf_mem h" and valid: "valid_slice k v h (Some s)" and run: "run_state (copy_each k z c (Some s)) h = (p', h')"
  shows "grows h h' \<and> valid_slice k v h' p' \<and> refs_slice k r h' p' \<subseteq> {limit h..<limit h'}
      \<and> content_slice k f h' p' = content_slice k f h (Some s)"
proof -
  define h1 where "h1 = h\<lparr>cells := (cells h)(limit h \<mapsto> put k (replicate (s_len s) z)), limit := Suc (limit h)\<rparr>"
  let ?s' = "\<lparr>s_array = limit h, s_offset = 0, s_len = s_len s\<rparr>"
  have g1: "grows h h1" unfolding h1_def using wf by (rule grows_alloc)
  then have wf1: "wf_mem h1" by (simp add: grows_def)
  have arr: "s_array s < limit h" using valid wf by (auto simp: valid_slice_def dest: holds_bound)
  then have same: "peek k h1 (s_array s) = peek k h (s_array s)" by (intro peek_cong) (simp add: h1_def)
  have len: "length (elements k h s) = s_len s" using valid by (simp add: valid_slice_def elements_def length_part)
  have old: "v h x" if "x \<in> set (elements k h s)" for x using valid that by (simp add: valid_slice_def)
  have keep: "v h1 x \<and> r h1 x = r h x \<and> f h1 x = f h x \<and> limit h \<notin> r h x" if "x \<in> set (elements k h s)" for x
    using deep_copy.keeps [OF c wf old [OF that] g1] deep_copy.bounded [OF c wf old [OF that]] by auto
  have loop: "run_state (copy_loop k c (limit h) 0 (elements k h s)) h1 = ((), h')" and p': "p' = Some ?s'"
    using run same by (auto simp: copy_each_def make_slice_def elements_def h1_def split: prod.splits)
  have cell: "cells h1 (limit h) = Some (put k (replicate (s_len s) z))" by (simp add: h1_def)
  have ready: "v h1 x \<and> limit h \<notin> r h1 x" if "x \<in> set (elements k h s)" for x using keep [OF that] by simp
  have lim: "limit h1 = Suc (limit h)" by (simp add: h1_def)
  from copy_loop_ok [OF k c loop wf1 cell _ ready, unfolded lim] len obtain zs where zs: "wf_mem h'" "Suc (limit h) \<le> limit h'"
      "\<forall>a < Suc (limit h). a \<noteq> limit h \<longrightarrow> cells h' a = cells h1 a" "cells h' (limit h) = Some (put k zs)"
      "\<forall>y \<in> set zs. v h' y \<and> r h' y \<subseteq> {Suc (limit h)..<limit h'}" "map (f h') zs = map (f h1) (elements k h s)"
    by auto
  have "length zs = s_len s" using arg_cong [OF zs(6), of length] len by simp
  then have el: "elements k h' ?s' = zs" using k zs(4) by (simp add: elements_def part_def)
  have "map (f h1) (elements k h s) = map (f h) (elements k h s)" using keep by simp
  then show ?thesis
    using zs el k p' \<open>length zs = s_len s\<close>
    by (fastforce simp: h1_def grows_def valid_slice_def refs_slice_def content_slice_def holds_def)
qed

lemma deep_copy_each:
  fixes c :: "'a \<Rightarrow> ('c mem, 'a) state"
  assumes k: "kind_law k" and c: "deep_copy c v r f"
  shows "deep_copy (copy_each k z c) (valid_slice k v) (refs_slice k r) (content_slice k f)"
proof (intro deep_copy.intro)
  fix h h' :: "'c mem" and p p'
  assume "wf_mem h" "valid_slice k v h p" "run_state (copy_each k z c p) h = (p', h')"
  then show "grows h h' \<and> valid_slice k v h' p' \<and> refs_slice k r h' p' \<subseteq> {limit h..<limit h'}
      \<and> content_slice k f h' p' = content_slice k f h p"
  proof (cases p)
    case None
    then show ?thesis
      using \<open>wf_mem h\<close> \<open>run_state (copy_each k z c p) h = (p', h')\<close>
      by (simp add: copy_each_def valid_slice_def refs_slice_def content_slice_def grows_refl)
  qed (simp add: copy_each_ok [OF k c])
next
  show "valid_slice k v h' p \<and> refs_slice k r h' p = refs_slice k r h p \<and> content_slice k f h' p = content_slice k f h p"
    if "valid_slice k v h p" "\<And>a. a \<in> refs_slice k r h p \<Longrightarrow> cells h' a = cells h a" for h h' :: "'c mem" and p
    using frame_slice [OF c that] .
  show "refs_slice k r h p \<subseteq> {..<limit h}" if "wf_mem h" "valid_slice k v h p" for h :: "'c mem" and p
    using bounded_slice [OF c that] .
qed

text \<open>Copying values is the loop with nothing to do for an element.\<close>

lemma deep_copy_values:
  fixes k :: "('c, 'a list) kind"
  assumes k: "kind_law k"
  shows "deep_copy (copy_values k z) (valid_slice k (\<lambda>_ _. True)) (refs_slice k (\<lambda>_ _. {})) (content_slice k (\<lambda>_ x. x))"
proof (intro deep_copy.intro)
  note c = deep_copy_value [where 'b = 'c and 'a = 'a]
  fix h h' :: "'c mem" and p p'
  assume wf: "wf_mem h" and valid: "valid_slice k (\<lambda>_ _. True) h p" and run: "run_state (copy_values k z p) h = (p', h')"
  show "grows h h' \<and> valid_slice k (\<lambda>_ _. True) h' p' \<and> refs_slice k (\<lambda>_ _. {}) h' p' \<subseteq> {limit h..<limit h'}
      \<and> content_slice k (\<lambda>_ x. x) h' p' = content_slice k (\<lambda>_ x. x) h p"
  proof (cases p)
    case None
    with wf run show ?thesis by (simp add: copy_values_def valid_slice_def refs_slice_def content_slice_def grows_refl)
  next
    case (Some s)
    let ?h1 = "h\<lparr>cells := (cells h)(limit h \<mapsto> put k (replicate (s_len s) z)), limit := Suc (limit h)\<rparr>"
    have "s_array s < limit h" using valid wf Some by (auto simp: valid_slice_def dest: holds_bound)
    then have same: "peek k ?h1 (s_array s) = peek k h (s_array s)" by (intro peek_cong) simp
    have len: "length (elements k h s) = s_len s" using valid Some by (simp add: valid_slice_def elements_def length_part)
    have h': "h' = ?h1\<lparr>cells := (cells ?h1)(limit h \<mapsto> put k (elements k h s))\<rparr>"
      and p': "p' = Some \<lparr>s_array = limit h, s_offset = 0, s_len = s_len s\<rparr>"
      using run Some same by (simp_all add: copy_values_def make_slice_def elements_def)
    have "peek k h' (limit h) = elements k h s" using k by (simp add: h')
    moreover have "grows h h'" unfolding h' by (intro grows_store grows_alloc wf) simp_all
    ultimately show ?thesis
      using Some p' len
      by (auto simp: h' valid_slice_def refs_slice_def content_slice_def holds_def elements_def part_def)
  qed
next
  show "valid_slice k (\<lambda>_ _. True) h' p \<and> refs_slice k (\<lambda>_ _. {}) h' p = refs_slice k (\<lambda>_ _. {}) h p \<and> content_slice k (\<lambda>_ x. x) h' p = content_slice k (\<lambda>_ x. x) h p"
    if "valid_slice k (\<lambda>_ _. True) h p" "\<And>a. a \<in> refs_slice k (\<lambda>_ _. {}) h p \<Longrightarrow> cells h' a = cells h a" for h h' :: "'c mem" and p
    using frame_slice [OF deep_copy_value that] .
  show "refs_slice k (\<lambda>_ _. {}) h p \<subseteq> {..<limit h}" if "wf_mem h" "valid_slice k (\<lambda>_ _. True) h p" for h :: "'c mem" and p
    using bounded_slice [OF deep_copy_value that] .
qed

section \<open>Maps\<close>

text \<open>\<^verbatim>\<open>for key, val := range *in { (*out)[key] = val }\<close>\<close>

fun insert_all :: "('c, 'a gomap) kind \<Rightarrow> addr \<Rightarrow> 'a gomap \<Rightarrow> ('c mem, unit) state" where
  "insert_all k out [] = ret ()"
| "insert_all k out ((key, val) # m) = do { cur \<leftarrow> load k out; store k out (map_set key val cur); insert_all k out m }"

definition copy_map :: "('c, 'a gomap) kind \<Rightarrow> addr option \<Rightarrow> ('c mem, addr option) state" where
  "copy_map k p =
     (case p of None \<Rightarrow> ret None
      | Some a \<Rightarrow> do { out \<leftarrow> alloc k []; m \<leftarrow> load k a; insert_all k out m; ret (Some out) })"

definition valid_map :: "('c, 'a gomap) kind \<Rightarrow> 'c mem \<Rightarrow> addr option \<Rightarrow> bool" where
  "valid_map k = valid_pointer k (\<lambda>_. wf_map)"

lemma run_insert_all:
  assumes "kind_law k"
  shows "cells h out = Some (put k m0) \<Longrightarrow>
    run_state (insert_all k out m) h = ((), h\<lparr>cells := (cells h)(out \<mapsto> put k (maps_Copy m0 m))\<rparr>)"
  using assms by (induction k out m arbitrary: h m0 rule: insert_all.induct) (auto simp: fun_upd_idem)

lemma deep_copy_map:
  fixes k :: "('c, 'a gomap) kind"
  assumes k: "kind_law k"
  shows "deep_copy (copy_map k) (valid_map k) (refs_pointer k (\<lambda>_ _. {})) (content_pointer k (\<lambda>_ m. m))"
proof (intro deep_copy.intro)
  fix h h' :: "'c mem" and p p'
  assume wf: "wf_mem h" and valid: "valid_map k h p" and run: "run_state (copy_map k p) h = (p', h')"
  show "grows h h' \<and> valid_map k h' p' \<and> refs_pointer k (\<lambda>_ _. {}) h' p' \<subseteq> {limit h..<limit h'}
      \<and> content_pointer k (\<lambda>_ m. m) h' p' = content_pointer k (\<lambda>_ m. m) h p"
  proof (cases p)
    case None
    with wf run show ?thesis
      by (simp add: copy_map_def valid_map_def valid_pointer_def refs_pointer_def content_pointer_def grows_refl)
  next
    case (Some a)
    define h1 where "h1 = h\<lparr>cells := (cells h)(limit h \<mapsto> put k []), limit := Suc (limit h)\<rparr>"
    have "a < limit h" and m: "wf_map (peek k h a)"
      using valid wf Some by (auto simp: valid_map_def valid_pointer_def dest: holds_bound)
    then have same: "peek k h1 a = peek k h a" by (intro peek_cong) (simp add: h1_def)
    have cell: "cells h1 (limit h) = Some (put k [])" by (simp add: h1_def)
    have h': "h' = h1\<lparr>cells := (cells h1)(limit h \<mapsto> put k (peek k h a))\<rparr>" and p': "p' = Some (limit h)"
      using run Some same run_insert_all [OF k cell] maps_Copy_new [of "peek k h a" "[]"] m
      by (simp_all add: copy_map_def flip: h1_def)
    have "peek k h' (limit h) = peek k h a" using k by (simp add: h')
    moreover have "grows h h'" unfolding h' h1_def by (intro grows_store grows_alloc wf) simp_all
    ultimately show ?thesis
      using Some p' m
      by (auto simp: h' h1_def valid_map_def valid_pointer_def refs_pointer_def content_pointer_def holds_def)
  qed
next
  show "valid_map k h' p \<and> refs_pointer k (\<lambda>_ _. {}) h' p = refs_pointer k (\<lambda>_ _. {}) h p
      \<and> content_pointer k (\<lambda>_ m. m) h' p = content_pointer k (\<lambda>_ m. m) h p"
    if "valid_map k h p" "\<And>a. a \<in> refs_pointer k (\<lambda>_ _. {}) h p \<Longrightarrow> cells h' a = cells h a" for h h' :: "'c mem" and p
    using that holds_cong [of h' "the p" h k] peek_cong [of h' "the p" h k]
    by (cases p) (auto simp: valid_map_def valid_pointer_def refs_pointer_def content_pointer_def)
  show "refs_pointer k (\<lambda>_ _. {}) h p \<subseteq> {..<limit h}" if "wf_mem h" "valid_map k h p" for h :: "'c mem" and p
    using that by (cases p) (auto simp: valid_map_def valid_pointer_def refs_pointer_def dest: holds_bound)
qed

end
