(* ===== verification/Deep_Copy.thy ===== *)
theory Deep_Copy
  imports CAPN_API Go_Memory
begin

text \<open>
  The deep copies of the API types, \<^verbatim>\<open>api/v1alpha2/zz_generated.deepcopy.go\<close>, with the templates and lists that the other
  theories do not need.  Caches hand out objects that several reconciliations share; a controller may change the object it was given only because
  it is a copy that shares no memory with the cached one.  So structs are modelled here as they are in memory, with pointers, slices and
  maps as references.  The structs of Kubernetes and Cluster API (metadata and conditions) and their own deep copies are parameters.
\<close>

section \<open>Structs in memory\<close>

text \<open>\<open>'f\<close> is a struct of another package, as it is in memory.\<close>

record lb_machine_mem =
  lm_Flavor :: string
  lm_Profiles :: "slice option"
  lm_Image :: LXCMachineImageSource
  lm_Target :: string

record lb_instance_mem =
  li_InstanceSpec :: lb_machine_mem
  li_CustomHAProxyConfigTemplate :: string

record load_balancer_mem =
  lb_LXC_ptr :: "addr option"
  lb_OCI_ptr :: "addr option"
  lb_OVN_ptr :: "addr option"
  lb_KubeVIP_ptr :: "addr option"
  lb_External_ptr :: "addr option"

record cluster_spec_mem =
  cs_ControlPlaneEndpoint :: APIEndpoint
  cs_SecretRef :: string
  cs_LoadBalancer :: load_balancer_mem
  cs_Unprivileged :: bool
  cs_SkipDefaultKubeadmProfile :: bool

text \<open>\<^verbatim>\<open>LXCClusterV1Beta2Status\<close> and \<^verbatim>\<open>LXCMachineV1Beta2Status\<close>\<close>

record v1beta2_mem =
  vb_Conditions :: "slice option"

record cluster_status_mem =
  ct_Ready :: bool
  ct_Conditions :: "slice option"
  ct_V1Beta2 :: "addr option"

record 'f cluster_mem =
  cc_TypeMeta :: "string \<times> string"
  cc_ObjectMeta :: 'f
  cc_Spec :: cluster_spec_mem
  cc_Status :: cluster_status_mem

record machine_spec_mem =
  ms_ProviderID :: "addr option"
  ms_InstanceType :: string
  ms_Flavor :: string
  ms_Profiles :: "slice option"
  ms_Devices :: "slice option"
  ms_Config :: "addr option"
  ms_Image :: LXCMachineImageSource
  ms_Target :: string

record machine_status_mem =
  mt_Ready :: bool
  mt_LoadBalancerConfigured :: bool
  mt_Addresses :: "slice option"
  mt_Conditions :: "slice option"
  mt_V1Beta2 :: "addr option"

record 'f machine_mem =
  mm_TypeMeta :: "string \<times> string"
  mm_ObjectMeta :: 'f
  mm_Spec :: machine_spec_mem
  mm_Status :: machine_status_mem

text \<open>Templates and lists, which look alike for clusters and machines.\<close>

record ('f, 's) resource_mem =
  tr_ObjectMeta :: 'f
  tr_Spec :: 's

record ('f, 's) template_spec_mem =
  ts_Template :: "('f, 's) resource_mem"

record ('f, 's) template_mem =
  tm_TypeMeta :: "string \<times> string"
  tm_ObjectMeta :: 'f
  tm_Spec :: "('f, 's) template_spec_mem"

record 'f list_mem =
  ls_TypeMeta :: "string \<times> string"
  ls_ListMeta :: 'f
  ls_Items :: "slice option"

type_synonym 'f LXCClusterTemplateResource_mem = "('f, cluster_spec_mem) resource_mem"
type_synonym 'f LXCClusterTemplateSpec_mem = "('f, cluster_spec_mem) template_spec_mem"
type_synonym 'f LXCClusterTemplate_mem = "('f, cluster_spec_mem) template_mem"
type_synonym 'f LXCClusterList_mem = "'f list_mem"
type_synonym 'f LXCClusterTemplateList_mem = "'f list_mem"
type_synonym 'f LXCMachineTemplateResource_mem = "('f, machine_spec_mem) resource_mem"
type_synonym 'f LXCMachineTemplateSpec_mem = "('f, machine_spec_mem) template_spec_mem"
type_synonym 'f LXCMachineTemplate_mem = "('f, machine_spec_mem) template_mem"
type_synonym 'f LXCMachineList_mem = "'f list_mem"
type_synonym 'f LXCMachineTemplateList_mem = "'f list_mem"

section \<open>Cells\<close>

text \<open>What a reference can lead to: a struct, an array or a map; \<open>'x\<close> are cells that only other packages use.\<close>

datatype ('f, 'x) cell =
    String_cell string
  | Strings_cell "string list"
  | StringMap_cell "string gomap"
  | Addresses_cell "MachineAddress list"
  | Conditions_cell "'f list"
  | V1Conditions_cell "'f list"
  | Devices_cell "slice option"
  | ImageSource_cell LXCMachineImageSource
  | SecretRef_cell string
  | External_cell unit
  | OVN_cell LXCLoadBalancerOVN
  | KubeVIP_cell LXCLoadBalancerKubeVIP
  | LBMachine_cell lb_machine_mem
  | LBInstance_cell lb_instance_mem
  | LoadBalancer_cell load_balancer_mem
  | ClusterSpec_cell cluster_spec_mem
  | ClusterV1Beta2_cell v1beta2_mem
  | ClusterStatus_cell cluster_status_mem
  | Cluster_cell "'f cluster_mem"
  | Clusters_cell "'f cluster_mem list"
  | ClusterList_cell "'f LXCClusterList_mem"
  | ClusterResource_cell "'f LXCClusterTemplateResource_mem"
  | ClusterTemplateSpec_cell "'f LXCClusterTemplateSpec_mem"
  | ClusterTemplate_cell "'f LXCClusterTemplate_mem"
  | ClusterTemplates_cell "'f LXCClusterTemplate_mem list"
  | ClusterTemplateList_cell "'f LXCClusterTemplateList_mem"
  | MachineSpec_cell machine_spec_mem
  | MachineV1Beta2_cell v1beta2_mem
  | MachineStatus_cell machine_status_mem
  | Machine_cell "'f machine_mem"
  | Machines_cell "'f machine_mem list"
  | MachineList_cell "'f LXCMachineList_mem"
  | MachineResource_cell "'f LXCMachineTemplateResource_mem"
  | MachineTemplateSpec_cell "'f LXCMachineTemplateSpec_mem"
  | MachineTemplate_cell "'f LXCMachineTemplate_mem"
  | MachineTemplates_cell "'f LXCMachineTemplate_mem list"
  | MachineTemplateList_cell "'f LXCMachineTemplateList_mem"
  | Foreign_cell 'x

text \<open>Deep copies of other packages, with what they promise.\<close>

record ('f, 'c, 'v) copier =
  cp_copy :: "'f \<Rightarrow> ('c mem, 'f) state"
  cp_valid :: "'c mem \<Rightarrow> 'f \<Rightarrow> bool"
  cp_refs :: "'c mem \<Rightarrow> 'f \<Rightarrow> addr set"
  cp_content :: "'c mem \<Rightarrow> 'f \<Rightarrow> 'v"
  cp_zero :: 'f

record ('f, 'c, 'v) third_party =
  tp_ObjectMeta :: "('f, 'c, 'v) copier"
  tp_ListMeta :: "('f, 'c, 'v) copier"
  tp_TemplateMeta :: "('f, 'c, 'v) copier"
  tp_Condition :: "('f, 'c, 'v) copier"
  tp_V1Condition :: "('f, 'c, 'v) copier"

definition copier_law :: "('f, 'c, 'v) copier \<Rightarrow> bool" where
  "copier_law cp \<longleftrightarrow> deep_copy (cp_copy cp) (cp_valid cp) (cp_refs cp) (cp_content cp)"

definition third_party_law :: "('f, 'c, 'v) third_party \<Rightarrow> bool" where
  "third_party_law tp \<longleftrightarrow> copier_law (tp_ObjectMeta tp) \<and> copier_law (tp_ListMeta tp) \<and> copier_law (tp_TemplateMeta tp)
     \<and> copier_law (tp_Condition tp) \<and> copier_law (tp_V1Condition tp)"

type_synonym ('f, 'x, 'v) packages = "('f, ('f, 'x) cell, 'v) third_party"

subsection \<open>Zero values and kinds of cells\<close>

definition no_image :: LXCMachineImageSource where
  "no_image = \<lparr>img_Name = [], img_Fingerprint = [], img_Server = [], img_Protocol = []\<rparr>"

definition zero_lb_machine :: lb_machine_mem where
  "zero_lb_machine = \<lparr>lm_Flavor = [], lm_Profiles = None, lm_Image = no_image, lm_Target = []\<rparr>"

definition zero_load_balancer :: load_balancer_mem where
  "zero_load_balancer = \<lparr>lb_LXC_ptr = None, lb_OCI_ptr = None, lb_OVN_ptr = None, lb_KubeVIP_ptr = None, lb_External_ptr = None\<rparr>"

definition zero_cluster_spec :: cluster_spec_mem where
  "zero_cluster_spec = \<lparr>cs_ControlPlaneEndpoint = \<lparr>Host = [], Port = 0\<rparr>, cs_SecretRef = [], cs_LoadBalancer = zero_load_balancer,
     cs_Unprivileged = False, cs_SkipDefaultKubeadmProfile = False\<rparr>"

definition zero_cluster_status :: cluster_status_mem where
  "zero_cluster_status = \<lparr>ct_Ready = False, ct_Conditions = None, ct_V1Beta2 = None\<rparr>"

definition zero_cluster :: "('f, 'c, 'v) third_party \<Rightarrow> 'f cluster_mem" where
  "zero_cluster tp = \<lparr>cc_TypeMeta = ([], []), cc_ObjectMeta = cp_zero (tp_ObjectMeta tp), cc_Spec = zero_cluster_spec,
     cc_Status = zero_cluster_status\<rparr>"

definition zero_machine_spec :: machine_spec_mem where
  "zero_machine_spec = \<lparr>ms_ProviderID = None, ms_InstanceType = [], ms_Flavor = [], ms_Profiles = None, ms_Devices = None,
     ms_Config = None, ms_Image = no_image, ms_Target = []\<rparr>"

definition zero_machine_status :: machine_status_mem where
  "zero_machine_status = \<lparr>mt_Ready = False, mt_LoadBalancerConfigured = False, mt_Addresses = None, mt_Conditions = None,
     mt_V1Beta2 = None\<rparr>"

definition zero_machine :: "('f, 'c, 'v) third_party \<Rightarrow> 'f machine_mem" where
  "zero_machine tp = \<lparr>mm_TypeMeta = ([], []), mm_ObjectMeta = cp_zero (tp_ObjectMeta tp), mm_Spec = zero_machine_spec,
     mm_Status = zero_machine_status\<rparr>"

definition zero_resource :: "('f, 'c, 'v) third_party \<Rightarrow> 's \<Rightarrow> ('f, 's) resource_mem" where
  "zero_resource tp spec = \<lparr>tr_ObjectMeta = cp_zero (tp_TemplateMeta tp), tr_Spec = spec\<rparr>"

definition zero_template :: "('f, 'c, 'v) third_party \<Rightarrow> 's \<Rightarrow> ('f, 's) template_mem" where
  "zero_template tp spec = \<lparr>tm_TypeMeta = ([], []), tm_ObjectMeta = cp_zero (tp_ObjectMeta tp),
     tm_Spec = \<lparr>ts_Template = zero_resource tp spec\<rparr>\<rparr>"

definition zero_list :: "('f, 'c, 'v) third_party \<Rightarrow> 'f list_mem" where
  "zero_list tp = \<lparr>ls_TypeMeta = ([], []), ls_ListMeta = cp_zero (tp_ListMeta tp), ls_Items = None\<rparr>"

definition string_kind :: "(('f, 'x) cell, string) kind" where
  "string_kind = \<lparr>put = String_cell, got = (\<lambda>c. case c of String_cell x \<Rightarrow> Some x | _ \<Rightarrow> None), zero = []\<rparr>"

definition strings_kind :: "(('f, 'x) cell, string list) kind" where
  "strings_kind = \<lparr>put = Strings_cell, got = (\<lambda>c. case c of Strings_cell x \<Rightarrow> Some x | _ \<Rightarrow> None), zero = []\<rparr>"

definition string_map_kind :: "(('f, 'x) cell, string gomap) kind" where
  "string_map_kind = \<lparr>put = StringMap_cell, got = (\<lambda>c. case c of StringMap_cell x \<Rightarrow> Some x | _ \<Rightarrow> None), zero = []\<rparr>"

definition addresses_kind :: "(('f, 'x) cell, MachineAddress list) kind" where
  "addresses_kind = \<lparr>put = Addresses_cell, got = (\<lambda>c. case c of Addresses_cell x \<Rightarrow> Some x | _ \<Rightarrow> None), zero = []\<rparr>"

definition conditions_kind :: "(('f, 'x) cell, 'f list) kind" where
  "conditions_kind = \<lparr>put = Conditions_cell, got = (\<lambda>c. case c of Conditions_cell x \<Rightarrow> Some x | _ \<Rightarrow> None), zero = []\<rparr>"

definition v1conditions_kind :: "(('f, 'x) cell, 'f list) kind" where
  "v1conditions_kind = \<lparr>put = V1Conditions_cell, got = (\<lambda>c. case c of V1Conditions_cell x \<Rightarrow> Some x | _ \<Rightarrow> None), zero = []\<rparr>"

definition devices_kind :: "(('f, 'x) cell, slice option) kind" where
  "devices_kind = \<lparr>put = Devices_cell, got = (\<lambda>c. case c of Devices_cell x \<Rightarrow> Some x | _ \<Rightarrow> None), zero = None\<rparr>"

definition image_source_kind :: "(('f, 'x) cell, LXCMachineImageSource) kind" where
  "image_source_kind = \<lparr>put = ImageSource_cell, got = (\<lambda>c. case c of ImageSource_cell x \<Rightarrow> Some x | _ \<Rightarrow> None), zero = no_image\<rparr>"

definition secret_ref_kind :: "(('f, 'x) cell, string) kind" where
  "secret_ref_kind = \<lparr>put = SecretRef_cell, got = (\<lambda>c. case c of SecretRef_cell x \<Rightarrow> Some x | _ \<Rightarrow> None), zero = []\<rparr>"

definition external_kind :: "(('f, 'x) cell, unit) kind" where
  "external_kind = \<lparr>put = External_cell, got = (\<lambda>c. case c of External_cell x \<Rightarrow> Some x | _ \<Rightarrow> None), zero = ()\<rparr>"

definition ovn_kind :: "(('f, 'x) cell, LXCLoadBalancerOVN) kind" where
  "ovn_kind = \<lparr>put = OVN_cell, got = (\<lambda>c. case c of OVN_cell x \<Rightarrow> Some x | _ \<Rightarrow> None), zero = \<lparr>NetworkName = []\<rparr>\<rparr>"

definition kube_vip_kind :: "(('f, 'x) cell, LXCLoadBalancerKubeVIP) kind" where
  "kube_vip_kind = \<lparr>put = KubeVIP_cell, got = (\<lambda>c. case c of KubeVIP_cell x \<Rightarrow> Some x | _ \<Rightarrow> None), zero = \<lparr>kv_Image = [], kv_Interface = [], kv_KubeconfigPath = [], kv_ManifestPath = []\<rparr>\<rparr>"

definition lb_machine_kind :: "(('f, 'x) cell, lb_machine_mem) kind" where
  "lb_machine_kind = \<lparr>put = LBMachine_cell, got = (\<lambda>c. case c of LBMachine_cell x \<Rightarrow> Some x | _ \<Rightarrow> None), zero = zero_lb_machine\<rparr>"

definition lb_instance_kind :: "(('f, 'x) cell, lb_instance_mem) kind" where
  "lb_instance_kind = \<lparr>put = LBInstance_cell, got = (\<lambda>c. case c of LBInstance_cell x \<Rightarrow> Some x | _ \<Rightarrow> None), zero = \<lparr>li_InstanceSpec = zero_lb_machine, li_CustomHAProxyConfigTemplate = []\<rparr>\<rparr>"

definition load_balancer_kind :: "(('f, 'x) cell, load_balancer_mem) kind" where
  "load_balancer_kind = \<lparr>put = LoadBalancer_cell, got = (\<lambda>c. case c of LoadBalancer_cell x \<Rightarrow> Some x | _ \<Rightarrow> None), zero = zero_load_balancer\<rparr>"

definition cluster_spec_kind :: "(('f, 'x) cell, cluster_spec_mem) kind" where
  "cluster_spec_kind = \<lparr>put = ClusterSpec_cell, got = (\<lambda>c. case c of ClusterSpec_cell x \<Rightarrow> Some x | _ \<Rightarrow> None), zero = zero_cluster_spec\<rparr>"

definition cluster_v1beta2_kind :: "(('f, 'x) cell, v1beta2_mem) kind" where
  "cluster_v1beta2_kind = \<lparr>put = ClusterV1Beta2_cell, got = (\<lambda>c. case c of ClusterV1Beta2_cell x \<Rightarrow> Some x | _ \<Rightarrow> None), zero = \<lparr>vb_Conditions = None\<rparr>\<rparr>"

definition cluster_status_kind :: "(('f, 'x) cell, cluster_status_mem) kind" where
  "cluster_status_kind = \<lparr>put = ClusterStatus_cell, got = (\<lambda>c. case c of ClusterStatus_cell x \<Rightarrow> Some x | _ \<Rightarrow> None), zero = zero_cluster_status\<rparr>"

definition cluster_kind :: "('f, 'x, 'v) packages \<Rightarrow> (('f, 'x) cell, 'f cluster_mem) kind" where
  "cluster_kind tp = \<lparr>put = Cluster_cell, got = (\<lambda>c. case c of Cluster_cell x \<Rightarrow> Some x | _ \<Rightarrow> None), zero = zero_cluster tp\<rparr>"

definition clusters_kind :: "(('f, 'x) cell, 'f cluster_mem list) kind" where
  "clusters_kind = \<lparr>put = Clusters_cell, got = (\<lambda>c. case c of Clusters_cell x \<Rightarrow> Some x | _ \<Rightarrow> None), zero = []\<rparr>"

definition cluster_list_kind :: "('f, 'x, 'v) packages \<Rightarrow> (('f, 'x) cell, 'f list_mem) kind" where
  "cluster_list_kind tp = \<lparr>put = ClusterList_cell, got = (\<lambda>c. case c of ClusterList_cell x \<Rightarrow> Some x | _ \<Rightarrow> None), zero = zero_list tp\<rparr>"

definition cluster_resource_kind :: "('f, 'x, 'v) packages \<Rightarrow> (('f, 'x) cell, 'f LXCClusterTemplateResource_mem) kind" where
  "cluster_resource_kind tp = \<lparr>put = ClusterResource_cell, got = (\<lambda>c. case c of ClusterResource_cell x \<Rightarrow> Some x | _ \<Rightarrow> None), zero = zero_resource tp zero_cluster_spec\<rparr>"

definition cluster_template_spec_kind :: "('f, 'x, 'v) packages \<Rightarrow> (('f, 'x) cell, 'f LXCClusterTemplateSpec_mem) kind" where
  "cluster_template_spec_kind tp = \<lparr>put = ClusterTemplateSpec_cell, got = (\<lambda>c. case c of ClusterTemplateSpec_cell x \<Rightarrow> Some x | _ \<Rightarrow> None), zero = \<lparr>ts_Template = zero_resource tp zero_cluster_spec\<rparr>\<rparr>"

definition cluster_template_kind :: "('f, 'x, 'v) packages \<Rightarrow> (('f, 'x) cell, 'f LXCClusterTemplate_mem) kind" where
  "cluster_template_kind tp = \<lparr>put = ClusterTemplate_cell, got = (\<lambda>c. case c of ClusterTemplate_cell x \<Rightarrow> Some x | _ \<Rightarrow> None), zero = zero_template tp zero_cluster_spec\<rparr>"

definition cluster_templates_kind :: "(('f, 'x) cell, 'f LXCClusterTemplate_mem list) kind" where
  "cluster_templates_kind = \<lparr>put = ClusterTemplates_cell, got = (\<lambda>c. case c of ClusterTemplates_cell x \<Rightarrow> Some x | _ \<Rightarrow> None), zero = []\<rparr>"

definition cluster_template_list_kind :: "('f, 'x, 'v) packages \<Rightarrow> (('f, 'x) cell, 'f list_mem) kind" where
  "cluster_template_list_kind tp = \<lparr>put = ClusterTemplateList_cell, got = (\<lambda>c. case c of ClusterTemplateList_cell x \<Rightarrow> Some x | _ \<Rightarrow> None), zero = zero_list tp\<rparr>"

definition machine_spec_kind :: "(('f, 'x) cell, machine_spec_mem) kind" where
  "machine_spec_kind = \<lparr>put = MachineSpec_cell, got = (\<lambda>c. case c of MachineSpec_cell x \<Rightarrow> Some x | _ \<Rightarrow> None), zero = zero_machine_spec\<rparr>"

definition machine_v1beta2_kind :: "(('f, 'x) cell, v1beta2_mem) kind" where
  "machine_v1beta2_kind = \<lparr>put = MachineV1Beta2_cell, got = (\<lambda>c. case c of MachineV1Beta2_cell x \<Rightarrow> Some x | _ \<Rightarrow> None), zero = \<lparr>vb_Conditions = None\<rparr>\<rparr>"

definition machine_status_kind :: "(('f, 'x) cell, machine_status_mem) kind" where
  "machine_status_kind = \<lparr>put = MachineStatus_cell, got = (\<lambda>c. case c of MachineStatus_cell x \<Rightarrow> Some x | _ \<Rightarrow> None), zero = zero_machine_status\<rparr>"

definition machine_kind :: "('f, 'x, 'v) packages \<Rightarrow> (('f, 'x) cell, 'f machine_mem) kind" where
  "machine_kind tp = \<lparr>put = Machine_cell, got = (\<lambda>c. case c of Machine_cell x \<Rightarrow> Some x | _ \<Rightarrow> None), zero = zero_machine tp\<rparr>"

definition machines_kind :: "(('f, 'x) cell, 'f machine_mem list) kind" where
  "machines_kind = \<lparr>put = Machines_cell, got = (\<lambda>c. case c of Machines_cell x \<Rightarrow> Some x | _ \<Rightarrow> None), zero = []\<rparr>"

definition machine_list_kind :: "('f, 'x, 'v) packages \<Rightarrow> (('f, 'x) cell, 'f list_mem) kind" where
  "machine_list_kind tp = \<lparr>put = MachineList_cell, got = (\<lambda>c. case c of MachineList_cell x \<Rightarrow> Some x | _ \<Rightarrow> None), zero = zero_list tp\<rparr>"

definition machine_resource_kind :: "('f, 'x, 'v) packages \<Rightarrow> (('f, 'x) cell, 'f LXCMachineTemplateResource_mem) kind" where
  "machine_resource_kind tp = \<lparr>put = MachineResource_cell, got = (\<lambda>c. case c of MachineResource_cell x \<Rightarrow> Some x | _ \<Rightarrow> None), zero = zero_resource tp zero_machine_spec\<rparr>"

definition machine_template_spec_kind :: "('f, 'x, 'v) packages \<Rightarrow> (('f, 'x) cell, 'f LXCMachineTemplateSpec_mem) kind" where
  "machine_template_spec_kind tp = \<lparr>put = MachineTemplateSpec_cell, got = (\<lambda>c. case c of MachineTemplateSpec_cell x \<Rightarrow> Some x | _ \<Rightarrow> None), zero = \<lparr>ts_Template = zero_resource tp zero_machine_spec\<rparr>\<rparr>"

definition machine_template_kind :: "('f, 'x, 'v) packages \<Rightarrow> (('f, 'x) cell, 'f LXCMachineTemplate_mem) kind" where
  "machine_template_kind tp = \<lparr>put = MachineTemplate_cell, got = (\<lambda>c. case c of MachineTemplate_cell x \<Rightarrow> Some x | _ \<Rightarrow> None), zero = zero_template tp zero_machine_spec\<rparr>"

definition machine_templates_kind :: "(('f, 'x) cell, 'f LXCMachineTemplate_mem list) kind" where
  "machine_templates_kind = \<lparr>put = MachineTemplates_cell, got = (\<lambda>c. case c of MachineTemplates_cell x \<Rightarrow> Some x | _ \<Rightarrow> None), zero = []\<rparr>"

definition machine_template_list_kind :: "('f, 'x, 'v) packages \<Rightarrow> (('f, 'x) cell, 'f list_mem) kind" where
  "machine_template_list_kind tp = \<lparr>put = MachineTemplateList_cell, got = (\<lambda>c. case c of MachineTemplateList_cell x \<Rightarrow> Some x | _ \<Rightarrow> None), zero = zero_list tp\<rparr>"

lemma kind_laws [simp]:
  "kind_law string_kind"
  "kind_law strings_kind"
  "kind_law string_map_kind"
  "kind_law addresses_kind"
  "kind_law conditions_kind"
  "kind_law v1conditions_kind"
  "kind_law devices_kind"
  "kind_law image_source_kind"
  "kind_law secret_ref_kind"
  "kind_law external_kind"
  "kind_law ovn_kind"
  "kind_law kube_vip_kind"
  "kind_law lb_machine_kind"
  "kind_law lb_instance_kind"
  "kind_law load_balancer_kind"
  "kind_law cluster_spec_kind"
  "kind_law cluster_v1beta2_kind"
  "kind_law cluster_status_kind"
  "kind_law (cluster_kind tp)"
  "kind_law clusters_kind"
  "kind_law (cluster_list_kind tp)"
  "kind_law (cluster_resource_kind tp)"
  "kind_law (cluster_template_spec_kind tp)"
  "kind_law (cluster_template_kind tp)"
  "kind_law cluster_templates_kind"
  "kind_law (cluster_template_list_kind tp)"
  "kind_law machine_spec_kind"
  "kind_law machine_v1beta2_kind"
  "kind_law machine_status_kind"
  "kind_law (machine_kind tp)"
  "kind_law machines_kind"
  "kind_law (machine_list_kind tp)"
  "kind_law (machine_resource_kind tp)"
  "kind_law (machine_template_spec_kind tp)"
  "kind_law (machine_template_kind tp)"
  "kind_law machine_templates_kind"
  "kind_law (machine_template_list_kind tp)"
  by (simp_all add: kind_law_def string_kind_def strings_kind_def string_map_kind_def addresses_kind_def conditions_kind_def v1conditions_kind_def
      devices_kind_def image_source_kind_def secret_ref_kind_def external_kind_def ovn_kind_def kube_vip_kind_def
      lb_machine_kind_def lb_instance_kind_def load_balancer_kind_def cluster_spec_kind_def cluster_v1beta2_kind_def cluster_status_kind_def
      cluster_kind_def clusters_kind_def cluster_list_kind_def cluster_resource_kind_def cluster_template_spec_kind_def cluster_template_kind_def
      cluster_templates_kind_def cluster_template_list_kind_def machine_spec_kind_def machine_v1beta2_kind_def machine_status_kind_def machine_kind_def
      machines_kind_def machine_list_kind_def machine_resource_kind_def machine_template_spec_kind_def machine_template_kind_def machine_templates_kind_def
      machine_template_list_kind_def)

section \<open>The copies\<close>

text \<open>
  A \<^verbatim>\<open>DeepCopyInto\<close> takes the contents of \<^verbatim>\<open>in\<close> and gives the contents of \<^verbatim>\<open>out\<close>: it starts from \<^verbatim>\<open>*out = *in\<close> and replaces
  the fields that are references, or hold some.  \<^verbatim>\<open>DeepCopy\<close> allocates a struct and copies into it, unless its argument is nil;
  \<^verbatim>\<open>DeepCopyObject\<close> returns the copy as an interface, and an interface that is nil when the copy is.
\<close>

definition as_object :: "('c mem, addr option) state \<Rightarrow> ('c mem, addr option) state" where
  "as_object copied = do { c \<leftarrow> copied; case c of Some a \<Rightarrow> ret (Some a) | None \<Rightarrow> ret None }"

text \<open>\<^verbatim>\<open>Devices\<close> is a slice; its \<^verbatim>\<open>DeepCopyInto\<close> makes a slice that is not nil even of one that is.\<close>

definition Devices_DeepCopyInto :: "slice option \<Rightarrow> (('f, 'x) cell mem, slice option) state" where
  "Devices_DeepCopyInto p =
     (case p of None \<Rightarrow> do { out \<leftarrow> make_slice strings_kind [] 0; ret (Some \<lparr>s_array = out, s_offset = 0, s_len = 0\<rparr>) }
      | Some s \<Rightarrow> copy_values strings_kind [] (Some s))"

definition Devices_DeepCopy :: "slice option \<Rightarrow> (('f, 'x) cell mem, slice option) state" where
  "Devices_DeepCopy p =
     (case p of None \<Rightarrow> ret None
      | Some s \<Rightarrow> do { out \<leftarrow> alloc devices_kind None; y \<leftarrow> Devices_DeepCopyInto (Some s); store devices_kind out y; load devices_kind out })"

definition LXCLoadBalancerExternal_DeepCopyInto :: "unit \<Rightarrow> (('f, 'x) cell mem, unit) state" where
  "LXCLoadBalancerExternal_DeepCopyInto = ret"

definition LXCLoadBalancerExternal_DeepCopy :: "addr option \<Rightarrow> (('f, 'x) cell mem, addr option) state" where
  "LXCLoadBalancerExternal_DeepCopy = copy_pointer external_kind LXCLoadBalancerExternal_DeepCopyInto"

definition LXCLoadBalancerKubeVIP_DeepCopyInto :: "LXCLoadBalancerKubeVIP \<Rightarrow> (('f, 'x) cell mem, LXCLoadBalancerKubeVIP) state" where
  "LXCLoadBalancerKubeVIP_DeepCopyInto = ret"

definition LXCLoadBalancerKubeVIP_DeepCopy :: "addr option \<Rightarrow> (('f, 'x) cell mem, addr option) state" where
  "LXCLoadBalancerKubeVIP_DeepCopy = copy_pointer kube_vip_kind LXCLoadBalancerKubeVIP_DeepCopyInto"

definition LXCLoadBalancerOVN_DeepCopyInto :: "LXCLoadBalancerOVN \<Rightarrow> (('f, 'x) cell mem, LXCLoadBalancerOVN) state" where
  "LXCLoadBalancerOVN_DeepCopyInto = ret"

definition LXCLoadBalancerOVN_DeepCopy :: "addr option \<Rightarrow> (('f, 'x) cell mem, addr option) state" where
  "LXCLoadBalancerOVN_DeepCopy = copy_pointer ovn_kind LXCLoadBalancerOVN_DeepCopyInto"

definition LXCMachineImageSource_DeepCopyInto :: "LXCMachineImageSource \<Rightarrow> (('f, 'x) cell mem, LXCMachineImageSource) state" where
  "LXCMachineImageSource_DeepCopyInto = ret"

definition LXCMachineImageSource_DeepCopy :: "addr option \<Rightarrow> (('f, 'x) cell mem, addr option) state" where
  "LXCMachineImageSource_DeepCopy = copy_pointer image_source_kind LXCMachineImageSource_DeepCopyInto"

definition SecretRef_DeepCopyInto :: "string \<Rightarrow> (('f, 'x) cell mem, string) state" where
  "SecretRef_DeepCopyInto = ret"

definition SecretRef_DeepCopy :: "addr option \<Rightarrow> (('f, 'x) cell mem, addr option) state" where
  "SecretRef_DeepCopy = copy_pointer secret_ref_kind SecretRef_DeepCopyInto"

definition LXCLoadBalancerMachineSpec_DeepCopyInto :: "lb_machine_mem \<Rightarrow> (('f, 'x) cell mem, lb_machine_mem) state" where
  "LXCLoadBalancerMachineSpec_DeepCopyInto m =
     do { x1 \<leftarrow> copy_values strings_kind [] (lm_Profiles m);
          ret (m\<lparr>lm_Profiles := x1\<rparr>) }"

definition LXCLoadBalancerMachineSpec_DeepCopy :: "addr option \<Rightarrow> (('f, 'x) cell mem, addr option) state" where
  "LXCLoadBalancerMachineSpec_DeepCopy = copy_pointer lb_machine_kind LXCLoadBalancerMachineSpec_DeepCopyInto"

definition LXCLoadBalancerInstance_DeepCopyInto :: "lb_instance_mem \<Rightarrow> (('f, 'x) cell mem, lb_instance_mem) state" where
  "LXCLoadBalancerInstance_DeepCopyInto m =
     do { x1 \<leftarrow> LXCLoadBalancerMachineSpec_DeepCopyInto (li_InstanceSpec m);
          ret (m\<lparr>li_InstanceSpec := x1\<rparr>) }"

definition LXCLoadBalancerInstance_DeepCopy :: "addr option \<Rightarrow> (('f, 'x) cell mem, addr option) state" where
  "LXCLoadBalancerInstance_DeepCopy = copy_pointer lb_instance_kind LXCLoadBalancerInstance_DeepCopyInto"

definition LXCClusterLoadBalancer_DeepCopyInto :: "load_balancer_mem \<Rightarrow> (('f, 'x) cell mem, load_balancer_mem) state" where
  "LXCClusterLoadBalancer_DeepCopyInto m =
     do { x1 \<leftarrow> copy_pointer lb_instance_kind LXCLoadBalancerInstance_DeepCopyInto (lb_LXC_ptr m);
          x2 \<leftarrow> copy_pointer lb_instance_kind LXCLoadBalancerInstance_DeepCopyInto (lb_OCI_ptr m);
          x3 \<leftarrow> copy_pointer ovn_kind ret (lb_OVN_ptr m);
          x4 \<leftarrow> copy_pointer kube_vip_kind ret (lb_KubeVIP_ptr m);
          x5 \<leftarrow> copy_pointer external_kind ret (lb_External_ptr m);
          ret (m\<lparr>lb_LXC_ptr := x1, lb_OCI_ptr := x2, lb_OVN_ptr := x3, lb_KubeVIP_ptr := x4, lb_External_ptr := x5\<rparr>) }"

definition LXCClusterLoadBalancer_DeepCopy :: "addr option \<Rightarrow> (('f, 'x) cell mem, addr option) state" where
  "LXCClusterLoadBalancer_DeepCopy = copy_pointer load_balancer_kind LXCClusterLoadBalancer_DeepCopyInto"

definition LXCClusterSpec_DeepCopyInto :: "cluster_spec_mem \<Rightarrow> (('f, 'x) cell mem, cluster_spec_mem) state" where
  "LXCClusterSpec_DeepCopyInto m =
     do { x1 \<leftarrow> LXCClusterLoadBalancer_DeepCopyInto (cs_LoadBalancer m);
          ret (m\<lparr>cs_LoadBalancer := x1\<rparr>) }"

definition LXCClusterSpec_DeepCopy :: "addr option \<Rightarrow> (('f, 'x) cell mem, addr option) state" where
  "LXCClusterSpec_DeepCopy = copy_pointer cluster_spec_kind LXCClusterSpec_DeepCopyInto"

definition LXCClusterV1Beta2Status_DeepCopyInto :: "('f, 'x, 'v) packages \<Rightarrow> v1beta2_mem \<Rightarrow> (('f, 'x) cell mem, v1beta2_mem) state" where
  "LXCClusterV1Beta2Status_DeepCopyInto tp m =
     do { x1 \<leftarrow> copy_each v1conditions_kind (cp_zero (tp_V1Condition tp)) (cp_copy (tp_V1Condition tp)) (vb_Conditions m);
          ret (m\<lparr>vb_Conditions := x1\<rparr>) }"

definition LXCClusterV1Beta2Status_DeepCopy :: "('f, 'x, 'v) packages \<Rightarrow> addr option \<Rightarrow> (('f, 'x) cell mem, addr option) state" where
  "LXCClusterV1Beta2Status_DeepCopy tp = copy_pointer cluster_v1beta2_kind (LXCClusterV1Beta2Status_DeepCopyInto tp)"

definition LXCClusterStatus_DeepCopyInto :: "('f, 'x, 'v) packages \<Rightarrow> cluster_status_mem \<Rightarrow> (('f, 'x) cell mem, cluster_status_mem) state" where
  "LXCClusterStatus_DeepCopyInto tp m =
     do { x1 \<leftarrow> copy_each conditions_kind (cp_zero (tp_Condition tp)) (cp_copy (tp_Condition tp)) (ct_Conditions m);
          x2 \<leftarrow> copy_pointer cluster_v1beta2_kind (LXCClusterV1Beta2Status_DeepCopyInto tp) (ct_V1Beta2 m);
          ret (m\<lparr>ct_Conditions := x1, ct_V1Beta2 := x2\<rparr>) }"

definition LXCClusterStatus_DeepCopy :: "('f, 'x, 'v) packages \<Rightarrow> addr option \<Rightarrow> (('f, 'x) cell mem, addr option) state" where
  "LXCClusterStatus_DeepCopy tp = copy_pointer cluster_status_kind (LXCClusterStatus_DeepCopyInto tp)"

definition LXCCluster_DeepCopyInto :: "('f, 'x, 'v) packages \<Rightarrow> 'f cluster_mem \<Rightarrow> (('f, 'x) cell mem, 'f cluster_mem) state" where
  "LXCCluster_DeepCopyInto tp m =
     do { x1 \<leftarrow> cp_copy (tp_ObjectMeta tp) (cc_ObjectMeta m);
          x2 \<leftarrow> LXCClusterSpec_DeepCopyInto (cc_Spec m);
          x3 \<leftarrow> LXCClusterStatus_DeepCopyInto tp (cc_Status m);
          ret (m\<lparr>cc_ObjectMeta := x1, cc_Spec := x2, cc_Status := x3\<rparr>) }"

definition LXCCluster_DeepCopy :: "('f, 'x, 'v) packages \<Rightarrow> addr option \<Rightarrow> (('f, 'x) cell mem, addr option) state" where
  "LXCCluster_DeepCopy tp = copy_pointer (cluster_kind tp) (LXCCluster_DeepCopyInto tp)"

definition LXCCluster_DeepCopyObject :: "('f, 'x, 'v) packages \<Rightarrow> addr option \<Rightarrow> (('f, 'x) cell mem, addr option) state" where
  "LXCCluster_DeepCopyObject tp p = as_object (LXCCluster_DeepCopy tp p)"

definition LXCClusterList_DeepCopyInto :: "('f, 'x, 'v) packages \<Rightarrow> 'f LXCClusterList_mem \<Rightarrow> (('f, 'x) cell mem, 'f LXCClusterList_mem) state" where
  "LXCClusterList_DeepCopyInto tp m =
     do { x1 \<leftarrow> cp_copy (tp_ListMeta tp) (ls_ListMeta m);
          x2 \<leftarrow> copy_each clusters_kind (zero_cluster tp) (LXCCluster_DeepCopyInto tp) (ls_Items m);
          ret (m\<lparr>ls_ListMeta := x1, ls_Items := x2\<rparr>) }"

definition LXCClusterList_DeepCopy :: "('f, 'x, 'v) packages \<Rightarrow> addr option \<Rightarrow> (('f, 'x) cell mem, addr option) state" where
  "LXCClusterList_DeepCopy tp = copy_pointer (cluster_list_kind tp) (LXCClusterList_DeepCopyInto tp)"

definition LXCClusterList_DeepCopyObject :: "('f, 'x, 'v) packages \<Rightarrow> addr option \<Rightarrow> (('f, 'x) cell mem, addr option) state" where
  "LXCClusterList_DeepCopyObject tp p = as_object (LXCClusterList_DeepCopy tp p)"

definition LXCClusterTemplateResource_DeepCopyInto :: "('f, 'x, 'v) packages \<Rightarrow> 'f LXCClusterTemplateResource_mem \<Rightarrow> (('f, 'x) cell mem, 'f LXCClusterTemplateResource_mem) state" where
  "LXCClusterTemplateResource_DeepCopyInto tp m =
     do { x1 \<leftarrow> cp_copy (tp_TemplateMeta tp) (tr_ObjectMeta m);
          x2 \<leftarrow> LXCClusterSpec_DeepCopyInto (tr_Spec m);
          ret (m\<lparr>tr_ObjectMeta := x1, tr_Spec := x2\<rparr>) }"

definition LXCClusterTemplateResource_DeepCopy :: "('f, 'x, 'v) packages \<Rightarrow> addr option \<Rightarrow> (('f, 'x) cell mem, addr option) state" where
  "LXCClusterTemplateResource_DeepCopy tp = copy_pointer (cluster_resource_kind tp) (LXCClusterTemplateResource_DeepCopyInto tp)"

definition LXCClusterTemplateSpec_DeepCopyInto :: "('f, 'x, 'v) packages \<Rightarrow> 'f LXCClusterTemplateSpec_mem \<Rightarrow> (('f, 'x) cell mem, 'f LXCClusterTemplateSpec_mem) state" where
  "LXCClusterTemplateSpec_DeepCopyInto tp m =
     do { x1 \<leftarrow> LXCClusterTemplateResource_DeepCopyInto tp (ts_Template m);
          ret (m\<lparr>ts_Template := x1\<rparr>) }"

definition LXCClusterTemplateSpec_DeepCopy :: "('f, 'x, 'v) packages \<Rightarrow> addr option \<Rightarrow> (('f, 'x) cell mem, addr option) state" where
  "LXCClusterTemplateSpec_DeepCopy tp = copy_pointer (cluster_template_spec_kind tp) (LXCClusterTemplateSpec_DeepCopyInto tp)"

definition LXCClusterTemplate_DeepCopyInto :: "('f, 'x, 'v) packages \<Rightarrow> 'f LXCClusterTemplate_mem \<Rightarrow> (('f, 'x) cell mem, 'f LXCClusterTemplate_mem) state" where
  "LXCClusterTemplate_DeepCopyInto tp m =
     do { x1 \<leftarrow> cp_copy (tp_ObjectMeta tp) (tm_ObjectMeta m);
          x2 \<leftarrow> LXCClusterTemplateSpec_DeepCopyInto tp (tm_Spec m);
          ret (m\<lparr>tm_ObjectMeta := x1, tm_Spec := x2\<rparr>) }"

definition LXCClusterTemplate_DeepCopy :: "('f, 'x, 'v) packages \<Rightarrow> addr option \<Rightarrow> (('f, 'x) cell mem, addr option) state" where
  "LXCClusterTemplate_DeepCopy tp = copy_pointer (cluster_template_kind tp) (LXCClusterTemplate_DeepCopyInto tp)"

definition LXCClusterTemplate_DeepCopyObject :: "('f, 'x, 'v) packages \<Rightarrow> addr option \<Rightarrow> (('f, 'x) cell mem, addr option) state" where
  "LXCClusterTemplate_DeepCopyObject tp p = as_object (LXCClusterTemplate_DeepCopy tp p)"

definition LXCClusterTemplateList_DeepCopyInto :: "('f, 'x, 'v) packages \<Rightarrow> 'f LXCClusterTemplateList_mem \<Rightarrow> (('f, 'x) cell mem, 'f LXCClusterTemplateList_mem) state" where
  "LXCClusterTemplateList_DeepCopyInto tp m =
     do { x1 \<leftarrow> cp_copy (tp_ListMeta tp) (ls_ListMeta m);
          x2 \<leftarrow> copy_each cluster_templates_kind (zero_template tp zero_cluster_spec) (LXCClusterTemplate_DeepCopyInto tp) (ls_Items m);
          ret (m\<lparr>ls_ListMeta := x1, ls_Items := x2\<rparr>) }"

definition LXCClusterTemplateList_DeepCopy :: "('f, 'x, 'v) packages \<Rightarrow> addr option \<Rightarrow> (('f, 'x) cell mem, addr option) state" where
  "LXCClusterTemplateList_DeepCopy tp = copy_pointer (cluster_template_list_kind tp) (LXCClusterTemplateList_DeepCopyInto tp)"

definition LXCClusterTemplateList_DeepCopyObject :: "('f, 'x, 'v) packages \<Rightarrow> addr option \<Rightarrow> (('f, 'x) cell mem, addr option) state" where
  "LXCClusterTemplateList_DeepCopyObject tp p = as_object (LXCClusterTemplateList_DeepCopy tp p)"

definition LXCMachineSpec_DeepCopyInto :: "machine_spec_mem \<Rightarrow> (('f, 'x) cell mem, machine_spec_mem) state" where
  "LXCMachineSpec_DeepCopyInto m =
     do { x1 \<leftarrow> copy_pointer string_kind ret (ms_ProviderID m);
          x2 \<leftarrow> copy_values strings_kind [] (ms_Profiles m);
          x3 \<leftarrow> copy_values strings_kind [] (ms_Devices m);
          x4 \<leftarrow> copy_map string_map_kind (ms_Config m);
          ret (m\<lparr>ms_ProviderID := x1, ms_Profiles := x2, ms_Devices := x3, ms_Config := x4\<rparr>) }"

definition LXCMachineSpec_DeepCopy :: "addr option \<Rightarrow> (('f, 'x) cell mem, addr option) state" where
  "LXCMachineSpec_DeepCopy = copy_pointer machine_spec_kind LXCMachineSpec_DeepCopyInto"

definition LXCMachineV1Beta2Status_DeepCopyInto :: "('f, 'x, 'v) packages \<Rightarrow> v1beta2_mem \<Rightarrow> (('f, 'x) cell mem, v1beta2_mem) state" where
  "LXCMachineV1Beta2Status_DeepCopyInto tp m =
     do { x1 \<leftarrow> copy_each v1conditions_kind (cp_zero (tp_V1Condition tp)) (cp_copy (tp_V1Condition tp)) (vb_Conditions m);
          ret (m\<lparr>vb_Conditions := x1\<rparr>) }"

definition LXCMachineV1Beta2Status_DeepCopy :: "('f, 'x, 'v) packages \<Rightarrow> addr option \<Rightarrow> (('f, 'x) cell mem, addr option) state" where
  "LXCMachineV1Beta2Status_DeepCopy tp = copy_pointer machine_v1beta2_kind (LXCMachineV1Beta2Status_DeepCopyInto tp)"

definition LXCMachineStatus_DeepCopyInto :: "('f, 'x, 'v) packages \<Rightarrow> machine_status_mem \<Rightarrow> (('f, 'x) cell mem, machine_status_mem) state" where
  "LXCMachineStatus_DeepCopyInto tp m =
     do { x1 \<leftarrow> copy_values addresses_kind \<lparr>addr_Type = [], addr_Address = []\<rparr> (mt_Addresses m);
          x2 \<leftarrow> copy_each conditions_kind (cp_zero (tp_Condition tp)) (cp_copy (tp_Condition tp)) (mt_Conditions m);
          x3 \<leftarrow> copy_pointer machine_v1beta2_kind (LXCMachineV1Beta2Status_DeepCopyInto tp) (mt_V1Beta2 m);
          ret (m\<lparr>mt_Addresses := x1, mt_Conditions := x2, mt_V1Beta2 := x3\<rparr>) }"

definition LXCMachineStatus_DeepCopy :: "('f, 'x, 'v) packages \<Rightarrow> addr option \<Rightarrow> (('f, 'x) cell mem, addr option) state" where
  "LXCMachineStatus_DeepCopy tp = copy_pointer machine_status_kind (LXCMachineStatus_DeepCopyInto tp)"

definition LXCMachine_DeepCopyInto :: "('f, 'x, 'v) packages \<Rightarrow> 'f machine_mem \<Rightarrow> (('f, 'x) cell mem, 'f machine_mem) state" where
  "LXCMachine_DeepCopyInto tp m =
     do { x1 \<leftarrow> cp_copy (tp_ObjectMeta tp) (mm_ObjectMeta m);
          x2 \<leftarrow> LXCMachineSpec_DeepCopyInto (mm_Spec m);
          x3 \<leftarrow> LXCMachineStatus_DeepCopyInto tp (mm_Status m);
          ret (m\<lparr>mm_ObjectMeta := x1, mm_Spec := x2, mm_Status := x3\<rparr>) }"

definition LXCMachine_DeepCopy :: "('f, 'x, 'v) packages \<Rightarrow> addr option \<Rightarrow> (('f, 'x) cell mem, addr option) state" where
  "LXCMachine_DeepCopy tp = copy_pointer (machine_kind tp) (LXCMachine_DeepCopyInto tp)"

definition LXCMachine_DeepCopyObject :: "('f, 'x, 'v) packages \<Rightarrow> addr option \<Rightarrow> (('f, 'x) cell mem, addr option) state" where
  "LXCMachine_DeepCopyObject tp p = as_object (LXCMachine_DeepCopy tp p)"

definition LXCMachineList_DeepCopyInto :: "('f, 'x, 'v) packages \<Rightarrow> 'f LXCMachineList_mem \<Rightarrow> (('f, 'x) cell mem, 'f LXCMachineList_mem) state" where
  "LXCMachineList_DeepCopyInto tp m =
     do { x1 \<leftarrow> cp_copy (tp_ListMeta tp) (ls_ListMeta m);
          x2 \<leftarrow> copy_each machines_kind (zero_machine tp) (LXCMachine_DeepCopyInto tp) (ls_Items m);
          ret (m\<lparr>ls_ListMeta := x1, ls_Items := x2\<rparr>) }"

definition LXCMachineList_DeepCopy :: "('f, 'x, 'v) packages \<Rightarrow> addr option \<Rightarrow> (('f, 'x) cell mem, addr option) state" where
  "LXCMachineList_DeepCopy tp = copy_pointer (machine_list_kind tp) (LXCMachineList_DeepCopyInto tp)"

definition LXCMachineList_DeepCopyObject :: "('f, 'x, 'v) packages \<Rightarrow> addr option \<Rightarrow> (('f, 'x) cell mem, addr option) state" where
  "LXCMachineList_DeepCopyObject tp p = as_object (LXCMachineList_DeepCopy tp p)"

definition LXCMachineTemplateResource_DeepCopyInto :: "('f, 'x, 'v) packages \<Rightarrow> 'f LXCMachineTemplateResource_mem \<Rightarrow> (('f, 'x) cell mem, 'f LXCMachineTemplateResource_mem) state" where
  "LXCMachineTemplateResource_DeepCopyInto tp m =
     do { x1 \<leftarrow> cp_copy (tp_TemplateMeta tp) (tr_ObjectMeta m);
          x2 \<leftarrow> LXCMachineSpec_DeepCopyInto (tr_Spec m);
          ret (m\<lparr>tr_ObjectMeta := x1, tr_Spec := x2\<rparr>) }"

definition LXCMachineTemplateResource_DeepCopy :: "('f, 'x, 'v) packages \<Rightarrow> addr option \<Rightarrow> (('f, 'x) cell mem, addr option) state" where
  "LXCMachineTemplateResource_DeepCopy tp = copy_pointer (machine_resource_kind tp) (LXCMachineTemplateResource_DeepCopyInto tp)"

definition LXCMachineTemplateSpec_DeepCopyInto :: "('f, 'x, 'v) packages \<Rightarrow> 'f LXCMachineTemplateSpec_mem \<Rightarrow> (('f, 'x) cell mem, 'f LXCMachineTemplateSpec_mem) state" where
  "LXCMachineTemplateSpec_DeepCopyInto tp m =
     do { x1 \<leftarrow> LXCMachineTemplateResource_DeepCopyInto tp (ts_Template m);
          ret (m\<lparr>ts_Template := x1\<rparr>) }"

definition LXCMachineTemplateSpec_DeepCopy :: "('f, 'x, 'v) packages \<Rightarrow> addr option \<Rightarrow> (('f, 'x) cell mem, addr option) state" where
  "LXCMachineTemplateSpec_DeepCopy tp = copy_pointer (machine_template_spec_kind tp) (LXCMachineTemplateSpec_DeepCopyInto tp)"

definition LXCMachineTemplate_DeepCopyInto :: "('f, 'x, 'v) packages \<Rightarrow> 'f LXCMachineTemplate_mem \<Rightarrow> (('f, 'x) cell mem, 'f LXCMachineTemplate_mem) state" where
  "LXCMachineTemplate_DeepCopyInto tp m =
     do { x1 \<leftarrow> cp_copy (tp_ObjectMeta tp) (tm_ObjectMeta m);
          x2 \<leftarrow> LXCMachineTemplateSpec_DeepCopyInto tp (tm_Spec m);
          ret (m\<lparr>tm_ObjectMeta := x1, tm_Spec := x2\<rparr>) }"

definition LXCMachineTemplate_DeepCopy :: "('f, 'x, 'v) packages \<Rightarrow> addr option \<Rightarrow> (('f, 'x) cell mem, addr option) state" where
  "LXCMachineTemplate_DeepCopy tp = copy_pointer (machine_template_kind tp) (LXCMachineTemplate_DeepCopyInto tp)"

definition LXCMachineTemplate_DeepCopyObject :: "('f, 'x, 'v) packages \<Rightarrow> addr option \<Rightarrow> (('f, 'x) cell mem, addr option) state" where
  "LXCMachineTemplate_DeepCopyObject tp p = as_object (LXCMachineTemplate_DeepCopy tp p)"

definition LXCMachineTemplateList_DeepCopyInto :: "('f, 'x, 'v) packages \<Rightarrow> 'f LXCMachineTemplateList_mem \<Rightarrow> (('f, 'x) cell mem, 'f LXCMachineTemplateList_mem) state" where
  "LXCMachineTemplateList_DeepCopyInto tp m =
     do { x1 \<leftarrow> cp_copy (tp_ListMeta tp) (ls_ListMeta m);
          x2 \<leftarrow> copy_each machine_templates_kind (zero_template tp zero_machine_spec) (LXCMachineTemplate_DeepCopyInto tp) (ls_Items m);
          ret (m\<lparr>ls_ListMeta := x1, ls_Items := x2\<rparr>) }"

definition LXCMachineTemplateList_DeepCopy :: "('f, 'x, 'v) packages \<Rightarrow> addr option \<Rightarrow> (('f, 'x) cell mem, addr option) state" where
  "LXCMachineTemplateList_DeepCopy tp = copy_pointer (machine_template_list_kind tp) (LXCMachineTemplateList_DeepCopyInto tp)"

definition LXCMachineTemplateList_DeepCopyObject :: "('f, 'x, 'v) packages \<Rightarrow> addr option \<Rightarrow> (('f, 'x) cell mem, addr option) state" where
  "LXCMachineTemplateList_DeepCopyObject tp p = as_object (LXCMachineTemplateList_DeepCopy tp p)"

section \<open>What the structs stand for\<close>

text \<open>For each struct: that its references are good, the cells it reaches, and the value it stands for, field by field.\<close>

abbreviation any_value :: "'c mem \<Rightarrow> 'a \<Rightarrow> bool" where
  "any_value \<equiv> \<lambda>_ _. True"

abbreviation no_refs :: "'c mem \<Rightarrow> 'a \<Rightarrow> addr set" where
  "no_refs \<equiv> \<lambda>_ _. {}"

abbreviation itself :: "'c mem \<Rightarrow> 'a \<Rightarrow> 'a" where
  "itself \<equiv> \<lambda>_ x. x"

type_synonym LXCLoadBalancerMachineSpec_value = "string \<times> LXCMachineImageSource \<times> string \<times> string list option"

definition LXCLoadBalancerMachineSpec_valid :: "('f, 'x) cell mem \<Rightarrow> lb_machine_mem \<Rightarrow> bool" where
  "LXCLoadBalancerMachineSpec_valid h m \<longleftrightarrow> valid_slice strings_kind any_value h (lm_Profiles m)"

definition LXCLoadBalancerMachineSpec_refs :: "('f, 'x) cell mem \<Rightarrow> lb_machine_mem \<Rightarrow> addr set" where
  "LXCLoadBalancerMachineSpec_refs h m = refs_slice strings_kind no_refs h (lm_Profiles m)"

definition LXCLoadBalancerMachineSpec_content :: "('f, 'x) cell mem \<Rightarrow> lb_machine_mem \<Rightarrow> LXCLoadBalancerMachineSpec_value" where
  "LXCLoadBalancerMachineSpec_content h m = (lm_Flavor m, lm_Image m, lm_Target m,
     content_slice strings_kind itself h (lm_Profiles m))"

type_synonym LXCLoadBalancerInstance_value = "string \<times> LXCLoadBalancerMachineSpec_value"

definition LXCLoadBalancerInstance_valid :: "('f, 'x) cell mem \<Rightarrow> lb_instance_mem \<Rightarrow> bool" where
  "LXCLoadBalancerInstance_valid h m \<longleftrightarrow> LXCLoadBalancerMachineSpec_valid h (li_InstanceSpec m)"

definition LXCLoadBalancerInstance_refs :: "('f, 'x) cell mem \<Rightarrow> lb_instance_mem \<Rightarrow> addr set" where
  "LXCLoadBalancerInstance_refs h m = LXCLoadBalancerMachineSpec_refs h (li_InstanceSpec m)"

definition LXCLoadBalancerInstance_content :: "('f, 'x) cell mem \<Rightarrow> lb_instance_mem \<Rightarrow> LXCLoadBalancerInstance_value" where
  "LXCLoadBalancerInstance_content h m = (li_CustomHAProxyConfigTemplate m,
     LXCLoadBalancerMachineSpec_content h (li_InstanceSpec m))"

type_synonym LXCClusterLoadBalancer_value = "(LXCLoadBalancerInstance_value) option \<times> (LXCLoadBalancerInstance_value) option \<times> (LXCLoadBalancerOVN) option \<times> (LXCLoadBalancerKubeVIP) option \<times> (unit) option"

definition LXCClusterLoadBalancer_valid :: "('f, 'x) cell mem \<Rightarrow> load_balancer_mem \<Rightarrow> bool" where
  "LXCClusterLoadBalancer_valid h m \<longleftrightarrow> valid_pointer lb_instance_kind LXCLoadBalancerInstance_valid h (lb_LXC_ptr m)
     \<and> valid_pointer lb_instance_kind LXCLoadBalancerInstance_valid h (lb_OCI_ptr m)
     \<and> valid_pointer ovn_kind any_value h (lb_OVN_ptr m)
     \<and> valid_pointer kube_vip_kind any_value h (lb_KubeVIP_ptr m)
     \<and> valid_pointer external_kind any_value h (lb_External_ptr m)"

definition LXCClusterLoadBalancer_refs :: "('f, 'x) cell mem \<Rightarrow> load_balancer_mem \<Rightarrow> addr set" where
  "LXCClusterLoadBalancer_refs h m = refs_pointer lb_instance_kind LXCLoadBalancerInstance_refs h (lb_LXC_ptr m)
     \<union> refs_pointer lb_instance_kind LXCLoadBalancerInstance_refs h (lb_OCI_ptr m)
     \<union> refs_pointer ovn_kind no_refs h (lb_OVN_ptr m)
     \<union> refs_pointer kube_vip_kind no_refs h (lb_KubeVIP_ptr m)
     \<union> refs_pointer external_kind no_refs h (lb_External_ptr m)"

definition LXCClusterLoadBalancer_content :: "('f, 'x) cell mem \<Rightarrow> load_balancer_mem \<Rightarrow> LXCClusterLoadBalancer_value" where
  "LXCClusterLoadBalancer_content h m = (content_pointer lb_instance_kind LXCLoadBalancerInstance_content h (lb_LXC_ptr m),
     content_pointer lb_instance_kind LXCLoadBalancerInstance_content h (lb_OCI_ptr m),
     content_pointer ovn_kind itself h (lb_OVN_ptr m),
     content_pointer kube_vip_kind itself h (lb_KubeVIP_ptr m),
     content_pointer external_kind itself h (lb_External_ptr m))"

type_synonym LXCClusterSpec_value = "APIEndpoint \<times> string \<times> bool \<times> bool \<times> LXCClusterLoadBalancer_value"

definition LXCClusterSpec_valid :: "('f, 'x) cell mem \<Rightarrow> cluster_spec_mem \<Rightarrow> bool" where
  "LXCClusterSpec_valid h m \<longleftrightarrow> LXCClusterLoadBalancer_valid h (cs_LoadBalancer m)"

definition LXCClusterSpec_refs :: "('f, 'x) cell mem \<Rightarrow> cluster_spec_mem \<Rightarrow> addr set" where
  "LXCClusterSpec_refs h m = LXCClusterLoadBalancer_refs h (cs_LoadBalancer m)"

definition LXCClusterSpec_content :: "('f, 'x) cell mem \<Rightarrow> cluster_spec_mem \<Rightarrow> LXCClusterSpec_value" where
  "LXCClusterSpec_content h m = (cs_ControlPlaneEndpoint m, cs_SecretRef m, cs_Unprivileged m, cs_SkipDefaultKubeadmProfile m,
     LXCClusterLoadBalancer_content h (cs_LoadBalancer m))"

type_synonym 'v LXCClusterV1Beta2Status_value = "('v) list option"

definition LXCClusterV1Beta2Status_valid :: "('f, 'x, 'v) packages \<Rightarrow> ('f, 'x) cell mem \<Rightarrow> v1beta2_mem \<Rightarrow> bool" where
  "LXCClusterV1Beta2Status_valid tp h m \<longleftrightarrow> valid_slice v1conditions_kind (cp_valid (tp_V1Condition tp)) h (vb_Conditions m)"

definition LXCClusterV1Beta2Status_refs :: "('f, 'x, 'v) packages \<Rightarrow> ('f, 'x) cell mem \<Rightarrow> v1beta2_mem \<Rightarrow> addr set" where
  "LXCClusterV1Beta2Status_refs tp h m = refs_slice v1conditions_kind (cp_refs (tp_V1Condition tp)) h (vb_Conditions m)"

definition LXCClusterV1Beta2Status_content :: "('f, 'x, 'v) packages \<Rightarrow> ('f, 'x) cell mem \<Rightarrow> v1beta2_mem \<Rightarrow> 'v LXCClusterV1Beta2Status_value" where
  "LXCClusterV1Beta2Status_content tp h m = (content_slice v1conditions_kind (cp_content (tp_V1Condition tp)) h (vb_Conditions m))"

type_synonym 'v LXCClusterStatus_value = "bool \<times> ('v) list option \<times> ('v LXCClusterV1Beta2Status_value) option"

definition LXCClusterStatus_valid :: "('f, 'x, 'v) packages \<Rightarrow> ('f, 'x) cell mem \<Rightarrow> cluster_status_mem \<Rightarrow> bool" where
  "LXCClusterStatus_valid tp h m \<longleftrightarrow> valid_slice conditions_kind (cp_valid (tp_Condition tp)) h (ct_Conditions m)
     \<and> valid_pointer cluster_v1beta2_kind (LXCClusterV1Beta2Status_valid tp) h (ct_V1Beta2 m)"

definition LXCClusterStatus_refs :: "('f, 'x, 'v) packages \<Rightarrow> ('f, 'x) cell mem \<Rightarrow> cluster_status_mem \<Rightarrow> addr set" where
  "LXCClusterStatus_refs tp h m = refs_slice conditions_kind (cp_refs (tp_Condition tp)) h (ct_Conditions m)
     \<union> refs_pointer cluster_v1beta2_kind (LXCClusterV1Beta2Status_refs tp) h (ct_V1Beta2 m)"

definition LXCClusterStatus_content :: "('f, 'x, 'v) packages \<Rightarrow> ('f, 'x) cell mem \<Rightarrow> cluster_status_mem \<Rightarrow> 'v LXCClusterStatus_value" where
  "LXCClusterStatus_content tp h m = (ct_Ready m,
     content_slice conditions_kind (cp_content (tp_Condition tp)) h (ct_Conditions m),
     content_pointer cluster_v1beta2_kind (LXCClusterV1Beta2Status_content tp) h (ct_V1Beta2 m))"

type_synonym 'v LXCCluster_value = "(string \<times> string) \<times> 'v \<times> LXCClusterSpec_value \<times> 'v LXCClusterStatus_value"

definition LXCCluster_valid :: "('f, 'x, 'v) packages \<Rightarrow> ('f, 'x) cell mem \<Rightarrow> 'f cluster_mem \<Rightarrow> bool" where
  "LXCCluster_valid tp h m \<longleftrightarrow> cp_valid (tp_ObjectMeta tp) h (cc_ObjectMeta m)
     \<and> LXCClusterSpec_valid h (cc_Spec m)
     \<and> LXCClusterStatus_valid tp h (cc_Status m)"

definition LXCCluster_refs :: "('f, 'x, 'v) packages \<Rightarrow> ('f, 'x) cell mem \<Rightarrow> 'f cluster_mem \<Rightarrow> addr set" where
  "LXCCluster_refs tp h m = cp_refs (tp_ObjectMeta tp) h (cc_ObjectMeta m)
     \<union> LXCClusterSpec_refs h (cc_Spec m)
     \<union> LXCClusterStatus_refs tp h (cc_Status m)"

definition LXCCluster_content :: "('f, 'x, 'v) packages \<Rightarrow> ('f, 'x) cell mem \<Rightarrow> 'f cluster_mem \<Rightarrow> 'v LXCCluster_value" where
  "LXCCluster_content tp h m = (cc_TypeMeta m,
     cp_content (tp_ObjectMeta tp) h (cc_ObjectMeta m),
     LXCClusterSpec_content h (cc_Spec m),
     LXCClusterStatus_content tp h (cc_Status m))"

type_synonym 'v LXCClusterList_value = "(string \<times> string) \<times> 'v \<times> ('v LXCCluster_value) list option"

definition LXCClusterList_valid :: "('f, 'x, 'v) packages \<Rightarrow> ('f, 'x) cell mem \<Rightarrow> 'f LXCClusterList_mem \<Rightarrow> bool" where
  "LXCClusterList_valid tp h m \<longleftrightarrow> cp_valid (tp_ListMeta tp) h (ls_ListMeta m)
     \<and> valid_slice clusters_kind (LXCCluster_valid tp) h (ls_Items m)"

definition LXCClusterList_refs :: "('f, 'x, 'v) packages \<Rightarrow> ('f, 'x) cell mem \<Rightarrow> 'f LXCClusterList_mem \<Rightarrow> addr set" where
  "LXCClusterList_refs tp h m = cp_refs (tp_ListMeta tp) h (ls_ListMeta m)
     \<union> refs_slice clusters_kind (LXCCluster_refs tp) h (ls_Items m)"

definition LXCClusterList_content :: "('f, 'x, 'v) packages \<Rightarrow> ('f, 'x) cell mem \<Rightarrow> 'f LXCClusterList_mem \<Rightarrow> 'v LXCClusterList_value" where
  "LXCClusterList_content tp h m = (ls_TypeMeta m,
     cp_content (tp_ListMeta tp) h (ls_ListMeta m),
     content_slice clusters_kind (LXCCluster_content tp) h (ls_Items m))"

type_synonym 'v LXCClusterTemplateResource_value = "'v \<times> LXCClusterSpec_value"

definition LXCClusterTemplateResource_valid :: "('f, 'x, 'v) packages \<Rightarrow> ('f, 'x) cell mem \<Rightarrow> 'f LXCClusterTemplateResource_mem \<Rightarrow> bool" where
  "LXCClusterTemplateResource_valid tp h m \<longleftrightarrow> cp_valid (tp_TemplateMeta tp) h (tr_ObjectMeta m)
     \<and> LXCClusterSpec_valid h (tr_Spec m)"

definition LXCClusterTemplateResource_refs :: "('f, 'x, 'v) packages \<Rightarrow> ('f, 'x) cell mem \<Rightarrow> 'f LXCClusterTemplateResource_mem \<Rightarrow> addr set" where
  "LXCClusterTemplateResource_refs tp h m = cp_refs (tp_TemplateMeta tp) h (tr_ObjectMeta m)
     \<union> LXCClusterSpec_refs h (tr_Spec m)"

definition LXCClusterTemplateResource_content :: "('f, 'x, 'v) packages \<Rightarrow> ('f, 'x) cell mem \<Rightarrow> 'f LXCClusterTemplateResource_mem \<Rightarrow> 'v LXCClusterTemplateResource_value" where
  "LXCClusterTemplateResource_content tp h m = (cp_content (tp_TemplateMeta tp) h (tr_ObjectMeta m),
     LXCClusterSpec_content h (tr_Spec m))"

type_synonym 'v LXCClusterTemplateSpec_value = "'v LXCClusterTemplateResource_value"

definition LXCClusterTemplateSpec_valid :: "('f, 'x, 'v) packages \<Rightarrow> ('f, 'x) cell mem \<Rightarrow> 'f LXCClusterTemplateSpec_mem \<Rightarrow> bool" where
  "LXCClusterTemplateSpec_valid tp h m \<longleftrightarrow> LXCClusterTemplateResource_valid tp h (ts_Template m)"

definition LXCClusterTemplateSpec_refs :: "('f, 'x, 'v) packages \<Rightarrow> ('f, 'x) cell mem \<Rightarrow> 'f LXCClusterTemplateSpec_mem \<Rightarrow> addr set" where
  "LXCClusterTemplateSpec_refs tp h m = LXCClusterTemplateResource_refs tp h (ts_Template m)"

definition LXCClusterTemplateSpec_content :: "('f, 'x, 'v) packages \<Rightarrow> ('f, 'x) cell mem \<Rightarrow> 'f LXCClusterTemplateSpec_mem \<Rightarrow> 'v LXCClusterTemplateSpec_value" where
  "LXCClusterTemplateSpec_content tp h m = (LXCClusterTemplateResource_content tp h (ts_Template m))"

type_synonym 'v LXCClusterTemplate_value = "(string \<times> string) \<times> 'v \<times> 'v LXCClusterTemplateSpec_value"

definition LXCClusterTemplate_valid :: "('f, 'x, 'v) packages \<Rightarrow> ('f, 'x) cell mem \<Rightarrow> 'f LXCClusterTemplate_mem \<Rightarrow> bool" where
  "LXCClusterTemplate_valid tp h m \<longleftrightarrow> cp_valid (tp_ObjectMeta tp) h (tm_ObjectMeta m)
     \<and> LXCClusterTemplateSpec_valid tp h (tm_Spec m)"

definition LXCClusterTemplate_refs :: "('f, 'x, 'v) packages \<Rightarrow> ('f, 'x) cell mem \<Rightarrow> 'f LXCClusterTemplate_mem \<Rightarrow> addr set" where
  "LXCClusterTemplate_refs tp h m = cp_refs (tp_ObjectMeta tp) h (tm_ObjectMeta m)
     \<union> LXCClusterTemplateSpec_refs tp h (tm_Spec m)"

definition LXCClusterTemplate_content :: "('f, 'x, 'v) packages \<Rightarrow> ('f, 'x) cell mem \<Rightarrow> 'f LXCClusterTemplate_mem \<Rightarrow> 'v LXCClusterTemplate_value" where
  "LXCClusterTemplate_content tp h m = (tm_TypeMeta m,
     cp_content (tp_ObjectMeta tp) h (tm_ObjectMeta m),
     LXCClusterTemplateSpec_content tp h (tm_Spec m))"

type_synonym 'v LXCClusterTemplateList_value = "(string \<times> string) \<times> 'v \<times> ('v LXCClusterTemplate_value) list option"

definition LXCClusterTemplateList_valid :: "('f, 'x, 'v) packages \<Rightarrow> ('f, 'x) cell mem \<Rightarrow> 'f LXCClusterTemplateList_mem \<Rightarrow> bool" where
  "LXCClusterTemplateList_valid tp h m \<longleftrightarrow> cp_valid (tp_ListMeta tp) h (ls_ListMeta m)
     \<and> valid_slice cluster_templates_kind (LXCClusterTemplate_valid tp) h (ls_Items m)"

definition LXCClusterTemplateList_refs :: "('f, 'x, 'v) packages \<Rightarrow> ('f, 'x) cell mem \<Rightarrow> 'f LXCClusterTemplateList_mem \<Rightarrow> addr set" where
  "LXCClusterTemplateList_refs tp h m = cp_refs (tp_ListMeta tp) h (ls_ListMeta m)
     \<union> refs_slice cluster_templates_kind (LXCClusterTemplate_refs tp) h (ls_Items m)"

definition LXCClusterTemplateList_content :: "('f, 'x, 'v) packages \<Rightarrow> ('f, 'x) cell mem \<Rightarrow> 'f LXCClusterTemplateList_mem \<Rightarrow> 'v LXCClusterTemplateList_value" where
  "LXCClusterTemplateList_content tp h m = (ls_TypeMeta m,
     cp_content (tp_ListMeta tp) h (ls_ListMeta m),
     content_slice cluster_templates_kind (LXCClusterTemplate_content tp) h (ls_Items m))"

type_synonym LXCMachineSpec_value = "string \<times> string \<times> LXCMachineImageSource \<times> string \<times> (string) option \<times> string list option \<times> string list option \<times> (string gomap) option"

definition LXCMachineSpec_valid :: "('f, 'x) cell mem \<Rightarrow> machine_spec_mem \<Rightarrow> bool" where
  "LXCMachineSpec_valid h m \<longleftrightarrow> valid_pointer string_kind any_value h (ms_ProviderID m)
     \<and> valid_slice strings_kind any_value h (ms_Profiles m)
     \<and> valid_slice strings_kind any_value h (ms_Devices m)
     \<and> valid_map string_map_kind h (ms_Config m)"

definition LXCMachineSpec_refs :: "('f, 'x) cell mem \<Rightarrow> machine_spec_mem \<Rightarrow> addr set" where
  "LXCMachineSpec_refs h m = refs_pointer string_kind no_refs h (ms_ProviderID m)
     \<union> refs_slice strings_kind no_refs h (ms_Profiles m)
     \<union> refs_slice strings_kind no_refs h (ms_Devices m)
     \<union> refs_pointer string_map_kind no_refs h (ms_Config m)"

definition LXCMachineSpec_content :: "('f, 'x) cell mem \<Rightarrow> machine_spec_mem \<Rightarrow> LXCMachineSpec_value" where
  "LXCMachineSpec_content h m = (ms_InstanceType m, ms_Flavor m, ms_Image m, ms_Target m,
     content_pointer string_kind itself h (ms_ProviderID m),
     content_slice strings_kind itself h (ms_Profiles m),
     content_slice strings_kind itself h (ms_Devices m),
     content_pointer string_map_kind itself h (ms_Config m))"

type_synonym 'v LXCMachineV1Beta2Status_value = "('v) list option"

definition LXCMachineV1Beta2Status_valid :: "('f, 'x, 'v) packages \<Rightarrow> ('f, 'x) cell mem \<Rightarrow> v1beta2_mem \<Rightarrow> bool" where
  "LXCMachineV1Beta2Status_valid tp h m \<longleftrightarrow> valid_slice v1conditions_kind (cp_valid (tp_V1Condition tp)) h (vb_Conditions m)"

definition LXCMachineV1Beta2Status_refs :: "('f, 'x, 'v) packages \<Rightarrow> ('f, 'x) cell mem \<Rightarrow> v1beta2_mem \<Rightarrow> addr set" where
  "LXCMachineV1Beta2Status_refs tp h m = refs_slice v1conditions_kind (cp_refs (tp_V1Condition tp)) h (vb_Conditions m)"

definition LXCMachineV1Beta2Status_content :: "('f, 'x, 'v) packages \<Rightarrow> ('f, 'x) cell mem \<Rightarrow> v1beta2_mem \<Rightarrow> 'v LXCMachineV1Beta2Status_value" where
  "LXCMachineV1Beta2Status_content tp h m = (content_slice v1conditions_kind (cp_content (tp_V1Condition tp)) h (vb_Conditions m))"

type_synonym 'v LXCMachineStatus_value = "bool \<times> bool \<times> MachineAddress list option \<times> ('v) list option \<times> ('v LXCMachineV1Beta2Status_value) option"

definition LXCMachineStatus_valid :: "('f, 'x, 'v) packages \<Rightarrow> ('f, 'x) cell mem \<Rightarrow> machine_status_mem \<Rightarrow> bool" where
  "LXCMachineStatus_valid tp h m \<longleftrightarrow> valid_slice addresses_kind any_value h (mt_Addresses m)
     \<and> valid_slice conditions_kind (cp_valid (tp_Condition tp)) h (mt_Conditions m)
     \<and> valid_pointer machine_v1beta2_kind (LXCMachineV1Beta2Status_valid tp) h (mt_V1Beta2 m)"

definition LXCMachineStatus_refs :: "('f, 'x, 'v) packages \<Rightarrow> ('f, 'x) cell mem \<Rightarrow> machine_status_mem \<Rightarrow> addr set" where
  "LXCMachineStatus_refs tp h m = refs_slice addresses_kind no_refs h (mt_Addresses m)
     \<union> refs_slice conditions_kind (cp_refs (tp_Condition tp)) h (mt_Conditions m)
     \<union> refs_pointer machine_v1beta2_kind (LXCMachineV1Beta2Status_refs tp) h (mt_V1Beta2 m)"

definition LXCMachineStatus_content :: "('f, 'x, 'v) packages \<Rightarrow> ('f, 'x) cell mem \<Rightarrow> machine_status_mem \<Rightarrow> 'v LXCMachineStatus_value" where
  "LXCMachineStatus_content tp h m = (mt_Ready m, mt_LoadBalancerConfigured m,
     content_slice addresses_kind itself h (mt_Addresses m),
     content_slice conditions_kind (cp_content (tp_Condition tp)) h (mt_Conditions m),
     content_pointer machine_v1beta2_kind (LXCMachineV1Beta2Status_content tp) h (mt_V1Beta2 m))"

type_synonym 'v LXCMachine_value = "(string \<times> string) \<times> 'v \<times> LXCMachineSpec_value \<times> 'v LXCMachineStatus_value"

definition LXCMachine_valid :: "('f, 'x, 'v) packages \<Rightarrow> ('f, 'x) cell mem \<Rightarrow> 'f machine_mem \<Rightarrow> bool" where
  "LXCMachine_valid tp h m \<longleftrightarrow> cp_valid (tp_ObjectMeta tp) h (mm_ObjectMeta m)
     \<and> LXCMachineSpec_valid h (mm_Spec m)
     \<and> LXCMachineStatus_valid tp h (mm_Status m)"

definition LXCMachine_refs :: "('f, 'x, 'v) packages \<Rightarrow> ('f, 'x) cell mem \<Rightarrow> 'f machine_mem \<Rightarrow> addr set" where
  "LXCMachine_refs tp h m = cp_refs (tp_ObjectMeta tp) h (mm_ObjectMeta m)
     \<union> LXCMachineSpec_refs h (mm_Spec m)
     \<union> LXCMachineStatus_refs tp h (mm_Status m)"

definition LXCMachine_content :: "('f, 'x, 'v) packages \<Rightarrow> ('f, 'x) cell mem \<Rightarrow> 'f machine_mem \<Rightarrow> 'v LXCMachine_value" where
  "LXCMachine_content tp h m = (mm_TypeMeta m,
     cp_content (tp_ObjectMeta tp) h (mm_ObjectMeta m),
     LXCMachineSpec_content h (mm_Spec m),
     LXCMachineStatus_content tp h (mm_Status m))"

type_synonym 'v LXCMachineList_value = "(string \<times> string) \<times> 'v \<times> ('v LXCMachine_value) list option"

definition LXCMachineList_valid :: "('f, 'x, 'v) packages \<Rightarrow> ('f, 'x) cell mem \<Rightarrow> 'f LXCMachineList_mem \<Rightarrow> bool" where
  "LXCMachineList_valid tp h m \<longleftrightarrow> cp_valid (tp_ListMeta tp) h (ls_ListMeta m)
     \<and> valid_slice machines_kind (LXCMachine_valid tp) h (ls_Items m)"

definition LXCMachineList_refs :: "('f, 'x, 'v) packages \<Rightarrow> ('f, 'x) cell mem \<Rightarrow> 'f LXCMachineList_mem \<Rightarrow> addr set" where
  "LXCMachineList_refs tp h m = cp_refs (tp_ListMeta tp) h (ls_ListMeta m)
     \<union> refs_slice machines_kind (LXCMachine_refs tp) h (ls_Items m)"

definition LXCMachineList_content :: "('f, 'x, 'v) packages \<Rightarrow> ('f, 'x) cell mem \<Rightarrow> 'f LXCMachineList_mem \<Rightarrow> 'v LXCMachineList_value" where
  "LXCMachineList_content tp h m = (ls_TypeMeta m,
     cp_content (tp_ListMeta tp) h (ls_ListMeta m),
     content_slice machines_kind (LXCMachine_content tp) h (ls_Items m))"

type_synonym 'v LXCMachineTemplateResource_value = "'v \<times> LXCMachineSpec_value"

definition LXCMachineTemplateResource_valid :: "('f, 'x, 'v) packages \<Rightarrow> ('f, 'x) cell mem \<Rightarrow> 'f LXCMachineTemplateResource_mem \<Rightarrow> bool" where
  "LXCMachineTemplateResource_valid tp h m \<longleftrightarrow> cp_valid (tp_TemplateMeta tp) h (tr_ObjectMeta m)
     \<and> LXCMachineSpec_valid h (tr_Spec m)"

definition LXCMachineTemplateResource_refs :: "('f, 'x, 'v) packages \<Rightarrow> ('f, 'x) cell mem \<Rightarrow> 'f LXCMachineTemplateResource_mem \<Rightarrow> addr set" where
  "LXCMachineTemplateResource_refs tp h m = cp_refs (tp_TemplateMeta tp) h (tr_ObjectMeta m)
     \<union> LXCMachineSpec_refs h (tr_Spec m)"

definition LXCMachineTemplateResource_content :: "('f, 'x, 'v) packages \<Rightarrow> ('f, 'x) cell mem \<Rightarrow> 'f LXCMachineTemplateResource_mem \<Rightarrow> 'v LXCMachineTemplateResource_value" where
  "LXCMachineTemplateResource_content tp h m = (cp_content (tp_TemplateMeta tp) h (tr_ObjectMeta m),
     LXCMachineSpec_content h (tr_Spec m))"

type_synonym 'v LXCMachineTemplateSpec_value = "'v LXCMachineTemplateResource_value"

definition LXCMachineTemplateSpec_valid :: "('f, 'x, 'v) packages \<Rightarrow> ('f, 'x) cell mem \<Rightarrow> 'f LXCMachineTemplateSpec_mem \<Rightarrow> bool" where
  "LXCMachineTemplateSpec_valid tp h m \<longleftrightarrow> LXCMachineTemplateResource_valid tp h (ts_Template m)"

definition LXCMachineTemplateSpec_refs :: "('f, 'x, 'v) packages \<Rightarrow> ('f, 'x) cell mem \<Rightarrow> 'f LXCMachineTemplateSpec_mem \<Rightarrow> addr set" where
  "LXCMachineTemplateSpec_refs tp h m = LXCMachineTemplateResource_refs tp h (ts_Template m)"

definition LXCMachineTemplateSpec_content :: "('f, 'x, 'v) packages \<Rightarrow> ('f, 'x) cell mem \<Rightarrow> 'f LXCMachineTemplateSpec_mem \<Rightarrow> 'v LXCMachineTemplateSpec_value" where
  "LXCMachineTemplateSpec_content tp h m = (LXCMachineTemplateResource_content tp h (ts_Template m))"

type_synonym 'v LXCMachineTemplate_value = "(string \<times> string) \<times> 'v \<times> 'v LXCMachineTemplateSpec_value"

definition LXCMachineTemplate_valid :: "('f, 'x, 'v) packages \<Rightarrow> ('f, 'x) cell mem \<Rightarrow> 'f LXCMachineTemplate_mem \<Rightarrow> bool" where
  "LXCMachineTemplate_valid tp h m \<longleftrightarrow> cp_valid (tp_ObjectMeta tp) h (tm_ObjectMeta m)
     \<and> LXCMachineTemplateSpec_valid tp h (tm_Spec m)"

definition LXCMachineTemplate_refs :: "('f, 'x, 'v) packages \<Rightarrow> ('f, 'x) cell mem \<Rightarrow> 'f LXCMachineTemplate_mem \<Rightarrow> addr set" where
  "LXCMachineTemplate_refs tp h m = cp_refs (tp_ObjectMeta tp) h (tm_ObjectMeta m)
     \<union> LXCMachineTemplateSpec_refs tp h (tm_Spec m)"

definition LXCMachineTemplate_content :: "('f, 'x, 'v) packages \<Rightarrow> ('f, 'x) cell mem \<Rightarrow> 'f LXCMachineTemplate_mem \<Rightarrow> 'v LXCMachineTemplate_value" where
  "LXCMachineTemplate_content tp h m = (tm_TypeMeta m,
     cp_content (tp_ObjectMeta tp) h (tm_ObjectMeta m),
     LXCMachineTemplateSpec_content tp h (tm_Spec m))"

type_synonym 'v LXCMachineTemplateList_value = "(string \<times> string) \<times> 'v \<times> ('v LXCMachineTemplate_value) list option"

definition LXCMachineTemplateList_valid :: "('f, 'x, 'v) packages \<Rightarrow> ('f, 'x) cell mem \<Rightarrow> 'f LXCMachineTemplateList_mem \<Rightarrow> bool" where
  "LXCMachineTemplateList_valid tp h m \<longleftrightarrow> cp_valid (tp_ListMeta tp) h (ls_ListMeta m)
     \<and> valid_slice machine_templates_kind (LXCMachineTemplate_valid tp) h (ls_Items m)"

definition LXCMachineTemplateList_refs :: "('f, 'x, 'v) packages \<Rightarrow> ('f, 'x) cell mem \<Rightarrow> 'f LXCMachineTemplateList_mem \<Rightarrow> addr set" where
  "LXCMachineTemplateList_refs tp h m = cp_refs (tp_ListMeta tp) h (ls_ListMeta m)
     \<union> refs_slice machine_templates_kind (LXCMachineTemplate_refs tp) h (ls_Items m)"

definition LXCMachineTemplateList_content :: "('f, 'x, 'v) packages \<Rightarrow> ('f, 'x) cell mem \<Rightarrow> 'f LXCMachineTemplateList_mem \<Rightarrow> 'v LXCMachineTemplateList_value" where
  "LXCMachineTemplateList_content tp h m = (ls_TypeMeta m,
     cp_content (tp_ListMeta tp) h (ls_ListMeta m),
     content_slice machine_templates_kind (LXCMachineTemplate_content tp) h (ls_Items m))"

section \<open>The copies are deep\<close>

lemma deep_copy_plain: "deep_copy ret any_value no_refs itself"
  by (rule deep_copy_value)

lemma third_partyD:
  assumes "third_party_law tp"
  shows "deep_copy (cp_copy (tp_ObjectMeta tp)) (cp_valid (tp_ObjectMeta tp)) (cp_refs (tp_ObjectMeta tp)) (cp_content (tp_ObjectMeta tp))"
    "deep_copy (cp_copy (tp_ListMeta tp)) (cp_valid (tp_ListMeta tp)) (cp_refs (tp_ListMeta tp)) (cp_content (tp_ListMeta tp))"
    "deep_copy (cp_copy (tp_TemplateMeta tp)) (cp_valid (tp_TemplateMeta tp)) (cp_refs (tp_TemplateMeta tp)) (cp_content (tp_TemplateMeta tp))"
    "deep_copy (cp_copy (tp_Condition tp)) (cp_valid (tp_Condition tp)) (cp_refs (tp_Condition tp)) (cp_content (tp_Condition tp))"
    "deep_copy (cp_copy (tp_V1Condition tp)) (cp_valid (tp_V1Condition tp)) (cp_refs (tp_V1Condition tp)) (cp_content (tp_V1Condition tp))"
  using assms by (simp_all add: third_party_law_def copier_law_def)

lemma deep_copy_LXCLoadBalancerMachineSpec:
  "deep_copy LXCLoadBalancerMachineSpec_DeepCopyInto LXCLoadBalancerMachineSpec_valid LXCLoadBalancerMachineSpec_refs LXCLoadBalancerMachineSpec_content"
  using deep_copy_struct [OF deep_copy_values [OF kind_laws(2)],
      where get = "\<lambda>m. lm_Profiles m"
        and upd = "\<lambda>m x1. m\<lparr>lm_Profiles := x1\<rparr>"
        and whole = "\<lambda>m x1. (lm_Flavor m, lm_Image m, lm_Target m, x1)"]
  by (simp add: LXCLoadBalancerMachineSpec_DeepCopyInto_def [abs_def] LXCLoadBalancerMachineSpec_valid_def [abs_def] LXCLoadBalancerMachineSpec_refs_def [abs_def] LXCLoadBalancerMachineSpec_content_def [abs_def] copy_pair_def
      case_prod_beta Un_assoc)

lemma deep_copy_LXCLoadBalancerInstance:
  "deep_copy LXCLoadBalancerInstance_DeepCopyInto LXCLoadBalancerInstance_valid LXCLoadBalancerInstance_refs LXCLoadBalancerInstance_content"
  using deep_copy_struct [OF deep_copy_LXCLoadBalancerMachineSpec,
      where get = "\<lambda>m. li_InstanceSpec m"
        and upd = "\<lambda>m x1. m\<lparr>li_InstanceSpec := x1\<rparr>"
        and whole = "\<lambda>m x1. (li_CustomHAProxyConfigTemplate m, x1)"]
  by (simp add: LXCLoadBalancerInstance_DeepCopyInto_def [abs_def] LXCLoadBalancerInstance_valid_def [abs_def] LXCLoadBalancerInstance_refs_def [abs_def] LXCLoadBalancerInstance_content_def [abs_def] copy_pair_def
      case_prod_beta Un_assoc)

lemma deep_copy_LXCClusterLoadBalancer:
  "deep_copy LXCClusterLoadBalancer_DeepCopyInto LXCClusterLoadBalancer_valid LXCClusterLoadBalancer_refs LXCClusterLoadBalancer_content"
  using deep_copy_struct [OF deep_copy_pair [OF deep_copy_pointer [OF kind_laws(14) deep_copy_LXCLoadBalancerInstance] deep_copy_pair [OF deep_copy_pointer [OF kind_laws(14) deep_copy_LXCLoadBalancerInstance] deep_copy_pair [OF deep_copy_pointer [OF kind_laws(11) deep_copy_plain] deep_copy_pair [OF deep_copy_pointer [OF kind_laws(12) deep_copy_plain] deep_copy_pointer [OF kind_laws(10) deep_copy_plain]]]]],
      where get = "\<lambda>m. (lb_LXC_ptr m, lb_OCI_ptr m, lb_OVN_ptr m, lb_KubeVIP_ptr m, lb_External_ptr m)"
        and upd = "\<lambda>m (x1, x2, x3, x4, x5). m\<lparr>lb_LXC_ptr := x1, lb_OCI_ptr := x2, lb_OVN_ptr := x3, lb_KubeVIP_ptr := x4, lb_External_ptr := x5\<rparr>"
        and whole = "\<lambda>m (x1, x2, x3, x4, x5). (x1, x2, x3, x4, x5)"]
  by (simp add: LXCClusterLoadBalancer_DeepCopyInto_def [abs_def] LXCClusterLoadBalancer_valid_def [abs_def] LXCClusterLoadBalancer_refs_def [abs_def] LXCClusterLoadBalancer_content_def [abs_def] copy_pair_def
      case_prod_beta Un_assoc)

lemma deep_copy_LXCClusterSpec:
  "deep_copy LXCClusterSpec_DeepCopyInto LXCClusterSpec_valid LXCClusterSpec_refs LXCClusterSpec_content"
  using deep_copy_struct [OF deep_copy_LXCClusterLoadBalancer,
      where get = "\<lambda>m. cs_LoadBalancer m"
        and upd = "\<lambda>m x1. m\<lparr>cs_LoadBalancer := x1\<rparr>"
        and whole = "\<lambda>m x1. (cs_ControlPlaneEndpoint m, cs_SecretRef m, cs_Unprivileged m, cs_SkipDefaultKubeadmProfile m, x1)"]
  by (simp add: LXCClusterSpec_DeepCopyInto_def [abs_def] LXCClusterSpec_valid_def [abs_def] LXCClusterSpec_refs_def [abs_def] LXCClusterSpec_content_def [abs_def] copy_pair_def
      case_prod_beta Un_assoc)

lemma deep_copy_LXCClusterV1Beta2Status:
  assumes tp: "third_party_law tp"
  shows "deep_copy (LXCClusterV1Beta2Status_DeepCopyInto tp) (LXCClusterV1Beta2Status_valid tp) (LXCClusterV1Beta2Status_refs tp) (LXCClusterV1Beta2Status_content tp)"
  using deep_copy_struct [OF deep_copy_each [OF kind_laws(6) third_partyD(5) [OF tp]],
      where get = "\<lambda>m. vb_Conditions m"
        and upd = "\<lambda>m x1. m\<lparr>vb_Conditions := x1\<rparr>"
        and whole = "\<lambda>m x1. x1"]
  by (simp add: LXCClusterV1Beta2Status_DeepCopyInto_def [abs_def] LXCClusterV1Beta2Status_valid_def [abs_def] LXCClusterV1Beta2Status_refs_def [abs_def] LXCClusterV1Beta2Status_content_def [abs_def] copy_pair_def
      case_prod_beta Un_assoc)

lemma deep_copy_LXCClusterStatus:
  assumes tp: "third_party_law tp"
  shows "deep_copy (LXCClusterStatus_DeepCopyInto tp) (LXCClusterStatus_valid tp) (LXCClusterStatus_refs tp) (LXCClusterStatus_content tp)"
  using deep_copy_struct [OF deep_copy_pair [OF deep_copy_each [OF kind_laws(5) third_partyD(4) [OF tp]] deep_copy_pointer [OF kind_laws(17) deep_copy_LXCClusterV1Beta2Status [OF tp]]],
      where get = "\<lambda>m. (ct_Conditions m, ct_V1Beta2 m)"
        and upd = "\<lambda>m (x1, x2). m\<lparr>ct_Conditions := x1, ct_V1Beta2 := x2\<rparr>"
        and whole = "\<lambda>m (x1, x2). (ct_Ready m, x1, x2)"]
  by (simp add: LXCClusterStatus_DeepCopyInto_def [abs_def] LXCClusterStatus_valid_def [abs_def] LXCClusterStatus_refs_def [abs_def] LXCClusterStatus_content_def [abs_def] copy_pair_def
      case_prod_beta Un_assoc)

lemma deep_copy_LXCCluster:
  assumes tp: "third_party_law tp"
  shows "deep_copy (LXCCluster_DeepCopyInto tp) (LXCCluster_valid tp) (LXCCluster_refs tp) (LXCCluster_content tp)"
  using deep_copy_struct [OF deep_copy_pair [OF third_partyD(1) [OF tp] deep_copy_pair [OF deep_copy_LXCClusterSpec deep_copy_LXCClusterStatus [OF tp]]],
      where get = "\<lambda>m. (cc_ObjectMeta m, cc_Spec m, cc_Status m)"
        and upd = "\<lambda>m (x1, x2, x3). m\<lparr>cc_ObjectMeta := x1, cc_Spec := x2, cc_Status := x3\<rparr>"
        and whole = "\<lambda>m (x1, x2, x3). (cc_TypeMeta m, x1, x2, x3)"]
  by (simp add: LXCCluster_DeepCopyInto_def [abs_def] LXCCluster_valid_def [abs_def] LXCCluster_refs_def [abs_def] LXCCluster_content_def [abs_def] copy_pair_def
      case_prod_beta Un_assoc)

lemma deep_copy_LXCClusterList:
  assumes tp: "third_party_law tp"
  shows "deep_copy (LXCClusterList_DeepCopyInto tp) (LXCClusterList_valid tp) (LXCClusterList_refs tp) (LXCClusterList_content tp)"
  using deep_copy_struct [OF deep_copy_pair [OF third_partyD(2) [OF tp] deep_copy_each [OF kind_laws(20) deep_copy_LXCCluster [OF tp]]],
      where get = "\<lambda>m. (ls_ListMeta m, ls_Items m)"
        and upd = "\<lambda>m (x1, x2). m\<lparr>ls_ListMeta := x1, ls_Items := x2\<rparr>"
        and whole = "\<lambda>m (x1, x2). (ls_TypeMeta m, x1, x2)"]
  by (simp add: LXCClusterList_DeepCopyInto_def [abs_def] LXCClusterList_valid_def [abs_def] LXCClusterList_refs_def [abs_def] LXCClusterList_content_def [abs_def] copy_pair_def
      case_prod_beta Un_assoc)

lemma deep_copy_LXCClusterTemplateResource:
  assumes tp: "third_party_law tp"
  shows "deep_copy (LXCClusterTemplateResource_DeepCopyInto tp) (LXCClusterTemplateResource_valid tp) (LXCClusterTemplateResource_refs tp) (LXCClusterTemplateResource_content tp)"
  using deep_copy_struct [OF deep_copy_pair [OF third_partyD(3) [OF tp] deep_copy_LXCClusterSpec],
      where get = "\<lambda>m. (tr_ObjectMeta m, tr_Spec m)"
        and upd = "\<lambda>m (x1, x2). m\<lparr>tr_ObjectMeta := x1, tr_Spec := x2\<rparr>"
        and whole = "\<lambda>m (x1, x2). (x1, x2)"]
  by (simp add: LXCClusterTemplateResource_DeepCopyInto_def [abs_def] LXCClusterTemplateResource_valid_def [abs_def] LXCClusterTemplateResource_refs_def [abs_def] LXCClusterTemplateResource_content_def [abs_def] copy_pair_def
      case_prod_beta Un_assoc)

lemma deep_copy_LXCClusterTemplateSpec:
  assumes tp: "third_party_law tp"
  shows "deep_copy (LXCClusterTemplateSpec_DeepCopyInto tp) (LXCClusterTemplateSpec_valid tp) (LXCClusterTemplateSpec_refs tp) (LXCClusterTemplateSpec_content tp)"
  using deep_copy_struct [OF deep_copy_LXCClusterTemplateResource [OF tp],
      where get = "\<lambda>m. ts_Template m"
        and upd = "\<lambda>m x1. m\<lparr>ts_Template := x1\<rparr>"
        and whole = "\<lambda>m x1. x1"]
  by (simp add: LXCClusterTemplateSpec_DeepCopyInto_def [abs_def] LXCClusterTemplateSpec_valid_def [abs_def] LXCClusterTemplateSpec_refs_def [abs_def] LXCClusterTemplateSpec_content_def [abs_def] copy_pair_def
      case_prod_beta Un_assoc)

lemma deep_copy_LXCClusterTemplate:
  assumes tp: "third_party_law tp"
  shows "deep_copy (LXCClusterTemplate_DeepCopyInto tp) (LXCClusterTemplate_valid tp) (LXCClusterTemplate_refs tp) (LXCClusterTemplate_content tp)"
  using deep_copy_struct [OF deep_copy_pair [OF third_partyD(1) [OF tp] deep_copy_LXCClusterTemplateSpec [OF tp]],
      where get = "\<lambda>m. (tm_ObjectMeta m, tm_Spec m)"
        and upd = "\<lambda>m (x1, x2). m\<lparr>tm_ObjectMeta := x1, tm_Spec := x2\<rparr>"
        and whole = "\<lambda>m (x1, x2). (tm_TypeMeta m, x1, x2)"]
  by (simp add: LXCClusterTemplate_DeepCopyInto_def [abs_def] LXCClusterTemplate_valid_def [abs_def] LXCClusterTemplate_refs_def [abs_def] LXCClusterTemplate_content_def [abs_def] copy_pair_def
      case_prod_beta Un_assoc)

lemma deep_copy_LXCClusterTemplateList:
  assumes tp: "third_party_law tp"
  shows "deep_copy (LXCClusterTemplateList_DeepCopyInto tp) (LXCClusterTemplateList_valid tp) (LXCClusterTemplateList_refs tp) (LXCClusterTemplateList_content tp)"
  using deep_copy_struct [OF deep_copy_pair [OF third_partyD(2) [OF tp] deep_copy_each [OF kind_laws(25) deep_copy_LXCClusterTemplate [OF tp]]],
      where get = "\<lambda>m. (ls_ListMeta m, ls_Items m)"
        and upd = "\<lambda>m (x1, x2). m\<lparr>ls_ListMeta := x1, ls_Items := x2\<rparr>"
        and whole = "\<lambda>m (x1, x2). (ls_TypeMeta m, x1, x2)"]
  by (simp add: LXCClusterTemplateList_DeepCopyInto_def [abs_def] LXCClusterTemplateList_valid_def [abs_def] LXCClusterTemplateList_refs_def [abs_def] LXCClusterTemplateList_content_def [abs_def] copy_pair_def
      case_prod_beta Un_assoc)

lemma deep_copy_LXCMachineSpec:
  "deep_copy LXCMachineSpec_DeepCopyInto LXCMachineSpec_valid LXCMachineSpec_refs LXCMachineSpec_content"
  using deep_copy_struct [OF deep_copy_pair [OF deep_copy_pointer [OF kind_laws(1) deep_copy_plain] deep_copy_pair [OF deep_copy_values [OF kind_laws(2)] deep_copy_pair [OF deep_copy_values [OF kind_laws(2)] deep_copy_map [OF kind_laws(3)]]]],
      where get = "\<lambda>m. (ms_ProviderID m, ms_Profiles m, ms_Devices m, ms_Config m)"
        and upd = "\<lambda>m (x1, x2, x3, x4). m\<lparr>ms_ProviderID := x1, ms_Profiles := x2, ms_Devices := x3, ms_Config := x4\<rparr>"
        and whole = "\<lambda>m (x1, x2, x3, x4). (ms_InstanceType m, ms_Flavor m, ms_Image m, ms_Target m, x1, x2, x3, x4)"]
  by (simp add: LXCMachineSpec_DeepCopyInto_def [abs_def] LXCMachineSpec_valid_def [abs_def] LXCMachineSpec_refs_def [abs_def] LXCMachineSpec_content_def [abs_def] copy_pair_def
      case_prod_beta Un_assoc)

lemma deep_copy_LXCMachineV1Beta2Status:
  assumes tp: "third_party_law tp"
  shows "deep_copy (LXCMachineV1Beta2Status_DeepCopyInto tp) (LXCMachineV1Beta2Status_valid tp) (LXCMachineV1Beta2Status_refs tp) (LXCMachineV1Beta2Status_content tp)"
  using deep_copy_struct [OF deep_copy_each [OF kind_laws(6) third_partyD(5) [OF tp]],
      where get = "\<lambda>m. vb_Conditions m"
        and upd = "\<lambda>m x1. m\<lparr>vb_Conditions := x1\<rparr>"
        and whole = "\<lambda>m x1. x1"]
  by (simp add: LXCMachineV1Beta2Status_DeepCopyInto_def [abs_def] LXCMachineV1Beta2Status_valid_def [abs_def] LXCMachineV1Beta2Status_refs_def [abs_def] LXCMachineV1Beta2Status_content_def [abs_def] copy_pair_def
      case_prod_beta Un_assoc)

lemma deep_copy_LXCMachineStatus:
  assumes tp: "third_party_law tp"
  shows "deep_copy (LXCMachineStatus_DeepCopyInto tp) (LXCMachineStatus_valid tp) (LXCMachineStatus_refs tp) (LXCMachineStatus_content tp)"
  using deep_copy_struct [OF deep_copy_pair [OF deep_copy_values [OF kind_laws(4)] deep_copy_pair [OF deep_copy_each [OF kind_laws(5) third_partyD(4) [OF tp]] deep_copy_pointer [OF kind_laws(28) deep_copy_LXCMachineV1Beta2Status [OF tp]]]],
      where get = "\<lambda>m. (mt_Addresses m, mt_Conditions m, mt_V1Beta2 m)"
        and upd = "\<lambda>m (x1, x2, x3). m\<lparr>mt_Addresses := x1, mt_Conditions := x2, mt_V1Beta2 := x3\<rparr>"
        and whole = "\<lambda>m (x1, x2, x3). (mt_Ready m, mt_LoadBalancerConfigured m, x1, x2, x3)"]
  by (simp add: LXCMachineStatus_DeepCopyInto_def [abs_def] LXCMachineStatus_valid_def [abs_def] LXCMachineStatus_refs_def [abs_def] LXCMachineStatus_content_def [abs_def] copy_pair_def
      case_prod_beta Un_assoc)

lemma deep_copy_LXCMachine:
  assumes tp: "third_party_law tp"
  shows "deep_copy (LXCMachine_DeepCopyInto tp) (LXCMachine_valid tp) (LXCMachine_refs tp) (LXCMachine_content tp)"
  using deep_copy_struct [OF deep_copy_pair [OF third_partyD(1) [OF tp] deep_copy_pair [OF deep_copy_LXCMachineSpec deep_copy_LXCMachineStatus [OF tp]]],
      where get = "\<lambda>m. (mm_ObjectMeta m, mm_Spec m, mm_Status m)"
        and upd = "\<lambda>m (x1, x2, x3). m\<lparr>mm_ObjectMeta := x1, mm_Spec := x2, mm_Status := x3\<rparr>"
        and whole = "\<lambda>m (x1, x2, x3). (mm_TypeMeta m, x1, x2, x3)"]
  by (simp add: LXCMachine_DeepCopyInto_def [abs_def] LXCMachine_valid_def [abs_def] LXCMachine_refs_def [abs_def] LXCMachine_content_def [abs_def] copy_pair_def
      case_prod_beta Un_assoc)

lemma deep_copy_LXCMachineList:
  assumes tp: "third_party_law tp"
  shows "deep_copy (LXCMachineList_DeepCopyInto tp) (LXCMachineList_valid tp) (LXCMachineList_refs tp) (LXCMachineList_content tp)"
  using deep_copy_struct [OF deep_copy_pair [OF third_partyD(2) [OF tp] deep_copy_each [OF kind_laws(31) deep_copy_LXCMachine [OF tp]]],
      where get = "\<lambda>m. (ls_ListMeta m, ls_Items m)"
        and upd = "\<lambda>m (x1, x2). m\<lparr>ls_ListMeta := x1, ls_Items := x2\<rparr>"
        and whole = "\<lambda>m (x1, x2). (ls_TypeMeta m, x1, x2)"]
  by (simp add: LXCMachineList_DeepCopyInto_def [abs_def] LXCMachineList_valid_def [abs_def] LXCMachineList_refs_def [abs_def] LXCMachineList_content_def [abs_def] copy_pair_def
      case_prod_beta Un_assoc)

lemma deep_copy_LXCMachineTemplateResource:
  assumes tp: "third_party_law tp"
  shows "deep_copy (LXCMachineTemplateResource_DeepCopyInto tp) (LXCMachineTemplateResource_valid tp) (LXCMachineTemplateResource_refs tp) (LXCMachineTemplateResource_content tp)"
  using deep_copy_struct [OF deep_copy_pair [OF third_partyD(3) [OF tp] deep_copy_LXCMachineSpec],
      where get = "\<lambda>m. (tr_ObjectMeta m, tr_Spec m)"
        and upd = "\<lambda>m (x1, x2). m\<lparr>tr_ObjectMeta := x1, tr_Spec := x2\<rparr>"
        and whole = "\<lambda>m (x1, x2). (x1, x2)"]
  by (simp add: LXCMachineTemplateResource_DeepCopyInto_def [abs_def] LXCMachineTemplateResource_valid_def [abs_def] LXCMachineTemplateResource_refs_def [abs_def] LXCMachineTemplateResource_content_def [abs_def] copy_pair_def
      case_prod_beta Un_assoc)

lemma deep_copy_LXCMachineTemplateSpec:
  assumes tp: "third_party_law tp"
  shows "deep_copy (LXCMachineTemplateSpec_DeepCopyInto tp) (LXCMachineTemplateSpec_valid tp) (LXCMachineTemplateSpec_refs tp) (LXCMachineTemplateSpec_content tp)"
  using deep_copy_struct [OF deep_copy_LXCMachineTemplateResource [OF tp],
      where get = "\<lambda>m. ts_Template m"
        and upd = "\<lambda>m x1. m\<lparr>ts_Template := x1\<rparr>"
        and whole = "\<lambda>m x1. x1"]
  by (simp add: LXCMachineTemplateSpec_DeepCopyInto_def [abs_def] LXCMachineTemplateSpec_valid_def [abs_def] LXCMachineTemplateSpec_refs_def [abs_def] LXCMachineTemplateSpec_content_def [abs_def] copy_pair_def
      case_prod_beta Un_assoc)

lemma deep_copy_LXCMachineTemplate:
  assumes tp: "third_party_law tp"
  shows "deep_copy (LXCMachineTemplate_DeepCopyInto tp) (LXCMachineTemplate_valid tp) (LXCMachineTemplate_refs tp) (LXCMachineTemplate_content tp)"
  using deep_copy_struct [OF deep_copy_pair [OF third_partyD(1) [OF tp] deep_copy_LXCMachineTemplateSpec [OF tp]],
      where get = "\<lambda>m. (tm_ObjectMeta m, tm_Spec m)"
        and upd = "\<lambda>m (x1, x2). m\<lparr>tm_ObjectMeta := x1, tm_Spec := x2\<rparr>"
        and whole = "\<lambda>m (x1, x2). (tm_TypeMeta m, x1, x2)"]
  by (simp add: LXCMachineTemplate_DeepCopyInto_def [abs_def] LXCMachineTemplate_valid_def [abs_def] LXCMachineTemplate_refs_def [abs_def] LXCMachineTemplate_content_def [abs_def] copy_pair_def
      case_prod_beta Un_assoc)

lemma deep_copy_LXCMachineTemplateList:
  assumes tp: "third_party_law tp"
  shows "deep_copy (LXCMachineTemplateList_DeepCopyInto tp) (LXCMachineTemplateList_valid tp) (LXCMachineTemplateList_refs tp) (LXCMachineTemplateList_content tp)"
  using deep_copy_struct [OF deep_copy_pair [OF third_partyD(2) [OF tp] deep_copy_each [OF kind_laws(36) deep_copy_LXCMachineTemplate [OF tp]]],
      where get = "\<lambda>m. (ls_ListMeta m, ls_Items m)"
        and upd = "\<lambda>m (x1, x2). m\<lparr>ls_ListMeta := x1, ls_Items := x2\<rparr>"
        and whole = "\<lambda>m (x1, x2). (ls_TypeMeta m, x1, x2)"]
  by (simp add: LXCMachineTemplateList_DeepCopyInto_def [abs_def] LXCMachineTemplateList_valid_def [abs_def] LXCMachineTemplateList_refs_def [abs_def] LXCMachineTemplateList_content_def [abs_def] copy_pair_def
      case_prod_beta Un_assoc)

text \<open>The two specs do not depend on other packages.\<close>

interpretation machine_spec_copy: deep_copy LXCMachineSpec_DeepCopyInto LXCMachineSpec_valid LXCMachineSpec_refs LXCMachineSpec_content
  by (rule deep_copy_LXCMachineSpec)

interpretation cluster_spec_copy: deep_copy LXCClusterSpec_DeepCopyInto LXCClusterSpec_valid LXCClusterSpec_refs LXCClusterSpec_content
  by (rule deep_copy_LXCClusterSpec)

text \<open>What follows for a pointer to an object: the copy of nil is nil, and any other copy is independent of the original.\<close>

lemma run_as_object: "run_state (as_object m) h = run_state m h"
  by (auto simp: as_object_def split: prod.splits option.splits)

lemma copy_pointer_nil [simp]: "run_state (copy_pointer k c None) h = (None, h)"
  by (simp add: copy_pointer_def)

lemma object_copy:
  assumes k: "kind_law k" and c: "deep_copy c v r f" and wf: "wf_mem h" and valid: "valid_pointer k v h (Some a)"
    and run: "run_state (copy_pointer k c (Some a)) h = (p, h')"
  shows "\<exists>a'. p = Some a' \<and> a' \<noteq> a \<and> f h' (peek k h' a') = f h (peek k h a) \<and> f h' (peek k h' a) = f h (peek k h a)
    \<and> (\<forall>h2. (\<forall>b. b \<notin> refs_pointer k r h (Some a) \<longrightarrow> cells h2 b = cells h' b) \<longrightarrow> f h2 (peek k h2 a') = f h (peek k h a))
    \<and> (\<forall>h2. (\<forall>b. b \<notin> refs_pointer k r h' (Some a') \<longrightarrow> cells h2 b = cells h' b) \<longrightarrow> f h2 (peek k h2 a) = f h (peek k h a))"
proof -
  note ind = deep_copy.independent [OF deep_copy_pointer [OF k c] wf valid run]
  obtain a' where a': "p = Some a'" using ind(1) by (cases p) (auto simp: content_pointer_def)
  have "a' \<noteq> a" using ind(3) a' by (auto simp: refs_pointer_def)
  have "refs_pointer k r h' (Some a) = refs_pointer k r h (Some a)"
    using deep_copy.keeps [OF deep_copy_pointer [OF k c] wf valid, of h'] deep_copy.copy_ok [OF deep_copy_pointer [OF k c] wf valid run]
    by simp
  with \<open>a' \<noteq> a\<close> a' ind(1,2,4,5) show ?thesis by (auto simp: content_pointer_def)
qed

lemma deep_copy_object:
  assumes "kind_law k" "deep_copy c v r f"
  shows "deep_copy (\<lambda>p. as_object (copy_pointer k c p)) (valid_pointer k v) (refs_pointer k r) (content_pointer k f)"
proof -
  have "(\<lambda>p. as_object (copy_pointer k c p)) = copy_pointer k c"
    by (rule ext, rule State_Monad.state.expand) (simp add: fun_eq_iff run_as_object)
  then show ?thesis using deep_copy_pointer [OF assms] by simp
qed

lemma objects_deep_copy:
  assumes tp: "third_party_law tp"
  shows "deep_copy (LXCCluster_DeepCopyObject tp) (valid_pointer (cluster_kind tp) (LXCCluster_valid tp))
      (refs_pointer (cluster_kind tp) (LXCCluster_refs tp)) (content_pointer (cluster_kind tp) (LXCCluster_content tp))"
    "deep_copy (LXCClusterList_DeepCopyObject tp) (valid_pointer (cluster_list_kind tp) (LXCClusterList_valid tp))
      (refs_pointer (cluster_list_kind tp) (LXCClusterList_refs tp)) (content_pointer (cluster_list_kind tp) (LXCClusterList_content tp))"
    "deep_copy (LXCClusterTemplate_DeepCopyObject tp) (valid_pointer (cluster_template_kind tp) (LXCClusterTemplate_valid tp))
      (refs_pointer (cluster_template_kind tp) (LXCClusterTemplate_refs tp))
      (content_pointer (cluster_template_kind tp) (LXCClusterTemplate_content tp))"
    "deep_copy (LXCClusterTemplateList_DeepCopyObject tp) (valid_pointer (cluster_template_list_kind tp) (LXCClusterTemplateList_valid tp))
      (refs_pointer (cluster_template_list_kind tp) (LXCClusterTemplateList_refs tp))
      (content_pointer (cluster_template_list_kind tp) (LXCClusterTemplateList_content tp))"
    "deep_copy (LXCMachineList_DeepCopyObject tp) (valid_pointer (machine_list_kind tp) (LXCMachineList_valid tp))
      (refs_pointer (machine_list_kind tp) (LXCMachineList_refs tp)) (content_pointer (machine_list_kind tp) (LXCMachineList_content tp))"
    "deep_copy (LXCMachineTemplate_DeepCopyObject tp) (valid_pointer (machine_template_kind tp) (LXCMachineTemplate_valid tp))
      (refs_pointer (machine_template_kind tp) (LXCMachineTemplate_refs tp))
      (content_pointer (machine_template_kind tp) (LXCMachineTemplate_content tp))"
    "deep_copy (LXCMachineTemplateList_DeepCopyObject tp) (valid_pointer (machine_template_list_kind tp) (LXCMachineTemplateList_valid tp))
      (refs_pointer (machine_template_list_kind tp) (LXCMachineTemplateList_refs tp))
      (content_pointer (machine_template_list_kind tp) (LXCMachineTemplateList_content tp))"
  unfolding LXCCluster_DeepCopyObject_def [abs_def] LXCCluster_DeepCopy_def LXCClusterList_DeepCopyObject_def [abs_def]
    LXCClusterList_DeepCopy_def LXCClusterTemplate_DeepCopyObject_def [abs_def] LXCClusterTemplate_DeepCopy_def
    LXCClusterTemplateList_DeepCopyObject_def [abs_def] LXCClusterTemplateList_DeepCopy_def
    LXCMachineList_DeepCopyObject_def [abs_def] LXCMachineList_DeepCopy_def LXCMachineTemplate_DeepCopyObject_def [abs_def]
    LXCMachineTemplate_DeepCopy_def LXCMachineTemplateList_DeepCopyObject_def [abs_def] LXCMachineTemplateList_DeepCopy_def
  by (intro deep_copy_object kind_laws deep_copy_LXCCluster deep_copy_LXCClusterList deep_copy_LXCClusterTemplate
      deep_copy_LXCClusterTemplateList deep_copy_LXCMachineList deep_copy_LXCMachineTemplate deep_copy_LXCMachineTemplateList tp)+

text \<open>\<^verbatim>\<open>Devices\<close>: its copy is deep too, and keeps nil.\<close>

lemma deep_copy_Devices:
  "deep_copy Devices_DeepCopy (valid_slice strings_kind any_value) (refs_slice strings_kind no_refs) (content_slice strings_kind itself)"
proof (intro deep_copy.intro)
  note d = deep_copy_values [OF kind_laws(2), where z = "[]"]
  fix h h' :: "('f, 'x) cell mem" and p p'
  assume wf: "wf_mem h" and valid: "valid_slice strings_kind any_value h p" and run: "run_state (Devices_DeepCopy p) h = (p', h')"
  show "grows h h' \<and> valid_slice strings_kind any_value h' p' \<and> refs_slice strings_kind no_refs h' p' \<subseteq> {limit h..<limit h'}
      \<and> content_slice strings_kind itself h' p' = content_slice strings_kind itself h p"
  proof (cases p)
    case None
    with wf run show ?thesis by (simp add: Devices_DeepCopy_def valid_slice_def refs_slice_def content_slice_def grows_refl)
  next
    case (Some s)
    define h1 where "h1 = h\<lparr>cells := (cells h)(limit h \<mapsto> put devices_kind None), limit := Suc (limit h)\<rparr>"
    have g1: "grows h h1" unfolding h1_def using wf by (rule grows_alloc)
    obtain y h2 where y: "run_state (copy_values strings_kind [] p) h1 = (y, h2)" by (metis prod.collapse)
    note old = deep_copy.keeps [OF d wf valid g1]
    have "wf_mem h1" using g1 by (simp add: grows_def)
    note new = deep_copy.copy_ok [OF d this conjunct1 [OF old] y]
    have h': "h' = h2\<lparr>cells := (cells h2)(limit h \<mapsto> put devices_kind y)\<rparr>" and p': "p' = y"
      using run Some y by (auto simp: Devices_DeepCopy_def Devices_DeepCopyInto_def simp flip: h1_def)
    have "limit h1 = Suc (limit h)" by (simp add: h1_def)
    then have fr: "valid_slice strings_kind any_value h' y \<and> refs_slice strings_kind no_refs h' y = refs_slice strings_kind no_refs h2 y
        \<and> content_slice strings_kind itself h' y = content_slice strings_kind itself h2 y"
      using new by (intro deep_copy.frame [OF d]) (auto simp: h')
    have "grows h h'"
      unfolding h' using grows_trans [OF g1, of h2] new \<open>limit h1 = Suc (limit h)\<close> by (intro grows_store) (auto simp: grows_def)
    then show ?thesis using fr new old p' \<open>limit h1 = Suc (limit h)\<close> by (auto simp: h')
  qed
next
  note d = deep_copy_values [OF kind_laws(2), where z = "[]"]
  show "valid_slice strings_kind any_value h' p \<and> refs_slice strings_kind no_refs h' p = refs_slice strings_kind no_refs h p
      \<and> content_slice strings_kind itself h' p = content_slice strings_kind itself h p"
    if "valid_slice strings_kind any_value h p" "\<And>a. a \<in> refs_slice strings_kind no_refs h p \<Longrightarrow> cells h' a = cells h a"
    for h h' :: "('f, 'x) cell mem" and p
    using deep_copy.frame [OF d that] .
  show "refs_slice strings_kind no_refs h p \<subseteq> {..<limit h}" if "wf_mem h" "valid_slice strings_kind any_value h p"
    for h :: "('f, 'x) cell mem" and p
    using deep_copy.bounded [OF d that] .
qed

text \<open>The value of the machine at an address, and the cells that can be reached from there.\<close>

definition machine_at :: "('f, 'x, 'v) packages \<Rightarrow> ('f, 'x) cell mem \<Rightarrow> addr \<Rightarrow> 'v LXCMachine_value" where
  "machine_at tp h a = LXCMachine_content tp h (peek (machine_kind tp) h a)"

definition machine_cells :: "('f, 'x, 'v) packages \<Rightarrow> ('f, 'x) cell mem \<Rightarrow> addr \<Rightarrow> addr set" where
  "machine_cells tp h a = refs_pointer (machine_kind tp) (LXCMachine_refs tp) h (Some a)"

text \<open>
  C14: The copy of a machine object that \<^verbatim>\<open>DeepCopyObject\<close> makes stands for the same value, field by field and down to every list, map and condition,
  and shares no memory with the original: whatever is later written to the cells that can be reached from one of the two, the
  other keeps its value.  Metadata and conditions are copied by other packages, which are assumed to do the same for theirs.
\<close>

theorem LXCMachine_DeepCopyObject_independent:
  assumes "third_party_law tp" and "wf_mem h" and "valid_pointer (machine_kind tp) (LXCMachine_valid tp) h (Some a)"
    and "run_state (LXCMachine_DeepCopyObject tp (Some a)) h = (p, h')"
  shows "\<exists>a'. p = Some a' \<and> a' \<noteq> a \<and> machine_at tp h' a' = machine_at tp h a \<and> machine_at tp h' a = machine_at tp h a
    \<and> (\<forall>h2. (\<forall>b. b \<notin> machine_cells tp h a \<longrightarrow> cells h2 b = cells h' b) \<longrightarrow> machine_at tp h2 a' = machine_at tp h a)
    \<and> (\<forall>h2. (\<forall>b. b \<notin> machine_cells tp h' a' \<longrightarrow> cells h2 b = cells h' b) \<longrightarrow> machine_at tp h2 a = machine_at tp h a)"
  unfolding machine_at_def machine_cells_def
  by (rule object_copy [OF kind_laws(30) deep_copy_LXCMachine [OF assms(1)] assms(2)])
     (use assms in \<open>simp_all add: LXCMachine_DeepCopyObject_def LXCMachine_DeepCopy_def run_as_object\<close>)

text \<open>A machine with a provider ID and some configuration; afterwards both are overwritten in the original.\<close>

definition plain_copier :: "(nat, 'c, nat) copier" where
  "plain_copier = \<lparr>cp_copy = ret, cp_valid = any_value, cp_refs = no_refs, cp_content = itself, cp_zero = 0\<rparr>"

definition plain_packages :: "(nat, nat, nat) packages" where
  "plain_packages = \<lparr>tp_ObjectMeta = plain_copier, tp_ListMeta = plain_copier, tp_TemplateMeta = plain_copier,
     tp_Condition = plain_copier, tp_V1Condition = plain_copier\<rparr>"

lemma plain_packages_meta [simp]:
  "cp_valid (tp_ObjectMeta plain_packages) = any_value" "cp_refs (tp_ObjectMeta plain_packages) = no_refs"
  by (simp_all add: plain_packages_def plain_copier_def)

lemma plain_packages_law: "third_party_law plain_packages"
  by (simp add: third_party_law_def copier_law_def plain_packages_def plain_copier_def deep_copy_value)

definition sample_mem :: "(nat, nat) cell mem" where
  "sample_mem =
     \<lparr>cells = [0 \<mapsto> Machine_cell (zero_machine plain_packages\<lparr>mm_Spec := zero_machine_spec\<lparr>ms_ProviderID := Some 1, ms_Config := Some 2\<rparr>\<rparr>),
        1 \<mapsto> String_cell ''lxc:///m'', 2 \<mapsto> StringMap_cell [(''a'', ''b'')]], limit = 3\<rparr>"

lemma sample_peek:
  "peek (machine_kind plain_packages) sample_mem 0
     = zero_machine plain_packages\<lparr>mm_Spec := zero_machine_spec\<lparr>ms_ProviderID := Some 1, ms_Config := Some 2\<rparr>\<rparr>"
  "peek string_kind sample_mem 1 = ''lxc:///m''" "peek string_map_kind sample_mem 2 = [(''a'', ''b'')]"
  by (simp_all add: peek_def sample_mem_def machine_kind_def string_kind_def string_map_kind_def)

theorem LXCMachine_DeepCopyObject_independent_witness:
  "\<exists>a' h'. run_state (LXCMachine_DeepCopyObject plain_packages (Some 0)) sample_mem = (Some a', h')
     \<and> machine_at plain_packages (h'\<lparr>cells := (cells h')(1 \<mapsto> String_cell ''changed'', 2 \<mapsto> StringMap_cell [])\<rparr>) a'
        = machine_at plain_packages sample_mem 0"
proof -
  obtain p h' where run: "run_state (LXCMachine_DeepCopyObject plain_packages (Some 0)) sample_mem = (p, h')"
    by (metis prod.collapse)
  have wf: "wf_mem sample_mem" by (simp add: wf_mem_def sample_mem_def)
  have "holds (machine_kind plain_packages) sample_mem 0" "holds string_kind sample_mem 1" "holds string_map_kind sample_mem 2"
    by (simp_all add: holds_def sample_mem_def machine_kind_def string_kind_def string_map_kind_def)
  then have valid: "valid_pointer (machine_kind plain_packages) (LXCMachine_valid plain_packages) sample_mem (Some 0)"
    by (simp add: valid_pointer_def sample_peek LXCMachine_valid_def LXCMachineSpec_valid_def LXCMachineStatus_valid_def
        valid_slice_def valid_map_def zero_machine_def zero_machine_spec_def zero_machine_status_def wf_map_def)
  have "machine_cells plain_packages sample_mem 0 = {0, 1, 2}"
    by (auto simp: machine_cells_def refs_pointer_def sample_peek LXCMachine_refs_def LXCMachineSpec_refs_def LXCMachineStatus_refs_def
        refs_slice_def zero_machine_def zero_machine_spec_def zero_machine_status_def)
  with LXCMachine_DeepCopyObject_independent [OF plain_packages_law wf valid run] run show ?thesis by auto
qed

end
