(* ===== verification/LB_Inspect.thy ===== *)
theory LB_Inspect
  imports Load_Balancer
begin

text \<open>
  The \<^verbatim>\<open>Inspect\<close> methods of the load balancer managers (\<^verbatim>\<open>manager_lxc.go\<close>, \<^verbatim>\<open>manager_oci.go\<close>, \<^verbatim>\<open>manager_ovn.go\<close>,
  \<^verbatim>\<open>manager_kube_vip.go\<close>, \<^verbatim>\<open>manager_external.go\<close>): reports about a load balancer, by name.  How an object is shown, as Go
  syntax and as YAML, is a parameter.
\<close>

datatype inspected =
    InspectedInstance InstanceFull
  | InspectedNetwork "string gomap"
  | InspectedLoadBalancer NetworkLoadBalancerPut
  | InspectedState string

record Shower =
  sh_GoSyntax :: "inspected \<Rightarrow> string"
  sh_YAML :: "inspected \<Rightarrow> go_error + string"

definition addInfoFor :: "Shower \<Rightarrow> string \<Rightarrow> go_error + inspected \<Rightarrow> string gomap \<Rightarrow> string gomap" where
  "addInfoFor sh name obj result =
     (case obj of
        Inl err \<Rightarrow> map_set (name @ ''.err'') (error_msg (Errorf (''failed to get '' @ name @ '': '') err)) result
      | Inr x \<Rightarrow>
          (let result = map_set (name @ ''.txt'') (sh_GoSyntax sh x @ newline) result
           in case sh_YAML sh x of
                Inl err \<Rightarrow> map_set (name @ ''.err'') (error_msg (Errorf ''failed to marshal yaml: '' err)) result
              | Inr b \<Rightarrow> map_set (name @ ''.yaml'') b result))"

text \<open>Run a command on an instance and report what it wrote; a failure is reported too.\<close>

definition log_item ::
  "'w Client \<Rightarrow> go_context \<Rightarrow> string \<Rightarrow> string \<times> string list \<Rightarrow> string gomap \<Rightarrow> (request, 'w, string gomap) io" where
  "log_item c ctx instanceName = (\<lambda>(name, command) result.
     do { r \<leftarrow> RunCommand c ctx instanceName command None;
          s \<leftarrow> State_Monad.get;
          (let result = (case r of
                   Inl err \<Rightarrow> map_set (name @ ''.error'') (error_msg (Errorf (''failed to RunCommand '' @ fmt_strings command
                                @ '' on '' @ instanceName @ '': '') err)) result
                 | Inr _ \<Rightarrow> result);
               (stdout, stderr) = srv_ExecOutput (cli_server c) instanceName command (outside s)
           in ret (map_set name (stdout @ newline @ stderr @ newline) result)) })"

fun log_items ::
  "'w Client \<Rightarrow> go_context \<Rightarrow> string \<Rightarrow> (string \<times> string list) list \<Rightarrow> string gomap \<Rightarrow> (request, 'w, string gomap) io" where
  "log_items c ctx instanceName [] result = ret result"
| "log_items c ctx instanceName (item # items) result =
     do { result \<leftarrow> log_item c ctx instanceName item result; log_items c ctx instanceName items result }"

definition get_instance :: "'w Client \<Rightarrow> string \<Rightarrow> (request, 'w, inspected) io_err" where
  "get_instance c name =
     guard_err (incus_call c (ReqGetInstanceFull name) (srv_GetInstanceFull (cli_server c) name)) id
       (\<lambda>i. ret (Inr (InspectedInstance i)))"

definition lxc_items :: "(string \<times> string list) list" where
  "lxc_items =
     [(''ip-a.txt'', [''ip'', ''a'']), (''ip-r.txt'', [''ip'', ''r'']), (''ss-plnt.txt'', [''ss'', ''-plnt'']),
      (''haproxy.service'', [''systemctl'', ''status'', ''--no-pager'', ''-l'', ''haproxy.service'']),
      (''haproxy.log'', [''journalctl'', ''--no-pager'', ''-u'', ''haproxy.service'']),
      (''haproxy.cfg'', [''cat'', ''/etc/haproxy/haproxy.cfg''])]"

definition Inspect_LXC :: "Shower \<Rightarrow> 'w managerHaproxy \<Rightarrow> go_context \<Rightarrow> (request, 'w, string gomap) io" where
  "Inspect_LXC sh l ctx =
     do { i \<leftarrow> get_instance (hp_lxcClient l) (hp_name l);
          log_items (hp_lxcClient l) ctx (hp_name l) lxc_items (addInfoFor sh ''Instance'' i []) }"

text \<open>
  The client answers a directory with no reader and no error; wrapping no error prints \<^verbatim>\<open>%!w(<nil>)\<close>.
\<close>

definition Inspect_OCI :: "Shower \<Rightarrow> 'w managerHaproxy \<Rightarrow> go_context \<Rightarrow> (request, 'w, string gomap) io" where
  "Inspect_OCI sh l ctx =
     do { i \<leftarrow> get_instance (hp_lxcClient l) (hp_name l);
          f \<leftarrow> incus_call (hp_lxcClient l) (ReqGetInstanceFile (hp_name l) ''/usr/local/etc/haproxy/haproxy.cfg'')
                 (srv_GetInstanceFile (cli_server (hp_lxcClient l)) (hp_name l) ''/usr/local/etc/haproxy/haproxy.cfg'');
          ret (map_set ''haproxy.cfg''
            (case f of
               Inl err \<Rightarrow> error_msg (Errorf ''failed to GetInstanceFile: '' err)
             | Inr (reader, resp) \<Rightarrow>
                 if fr_Type resp = ''directory'' then ''failed to GetInstanceFile: %!w(<nil>)''
                 else case rd_ReadAll reader of
                   Inl err \<Rightarrow> error_msg (Errorf ''failed to read haproxy.cfg: '' err)
                 | Inr b \<Rightarrow> b)
            (addInfoFor sh ''Instance'' i [])) }"

text \<open>The first getter reads the configuration of the network before it looks at the error, which is a nil dereference.\<close>

definition Inspect_OVN :: "Shower \<Rightarrow> 'w managerOVN \<Rightarrow> go_context \<Rightarrow> (request, 'w, string gomap) io_err" where
  "Inspect_OVN sh l ctx =
     (let c = ov_lxcClient l; srv = cli_server c; net = networkName l; addr = listenAddress l in
      guard_err (incus_call c (ReqGetNetwork net) (srv_GetNetwork srv net))
        (\<lambda>_. Err ''panic: invalid memory address or nil pointer dereference'')
        (\<lambda>network. do {
           uplink \<leftarrow> incus_call c (ReqGetNetwork (get_str network ''network'')) (srv_GetNetwork srv (get_str network ''network''));
           lb \<leftarrow> incus_call c (ReqGetNetworkLoadBalancer net addr) (srv_GetNetworkLoadBalancer srv net addr);
           state \<leftarrow> incus_call c (ReqGetNetworkLoadBalancerState net addr) (srv_GetNetworkLoadBalancerState srv net addr);
           ret (Inr (addInfoFor sh ''NetworkLoadBalancerState'' (map_sum id InspectedState state)
             (addInfoFor sh ''NetworkLoadBalancer'' (map_sum id InspectedLoadBalancer lb)
               (addInfoFor sh ''UplinkNetwork'' (map_sum id InspectedNetwork uplink)
                 (addInfoFor sh ''Network'' (Inr (InspectedNetwork network)) []))))) }))"

definition Inspect_External :: "'w managerExternal \<Rightarrow> go_context \<Rightarrow> (request, 'w, string gomap) io" where
  "Inspect_External l ctx = ret [(''address'', ex_address l)]"

definition kube_vip_items :: "string \<Rightarrow> string \<Rightarrow> (string \<times> string list) list" where
  "kube_vip_items name path =
     [(name @ ''/ip-a.txt'', [''ip'', ''a'']), (name @ ''/ip-r.txt'', [''ip'', ''r'']), (name @ ''/kube-vip.yaml'', [''cat'', path])]"

fun inspect_nodes ::
  "'w managerKubeVIP \<Rightarrow> go_context \<Rightarrow> InstanceFull list \<Rightarrow> string gomap \<Rightarrow> (request, 'w, string gomap) io" where
  "inspect_nodes l ctx [] result = ret result"
| "inspect_nodes l ctx (i # is) result =
     do { result \<leftarrow> log_items (kv_lxcClient l) ctx (i_Name i) (kube_vip_items (i_Name i) (getManifestPath l)) result;
          inspect_nodes l ctx is result }"

definition Inspect_KubeVIP :: "'w managerKubeVIP \<Rightarrow> go_context \<Rightarrow> (request, 'w, string gomap) io" where
  "Inspect_KubeVIP l ctx =
     do { r \<leftarrow> ListInstances (kv_lxcClient l) [WithConfig_filter
                 [(''user.cluster-namespace'', kv_clusterNamespace l), (''user.cluster-name'', kv_clusterName l),
                  (''user.cluster-role'', ''control-plane'')]];
          case r of Inl err \<Rightarrow> ret [(''instances.err'', error_msg err)] | Inr is \<Rightarrow> inspect_nodes l ctx is [] }"

definition no_panic :: "(request, 'w, 'a) io \<Rightarrow> (request, 'w, 'a) io_err" where
  "no_panic m = do { x \<leftarrow> m; ret (Inr x) }"

fun Inspect :: "Shower \<Rightarrow> 'w Manager \<Rightarrow> go_context \<Rightarrow> (request, 'w, string gomap) io_err" where
  "Inspect sh (ManagerLXC l) ctx = no_panic (Inspect_LXC sh l ctx)"
| "Inspect sh (ManagerOCI l) ctx = no_panic (Inspect_OCI sh l ctx)"
| "Inspect sh (ManagerOVN l) ctx = Inspect_OVN sh l ctx"
| "Inspect sh (ManagerExternal l) ctx = no_panic (Inspect_External l ctx)"
| "Inspect sh (ManagerKubeVIP l) ctx = no_panic (Inspect_KubeVIP l ctx)"

section \<open>Properties\<close>

text \<open>The requests of a report: reading, and running commands that only show something.\<close>

definition shows_only :: "string list \<Rightarrow> bool" where
  "shows_only command \<longleftrightarrow>
     command \<in> {[''ip'', ''a''], [''ip'', ''r''], [''ss'', ''-plnt'']} \<or> take 2 command = [''systemctl'', ''status'']
     \<or> take 1 command \<in> {[''journalctl''], [''cat'']}"

fun inspect_request :: "incus_request \<Rightarrow> bool" where
  "inspect_request (ReqGetInstanceFull _) = True"
| "inspect_request ReqGetInstancesFull = True"
| "inspect_request (ReqGetInstanceFile _ _) = True"
| "inspect_request (ReqGetNetwork _) = True"
| "inspect_request (ReqGetNetworkLoadBalancer _ _) = True"
| "inspect_request (ReqGetNetworkLoadBalancerState _ _) = True"
| "inspect_request (ReqExecInstance _ command stdin) = (shows_only command \<and> stdin = None)"
| "inspect_request (ReqWaitOperation _) = True"
| "inspect_request _ = False"

abbreviation inspecting :: "request \<Rightarrow> bool" where
  "inspecting \<equiv> incus_kind inspect_request"

lemma issues_get [issues_intros]: "issues P State_Monad.get"
  by (simp add: issues_def wp_def State_Monad.get_def)

lemma issues_log_items:
  "list_all (shows_only \<circ> snd) items \<Longrightarrow> issues inspecting (log_items c ctx n items result)"
proof (induction items arbitrary: result)
  case (Cons item items)
  have "issues inspecting (log_item c ctx n item result)"
    using Cons.prems unfolding log_item_def Let_def by (cases item) (auto intro!: issues_intros split: prod.split)
  then show ?case using Cons by (auto intro!: issues_intros)
qed (simp add: issues_ret)

lemma items_show: "list_all (shows_only \<circ> snd) lxc_items" "list_all (shows_only \<circ> snd) (kube_vip_items n p)"
  by (simp_all add: lxc_items_def kube_vip_items_def shows_only_def)

lemma issues_inspect_nodes: "issues inspecting (inspect_nodes l ctx is result)"
  by (induction l ctx "is" result rule: inspect_nodes.induct) (auto intro!: issues_intros issues_log_items items_show)

lemma issues_Inspect: "issues inspecting (Inspect sh m ctx)"
  by (cases m)
    (auto intro!: issues_intros issues_log_items issues_inspect_nodes items_show
       simp: no_panic_def Inspect_LXC_def Inspect_OCI_def Inspect_OVN_def Inspect_External_def Inspect_KubeVIP_def
         get_instance_def ListInstances_def Let_def split: sum.split)

text \<open>
  Inspecting a load balancer changes nothing: whatever the manager and the answers of the server, it only reads, and
  the commands it runs on instances only show their state, without input.
\<close>

theorem Inspect_reads_only:
  "\<exists>rs. trace (snd (run_state (Inspect sh m ctx) s)) = trace s @ rs
     \<and> list_all (incus_kind inspect_request) rs"
proof -
  obtain x s' where run: "run_state (Inspect sh m ctx) s = (x, s')" by (cases "run_state (Inspect sh m ctx) s")
  from issuesD [OF issues_Inspect run] show ?thesis
    using run by simp
qed

text \<open>
  An inspection panics in exactly one case: the manager of a network load balancer, when its network
  cannot be read.
\<close>

theorem Inspect_panics_iff:
  "isl (fst (run_state (Inspect sh m ctx) s)) \<longleftrightarrow>
     (\<exists>l. m = ManagerOVN l \<and> isl (fst (srv_GetNetwork (cli_server (ov_lxcClient l)) (networkName l) (cli_target (ov_lxcClient l)) (outside s))))"
proof -
  have calm: "\<not> isl (fst (run_state (no_panic p) s))" for p :: "(request, 'a, string gomap) io"
    by (simp add: no_panic_def split: prod.split)
  show ?thesis
  proof (cases m)
    case (ManagerOVN l)
    then show ?thesis
      by (simp add: Inspect_OVN_def Let_def run_state_guard_err incus_call_def call_def split: prod.split sum.split)
  qed (simp_all add: calm)
qed

end
