(* ===== verification/Go_Template.thy ===== *)
theory Go_Template
  imports Go_Effects
begin

text \<open>
  The fragment of \<^verbatim>\<open>text/template\<close> that the default templates of the load balancers are written in: text with actions between
  \<^verbatim>\<open>{{\<close> and \<^verbatim>\<open>}}\<close>, trim markers, fields, variables, calls of functions, \<^verbatim>\<open>if\<close> and \<^verbatim>\<open>range\<close> over a map.  A template is lexed
  into text and words, parsed with a stack of open blocks, and executed on a value.
\<close>

section \<open>Syntax\<close>

datatype operand = Operand string "string list"

datatype command = Value operand | Call_function string "operand list"

datatype tnode = Text string | Print command | If_node command "tnode list" | Range_node string string command "tnode list"

text \<open>An opened block, with the nodes before it, in reverse order.\<close>

datatype block = If_block command | Range_block string string command

datatype item = Text_item string | Action_item "string list"

section \<open>Lexing\<close>

definition is_space :: "char \<Rightarrow> bool" where
  "is_space c \<longleftrightarrow> of_char c \<in> {9, 10, 13, 32 :: nat}"

definition trim_left :: "string \<Rightarrow> string" where
  "trim_left = dropWhile is_space"

definition trim_right :: "string \<Rightarrow> string" where
  "trim_right s = rev (dropWhile is_space (rev s))"

text \<open>The words of an action; a comma is a word of its own.\<close>

fun words :: "string \<Rightarrow> string \<Rightarrow> string list" where
  "words w [] = (if w = [] then [] else [rev w])"
| "words w (c # cs) =
     (if is_space c then (if w = [] then [] else [rev w]) @ words [] cs
      else if c = CHR '','' then (if w = [] then [] else [rev w]) @ [[c]] @ words [] cs
      else words (c # w) cs)"

text \<open>
  A marker belongs to the action: \<^verbatim>\<open>{{-\<close> followed by white space drops the white space before the action, \<^verbatim>\<open>-}}\<close> after
  white space drops the white space behind it.
\<close>

definition left_marker :: "string \<Rightarrow> bool" where
  "left_marker a \<longleftrightarrow> (case a of m # c # _ \<Rightarrow> m = CHR ''-'' \<and> is_space c | _ \<Rightarrow> False)"

definition right_marker :: "string \<Rightarrow> bool" where
  "right_marker a \<longleftrightarrow> (case rev a of m # c # _ \<Rightarrow> m = CHR ''-'' \<and> is_space c | _ \<Rightarrow> False)"

definition action_body :: "string \<Rightarrow> string" where
  "action_body a =
     (let a = (if left_marker a then tl a else a) in if right_marker a then butlast a else a)"

lemma Cut_shorter: "Cut s sep = (b, a, True) \<Longrightarrow> sep \<noteq> [] \<Longrightarrow> length a < length s"
  using Cut_found [of s sep b a] by (cases sep) auto

function lex :: "bool \<Rightarrow> string \<Rightarrow> go_error + item list" where
  "lex trim s =
     (case Cut s ''{{'' of (before, after, found) \<Rightarrow>
        let text = (if trim then trim_left before else before) in
        if \<not> found then Inr [Text_item text]
        else case Cut after ''}}'' of (a, rest, closed) \<Rightarrow>
          if \<not> closed then Inl (Err ''unclosed action'')
          else case lex (right_marker a) rest of
            Inl err \<Rightarrow> Inl err
          | Inr is \<Rightarrow> Inr (Text_item (if left_marker a then trim_right text else text) # Action_item (words [] (action_body a)) # is))"
  by pat_completeness auto

termination
  by (relation "measure (length \<circ> snd)") (fastforce dest: Cut_shorter [OF sym])+

declare lex.simps [simp del]

section \<open>Parsing\<close>

text \<open>\<^verbatim>\<open>.A.B\<close>, \<^verbatim>\<open>$.A\<close>, \<^verbatim>\<open>$x\<close>, \<^verbatim>\<open>$x.A\<close>: a variable, empty for the dot, and the fields to follow.\<close>

definition parse_operand :: "string \<Rightarrow> operand option" where
  "parse_operand w =
     (case Split w ''.'' of
        v # fs \<Rightarrow> if (v = [] \<and> fs \<noteq> [] \<or> HasPrefix v ''$'') \<and> (\<forall>f \<in> set fs. f \<noteq> []) then Some (Operand v fs)
                  else if w = ''.'' then Some (Operand [] []) else None
      | [] \<Rightarrow> None)"

definition parse_command :: "string list \<Rightarrow> string list \<Rightarrow> go_error + command" where
  "parse_command funcs ws =
     (case ws of
        [] \<Rightarrow> Inl (Err ''missing value for command'')
      | w # args \<Rightarrow>
          (case parse_operand w of
             Some x \<Rightarrow> if args = [] then Inr (Value x) else Inl (Err ''unexpected operand in command'')
           | None \<Rightarrow>
               if w \<notin> set funcs then Inl (Err (''function '' @ quote w @ '' not defined''))
               else if None \<in> set (map parse_operand args) then Inl (Err ''unexpected operand in command'')
               else Inr (Call_function w (map (the \<circ> parse_operand) args))))"

fun close_block :: "block \<Rightarrow> tnode list \<Rightarrow> tnode" where
  "close_block (If_block c) body = If_node c body"
| "close_block (Range_block k v c) body = Range_node k v c body"

definition parse_range :: "string list \<Rightarrow> string list \<Rightarrow> go_error + block" where
  "parse_range funcs ws =
     (case ws of
        k # comma # v # assign # c \<Rightarrow>
          if comma = '','' \<and> assign = '':='' \<and> HasPrefix k ''$'' \<and> HasPrefix v ''$''
          then map_sum id (Range_block k v) (parse_command funcs c)
          else Inl (Err ''unexpected range clause'')
      | _ \<Rightarrow> Inl (Err ''unexpected range clause''))"

fun parse_items :: "string list \<Rightarrow> (block \<times> tnode list) list \<Rightarrow> tnode list \<Rightarrow> item list \<Rightarrow> go_error + tnode list" where
  "parse_items funcs stack cur [] = (if stack = [] then Inr (rev cur) else Inl (Err ''unexpected EOF''))"
| "parse_items funcs stack cur (Text_item s # is) = parse_items funcs stack (if s = [] then cur else Text s # cur) is"
| "parse_items funcs stack cur (Action_item ws # is) =
     (if ws = [''end''] then
        (case stack of
           [] \<Rightarrow> Inl (Err ''unexpected {{end}}'')
         | (b, before) # stack \<Rightarrow> parse_items funcs stack (close_block b (rev cur) # before) is)
      else if ws \<noteq> [] \<and> hd ws = ''if'' then
        (case parse_command funcs (tl ws) of
           Inl err \<Rightarrow> Inl err | Inr c \<Rightarrow> parse_items funcs ((If_block c, cur) # stack) [] is)
      else if ws \<noteq> [] \<and> hd ws = ''range'' then
        (case parse_range funcs (tl ws) of
           Inl err \<Rightarrow> Inl err | Inr b \<Rightarrow> parse_items funcs ((b, cur) # stack) [] is)
      else case parse_command funcs ws of
        Inl err \<Rightarrow> Inl err | Inr c \<Rightarrow> parse_items funcs stack (Print c # cur) is)"

definition parse_template :: "string list \<Rightarrow> string \<Rightarrow> go_error + tnode list" where
  "parse_template funcs s = (case lex False s of Inl err \<Rightarrow> Inl err | Inr is \<Rightarrow> parse_items funcs [] [] is)"

section \<open>Execution\<close>

datatype tvalue = V_string string | V_int int | V_bool bool | V_struct "(string \<times> tvalue) list" | V_map "(string \<times> tvalue) list"

text \<open>A field of a struct must exist; a key that a map lacks is not part of the fragment.\<close>

fun follow :: "tvalue \<Rightarrow> string list \<Rightarrow> go_error + tvalue" where
  "follow x [] = Inr x"
| "follow (V_struct flds) (f # fs) =
     (case map_of flds f of None \<Rightarrow> Inl (Err (''can'' @ [CHR 39] @ ''t evaluate field '' @ f)) | Some x \<Rightarrow> follow x fs)"
| "follow x (f # fs) = Inl (Err (''can'' @ [CHR 39] @ ''t evaluate field '' @ f))"

type_synonym func_map = "(string \<times> (tvalue list \<Rightarrow> go_error + tvalue)) list"

definition eval_operand :: "(string \<times> tvalue) list \<Rightarrow> tvalue \<Rightarrow> operand \<Rightarrow> go_error + tvalue" where
  "eval_operand vars dot = (\<lambda>Operand v fs \<Rightarrow>
     if v = [] then follow dot fs
     else case map_of vars v of None \<Rightarrow> Inl (Err (''undefined variable '' @ quote v)) | Some x \<Rightarrow> follow x fs)"

fun eval_operands :: "(string \<times> tvalue) list \<Rightarrow> tvalue \<Rightarrow> operand list \<Rightarrow> go_error + tvalue list" where
  "eval_operands vars dot [] = Inr []"
| "eval_operands vars dot (x # xs) =
     (case eval_operand vars dot x of
        Inl err \<Rightarrow> Inl err
      | Inr y \<Rightarrow> (case eval_operands vars dot xs of Inl err \<Rightarrow> Inl err | Inr ys \<Rightarrow> Inr (y # ys)))"

fun eval_command :: "func_map \<Rightarrow> (string \<times> tvalue) list \<Rightarrow> tvalue \<Rightarrow> command \<Rightarrow> go_error + tvalue" where
  "eval_command funcs vars dot (Value x) = eval_operand vars dot x"
| "eval_command funcs vars dot (Call_function f xs) =
     (case eval_operands vars dot xs of
        Inl err \<Rightarrow> Inl err
      | Inr ys \<Rightarrow> (case map_of funcs f of None \<Rightarrow> Inl (Err (''function '' @ quote f @ '' not defined'')) | Some g \<Rightarrow> g ys))"

text \<open>What a value prints as; structs and maps are printed by code outside of the fragment.\<close>

fun print_value :: "tvalue \<Rightarrow> go_error + string" where
  "print_value (V_string s) = Inr s"
| "print_value (V_int n) = Inr (fmt_int n)"
| "print_value (V_bool b) = Inr (FormatBool b)"
| "print_value _ = Inl (Err ''composite value'')"

fun truth :: "tvalue \<Rightarrow> bool" where
  "truth (V_string s) = (s \<noteq> [])"
| "truth (V_int n) = (n \<noteq> 0)"
| "truth (V_bool b) = b"
| "truth (V_struct _) = True"
| "truth (V_map m) = (m \<noteq> [])"

text \<open>The output of one thing after the other.\<close>

definition seq_out :: "go_error + string \<Rightarrow> go_error + string \<Rightarrow> go_error + string" where
  "seq_out x y = (case x of Inl err \<Rightarrow> Inl err | Inr a \<Rightarrow> (case y of Inl err \<Rightarrow> Inl err | Inr b \<Rightarrow> Inr (a @ b)))"

text \<open>A range visits the keys of a map in ascending order, with the element as the dot.\<close>

fun exec_node :: "func_map \<Rightarrow> (string \<times> tvalue) list \<Rightarrow> tvalue \<Rightarrow> tnode \<Rightarrow> go_error + string"
  and exec_nodes :: "func_map \<Rightarrow> (string \<times> tvalue) list \<Rightarrow> tvalue \<Rightarrow> tnode list \<Rightarrow> go_error + string" where
  "exec_node funcs vars dot (Text s) = Inr s"
| "exec_node funcs vars dot (Print c) =
     (case eval_command funcs vars dot c of Inl err \<Rightarrow> Inl err | Inr x \<Rightarrow> print_value x)"
| "exec_node funcs vars dot (If_node c body) =
     (case eval_command funcs vars dot c of
        Inl err \<Rightarrow> Inl err | Inr x \<Rightarrow> if truth x then exec_nodes funcs vars dot body else Inr [])"
| "exec_node funcs vars dot (Range_node k v c body) =
     (case eval_command funcs vars dot c of
        Inl err \<Rightarrow> Inl err
      | Inr (V_map m) \<Rightarrow>
          foldr seq_out (map (\<lambda>(key, x). exec_nodes funcs ((v, x) # (k, V_string key) # vars) x body) (sort_key fst m)) (Inr [])
      | Inr _ \<Rightarrow> Inl (Err ''range can iterate over maps only''))"
| "exec_nodes funcs vars dot [] = Inr []"
| "exec_nodes funcs vars dot (n # ns) = seq_out (exec_node funcs vars dot n) (exec_nodes funcs vars dot ns)"

definition Execute :: "func_map \<Rightarrow> string \<Rightarrow> tvalue \<Rightarrow> go_error + string" where
  "Execute funcs s data =
     (case parse_template (map fst funcs) s of Inl err \<Rightarrow> Inl err | Inr ns \<Rightarrow> exec_nodes funcs [(''$'', data)] data ns)"

section \<open>Facts\<close>

text \<open>A template given by its pieces: texts, each followed by an action, and the text at the end.\<close>

definition pieces :: "(string \<times> string) list \<Rightarrow> string \<Rightarrow> string" where
  "pieces ps fin = concat (map (\<lambda>(t, a). t @ ''{{'' @ a @ ''}}'') ps) @ fin"

fun items_of :: "bool \<Rightarrow> (string \<times> string) list \<Rightarrow> string \<Rightarrow> item list" where
  "items_of trim [] fin = [Text_item (if trim then trim_left fin else fin)]"
| "items_of trim ((t, a) # ps) fin =
     (let t = (if trim then trim_left t else t)
      in Text_item (if left_marker a then trim_right t else t) # Action_item (words [] (action_body a)) # items_of (right_marker a) ps fin)"

text \<open>A text that does not open an action: no two of the characters in a row, and none at the end.\<close>

fun plain :: "char \<Rightarrow> string \<Rightarrow> bool" where
  "plain x [] = True"
| "plain x [c] = (c \<noteq> x)"
| "plain x (c # d # s) = (\<not> (c = x \<and> d = x) \<and> plain x (d # s))"

lemma plain_absent: "x \<notin> set s \<Longrightarrow> plain x s"
  by (induction x s rule: plain.induct) auto

lemma Cut_pair: "plain c b \<Longrightarrow> Cut (b @ [c, c] @ a) [c, c] = (b, a, True)"
  by (induction c b rule: plain.induct) (auto simp: HasPrefix_iff)

lemma Cut_pair_absent: "plain c b \<Longrightarrow> Cut b [c, c] = (b, [], False)"
  by (induction c b rule: plain.induct) (auto simp: HasPrefix_iff)

text \<open>Lexing undoes putting the pieces together.\<close>

lemma lex_pieces:
  assumes "\<forall>(t, a) \<in> set ps. plain (CHR ''{'') t \<and> plain (CHR ''}'') a" and "plain (CHR ''{'') fin"
  shows "lex trim (pieces ps fin) = Inr (items_of trim ps fin)"
  using assms(1)
proof (induction ps arbitrary: trim)
  case Nil
  then show ?case using Cut_pair_absent [OF assms(2)] by (simp add: pieces_def lex.simps [of trim fin])
next
  case (Cons p ps)
  obtain t a where p: "p = (t, a)" by (cases p)
  have 1: "pieces (p # ps) fin = t @ ''{{'' @ (a @ ''}}'' @ pieces ps fin)" by (simp add: pieces_def p)
  have "Cut (pieces (p # ps) fin) ''{{'' = (t, a @ ''}}'' @ pieces ps fin, True)"
    "Cut (a @ ''}}'' @ pieces ps fin) ''}}'' = (a, pieces ps fin, True)"
    unfolding 1 using Cons.prems p by (intro Cut_pair; auto)+
  moreover have "lex (right_marker a) (pieces ps fin) = Inr (items_of (right_marker a) ps fin)"
    using Cons.prems by (intro Cons.IH) simp
  ultimately show ?case
    unfolding lex.simps [of trim "pieces (p # ps) fin"] by (simp add: p Let_def)
qed

lemma seq_out_Inr [simp]: "seq_out (Inr a) (Inr b) = Inr (a @ b)"
  by (simp add: seq_out_def)

lemma foldr_seq_out: "foldr seq_out (map (\<lambda>x. Inr (f x)) xs) (Inr []) = Inr (concat (map f xs))"
  by (induction xs) simp_all

lemma sort_key_map_values:
  "sort_key fst (map (\<lambda>(k, x). (k, f x)) m) = map (\<lambda>(k, x). (k, f x)) (sort_key fst (m :: ('a :: linorder \<times> 'b) list))"
proof (induction m)
  case (Cons a m)
  have "insort_key fst ((\<lambda>(k, x). (k, f x)) a) (map (\<lambda>(k, x). (k, f x)) xs) = map (\<lambda>(k, x). (k, f x)) (insort_key fst a xs)" for xs
    by (induction xs) (auto split: prod.split)
  with Cons show ?case by simp
qed simp

end
