(* ===== verification/LB_Templates.thy ===== *)
theory LB_Templates
  imports Load_Balancer Go_Template
begin

text \<open>
  The default templates of \<^verbatim>\<open>internal/loadbalancer/config.go\<close> and \<^verbatim>\<open>kube_vip.go\<close> as texts, executed by the template language of
  \<open>Go_Template\<close>: they print what \<open>renderHaproxyConfiguration\<close> and \<open>renderKubeVIPConfiguration\<close> answer.
\<close>

section \<open>Haproxy\<close>

definition backend_value :: "backendServer \<Rightarrow> tvalue" where
  "backend_value b = V_struct [(''Address'', V_string (be_Address b)), (''Weight'', V_int (be_Weight b))]"

definition config_value :: "configData \<Rightarrow> tvalue" where
  "config_value data = V_struct
     [(''FrontendControlPlanePort'', V_string (FrontendControlPlanePort data)),
      (''BackendControlPlanePort'', V_string (BackendControlPlanePort data)),
      (''BackendServers'', V_map (map (\<lambda>(k, b). (k, backend_value b)) (BackendServers data))),
      (''IPv6'', V_bool (cd_IPv6 data))]"

fun join_host_port :: "tvalue list \<Rightarrow> go_error + tvalue" where
  "join_host_port [V_string host, V_string port] = Inr (V_string (JoinHostPort host port))"
| "join_host_port _ = Inl (Err ''wrong type or number of arguments for JoinHostPort'')"

definition haproxy_funcs :: func_map where
  "haproxy_funcs = [(''JoinHostPort'', join_host_port)]"

definition field :: "string \<Rightarrow> command" where
  "field f = Value (Operand [] [f])"

definition haproxy_nodes :: "tnode list" where
  "haproxy_nodes =
     [Text (lines haproxy_preamble @ ''  bind *:''), Print (field ''FrontendControlPlanePort''), Text (newline @ ''  ''),
      If_node (field ''IPv6'') [Text ''bind :::'', Print (field ''FrontendControlPlanePort''), Text '';''],
      Text (newline @ lines [''  default_backend kube-apiservers'', '''', ''backend kube-apiservers'',
              ''  option httpchk GET /healthz''] @ ''  ''),
      Range_node ''$server'' ''$backend'' (field ''BackendServers'')
        [Text (newline @ ''  server ''), Print (Value (Operand ''$server'' [])), Text '' '',
         Print (Call_function ''JoinHostPort'' [Operand ''$backend'' [''Address''], Operand ''$'' [''BackendControlPlanePort'']]),
         Text '' weight '', Print (Value (Operand ''$backend'' [''Weight''])), Text '' check check-ssl verify none''],
      Text newline]"

definition haproxy_pieces :: "(string \<times> string) list" where
  "haproxy_pieces =
     [(lines haproxy_preamble @ ''  bind *:'', '' .FrontendControlPlanePort ''), (newline @ ''  '', '' if .IPv6 -''),
      (newline @ ''  bind :::'', '' .FrontendControlPlanePort ''), ('';'' @ newline @ ''  '', ''- end ''),
      (newline @ lines [''  default_backend kube-apiservers'', '''', ''backend kube-apiservers'',
         ''  option httpchk GET /healthz''] @ ''  '', ''range $server, $backend := .BackendServers''),
      (newline @ ''  server '', '' $server ''), ('' '', '' JoinHostPort $backend.Address $.BackendControlPlanePort ''),
      ('' weight '', '' $backend.Weight ''), ('' check check-ssl verify none'' @ newline @ ''  '', ''- end'')]"

lemma newline_char: "newline = [CHR 0x0A]"
  by code_simp

lemma newline_nonempty: "newline \<noteq> []"
  by (simp add: newline_def)

lemma DefaultHaproxyTemplate_pieces: "DefaultHaproxyTemplate = pieces haproxy_pieces newline"
  by (simp add: DefaultHaproxyTemplate_def haproxy_pieces_def pieces_def lines_def)

lemma preamble_plain: "CHR ''{'' \<notin> set (lines haproxy_preamble)"
  by (simp add: haproxy_preamble_def lines_def newline_char)

lemma haproxy_lexed: "lex False DefaultHaproxyTemplate = Inr (items_of False haproxy_pieces newline)"
  unfolding DefaultHaproxyTemplate_pieces
proof (rule lex_pieces)
  have "CHR ''{'' \<notin> set (lines [''  default_backend kube-apiservers'', '''', ''backend kube-apiservers'', ''  option httpchk GET /healthz''])"
    by (simp add: lines_def newline_char)
  then show "\<forall>(t, a) \<in> set haproxy_pieces. plain (CHR ''{'') t \<and> plain (CHR ''}'') a"
    using preamble_plain by (simp add: haproxy_pieces_def newline_char plain_absent)
qed (simp add: newline_char)

lemma haproxy_markers:
  "map (left_marker \<circ> snd) haproxy_pieces = [False, False, False, True, False, False, False, False, True]"
  "map (right_marker \<circ> snd) haproxy_pieces = [False, True, False, False, False, False, False, False, False]"
  by (simp_all add: haproxy_pieces_def) code_simp+

lemma haproxy_words:
  "map (words [] \<circ> action_body \<circ> snd) haproxy_pieces =
     [[''.FrontendControlPlanePort''], [''if'', ''.IPv6''], [''.FrontendControlPlanePort''], [''end''],
      [''range'', ''$server'', '','', ''$backend'', '':='', ''.BackendServers''], [''$server''],
      [''JoinHostPort'', ''$backend.Address'', ''$.BackendControlPlanePort''], [''$backend.Weight''], [''end'']]"
  by (simp add: haproxy_pieces_def) code_simp

lemma haproxy_trims:
  "trim_left (newline @ ''  bind :::'') = ''bind :::''" "trim_right ('';'' @ newline @ ''  '') = '';''"
  "trim_right ('' check check-ssl verify none'' @ newline @ ''  '') = '' check check-ssl verify none''"
  by code_simp+

lemmas haproxy_trimmed = haproxy_trims [unfolded append_Cons append_Nil]

lemma haproxy_operands:
  "parse_operand ''.FrontendControlPlanePort'' = Some (Operand [] [''FrontendControlPlanePort''])"
  "parse_operand ''.IPv6'' = Some (Operand [] [''IPv6''])"
  "parse_operand ''.BackendServers'' = Some (Operand [] [''BackendServers''])"
  "parse_operand ''$server'' = Some (Operand ''$server'' [])"
  "parse_operand ''$backend.Address'' = Some (Operand ''$backend'' [''Address''])"
  "parse_operand ''$backend.Weight'' = Some (Operand ''$backend'' [''Weight''])"
  "parse_operand ''$.BackendControlPlanePort'' = Some (Operand ''$'' [''BackendControlPlanePort''])"
  "parse_operand ''JoinHostPort'' = None"
  by code_simp+

lemma parse_DefaultHaproxyTemplate: "parse_template [''JoinHostPort''] DefaultHaproxyTemplate = Inr haproxy_nodes"
  using haproxy_markers haproxy_words newline_nonempty
  by (simp add: parse_template_def haproxy_lexed haproxy_pieces_def haproxy_trimmed Let_def parse_command_def parse_range_def
      haproxy_operands field_def haproxy_nodes_def HasPrefix_def)

section \<open>Execution\<close>

lemma exec_backend:
  "exec_nodes haproxy_funcs ((''$backend'', backend_value b) # (''$server'', V_string k) # [(''$'', config_value data)]) (backend_value b)
     [Text (newline @ ''  server ''), Print (Value (Operand ''$server'' [])), Text '' '',
      Print (Call_function ''JoinHostPort'' [Operand ''$backend'' [''Address''], Operand ''$'' [''BackendControlPlanePort'']]),
      Text '' weight '', Print (Value (Operand ''$backend'' [''Weight''])), Text '' check check-ssl verify none'']
   = Inr (haproxy_server (BackendControlPlanePort data) (k, b))"
  by (simp add: eval_operand_def backend_value_def config_value_def haproxy_funcs_def haproxy_server_def)

text \<open>
  C30: The default haproxy template, lexed, parsed and executed by the rules of the template language, prints exactly the configuration that
  rendering answers, for all data.
\<close>

theorem default_template_executed:
  "Execute haproxy_funcs DefaultHaproxyTemplate (config_value data) = renderHaproxyConfiguration te data DefaultHaproxyTemplate"
proof -
  let ?body = "[Text (newline @ ''  server ''), Print (Value (Operand ''$server'' [])), Text '' '',
      Print (Call_function ''JoinHostPort'' [Operand ''$backend'' [''Address''], Operand ''$'' [''BackendControlPlanePort'']]),
      Text '' weight '', Print (Value (Operand ''$backend'' [''Weight''])), Text '' check check-ssl verify none'']"
  have range: "exec_node haproxy_funcs [(''$'', config_value data)] (config_value data) (Range_node ''$server'' ''$backend'' (field ''BackendServers'') ?body)
      = Inr (concat (map (haproxy_server (BackendControlPlanePort data)) (sort_key fst (BackendServers data))))"
    using exec_backend [of _ _ data]
    by (simp add: field_def eval_operand_def config_value_def [of data] sort_key_map_values case_prod_beta comp_def foldr_seq_out
        del: exec_nodes.simps(2))
  have "map fst haproxy_funcs = [''JoinHostPort'']" by (simp add: haproxy_funcs_def)
  then show ?thesis
    using range
    by (simp add: Execute_def parse_DefaultHaproxyTemplate haproxy_nodes_def renderHaproxyConfiguration_def default_haproxy_config_def
        field_def eval_operand_def config_value_def [of data] del: exec_node.simps(4))
qed

section \<open>Kube-vip\<close>

definition vip_value :: "kubeVIPTemplateInput \<Rightarrow> tvalue" where
  "vip_value inp = V_struct
     [(''Interface'', V_string (kt_Interface inp)), (''Address'', V_string (kt_Address inp)), (''Image'', V_string (kt_Image inp)),
      (''KubeconfigPath'', V_string (kt_KubeconfigPath inp))]"

definition vip_pieces :: "(string \<times> string) list" where
  "vip_pieces = [(kube_vip_start, '' .Interface ''), (kube_vip_options, '' .Address ''), (kube_vip_metrics, '' .Image ''),
     (kube_vip_pod, '' .KubeconfigPath '')]"

definition vip_nodes :: "tnode list" where
  "vip_nodes = [Text kube_vip_start, Print (field ''Interface''), Text kube_vip_options, Print (field ''Address''), Text kube_vip_metrics,
     Print (field ''Image''), Text kube_vip_pod, Print (field ''KubeconfigPath''), Text kube_vip_end]"

lemma vip_plain:
  "plain (CHR ''{'') kube_vip_start" "plain (CHR ''{'') kube_vip_options" "plain (CHR ''{'') kube_vip_metrics"
  "plain (CHR ''{'') kube_vip_pod" "plain (CHR ''{'') kube_vip_end"
  by (simp_all add: kube_vip_start_def kube_vip_options_def kube_vip_metrics_def kube_vip_pod_def kube_vip_end_def lines_def
      env_var_def newline_char quote_def quote_char_def)

lemma vip_nonempty:
  "kube_vip_start \<noteq> []" "kube_vip_options \<noteq> []" "kube_vip_metrics \<noteq> []" "kube_vip_pod \<noteq> []" "kube_vip_end \<noteq> []"
  by (simp_all add: kube_vip_start_def kube_vip_options_def kube_vip_metrics_def kube_vip_pod_def kube_vip_end_def newline_char)

lemma vip_actions:
  "map (left_marker \<circ> snd) vip_pieces = [False, False, False, False]"
  "map (right_marker \<circ> snd) vip_pieces = [False, False, False, False]"
  "map (words [] \<circ> action_body \<circ> snd) vip_pieces = [[''.Interface''], [''.Address''], [''.Image''], [''.KubeconfigPath'']]"
  by (simp_all add: vip_pieces_def) code_simp+

lemma vip_operands:
  "parse_operand ''.Interface'' = Some (Operand [] [''Interface''])" "parse_operand ''.Address'' = Some (Operand [] [''Address''])"
  "parse_operand ''.Image'' = Some (Operand [] [''Image''])"
  "parse_operand ''.KubeconfigPath'' = Some (Operand [] [''KubeconfigPath''])"
  by code_simp+

lemma parse_DefaultKubeVIPTemplate: "parse_template [] DefaultKubeVIPTemplate = Inr vip_nodes"
proof -
  have "DefaultKubeVIPTemplate = pieces vip_pieces kube_vip_end"
    by (simp add: DefaultKubeVIPTemplate_def vip_pieces_def pieces_def)
  moreover have "lex False (pieces vip_pieces kube_vip_end) = Inr (items_of False vip_pieces kube_vip_end)"
    by (rule lex_pieces) (simp_all add: vip_plain vip_pieces_def)
  ultimately show ?thesis
    using vip_actions
    by (simp add: parse_template_def vip_pieces_def Let_def parse_command_def vip_operands vip_nodes_def field_def vip_nonempty)
qed

text \<open>The same for the kube-vip template: executing it on the input of a load balancer prints the manifest.\<close>

theorem kube_vip_template_executed:
  "Execute [] DefaultKubeVIPTemplate (vip_value inp) = renderKubeVIPConfiguration inp"
  by (simp add: Execute_def parse_DefaultKubeVIPTemplate vip_nodes_def field_def eval_operand_def vip_value_def
      renderKubeVIPConfiguration_def)

end
