(* ===== verification/Go_OS.thy ===== *)
theory Go_OS
  imports Go_Effects
begin

text \<open>
  What the program uses of \<^verbatim>\<open>path/filepath\<close> and \<^verbatim>\<open>os\<close>: paths, and a disk with files, symbolic links,
  environment variables and a working directory.  Every operation of the operating system may
  fail: the disk holds a sequence of faults, one place per operation, and a write that fails may
  leave anything in its file.  Directories are implicit; creating one can only fail.  The record
  \<open>disk\<close> is extensible, so that a disk can be a part of whatever else is outside the program.
\<close>

section \<open>Paths\<close>

text \<open>\<^verbatim>\<open>filepath.Clean\<close>: the elements seen so far are a stack.\<close>

definition clean_step :: "bool \<Rightarrow> string list \<Rightarrow> string \<Rightarrow> string list" where
  "clean_step rooted stack c =
     (if c = '''' \<or> c = ''.'' then stack
      else if c = ''..'' then
        (case stack of [] \<Rightarrow> if rooted then [] else [''..'']
         | t # rest \<Rightarrow> if t = ''..'' then ''..'' # stack else rest)
      else c # stack)"

definition Clean :: "string \<Rightarrow> string" where
  "Clean p =
     (if p = [] then ''.''
      else let rooted = hd p = CHR ''/'';
               s = Join (rev (foldl (clean_step rooted) [] (Split p ''/''))) ''/''
           in if rooted then ''/'' @ s else if s = [] then ''.'' else s)"

definition Join_path :: "string list \<Rightarrow> string" where
  "Join_path elems =
     (case dropWhile (\<lambda>e. e = []) elems of [] \<Rightarrow> [] | e # es \<Rightarrow> Clean (Join (e # es) ''/''))"

definition Dir :: "string \<Rightarrow> string" where
  "Dir p = Clean (rev (dropWhile (\<lambda>c. c \<noteq> CHR ''/'') (rev p)))"

text \<open>The last element of a path, which cleaning keeps unless it is empty or made of dots.\<close>

definition last_elem :: "string \<Rightarrow> string" where
  "last_elem p = last (Split p ''/'')"

lemma Split_append: "Split (a @ ''/'' @ b) ''/'' = Split a ''/'' @ Split b ''/''"
proof (induction "length a" arbitrary: a rule: less_induct)
  case less
  show ?case
  proof (cases "CHR ''/'' \<in> set a")
    case True
    then obtain x y where a: "a = x @ CHR ''/'' # y" and x: "CHR ''/'' \<notin> set x"
      by (meson split_list_first)
    then have "Split (y @ ''/'' @ b) ''/'' = Split y ''/'' @ Split b ''/''"
      by (intro less) simp
    with a x show ?thesis by (simp add: Split_single_cons)
  next
    case False
    then show ?thesis by (simp add: Split_single_cons Split_single_absent)
  qed
qed

lemma last_elem_append [simp]: "last_elem (a @ CHR ''/'' # b) = last_elem b"
proof -
  have "Split (a @ CHR ''/'' # b) ''/'' = Split a ''/'' @ Split b ''/''"
    using Split_append [of a b] by simp
  then show ?thesis by (simp add: last_elem_def Split_nonempty)
qed

lemma last_elem_plain [simp]: "CHR ''/'' \<notin> set f \<Longrightarrow> last_elem f = f"
  by (simp add: last_elem_def Split_single_absent)

lemma last_elem_Cons [simp]: "last_elem (CHR ''/'' # f) = last_elem f"
  using last_elem_append [of "[]" f] by simp

lemma Join_snoc: "xs \<noteq> [] \<Longrightarrow> Join (xs @ [f]) sep = Join xs sep @ sep @ f"
  by (induction xs sep rule: Join.induct) auto

lemma last_elem_Join:
  assumes "CHR ''/'' \<notin> set f"
  shows "last_elem (Join (xs @ [f]) ''/'') = f"
  using assms by (cases "xs = []") (simp_all add: Join_snoc)

lemma last_elem_Clean:
  assumes "last_elem p = f" and "f \<notin> {'''', ''.'', ''..''}" and "CHR ''/'' \<notin> set f"
  shows "last_elem (Clean p) = f"
proof -
  have p: "p \<noteq> []" using assms by (auto simp: last_elem_def Split_single_absent)
  obtain bs where bs: "Split p ''/'' = bs @ [f]"
    using append_butlast_last_id [of "Split p ''/''"] assms(1) Split_nonempty [of "''/''" p]
    unfolding last_elem_def by (metis list.distinct(1))
  have "clean_step r st f = f # st" for r st using assms(2) by (simp add: clean_step_def)
  then have "rev (foldl (clean_step (hd p = CHR ''/'')) [] (Split p ''/''))
      = rev (foldl (clean_step (hd p = CHR ''/'')) [] bs) @ [f]"
    by (simp add: bs)
  then obtain xs where
    "rev (foldl (clean_step (hd p = CHR ''/'')) [] (Split p ''/'')) = xs @ [f]"
    by blast
  moreover have J: "last_elem (Join (xs @ [f]) ''/'') = f" by (rule last_elem_Join [OF assms(3)])
  moreover have "Join (xs @ [f]) ''/'' \<noteq> []" using J assms(2) last_elem_plain [of "[]"] by fastforce
  ultimately show ?thesis using p by (cases "hd p = CHR ''/''") (simp_all add: Clean_def Let_def)
qed

lemma last_elem_Join_path:
  assumes "last_elem f = g" and "g \<notin> {'''', ''.'', ''..''}" and "CHR ''/'' \<notin> set g"
  shows "last_elem (Join_path (es @ [f])) = g"
proof -
  have f: "f \<noteq> []" using assms by (auto simp: last_elem_def Split_single_absent)
  obtain es' where d: "dropWhile (\<lambda>e. e = []) (es @ [f]) = es' @ [f]"
    using f dropWhile_append3 [of "\<lambda>e. e = []" f es "[]"] by auto
  have "last_elem (Join (es' @ [f]) ''/'') = g"
    using assms(1) by (cases "es' = []") (simp_all add: Join_snoc)
  then have "last_elem (Clean (Join (es' @ [f]) ''/'')) = g"
    using assms by (intro last_elem_Clean) auto
  then show ?thesis by (cases es') (simp_all add: Join_path_def d)
qed

section \<open>The disk\<close>

text \<open>
  A fault is an error, and for a write what it leaves in the file (\<open>None\<close>: the file is untouched).
  \<open>dk_temp\<close> names the temporary directories and files.
\<close>

record disk =
  dk_files :: "string gomap"
  dk_links :: "string gomap"
  dk_env :: "string gomap"
  dk_cwd :: string
  dk_temp :: "nat \<Rightarrow> string"
  dk_faults :: "nat \<Rightarrow> (go_error \<times> string option) option"
  dk_ticks :: nat

type_synonym ('z, 'a) os = "('z disk_scheme, 'a) state"
type_synonym ('z, 'a) os_err = "('z disk_scheme, go_error + 'a) state"

definition ErrNotExist :: go_error where
  "ErrNotExist = Err ''file does not exist''"

definition IsNotExist :: "go_error \<Rightarrow> bool" where
  "IsNotExist e \<longleftrightarrow> e = ErrNotExist"

definition tick :: "'z disk_scheme \<Rightarrow> 'z disk_scheme" where
  "tick d = d\<lparr>dk_ticks := Suc (dk_ticks d)\<rparr>"

definition os_op ::
  "('z disk_scheme \<Rightarrow> (go_error + 'a) \<times> 'z disk_scheme) \<Rightarrow> (string option \<Rightarrow> 'z disk_scheme \<Rightarrow> 'z disk_scheme)
   \<Rightarrow> ('z, 'a) os_err" where
  "os_op f g = State (\<lambda>d. case dk_faults d (dk_ticks d) of
       None \<Rightarrow> f (tick d)
     | Some (e, left) \<Rightarrow> (Inl e, g left (tick d)))"

definition contents :: "'z disk_scheme \<Rightarrow> string \<Rightarrow> string option" where
  "contents d p = map_of (dk_files d) p"

definition put_file :: "string \<Rightarrow> string \<Rightarrow> 'z disk_scheme \<Rightarrow> 'z disk_scheme" where
  "put_file p c d = d\<lparr>dk_files := map_set p c (dk_files d)\<rparr>"

definition leave :: "string \<Rightarrow> string option \<Rightarrow> 'z disk_scheme \<Rightarrow> 'z disk_scheme" where
  "leave p left d = (case left of None \<Rightarrow> d | Some c \<Rightarrow> put_file p c d)"

definition if_exists :: "string \<Rightarrow> (string \<Rightarrow> 'a) \<Rightarrow> 'z disk_scheme \<Rightarrow> (go_error + 'a) \<times> 'z disk_scheme" where
  "if_exists p f d = (case contents d p of None \<Rightarrow> Inl ErrNotExist | Some c \<Rightarrow> Inr (f c), d)"

definition ReadFile :: "string \<Rightarrow> ('z, string) os_err" where
  "ReadFile p = os_op (if_exists p id) (\<lambda>_ d. d)"

definition WriteFile :: "string \<Rightarrow> string \<Rightarrow> ('z, unit) os_err" where
  "WriteFile p c = os_op (\<lambda>d. (Inr (), put_file p c d)) (leave p)"

text \<open>\<^verbatim>\<open>os.Stat\<close> answers the size; \<^verbatim>\<open>os.Open\<close> a handle, which is the path.\<close>

definition Stat :: "string \<Rightarrow> ('z, nat) os_err" where
  "Stat p = os_op (if_exists p length) (\<lambda>_ d. d)"

definition Open :: "string \<Rightarrow> ('z, unit) os_err" where
  "Open p = os_op (if_exists p (\<lambda>_. ())) (\<lambda>_ d. d)"

definition Create_file :: "string \<Rightarrow> ('z, unit) os_err" where
  "Create_file p = os_op (\<lambda>d. (Inr (), put_file p [] d)) (\<lambda>_ d. d)"

text \<open>\<^verbatim>\<open>io.Copy\<close> between two open files, and of given text into one.\<close>

definition Copy_file :: "string \<Rightarrow> string \<Rightarrow> ('z, nat) os_err" where
  "Copy_file dst src = os_op
     (\<lambda>d. case contents d src of None \<Rightarrow> (Inl ErrNotExist, d) | Some c \<Rightarrow> (Inr (length c), put_file dst c d))
     (leave dst)"

definition Copy_text :: "string \<Rightarrow> string \<Rightarrow> ('z, nat) os_err" where
  "Copy_text dst c = os_op (\<lambda>d. (Inr (length c), put_file dst c d)) (leave dst)"

definition Truncate :: "string \<Rightarrow> nat \<Rightarrow> ('z, unit) os_err" where
  "Truncate p n = os_op
     (\<lambda>d. case contents d p of
         None \<Rightarrow> (Inl ErrNotExist, d)
       | Some c \<Rightarrow> (Inr (), put_file p (take n c @ replicate (n - length c) (CHR 0x00)) d))
     (\<lambda>_ d. d)"

definition Close :: "string \<Rightarrow> ('z, unit) os_err" where
  "Close p = os_op (\<lambda>d. (Inr (), d)) (\<lambda>_ d. d)"

definition Sync :: "string \<Rightarrow> ('z, unit) os_err" where
  "Sync p = os_op (\<lambda>d. (Inr (), d)) (\<lambda>_ d. d)"

definition MkdirAll :: "string \<Rightarrow> ('z, unit) os_err" where
  "MkdirAll p = os_op (\<lambda>d. (Inr (), d)) (\<lambda>_ d. d)"

definition MkdirTemp :: "('z, string) os_err" where
  "MkdirTemp = os_op (\<lambda>d. (Inr (dk_temp d (dk_ticks d)), d)) (\<lambda>_ d. d)"

definition CreateTemp :: "('z, string) os_err" where
  "CreateTemp = os_op (\<lambda>d. (Inr (dk_temp d (dk_ticks d)), put_file (dk_temp d (dk_ticks d)) [] d)) (\<lambda>_ d. d)"

definition within :: "string \<Rightarrow> string \<Rightarrow> bool" where
  "within dir p \<longleftrightarrow> p = dir \<or> HasPrefix p (dir @ ''/'')"

definition RemoveAll :: "string \<Rightarrow> ('z, unit) os_err" where
  "RemoveAll dir = os_op
     (\<lambda>d. (Inr (), d\<lparr>dk_files := filter (\<lambda>(p, _). \<not> within dir p) (dk_files d),
                    dk_links := filter (\<lambda>(p, _). \<not> within dir p) (dk_links d)\<rparr>))
     (\<lambda>_ d. d)"

definition Remove :: "string \<Rightarrow> ('z, unit) os_err" where
  "Remove p = os_op
     (\<lambda>d. case contents d p of
         None \<Rightarrow> (Inl ErrNotExist, d)
       | Some _ \<Rightarrow> (Inr (), d\<lparr>dk_files := filter (\<lambda>(q, _). q \<noteq> p) (dk_files d)\<rparr>))
     (\<lambda>_ d. d)"

definition Rename :: "string \<Rightarrow> string \<Rightarrow> ('z, unit) os_err" where
  "Rename p q = os_op
     (\<lambda>d. case contents d p of
         None \<Rightarrow> (Inl ErrNotExist, d)
       | Some c \<Rightarrow> (Inr (), put_file q c (d\<lparr>dk_files := filter (\<lambda>(p', _). p' \<noteq> p) (dk_files d)\<rparr>)))
     (\<lambda>_ d. d)"

definition Symlink :: "string \<Rightarrow> string \<Rightarrow> ('z, unit) os_err" where
  "Symlink target link = os_op (\<lambda>d. (Inr (), d\<lparr>dk_links := map_set link target (dk_links d)\<rparr>)) (\<lambda>_ d. d)"

definition Getwd :: "('z, string) os_err" where
  "Getwd = os_op (\<lambda>d. (Inr (dk_cwd d), d)) (\<lambda>_ d. d)"

definition Getenv :: "string \<Rightarrow> ('z, string) os" where
  "Getenv k = State (\<lambda>d. (get_str (dk_env d) k, d))"

definition Setenv :: "string \<Rightarrow> string \<Rightarrow> ('z, unit) os_err" where
  "Setenv k v = os_op (\<lambda>d. (Inr (), d\<lparr>dk_env := map_set k v (dk_env d)\<rparr>)) (\<lambda>_ d. d)"

lemmas os_defs = ReadFile_def WriteFile_def Stat_def Open_def Create_file_def Copy_file_def Copy_text_def
  Truncate_def Close_def Sync_def MkdirAll_def MkdirTemp_def CreateTemp_def RemoveAll_def Remove_def Rename_def Symlink_def
  Getwd_def Setenv_def

section \<open>Rules\<close>

named_theorems disk_simps \<open>what the operations do to the parts of a disk\<close>

lemma wp_os_op [wp_simps]:
  "wp (os_op f g) Q d = (case dk_faults d (dk_ticks d) of
      None \<Rightarrow> (case f (tick d) of (x, d') \<Rightarrow> Q x d')
    | Some (e, left) \<Rightarrow> Q (Inl e) (g left (tick d)))"
  by (simp add: wp_def os_op_def split: option.splits)

lemma wp_Getenv [wp_simps]: "wp (Getenv k) Q d = Q (get_str (dk_env d) k) d"
  by (simp add: wp_def Getenv_def)

lemma contents_put_file [disk_simps]: "contents (put_file p c d) q = (if p = q then Some c else contents d q)"
  by (simp add: contents_def put_file_def)

lemma contents_tick [disk_simps]: "contents (tick d) = contents d"
  by (simp add: contents_def tick_def fun_eq_iff)

lemma contents_leave [disk_simps]: "p \<noteq> q \<Longrightarrow> contents (leave p left d) q = contents d q"
  by (simp add: leave_def disk_simps split: option.splits)

lemma faults_disk [disk_simps]:
  "dk_faults (tick d) = dk_faults d" "dk_faults (put_file p c d) = dk_faults d"
  "dk_faults (leave p left d) = dk_faults d"
  by (simp_all add: tick_def put_file_def leave_def split: option.splits)

lemma temp_disk [disk_simps]: "dk_temp (tick d) = dk_temp d" "dk_temp (put_file p c d) = dk_temp d"
  by (simp_all add: tick_def put_file_def)

text \<open>
  \<open>touches P m\<close>: whatever fails, running \<open>m\<close> changes no file outside of \<open>P\<close>, and the faults to come,
  the temporary names and the current directory are those of the disk.
\<close>

definition same_oracles :: "'z disk_scheme \<Rightarrow> 'z disk_scheme \<Rightarrow> bool" where
  "same_oracles d d' \<longleftrightarrow>
     dk_faults d' = dk_faults d \<and> dk_temp d' = dk_temp d \<and> dk_cwd d' = dk_cwd d \<and> dk_ticks d \<le> dk_ticks d'"

lemma same_oracles_disk [disk_simps]:
  "same_oracles d (tick d')" "same_oracles d (put_file p c d')" "same_oracles d (leave p left d')"
  if "same_oracles d d'"
  using that by (simp_all add: same_oracles_def tick_def put_file_def leave_def split: option.splits)

lemma same_oracles_refl [disk_simps]: "same_oracles d d"
  by (simp add: same_oracles_def)

definition touches :: "(string \<Rightarrow> bool) \<Rightarrow> ('z, 'a) os \<Rightarrow> bool" where
  "touches P m \<longleftrightarrow> (\<forall>d. wp m (\<lambda>_ d'. (\<forall>p. \<not> P p \<longrightarrow> contents d' p = contents d p) \<and> same_oracles d d') d)"

named_theorems touches_intros \<open>which files a piece of code may change\<close>

lemma touchesI:
  assumes "\<And>d. wp m (\<lambda>_ d'. (\<forall>p. \<not> P p \<longrightarrow> contents d' p = contents d p) \<and> same_oracles d d') d"
  shows "touches P m"
  using assms by (simp add: touches_def)

lemma touchesD:
  assumes "touches P m" and "run_state m d = (x, d')"
  shows "\<not> P p \<Longrightarrow> contents d' p = contents d p" and "same_oracles d d'"
  using assms(1) [unfolded touches_def, THEN spec [of _ d], THEN wpD, OF assms(2)] by auto

lemma touches_mono: "touches P m \<Longrightarrow> (\<And>p. P p \<Longrightarrow> Q p) \<Longrightarrow> touches Q m"
  by (fastforce simp: touches_def elim: wp_mono)

lemma touches_ret [touches_intros]: "touches P (ret x)"
  by (simp add: touches_def wp_simps disk_simps)

lemma touches_bind [touches_intros]:
  assumes m: "touches P m" and f: "\<And>x. touches P (f x)"
  shows "touches P (State_Monad.bind m f)"
proof (rule touchesI)
  fix d
  show "wp (State_Monad.bind m f) (\<lambda>_ d'. (\<forall>p. \<not> P p \<longrightarrow> contents d' p = contents d p) \<and> same_oracles d d') d"
    unfolding wp_bind
  proof (intro wpI)
    fix x d1 y d2 assume run: "run_state m d = (x, d1)" "run_state (f x) d1 = (y, d2)"
    show "(\<forall>p. \<not> P p \<longrightarrow> contents d2 p = contents d p) \<and> same_oracles d d2"
      using touchesD [OF m run(1)] touchesD [OF f run(2)] by (auto simp: same_oracles_def)
  qed
qed

lemma touches_guard_err [touches_intros]:
  "touches P m \<Longrightarrow> (\<And>x. touches P (k x)) \<Longrightarrow> touches P (guard_err m wrap k)"
  unfolding guard_err_def by (rule touches_bind) (auto intro: touches_ret split: sum.split)

lemma touches_cases [touches_intros]:
  "(b \<Longrightarrow> touches P m) \<Longrightarrow> (\<not> b \<Longrightarrow> touches P n) \<Longrightarrow> touches P (if b then m else n)"
  "(\<And>e. r = Inl e \<Longrightarrow> touches P (f e)) \<Longrightarrow> (\<And>x. r = Inr x \<Longrightarrow> touches P (g x)) \<Longrightarrow>
   touches P (case r of Inl e \<Rightarrow> f e | Inr x \<Rightarrow> g x)"
  "(o1 = None \<Longrightarrow> touches P h) \<Longrightarrow> (\<And>x. o1 = Some x \<Longrightarrow> touches P (i x)) \<Longrightarrow>
   touches P (case o1 of None \<Rightarrow> h | Some x \<Rightarrow> i x)"
  "(\<And>x y. q = (x, y) \<Longrightarrow> touches P (j x y)) \<Longrightarrow> touches P (case q of (x, y) \<Rightarrow> j x y)"
  by (auto split: sum.split option.split prod.split)

lemma touches_Let [touches_intros]: "touches P (f x) \<Longrightarrow> touches P (let y = x in f y)"
  by simp

lemma touches_ops [touches_intros]:
  "touches P (ReadFile p)" "touches P (Stat p)" "touches P (Open p)" "touches P (Close p)" "touches P (Sync p)"
  "touches P (MkdirAll p)" "touches P MkdirTemp" "touches P Getwd" "touches P (Getenv k)"
  by (auto simp: touches_def wp_simps os_defs if_exists_def disk_simps split: option.splits prod.splits)

lemma touches_writes [touches_intros]:
  "P p \<Longrightarrow> touches P (WriteFile p c)" "P p \<Longrightarrow> touches P (Create_file p)"
  "P p \<Longrightarrow> touches P (Copy_file p q)" "P p \<Longrightarrow> touches P (Copy_text p c)" "P p \<Longrightarrow> touches P (Truncate p n)"
  by (auto simp: touches_def wp_simps os_defs disk_simps leave_def split: option.splits prod.splits)

lemma contents_filter:
  "map_of (filter (\<lambda>(p, _). Q p) m) p = (if Q p then map_of m p else None)"
  by (induction m) auto

lemma touches_removes [touches_intros]:
  "(\<And>p. within dir p \<Longrightarrow> P p) \<Longrightarrow> touches P (RemoveAll dir)"
  "P p \<Longrightarrow> touches P (Remove p)"
  "P p \<Longrightarrow> P q \<Longrightarrow> touches P (Rename p q)"
  by (auto simp: touches_def wp_simps os_defs contents_filter tick_def contents_def put_file_def same_oracles_def
      split: option.splits prod.splits if_splits)

section \<open>Disks on which nothing fails\<close>

definition quiet :: "'z disk_scheme \<Rightarrow> bool" where
  "quiet d \<longleftrightarrow> (\<forall>n \<ge> dk_ticks d. dk_faults d n = None)"

lemma quiet_tick: "quiet d \<Longrightarrow> dk_faults d (dk_ticks d) = None \<and> quiet (tick d)"
  by (simp add: quiet_def tick_def)

lemma run_os_op_quiet: "quiet d \<Longrightarrow> run_state (os_op f g) d = f (tick d)"
  by (simp add: os_op_def quiet_tick)

lemma quiet_disk [disk_simps]: "quiet d \<Longrightarrow> quiet (tick d)" "quiet (put_file p c d) \<longleftrightarrow> quiet d"
  by (simp_all add: quiet_tick) (simp add: quiet_def put_file_def)

lemma wp_os_op_quiet: "quiet d \<Longrightarrow> wp (os_op f g) Q d = (case f (tick d) of (x, d') \<Rightarrow> Q x d')"
  by (simp add: wp_def run_os_op_quiet)

lemmas quiet_simps = wp_ret wp_bind wp_guard_err wp_if wp_os_op_quiet os_defs if_exists_def disk_simps

section \<open>A disk outside the program\<close>

text \<open>Where the outside of a world is a disk, file operations run on it; they take no time and send no request.\<close>

definition lift_os :: "('z, 'a) os \<Rightarrow> ('r, 'z disk_scheme, 'a) io" where
  "lift_os m = State (\<lambda>s. case run_state m (outside s) of (x, d) \<Rightarrow> (x, s\<lparr>outside := d\<rparr>))"

lemma wp_lift_os [wp_simps]: "wp (lift_os m) Q s = wp m (\<lambda>x d. Q x (s\<lparr>outside := d\<rparr>)) (outside s)"
  by (simp add: wp_def lift_os_def split: prod.splits)

lemma issues_lift_os [issues_intros]: "issues P (lift_os m)"
  by (simp add: issues_def wp_def lift_os_def split: prod.splits)

end
