(* ===== verification/Go_Time.thy ===== *)
theory Go_Time
  imports Go_Prelude
begin

text \<open>
  What the program uses of \<^verbatim>\<open>time\<close>: the civil date and time of a number of seconds since 1970, in a
  time zone given by its offset, and their formatting to the minute.
\<close>

section \<open>Civil dates\<close>

definition leap :: "int \<Rightarrow> bool" where
  "leap y \<longleftrightarrow> y mod 4 = 0 \<and> (y mod 100 \<noteq> 0 \<or> y mod 400 = 0)"

definition year_len :: "int \<Rightarrow> int" where
  "year_len y = (if leap y then 366 else 365)"

lemma year_len_bounds: "365 \<le> year_len y" "year_len y \<le> 366"
  by (simp_all add: year_len_def)

text \<open>The year and the day in it, of a number of days after the start of year \<open>y\<close>.\<close>

function year_of :: "int \<Rightarrow> int \<Rightarrow> int \<times> int" where
  "year_of y d =
     (if d < 0 then year_of (y - 1) (d + year_len (y - 1))
      else if d < year_len y then (y, d)
      else year_of (y + 1) (d - year_len y))"
  by pat_completeness auto
termination
  by (relation "measure (\<lambda>(y, d). if d < 0 then nat (- d) + 400 else nat d)")
    (auto simp: year_len_def split: if_splits)

declare year_of.simps [simp del]

definition month_lens :: "int \<Rightarrow> int list" where
  "month_lens y = [31, if leap y then 29 else 28, 31, 30, 31, 30, 31, 31, 30, 31, 30, 31]"

fun month_of :: "int list \<Rightarrow> int \<Rightarrow> int \<Rightarrow> int \<times> int" where
  "month_of [] m d = (m, d + 1)"
| "month_of (l # ls) m d = (if d < l then (m, d + 1) else month_of ls (m + 1) (d - l))"

record civil =
  cv_year :: int
  cv_month :: int
  cv_day :: int
  cv_hour :: int
  cv_minute :: int

text \<open>\<open>tz t\<close> is the offset of local time from UTC at the instant \<open>t\<close>, in seconds.\<close>

definition civil_of :: "(int \<Rightarrow> int) \<Rightarrow> int \<Rightarrow> civil" where
  "civil_of tz t =
     (let l = t + tz t; (y, yd) = year_of 1970 (l div 86400); (m, d) = month_of (month_lens y) 1 yd
      in \<lparr>cv_year = y, cv_month = m, cv_day = d, cv_hour = l mod 86400 div 3600, cv_minute = l mod 3600 div 60\<rparr>)"

section \<open>Formatting\<close>

definition pad :: "nat \<Rightarrow> int \<Rightarrow> string" where
  "pad w n = (let s = fmt_nat (nat \<bar>n\<bar>)
              in (if n < 0 then ''-'' else []) @ replicate (w - length s) (CHR ''0'') @ s)"

text \<open>\<^verbatim>\<open>Format("200601021504")\<close>\<close>

definition format_minute :: "civil \<Rightarrow> string" where
  "format_minute c = pad 4 (cv_year c) @ pad 2 (cv_month c) @ pad 2 (cv_day c) @ pad 2 (cv_hour c) @ pad 2 (cv_minute c)"

end
