(* ===== verification/Simplestreams.thy ===== *)
theory Simplestreams
  imports Go_OS Go_Time Go_Crypto LXC_Images
begin

text \<open>
  The simplestreams index of \<^verbatim>\<open>internal/exp/simplestreams/index\<close>: opening or creating an index in a
  directory and importing container and virtual machine images into it.  The archive formats
  (zip, gzip, tar) and the YAML and JSON codecs of the documents are parameters; hashing and the file
  system are computed.
\<close>

section \<open>Documents and archives\<close>

text \<open>The fields of the documents that the source reads or writes.  A map that a document
  may lack is an option: assigning to it while it is nil panics.\<close>

record StreamIndex =
  si_DataType :: string
  si_Path :: string
  si_Format :: string
  si_Products :: "string list"

record Stream =
  strm_Format :: string
  strm_Index :: "StreamIndex gomap option"

record ProductVersionItem =
  FileType :: string
  HashSha256 :: string
  Size :: nat
  Path :: string
  CombinedSha256DiskKvmImg :: string
  CombinedSha256DiskImg :: string

record ProductVersion =
  pv_Items :: "ProductVersionItem gomap"

record Product =
  pr_Aliases :: string
  pr_Architecture :: string
  pr_OperatingSystem :: string
  pr_Release :: string
  pr_ReleaseTitle :: string
  pr_Variant :: string
  pr_Versions :: "ProductVersion gomap"

record Products =
  ps_ContentID :: string
  ps_DataType :: string
  ps_Format :: string
  ps_Products :: "Product gomap option"

record Index =
  ix_Index :: Stream
  ix_Products :: Products
  rootDir :: string

record ImportMetadata = ImageMetadata +
  md_CreationDate :: int

record tar_header =
  th_Name :: string
  th_Size :: nat

text \<open>
  A tar archive as its reader delivers it: entries whose content may fail to be read, and the error
  after them, nothing for the regular end.  The entries of a zip archive may fail to open or to be
  read.
\<close>

record tar_stream =
  ts_entries :: "(tar_header \<times> (go_error + string)) list"
  ts_end :: "go_error option"

record Archives =
  ar_Open :: "string \<Rightarrow> go_error + tar_stream"
  ar_WriteHeader :: "tar_header \<Rightarrow> go_error option"
  ar_Write :: "tar_header \<Rightarrow> string \<Rightarrow> go_error option"
  ar_CloseTar :: "(tar_header \<times> string) list \<Rightarrow> go_error option"
  ar_CloseGzip :: "(tar_header \<times> string) list \<Rightarrow> go_error option"
  ar_Pack :: "(tar_header \<times> string) list \<Rightarrow> string"
  ar_Zip :: "string \<Rightarrow> (string \<times> (go_error + (go_error + string))) list option"
  ar_Metadata :: "string \<Rightarrow> ImportMetadata \<Rightarrow> go_error + ImportMetadata"
  ar_MarshalIndex :: "Stream \<Rightarrow> go_error + string"
  ar_UnmarshalIndex :: "string \<Rightarrow> go_error + Stream"
  ar_MarshalProducts :: "Products \<Rightarrow> go_error + string"
  ar_UnmarshalProducts :: "string \<Rightarrow> go_error + Products"

text \<open>
  A document is decoded into a value that is there already: \<open>ar_Metadata\<close> takes the metadata so far.  What the program relies
  on is that a document that was written is read back as the same maps; they may be visited in another order.
\<close>

definition same_stream :: "Stream \<Rightarrow> Stream \<Rightarrow> bool" where
  "same_stream x y \<longleftrightarrow>
     strm_Format x = strm_Format y \<and> rel_option (\<lambda>m n. map_of m = map_of n) (strm_Index x) (strm_Index y)"

definition same_version :: "ProductVersion \<Rightarrow> ProductVersion \<Rightarrow> bool" where
  "same_version v w \<longleftrightarrow> map_of (pv_Items v) = map_of (pv_Items w)"

definition same_product :: "Product \<Rightarrow> Product \<Rightarrow> bool" where
  "same_product p q \<longleftrightarrow> q\<lparr>pr_Versions := pr_Versions p\<rparr> = p
     \<and> (\<forall>v. rel_option same_version (map_of (pr_Versions p) v) (map_of (pr_Versions q) v))"

definition same_products :: "Products \<Rightarrow> Products \<Rightarrow> bool" where
  "same_products x y \<longleftrightarrow> y\<lparr>ps_Products := ps_Products x\<rparr> = x
     \<and> rel_option (\<lambda>m n. \<forall>k. rel_option same_product (map_of m k) (map_of n k)) (ps_Products x) (ps_Products y)"

definition json_law :: "Archives \<Rightarrow> bool" where
  "json_law ar \<longleftrightarrow>
     (\<forall>x s. ar_MarshalIndex ar x = Inr s \<longrightarrow> (\<exists>y. ar_UnmarshalIndex ar s = Inr y \<and> same_stream x y))
   \<and> (\<forall>x s. ar_MarshalProducts ar x = Inr s \<longrightarrow> (\<exists>y. ar_UnmarshalProducts ar s = Inr y \<and> same_products x y))"

lemma same_documents_refl [simp]: "same_stream x x" "same_products y y"
  by (simp_all add: same_stream_def same_products_def same_product_def same_version_def option.rel_refl)

definition nil_map_panic :: go_error where
  "nil_map_panic = Err ''panic: assignment to entry in nil map''"

section \<open>File types\<close>

definition containerFTypeIncus :: string where "containerFTypeIncus = ''incus_combined.tar.gz''"
definition containerFTypeLXD :: string where "containerFTypeLXD = ''lxd_combined.tar.gz''"
definition vmMetadataFTypeIncus :: string where "vmMetadataFTypeIncus = ''incus.tar.xz''"
definition vmMetadataFTypeLXD :: string where "vmMetadataFTypeLXD = ''lxd.tar.xz''"
definition vmRootfsFTypeIncus :: string where "vmRootfsFTypeIncus = ''disk-kvm.img''"
definition vmRootfsFTypeLXD :: string where "vmRootfsFTypeLXD = ''disk1.img''"

lemmas ftype_defs = containerFTypeIncus_def containerFTypeLXD_def vmMetadataFTypeIncus_def
  vmMetadataFTypeLXD_def vmRootfsFTypeIncus_def vmRootfsFTypeLXD_def

section \<open>Opening an index\<close>

definition index_path :: "string \<Rightarrow> string" where
  "index_path root = Join_path [root, ''streams'', ''v1'', ''index.json'']"

definition images_path :: "string \<Rightarrow> string" where
  "images_path root = Join_path [root, ''streams'', ''v1'', ''images.json'']"

definition new_index :: Stream where
  "new_index = \<lparr>strm_Format = ''index:1.0'', strm_Index = Some
     [(''images'', \<lparr>si_DataType = ''image-downloads'', si_Path = ''streams/v1/images.json'',
                    si_Format = ''products:1.0'', si_Products = []\<rparr>)]\<rparr>"

definition new_products :: Products where
  "new_products = \<lparr>ps_ContentID = ''images'', ps_DataType = ''image-downloads'', ps_Format = ''products:1.0'',
     ps_Products = Some []\<rparr>"

text \<open>Read and parse a document; \<open>new\<close> when its file does not exist.\<close>

definition load_document :: "string \<Rightarrow> string \<Rightarrow> 'a \<Rightarrow> (string \<Rightarrow> go_error + 'a) \<Rightarrow> ('z, 'a) os_err" where
  "load_document path name new unmarshal =
     do { r \<leftarrow> ReadFile path;
          ret (case r of
            Inl err \<Rightarrow> if \<not> IsNotExist err then Inl (Errorf (''failed to read '' @ name @ '': '') err) else Inr new
          | Inr json \<Rightarrow> (case unmarshal json of
               Inl err \<Rightarrow> Inl (Errorf (''failed to parse '' @ name @ '': '') err)
             | Inr x \<Rightarrow> Inr x)) }"

definition GetOrCreateIndex :: "Archives \<Rightarrow> string \<Rightarrow> ('z, Index) os_err" where
  "GetOrCreateIndex ar dir =
     guard_err (if dir = '''' then Getwd else ret (Inr dir)) (Errorf ''failed to retrieve current directory: '')
       (\<lambda>root. guard_err (MkdirAll (Join_path [root, ''streams'', ''v1''])) (Errorf ''failed to create streams/v1 directory: '')
         (\<lambda>_. guard_err (MkdirAll (Join_path [root, ''images''])) (Errorf ''failed to create images directory: '')
           (\<lambda>_. guard_err (load_document (index_path root) ''streams/v1/index.json'' new_index (ar_UnmarshalIndex ar)) id
             (\<lambda>index. guard_err
                 (load_document (images_path root) ''streams/v1/images.json'' new_products (ar_UnmarshalProducts ar)) id
               (\<lambda>products. ret (Inr \<lparr>ix_Index = index, ix_Products = products, rootDir = root\<rparr>))))))"

section \<open>Image information\<close>

definition sha256 :: "string \<Rightarrow> string" where
  "sha256 c = EncodeToString (Sum256 (bytes_of_string c))"

record containerImageInfo =
  ci_Sha256 :: string
  ci_Size :: nat

definition getContainerImageInfo :: "string \<Rightarrow> ('z, containerImageInfo) os_err" where
  "getContainerImageInfo path =
     guard_err (Stat path) (Errorf ''failed to stat: '')
       (\<lambda>size. guard_err (Open path) (Errorf ''failed to open: '')
         (\<lambda>_. guard_err (ReadFile path) (Errorf ''failed to calculate sha256 sum: '')
           (\<lambda>c. ret (Inr \<lparr>ci_Sha256 = sha256 c, ci_Size = size\<rparr>))))"

record virtualMachineImageInfo =
  vi_MetaSize :: nat
  vi_MetaSha256 :: string
  vi_RootSize :: nat
  vi_RootSha256 :: string
  vi_CombinedSha256 :: string

text \<open>Writing to a hash never fails; the combined sum continues the one of the metadata.\<close>

definition getVirtualMachineImageInfo :: "string \<Rightarrow> string \<Rightarrow> go_error + virtualMachineImageInfo" where
  "getVirtualMachineImageInfo metadata rootfs =
     Inr \<lparr>vi_MetaSize = length metadata, vi_MetaSha256 = sha256 metadata, vi_RootSize = length rootfs,
          vi_RootSha256 = sha256 rootfs, vi_CombinedSha256 = sha256 (metadata @ rootfs)\<rparr>"

definition copyFile :: "string \<Rightarrow> string \<Rightarrow> ('z, unit) os_err" where
  "copyFile source destination =
     guard_err (Open source) (Errorf ''failed to open source: '')
       (\<lambda>_. guard_err (MkdirAll (Dir destination)) (Errorf ''failed to create directory for destination: '')
         (\<lambda>_. guard_err (Create_file destination) (Errorf ''failed to open destination: '')
           (\<lambda>_. guard_err (Copy_file destination source) (Errorf ''failed to copy file data: '')
             (\<lambda>n. guard_err (Truncate destination n) (Errorf ''failed to truncate output file: '')
               (\<lambda>_. guard_err (Close destination) (Errorf ''failed to flush file: '') (\<lambda>_. ret (Inr ())))))))"

section \<open>Adding a product version\<close>

definition prop_of :: "ImportMetadata \<Rightarrow> string \<Rightarrow> string" where
  "prop_of md k = get_str (md_Properties md) k"

definition productName :: "ImportMetadata \<Rightarrow> string" where
  "productName md =
     prop_of md ''os'' @ '':'' @ prop_of md ''release'' @ '':'' @ prop_of md ''variant'' @ '':'' @ prop_of md ''architecture''"

definition versionName :: "(int \<Rightarrow> int) \<Rightarrow> ImportMetadata \<Rightarrow> string" where
  "versionName tz md = format_minute (civil_of tz (md_CreationDate md))"

text \<open>Where a file of an image is kept: a directory per product, and a name made of a hash.\<close>

definition target :: "ImportMetadata \<Rightarrow> string \<Rightarrow> string" where
  "target md name = Join_path [''images'', prop_of md ''os'', prop_of md ''release'', prop_of md ''architecture'', name]"

definition zero_StreamIndex :: StreamIndex where
  "zero_StreamIndex = \<lparr>si_DataType = [], si_Path = [], si_Format = [], si_Products = []\<rparr>"

definition images_of :: "StreamIndex gomap \<Rightarrow> StreamIndex" where
  "images_of m = (case map_of m ''images'' of None \<Rightarrow> zero_StreamIndex | Some x \<Rightarrow> x)"

definition add_to_index :: "string \<Rightarrow> Stream \<Rightarrow> go_error + Stream" where
  "add_to_index name x =
     (case strm_Index x of
        None \<Rightarrow> Inl nil_map_panic
      | Some m \<Rightarrow>
          if name \<in> set (si_Products (images_of m)) then Inr x
          else Inr (x\<lparr>strm_Index := Some (map_set ''images''
                 ((images_of m)\<lparr>si_Products := sort (si_Products (images_of m) @ [name])\<rparr>) m)\<rparr>))"

definition new_product :: "ImportMetadata \<Rightarrow> string \<Rightarrow> Product" where
  "new_product md version =
     \<lparr>pr_Aliases = [], pr_Architecture = prop_of md ''architecture'', pr_OperatingSystem = prop_of md ''os'',
      pr_Release = prop_of md ''release'', pr_ReleaseTitle = prop_of md ''release'', pr_Variant = prop_of md ''variant'',
      pr_Versions = [(version, \<lparr>pv_Items = []\<rparr>)]\<rparr>"

definition add_items :: "ProductVersionItem list \<Rightarrow> ProductVersionItem gomap \<Rightarrow> ProductVersionItem gomap" where
  "add_items items m = foldl (\<lambda>m it. map_set (FileType it) it m) m items"

definition update_product :: "string list \<Rightarrow> string \<Rightarrow> ProductVersionItem list \<Rightarrow> Product \<Rightarrow> Product" where
  "update_product aliases version items product =
     (let product = (if length aliases > 0 then product\<lparr>pr_Aliases := Join aliases '',''\<rparr> else product);
          pv = (case map_of (pr_Versions product) version of None \<Rightarrow> \<lparr>pv_Items = []\<rparr> | Some pv \<Rightarrow> pv)
      in product\<lparr>pr_Versions := map_set version (pv\<lparr>pv_Items := add_items items (pv_Items pv)\<rparr>) (pr_Versions product)\<rparr>)"

definition add_to_products ::
  "ImportMetadata \<Rightarrow> string \<Rightarrow> string list \<Rightarrow> ProductVersionItem list \<Rightarrow> Products \<Rightarrow> go_error + Products" where
  "add_to_products md version aliases items x =
     (let name = productName md;
          product = (case map_of (case ps_Products x of None \<Rightarrow> [] | Some m \<Rightarrow> m) name of
                       None \<Rightarrow> new_product md version | Some p \<Rightarrow> p)
      in case ps_Products x of
           None \<Rightarrow> Inl nil_map_panic
         | Some m \<Rightarrow> Inr (x\<lparr>ps_Products := Some (map_set name (update_product aliases version items product) m)\<rparr>))"

definition add_version ::
  "(int \<Rightarrow> int) \<Rightarrow> ImportMetadata \<Rightarrow> string list \<Rightarrow> ProductVersionItem list \<Rightarrow> Index \<Rightarrow> go_error + Index" where
  "add_version tz md aliases items i =
     (case add_to_index (productName md) (ix_Index i) of
        Inl err \<Rightarrow> Inl err
      | Inr index \<Rightarrow>
          (case add_to_products md (versionName tz md) aliases items (ix_Products i) of
             Inl err \<Rightarrow> Inl err
           | Inr products \<Rightarrow> Inr (i\<lparr>ix_Index := index, ix_Products := products\<rparr>)))"

text \<open>Write one document, then the other.\<close>

definition write_document :: "string \<Rightarrow> string \<Rightarrow> (go_error + string) \<Rightarrow> ('z, unit) os_err" where
  "write_document path name json =
     guard_err (ret json) (Errorf (''failed to encode new '' @ name @ '': ''))
       (\<lambda>s. guard_err (WriteFile path s) (Errorf (''failed to write '' @ name @ '': '')) (\<lambda>_. ret (Inr ())))"

definition write_index :: "Archives \<Rightarrow> Index \<Rightarrow> ('z, unit) os_err" where
  "write_index ar i =
     guard_err (write_document (index_path (rootDir i)) ''streams/v1/index.json'' (ar_MarshalIndex ar (ix_Index i))) id
       (\<lambda>_. write_document (images_path (rootDir i)) ''streams/v1/images.json'' (ar_MarshalProducts ar (ix_Products i)))"

text \<open>
  The common course of the two imports: read the image, enter it into the index in memory, store
  its files, write the documents.  The index in memory is changed even when storing fails.
\<close>

definition import_with ::
  "('z, 'i) os_err \<Rightarrow> ('i \<Rightarrow> Index \<Rightarrow> go_error + Index) \<Rightarrow> ('i \<Rightarrow> ('z, unit) os_err) \<Rightarrow> Archives \<Rightarrow> Index
   \<Rightarrow> ('z, Index \<times> go_error option) os" where
  "import_with scan add store ar i =
     do { r \<leftarrow> scan;
          case r of
            Inl err \<Rightarrow> ret (i, Some err)
          | Inr img \<Rightarrow>
              (case add img i of
                 Inl err \<Rightarrow> ret (i, Some err)
               | Inr i' \<Rightarrow>
                   do { w \<leftarrow> guard_err (store img) id (\<lambda>_. write_index ar i');
                        ret (i', case w of Inl err \<Rightarrow> Some err | Inr _ \<Rightarrow> None) }) }"

section \<open>Container images\<close>

definition zero_metadata :: ImportMetadata where
  "zero_metadata = \<lparr>md_Architecture = [], md_Properties = [], md_Templates = [], md_CreationDate = 0\<rparr>"

definition read_metadata :: "Archives \<Rightarrow> go_error + string \<Rightarrow> ImportMetadata \<Rightarrow> go_error + ImportMetadata" where
  "read_metadata ar body metadata =
     (case body of
        Inl err \<Rightarrow> Inl (Errorf ''failed to read metadata.yaml from image: '' err)
      | Inr b \<Rightarrow> (case ar_Metadata ar b metadata of
           Inl err \<Rightarrow> Inl (Errorf ''failed to parse metadata.yaml from image: '' err)
         | Inr md \<Rightarrow> Inr md))"

fun find_metadata ::
  "Archives \<Rightarrow> go_error option \<Rightarrow> (tar_header \<times> (go_error + string)) list \<Rightarrow> go_error + ImportMetadata" where
  "find_metadata ar fin [] =
     (case fin of None \<Rightarrow> Inr zero_metadata | Some err \<Rightarrow> Inl (Errorf ''failed to read tar.gz archive: '' err))"
| "find_metadata ar fin ((hdr, body) # rest) =
     (if th_Name hdr = ''metadata.yaml'' then read_metadata ar body zero_metadata else find_metadata ar fin rest)"

definition open_archive :: "Archives \<Rightarrow> string \<Rightarrow> ('z, tar_stream) os_err" where
  "open_archive ar path =
     guard_err (Open path) (Errorf ''failed to open: '')
       (\<lambda>_. do { c \<leftarrow> ReadFile path;
                 ret (case c of
                   Inl err \<Rightarrow> Inl (Errorf ''failed to open tar.gz archive: '' err)
                 | Inr b \<Rightarrow> (case ar_Open ar b of
                      Inl err \<Rightarrow> Inl (Errorf ''failed to open tar.gz archive: '' err)
                    | Inr t \<Rightarrow> Inr t)) })"

definition scan_container :: "Archives \<Rightarrow> string \<Rightarrow> ('z, ImportMetadata \<times> containerImageInfo) os_err" where
  "scan_container ar path =
     guard_err (open_archive ar path) id
       (\<lambda>t. guard_err (ret (find_metadata ar (ts_end t) (ts_entries t))) id
         (\<lambda>md. if md_Architecture md = '''' then ret (Inl (Err ''no metadata.yaml found for image''))
                else guard_err (getContainerImageInfo path) (Errorf ''failed to retrieve image information: '')
                       (\<lambda>info. ret (Inr (md, info)))))"

definition container_target :: "ImportMetadata \<Rightarrow> containerImageInfo \<Rightarrow> string" where
  "container_target md info = target md (ci_Sha256 info @ ''.incus_combined.tar.gz'')"

definition container_items :: "bool \<Rightarrow> bool \<Rightarrow> ImportMetadata \<times> containerImageInfo \<Rightarrow> ProductVersionItem list" where
  "container_items incus lxd = (\<lambda>(md, info).
     let item = (\<lambda>ftype. \<lparr>FileType = ftype, HashSha256 = ci_Sha256 info, Size = ci_Size info,
                          Path = container_target md info,
                          CombinedSha256DiskKvmImg = [], CombinedSha256DiskImg = []\<rparr>)
     in (if incus then [item containerFTypeIncus] else []) @ (if lxd then [item containerFTypeLXD] else []))"

definition store_container :: "string \<Rightarrow> string \<Rightarrow> ImportMetadata \<times> containerImageInfo \<Rightarrow> ('z, unit) os_err" where
  "store_container root imagePath = (\<lambda>(md, info).
     guard_err (copyFile imagePath (Join_path [root, container_target md info]))
       (Errorf ''failed to copy image file: '') (\<lambda>_. ret (Inr ())))"

definition importContainerUnifiedTarball ::
  "Archives \<Rightarrow> (int \<Rightarrow> int) \<Rightarrow> Index \<Rightarrow> string \<Rightarrow> string list \<Rightarrow> bool \<Rightarrow> bool \<Rightarrow> ('z, Index \<times> go_error option) os" where
  "importContainerUnifiedTarball ar tz i imagePath aliases incus lxd =
     import_with (scan_container ar imagePath)
       (\<lambda>img. add_version tz (fst img) aliases (container_items incus lxd img))
       (store_container (rootDir i) imagePath) ar i"

section \<open>Virtual machine images\<close>

text \<open>The metadata archive is rebuilt from the entries that belong to it.\<close>

record vm_parts =
  vp_metadata :: ImportMetadata
  vp_rootfs :: string
  vp_archive :: "(tar_header \<times> string) list"

definition write_entry ::
  "Archives \<Rightarrow> tar_header \<Rightarrow> string \<Rightarrow> (go_error \<Rightarrow> go_error) \<Rightarrow> (go_error \<Rightarrow> go_error) \<Rightarrow> vm_parts \<Rightarrow> go_error + vm_parts" where
  "write_entry ar hdr b header_failed write_failed acc =
     (case ar_WriteHeader ar hdr of
        Some err \<Rightarrow> Inl (header_failed err)
      | None \<Rightarrow> (case ar_Write ar hdr b of
           Some err \<Rightarrow> Inl (write_failed err)
         | None \<Rightarrow> Inr (acc\<lparr>vp_archive := vp_archive acc @ [(hdr, b)]\<rparr>)))"

definition vm_entry :: "Archives \<Rightarrow> tar_header \<times> (go_error + string) \<Rightarrow> vm_parts \<Rightarrow> go_error + vm_parts" where
  "vm_entry ar = (\<lambda>(hdr, body) acc.
     if th_Name hdr = ''metadata.yaml'' then
       (case read_metadata ar body (vp_metadata acc) of
          Inl err \<Rightarrow> Inl err
        | Inr md \<Rightarrow> write_entry ar hdr (projr body)
            (Errorf ''failed to write header for metadata.yaml: '') (Errorf ''failed to write metadata.yaml: '')
            (acc\<lparr>vp_metadata := md\<rparr>))
     else if HasPrefix (th_Name hdr) ''templates/'' then
       (case ar_WriteHeader ar hdr of
          Some err \<Rightarrow> Inl (Errorf (''failed to write header for '' @ quote (th_Name hdr) @ '': '') err)
        | None \<Rightarrow> (case body of
             Inl err \<Rightarrow> Inl (Errorf (''failed to write '' @ quote (th_Name hdr) @ '': '') err)
           | Inr b \<Rightarrow> write_entry ar hdr b id (Errorf (''failed to write '' @ quote (th_Name hdr) @ '': '')) acc))
     else if th_Name hdr = ''rootfs.img'' then
       (case body of
          Inl err \<Rightarrow> Inl (Errorf ''failed to read rootfs.img from image: '' err)
        | Inr b \<Rightarrow> Inr (acc\<lparr>vp_rootfs := b\<rparr>))
     else Inr acc)"

fun vm_entries ::
  "Archives \<Rightarrow> go_error option \<Rightarrow> (tar_header \<times> (go_error + string)) list \<Rightarrow> vm_parts \<Rightarrow> go_error + vm_parts" where
  "vm_entries ar fin [] acc =
     (case fin of None \<Rightarrow> Inr acc | Some err \<Rightarrow> Inl (Errorf ''failed to read tar.gz archive: '' err))"
| "vm_entries ar fin (e # rest) acc =
     (case vm_entry ar e acc of Inl err \<Rightarrow> Inl err | Inr acc \<Rightarrow> vm_entries ar fin rest acc)"

record vm_image =
  vm_metadata :: ImportMetadata
  vm_outMetadata :: string
  vm_outRootfs :: string
  vm_info :: virtualMachineImageInfo

definition split_image :: "Archives \<Rightarrow> tar_stream \<Rightarrow> go_error + vm_image" where
  "split_image ar t =
     (case vm_entries ar (ts_end t) (ts_entries t) \<lparr>vp_metadata = zero_metadata, vp_rootfs = [], vp_archive = []\<rparr> of
        Inl err \<Rightarrow> Inl err
      | Inr p \<Rightarrow>
         (case ar_CloseTar ar (vp_archive p) of
            Some err \<Rightarrow> Inl (Errorf ''failed to generate metadata.tar: '' err)
          | None \<Rightarrow>
         (case ar_CloseGzip ar (vp_archive p) of
            Some err \<Rightarrow> Inl (Errorf ''failed to generate metadata.tar.gz: '' err)
          | None \<Rightarrow>
             let outMetadata = ar_Pack ar (vp_archive p)
             in if length outMetadata = 0 then Inl (Err ''no metadata found in image'')
                else if length (vp_rootfs p) = 0 then Inl (Err ''no rootfs.img found in image'')
                else if md_Architecture (vp_metadata p) = '''' then Inl (Err ''no metadata.yaml found in image'')
                else case getVirtualMachineImageInfo outMetadata (vp_rootfs p) of
                  Inl err \<Rightarrow> Inl (Errorf ''failed to calculate size and sha256 of virtual machine image: '' err)
                | Inr info \<Rightarrow> Inr \<lparr>vm_metadata = vp_metadata p, vm_outMetadata = outMetadata,
                                  vm_outRootfs = vp_rootfs p, vm_info = info\<rparr>)))"

text \<open>Both files are named after the hash of the metadata.\<close>

definition metadata_target :: "vm_image \<Rightarrow> string" where
  "metadata_target v = target (vm_metadata v) (vi_MetaSha256 (vm_info v) @ ''.incus.tar.xz'')"

definition rootfs_target :: "vm_image \<Rightarrow> string" where
  "rootfs_target v = target (vm_metadata v) (vi_MetaSha256 (vm_info v) @ ''.disk-kvm.img'')"

definition scan_vm :: "Archives \<Rightarrow> string \<Rightarrow> string \<Rightarrow> ('z, vm_image) os_err" where
  "scan_vm ar root path =
     guard_err (open_archive ar path) id
       (\<lambda>t. guard_err (ret (split_image ar t)) id
         (\<lambda>v. guard_err (MkdirAll (Join_path [root, Dir (rootfs_target v)]))
                (Errorf ''failed to create images directory: '')
                (\<lambda>_. ret (Inr v))))"

definition vm_items :: "bool \<Rightarrow> bool \<Rightarrow> vm_image \<Rightarrow> ProductVersionItem list" where
  "vm_items incus lxd v =
     (let info = vm_info v;
          rootfs = (\<lambda>ftype. \<lparr>FileType = ftype, HashSha256 = vi_RootSha256 info, Size = vi_RootSize info,
                            Path = rootfs_target v, CombinedSha256DiskKvmImg = [], CombinedSha256DiskImg = []\<rparr>);
          metadata = (\<lambda>ftype kvm img. \<lparr>FileType = ftype, HashSha256 = vi_MetaSha256 info, Size = vi_MetaSize info,
                            Path = metadata_target v, CombinedSha256DiskKvmImg = kvm, CombinedSha256DiskImg = img\<rparr>)
      in (if incus then [rootfs vmRootfsFTypeIncus, metadata vmMetadataFTypeIncus (vi_CombinedSha256 info) []] else [])
         @ (if lxd then [rootfs vmRootfsFTypeLXD, metadata vmMetadataFTypeLXD [] (vi_CombinedSha256 info)] else []))"

definition store_vm :: "string \<Rightarrow> vm_image \<Rightarrow> ('z, unit) os_err" where
  "store_vm root v =
     guard_err (WriteFile (Join_path [root, rootfs_target v]) (vm_outRootfs v)) (Errorf ''failed to write rootfs: '')
       (\<lambda>_. guard_err (WriteFile (Join_path [root, metadata_target v]) (vm_outMetadata v))
          (Errorf ''failed to write metadata: '') (\<lambda>_. ret (Inr ())))"

definition importVirtualMachineUnifiedTarball ::
  "Archives \<Rightarrow> (int \<Rightarrow> int) \<Rightarrow> Index \<Rightarrow> string \<Rightarrow> string list \<Rightarrow> bool \<Rightarrow> bool \<Rightarrow> ('z, Index \<times> go_error option) os" where
  "importVirtualMachineUnifiedTarball ar tz i imagePath aliases incus lxd =
     import_with (scan_vm ar (rootDir i) imagePath)
       (\<lambda>v. add_version tz (vm_metadata v) aliases (vm_items incus lxd v))
       (store_vm (rootDir i)) ar i"

section \<open>Importing\<close>

text \<open>
  A zip archive with a single tarball is extracted into a temporary directory; the answer is the
  path of the tarball and the directory.
\<close>

definition maybeExtractUnifiedTarballFromZIP :: "Archives \<Rightarrow> string \<Rightarrow> ('z, (string \<times> string) option) os_err" where
  "maybeExtractUnifiedTarballFromZIP ar path =
     (if \<not> HasSuffix path ''.zip'' then ret (Inr None)
      else do { c \<leftarrow> ReadFile path;
        case c of
          Inl _ \<Rightarrow> ret (Inr None)
        | Inr b \<Rightarrow>
           (case ar_Zip ar b of
              Some [(name, entry)] \<Rightarrow>
                if \<not> HasSuffix name ''.tar.gz'' then ret (Inr None)
                else guard_err (ret entry) (Errorf ''failed to read unified tarball from zip file: '')
                  (\<lambda>text. guard_err MkdirTemp (Errorf ''failed to create temporary directory: '')
                    (\<lambda>tmpDir. let ofName = Join_path [tmpDir, ''image.tar.gz'']
                       in guard_err (Create_file ofName) (Errorf ''failed to create temporary file: '')
                         (\<lambda>_. guard_err (case text of Inl e \<Rightarrow> ret (Inl e) | Inr t \<Rightarrow> Copy_text ofName t)
                            (Errorf ''failed to extract unified tarball: '')
                            (\<lambda>_. ret (Inr (Some (ofName, tmpDir)))))))
            | _ \<Rightarrow> ret (Inr None)) })"

definition import_type ::
  "Archives \<Rightarrow> (int \<Rightarrow> int) \<Rightarrow> Index \<Rightarrow> string \<Rightarrow> string \<Rightarrow> string list \<Rightarrow> bool \<Rightarrow> bool \<Rightarrow> ('z, Index \<times> go_error option) os" where
  "import_type ar tz i imageType imagePath aliases incus lxd =
     (if imageType = Container then importContainerUnifiedTarball ar tz i imagePath aliases incus lxd
      else if imageType = VirtualMachine then importVirtualMachineUnifiedTarball ar tz i imagePath aliases incus lxd
      else ret (i, Some (Err (''unknown image type '' @ quote imageType))))"

definition ImportImage ::
  "Archives \<Rightarrow> (int \<Rightarrow> int) \<Rightarrow> Index \<Rightarrow> string \<Rightarrow> string \<Rightarrow> string list \<Rightarrow> bool \<Rightarrow> bool \<Rightarrow> ('z, Index \<times> go_error option) os" where
  "ImportImage ar tz i imageType imagePath aliases incus lxd =
     do { r \<leftarrow> maybeExtractUnifiedTarballFromZIP ar imagePath;
          case r of
            Inl err \<Rightarrow> ret (i, Some (Errorf ''failed to extract unified tarball from archive: '' err))
          | Inr None \<Rightarrow> import_type ar tz i imageType imagePath aliases incus lxd
          | Inr (Some (tarballPath, tmpDir)) \<Rightarrow>
              do { res \<leftarrow> import_type ar tz i imageType tarballPath aliases incus lxd;
                   _ \<leftarrow> RemoveAll tmpDir;
                   ret res } }"

section \<open>The catalog an index stands for\<close>

text \<open>
  Seen from outside, an index is a finite map from product, version and file type to an item.
  Publishing an image gives one version new items and changes nothing else.
\<close>

type_synonym catalog = "string \<Rightarrow> string \<Rightarrow> string \<rightharpoonup> ProductVersionItem"

definition products_of :: "Index \<Rightarrow> Product gomap" where
  "products_of i = (case ps_Products (ix_Products i) of None \<Rightarrow> [] | Some m \<Rightarrow> m)"

definition catalog :: "Index \<Rightarrow> catalog" where
  "catalog i p v f =
     Option.bind (map_of (products_of i) p)
       (\<lambda>pr. Option.bind (map_of (pr_Versions pr) v) (\<lambda>pv. map_of (pv_Items pv) f))"

definition by_type :: "ProductVersionItem list \<Rightarrow> string \<rightharpoonup> ProductVersionItem" where
  "by_type items = map_of (map (\<lambda>it. (FileType it, it)) items)"

definition publish :: "string \<Rightarrow> string \<Rightarrow> ProductVersionItem list \<Rightarrow> catalog \<Rightarrow> catalog" where
  "publish p v items c = c(p := (c p)(v := c p v ++ by_type items))"

text \<open>The products that the index document lists.\<close>

definition listed :: "Index \<Rightarrow> string list" where
  "listed i = (case strm_Index (ix_Index i) of None \<Rightarrow> [] | Some m \<Rightarrow> si_Products (images_of m))"

definition same_index :: "Index \<Rightarrow> Index \<Rightarrow> bool" where
  "same_index i j \<longleftrightarrow> rootDir i = rootDir j \<and> same_stream (ix_Index i) (ix_Index j) \<and> same_products (ix_Products i) (ix_Products j)"

lemma same_index_listed: "same_index i j \<Longrightarrow> listed i = listed j"
  by (auto simp: same_index_def same_stream_def listed_def images_of_def option_rel_Some1 option_rel_Some2 split: option.splits)

lemma same_index_catalog:
  assumes "same_index i j"
  shows "catalog i = catalog j"
proof -
  have "rel_option same_product (map_of (products_of i) p) (map_of (products_of j) p)" for p
    using assms by (cases "ps_Products (ix_Products i)"; cases "ps_Products (ix_Products j)")
      (auto simp: same_index_def same_products_def products_of_def)
  then have "catalog i p v f = catalog j p v f" for p v f
    by (rule option.rel_cases [of same_product "map_of (products_of i) p" "map_of (products_of j) p"])
      (auto simp: catalog_def same_product_def same_version_def option.rel_sel Option.bind_eq_None_conv
         split: option.split bind_splits elim!: allE [of _ v])
  then show ?thesis by (intro ext) simp
qed

lemma map_of_add_items:
  "distinct (map FileType items) \<Longrightarrow> map_of (add_items items m) = map_of m ++ by_type items"
proof (induction items arbitrary: m)
  case (Cons it items)
  then have "by_type items (FileType it) = None"
    by (auto simp: by_type_def map_of_eq_None_iff image_iff)
  with Cons show ?case
    by (auto simp: add_items_def by_type_def fun_eq_iff map_add_def split: option.splits)
qed (simp add: add_items_def by_type_def)

lemma keys_add_items: "fst ` set (add_items items m) = fst ` set m \<union> FileType ` set items"
  by (induction items arbitrary: m) (auto simp: add_items_def)

lemma wf_add_items: "wf_map m \<Longrightarrow> wf_map (add_items items m)"
  by (induction items arbitrary: m) (auto simp: add_items_def)

text \<open>The refinement: entering a version into the index publishes its items.\<close>

lemma add_to_products_catalog:
  assumes "add_to_products md v aliases items x = Inr y" and "distinct (map FileType items)"
  shows "catalog (i\<lparr>ix_Products := y\<rparr>) = publish (productName md) v items (catalog (i\<lparr>ix_Products := x\<rparr>))"
proof -
  obtain m where m: "ps_Products x = Some m"
    using assms(1) by (auto simp: add_to_products_def Let_def split: option.splits)
  with assms(1) have y: "ps_Products y = Some (map_set (productName md) (update_product aliases v items
      (case map_of m (productName md) of None \<Rightarrow> new_product md v | Some p \<Rightarrow> p)) m)"
    by (auto simp: add_to_products_def Let_def)
  show ?thesis
    using assms(2)
    by (auto simp: fun_eq_iff catalog_def publish_def products_of_def m y update_product_def new_product_def Let_def
        map_of_add_items map_add_def split: option.splits)
qed

lemma add_version_catalog:
  assumes "add_version tz md aliases items i = Inr i'" and "distinct (map FileType items)"
  shows "catalog i' = publish (productName md) (versionName tz md) items (catalog i)"
proof -
  obtain x y where xy: "add_to_products md (versionName tz md) aliases items (ix_Products i) = Inr y"
      "i' = i\<lparr>ix_Index := x, ix_Products := y\<rparr>"
    using assms(1) by (auto simp: add_version_def split: sum.splits)
  have "catalog (i\<lparr>ix_Index := x, ix_Products := z\<rparr>) = catalog (i\<lparr>ix_Products := z\<rparr>)" for z
    by (simp add: catalog_def fun_eq_iff products_of_def)
  then show ?thesis using add_to_products_catalog [OF xy(1) assms(2), of i] xy(2) by simp
qed

lemma add_version_root: "add_version tz md aliases items i = Inr i' \<Longrightarrow> rootDir i' = rootDir i"
  by (auto simp: add_version_def split: sum.splits)

subsection \<open>Well-formed indices\<close>

text \<open>
  The index document lists the products of the other document, in order and without repetition;
  an item is kept under its own file type; the maps that an import assigns to are there.
\<close>

definition version_ok :: "ProductVersion \<Rightarrow> bool" where
  "version_ok pv \<longleftrightarrow> wf_map (pv_Items pv) \<and> (\<forall>(f, it) \<in> set (pv_Items pv). FileType it = f)"

definition product_ok :: "Product \<Rightarrow> bool" where
  "product_ok p \<longleftrightarrow> wf_map (pr_Versions p) \<and> (\<forall>(v, pv) \<in> set (pr_Versions p). version_ok pv)"

definition index_ok :: "Index \<Rightarrow> bool" where
  "index_ok i \<longleftrightarrow>
     strm_Index (ix_Index i) \<noteq> None \<and> ps_Products (ix_Products i) \<noteq> None
   \<and> sorted (listed i) \<and> distinct (listed i) \<and> set (listed i) = fst ` set (products_of i)
   \<and> wf_map (products_of i) \<and> (\<forall>(n, p) \<in> set (products_of i). product_ok p)"

lemma set_map_set: "set (map_set k v m) \<subseteq> insert (k, v) (set m)"
  by (induction k v m rule: map_set.induct) auto

lemma add_items_ok:
  assumes "\<forall>(f, it) \<in> set m. FileType it = f"
  shows "\<forall>(f, it) \<in> set (add_items items m). FileType it = f"
  using assms
proof (induction items arbitrary: m)
  case (Cons it items)
  have "\<forall>(f, x) \<in> set (map_set (FileType it) it m). FileType x = f"
    using Cons.prems set_map_set [of "FileType it" it m] by fastforce
  from Cons.IH [OF this] show ?case by (simp add: add_items_def)
qed (simp add: add_items_def)

lemma empty_version_ok: "version_ok \<lparr>pv_Items = []\<rparr>"
  by (simp add: version_ok_def)

lemma add_items_version_ok:
  "version_ok pv \<Longrightarrow> version_ok (pv\<lparr>pv_Items := add_items items (pv_Items pv)\<rparr>)"
  using add_items_ok [of "pv_Items pv" items] by (simp add: version_ok_def wf_add_items)

lemma update_product_ok:
  assumes "product_ok p"
  shows "product_ok (update_product aliases v items p)"
proof -
  let ?pv = "case map_of (pr_Versions p) v of None \<Rightarrow> \<lparr>pv_Items = []\<rparr> | Some pv \<Rightarrow> pv"
  have "version_ok ?pv"
    using assms empty_version_ok by (auto simp: product_ok_def split: option.splits dest: map_of_SomeD)
  then have "version_ok (?pv\<lparr>pv_Items := add_items items (pv_Items ?pv)\<rparr>)"
    by (rule add_items_version_ok)
  then have "product_ok (p\<lparr>pr_Versions := map_set v (?pv\<lparr>pv_Items := add_items items (pv_Items ?pv)\<rparr>) (pr_Versions p)\<rparr>)"
    using assms set_map_set [of v _ "pr_Versions p"] by (fastforce simp: product_ok_def)
  then show ?thesis
    by (auto simp: update_product_def Let_def product_ok_def)
qed

lemma new_product_ok: "product_ok (new_product md v)"
  by (simp add: product_ok_def new_product_def version_ok_def wf_map_def)

lemma add_to_index_listed:
  assumes "add_to_index n x = Inr y" and "sorted (listed (i\<lparr>ix_Index := x\<rparr>))" and "distinct (listed (i\<lparr>ix_Index := x\<rparr>))"
  shows "sorted (listed (i\<lparr>ix_Index := y\<rparr>)) \<and> distinct (listed (i\<lparr>ix_Index := y\<rparr>))
       \<and> set (listed (i\<lparr>ix_Index := y\<rparr>)) = insert n (set (listed (i\<lparr>ix_Index := x\<rparr>))) \<and> strm_Index y \<noteq> None"
proof -
  obtain m where m: "strm_Index x = Some m"
    using assms(1) by (cases "strm_Index x") (auto simp: add_to_index_def)
  then have l: "listed (i\<lparr>ix_Index := x\<rparr>) = si_Products (images_of m)" by (simp add: listed_def)
  show ?thesis
  proof (cases "n \<in> set (si_Products (images_of m))")
    case True
    with assms m l show ?thesis by (auto simp: add_to_index_def)
  next
    case False
    with assms(1) m have "listed (i\<lparr>ix_Index := y\<rparr>) = sort (si_Products (images_of m) @ [n])" and "strm_Index y \<noteq> None"
      by (auto simp: add_to_index_def listed_def images_of_def)
    with assms l False show ?thesis by simp
  qed
qed

lemma add_version_ok:
  assumes ok: "index_ok i"
  obtains i' where "add_version tz md aliases items i = Inr i'" and "index_ok i'"
    and "set (listed i') = insert (productName md) (set (listed i))"
proof -
  obtain m ps where m: "strm_Index (ix_Index i) = Some m" and ps: "ps_Products (ix_Products i) = Some ps"
    using ok by (auto simp: index_ok_def)
  obtain x where x: "add_to_index (productName md) (ix_Index i) = Inr x"
    using m by (cases "productName md \<in> set (si_Products (images_of m))") (auto simp: add_to_index_def)
  let ?p = "update_product aliases (versionName tz md) items
    (case map_of ps (productName md) of None \<Rightarrow> new_product md (versionName tz md) | Some p \<Rightarrow> p)"
  let ?y = "(ix_Products i)\<lparr>ps_Products := Some (map_set (productName md) ?p ps)\<rparr>"
  let ?i = "i\<lparr>ix_Index := x, ix_Products := ?y\<rparr>"
  have run: "add_version tz md aliases items i = Inr ?i"
    by (simp add: add_version_def x add_to_products_def ps Let_def split: option.splits)
  have "product_ok (case map_of ps (productName md) of None \<Rightarrow> new_product md (versionName tz md) | Some p \<Rightarrow> p)"
    using ok ps by (auto simp: index_ok_def products_of_def new_product_ok split: option.splits dest: map_of_SomeD)
  then have p: "product_ok ?p" by (rule update_product_ok)
  have "listed ?i = listed (i\<lparr>ix_Index := x\<rparr>)" by (simp add: listed_def)
  then have l: "sorted (listed ?i) \<and> distinct (listed ?i) \<and> set (listed ?i) = insert (productName md) (set (listed i))
      \<and> strm_Index x \<noteq> None"
    using add_to_index_listed [OF x, of i] ok by (simp add: index_ok_def)
  have "index_ok ?i"
    using ok l ps p set_map_set [of "productName md" ?p ps] by (fastforce simp: index_ok_def products_of_def)
  with run l show thesis by (intro that) auto
qed

text \<open>A new index is well formed.\<close>

lemma new_index_ok: "index_ok \<lparr>ix_Index = new_index, ix_Products = new_products, rootDir = root\<rparr>"
  by (simp add: index_ok_def new_index_def new_products_def listed_def images_of_def products_of_def)

end
