(* ===== verification/Simplestreams_Import.thy ===== *)
theory Simplestreams_Import
  imports Simplestreams
begin

text \<open>
  What importing an image into a simplestreams index does to the index and to the disk.  The
  container and the virtual machine import share one course; the locale \<open>importer\<close> states what the
  course needs of reading an image and of storing its files, and both imports interpret it.
\<close>

section \<open>Files and documents\<close>

text \<open>An item is stored when its file has the hash and the size it announces.\<close>

type_synonym file_view = "string \<Rightarrow> string option"

definition item_path :: "string \<Rightarrow> ProductVersionItem \<Rightarrow> string" where
  "item_path root it = Join_path [root, Path it]"

definition stored :: "string \<Rightarrow> file_view \<Rightarrow> ProductVersionItem \<Rightarrow> bool" where
  "stored root fs it \<longleftrightarrow>
     (case fs (item_path root it) of None \<Rightarrow> False | Some c \<Rightarrow> sha256 c = HashSha256 it \<and> length c = Size it)"

text \<open>Both documents of an index are on the disk.\<close>

definition written :: "Archives \<Rightarrow> Index \<Rightarrow> file_view \<Rightarrow> bool" where
  "written ar i fs \<longleftrightarrow>
     (case (ar_MarshalIndex ar (ix_Index i), ar_MarshalProducts ar (ix_Products i)) of
        (Inr a, Inr b) \<Rightarrow> fs (index_path (rootDir i)) = Some a \<and> fs (images_path (rootDir i)) = Some b
      | _ \<Rightarrow> False)"

text \<open>The names of the documents, and of the files of images.\<close>

lemma last_elem_documents [simp]:
  "last_elem (index_path root) = ''index.json''" "last_elem (images_path root) = ''images.json''"
  using last_elem_Join_path [of "''index.json''" "''index.json''" "[root, ''streams'', ''v1'']"]
    last_elem_Join_path [of "''images.json''" "''images.json''" "[root, ''streams'', ''v1'']"]
  by (simp_all add: index_path_def images_path_def)

lemma documents_differ [simp]: "index_path root \<noteq> images_path root" "images_path root \<noteq> index_path root"
  by (rule notI, drule arg_cong [where f = last_elem], simp)+

lemma sha256_no_slash [simp]: "CHR ''/'' \<notin> set (sha256 c)"
  using set_EncodeToString [of "Sum256 (bytes_of_string c)"] by (auto simp: sha256_def)

lemma length_sha256 [simp]: "length (sha256 c) = 64"
  by (simp add: sha256_def)

lemma last_elem_target:
  assumes "CHR ''/'' \<notin> set n" and "length n > 2"
  shows "last_elem (target md n) = n" and "last_elem (Join_path [root, target md n]) = n"
proof -
  have n: "n \<notin> {'''', ''.'', ''..''}" using assms(2) by auto
  show t: "last_elem (target md n) = n"
    using last_elem_Join_path [of n n "[''images'', prop_of md ''os'', prop_of md ''release'', prop_of md ''architecture'']"]
      assms n by (simp add: target_def)
  show "last_elem (Join_path [root, target md n]) = n"
    using last_elem_Join_path [of "target md n" n "[root]"] assms n t by simp
qed

lemma hash_name_not_document:
  "sha256 c @ x \<noteq> ''index.json''" "sha256 c @ x \<noteq> ''images.json''" "sha256 c @ x \<noteq> ''image.tar.gz''"
  by (auto dest: arg_cong [where f = length])

section \<open>Writing the documents\<close>

lemma touches_write_index [touches_intros]:
  "P (index_path (rootDir i)) \<Longrightarrow> P (images_path (rootDir i)) \<Longrightarrow> touches P (write_index ar i)"
  unfolding write_index_def write_document_def by (intro touches_intros)

lemma write_index_result:
  assumes "run_state (write_index ar i) d = (w, d')"
  shows "case w of
      Inr _ \<Rightarrow> written ar i (contents d')
    | Inl err \<Rightarrow> contents d' (images_path (rootDir i)) = contents d (images_path (rootDir i))
              \<or> (\<exists>a. ar_MarshalIndex ar (ix_Index i) = Inr a \<and> contents d' (index_path (rootDir i)) = Some a)"
proof -
  have "wp (write_index ar i) (\<lambda>w d'. case w of
      Inr _ \<Rightarrow> written ar i (contents d')
    | Inl err \<Rightarrow> contents d' (images_path (rootDir i)) = contents d (images_path (rootDir i))
              \<or> (\<exists>a. ar_MarshalIndex ar (ix_Index i) = Inr a \<and> contents d' (index_path (rootDir i)) = Some a)) d"
    by (auto simp: write_index_def write_document_def wp_simps os_defs disk_simps written_def
        split: sum.splits option.splits prod.splits)
  then show ?thesis using assms by (rule wpD)
qed

section \<open>The course of an import\<close>

lemma import_with_cases:
  assumes "run_state (import_with scan add store ar i) d = ((i', e), d')"
  obtains (scan) err where "run_state scan d = (Inl err, d')" and "i' = i" and "e = Some err"
  | (add) img err where "run_state scan d = (Inr img, d')" and "add img i = Inl err" and "i' = i" and "e = Some err"
  | (store) img d1 err where "run_state scan d = (Inr img, d1)" and "add img i = Inr i'"
      and "run_state (store img) d1 = (Inl err, d')" and "e = Some err"
  | (documents) img d1 d2 w where "run_state scan d = (Inr img, d1)" and "add img i = Inr i'"
      and "run_state (store img) d1 = (Inr (), d2)" and "run_state (write_index ar i') d2 = (w, d')"
      and "e = (case w of Inl err \<Rightarrow> Some err | Inr _ \<Rightarrow> None)"
  using assms
  by (auto simp: import_with_def run_state_guard_err split: prod.splits sum.splits)

text \<open>
  Reading an image changes nothing on the disk; storing it changes only its own files, none of them a document,
  and leaves its items stored when the image is not read from one of them.
\<close>

locale importer =
  fixes scan :: "('z, 'i) os_err"
    and md_of :: "'i \<Rightarrow> ImportMetadata"
    and items_of :: "'i \<Rightarrow> ProductVersionItem list"
    and store :: "'i \<Rightarrow> ('z, unit) os_err"
    and root :: string
    and files_of :: "'i \<Rightarrow> string set"
    and valid :: "file_view \<Rightarrow> 'i \<Rightarrow> bool"
    and apart :: "'i \<Rightarrow> bool"
  assumes scan_quiet: "touches (\<lambda>_. False) scan"
    and scan_valid: "run_state scan d = (Inr img, d') \<Longrightarrow> valid (contents d) img"
    and items_distinct: "distinct (map FileType (items_of img))"
    and store_touches: "touches (\<lambda>p. p \<in> files_of img) (store img)"
    and files_named: "valid fs img \<Longrightarrow> p \<in> files_of img \<Longrightarrow> last_elem p \<noteq> ''index.json'' \<and> last_elem p \<noteq> ''images.json''"
    and store_stored: "valid (contents d) img \<Longrightarrow> apart img \<Longrightarrow> run_state (store img) d = (Inr (), d') \<Longrightarrow>
      it \<in> set (items_of img) \<Longrightarrow> stored root (contents d') it"
    and items_files: "valid fs img \<Longrightarrow> it \<in> set (items_of img) \<Longrightarrow> item_path root it \<in> files_of img"
begin

lemma scan_contents: "run_state scan d = (r, d') \<Longrightarrow> contents d' = contents d"
  using touchesD(1) [OF scan_quiet] by (auto simp: fun_eq_iff)

lemma store_documents:
  assumes "valid fs img" and "run_state (store img) d = (r, d')"
  shows "contents d' (index_path root) = contents d (index_path root)"
    and "contents d' (images_path root) = contents d (images_path root)"
  using touchesD(1) [OF store_touches assms(2)] files_named [OF assms(1)] last_elem_documents by metis+

lemma stored_written:
  assumes v: "valid fs img" and fs: "fs = contents d1" and "apart img" and it: "it \<in> set (items_of img)"
    and store: "run_state (store img) d1 = (Inr (), d2)" and wi: "run_state (write_index ar i') d2 = (w, d')"
    and root: "rootDir i' = root"
  shows "stored root (contents d') it"
proof -
  have "stored root (contents d2) it" using store_stored [OF _ assms(3) store it] v fs by simp
  moreover have "item_path root it \<noteq> index_path root" "item_path root it \<noteq> images_path root"
    using files_named [OF v items_files [OF v it]] last_elem_documents by metis+
  ultimately show ?thesis
    using root touchesD(1) [OF touches_write_index wi, of "\<lambda>p. p \<in> {index_path root, images_path root}" "item_path root it"]
    by (simp add: stored_def)
qed

text \<open>A successful import publishes the image, stores its files and writes both documents.\<close>

lemma success:
  assumes run: "run_state (import_with scan (\<lambda>img. add_version tz (md_of img) aliases (items_of img)) store ar i) d
      = ((i', None), d')"
    and root: "rootDir i = root"
  shows "\<exists>img. valid (contents d) img
       \<and> catalog i' = publish (productName (md_of img)) (versionName tz (md_of img)) (items_of img) (catalog i)
       \<and> written ar i' (contents d') \<and> rootDir i' = root
       \<and> (apart img \<longrightarrow> (\<forall>it \<in> set (items_of img). stored root (contents d') it))
       \<and> (\<forall>p. p \<notin> files_of img \<union> {index_path root, images_path root} \<longrightarrow> contents d' p = contents d p)"
  using run
proof (cases rule: import_with_cases)
  case (documents img d1 d2 w)
  from documents(5) have w: "w = Inr ()" by (cases w) auto
  have v: "valid (contents d) img" by (rule scan_valid [OF documents(1)])
  have c1: "contents d1 = contents d" by (rule scan_contents [OF documents(1)])
  have r': "rootDir i' = root" using add_version_root [OF documents(2)] root by simp
  have wr: "contents d' p = contents d2 p" if "p \<noteq> index_path root" "p \<noteq> images_path root" for p
    using that r' touchesD(1) [OF touches_write_index documents(4), of "\<lambda>p. p \<in> {index_path root, images_path root}" p] by simp
  have "stored root (contents d') it" if it: "it \<in> set (items_of img)" "apart img" for it
    by (rule stored_written [OF v c1 [symmetric] it(2,1) documents(3,4) r'])
  moreover have "contents d' p = contents d p" if "p \<notin> files_of img \<union> {index_path root, images_path root}" for p
    using that wr [of p] touchesD(1) [OF store_touches documents(3), of p] c1 by simp
  ultimately show ?thesis
    using v add_version_catalog [OF documents(2) items_distinct] write_index_result [OF documents(4)] w r' by auto
qed auto

text \<open>
  When an import fails, the published document is what it was, unless it is the document itself that
  could not be written, and then the new items are stored.
\<close>

lemma failure:
  assumes run: "run_state (import_with scan (\<lambda>img. add_version tz (md_of img) aliases (items_of img)) store ar i) d
      = ((i', Some e), d')"
    and root: "rootDir i = root"
  shows "contents d' (images_path root) = contents d (images_path root)
       \<or> (\<exists>img. valid (contents d) img \<and> (apart img \<longrightarrow> (\<forall>it \<in> set (items_of img). stored root (contents d') it)))"
  using run
proof (cases rule: import_with_cases)
  case (scan err)
  then show ?thesis by (simp add: scan_contents)
next
  case (add img err)
  then show ?thesis by (simp add: scan_contents)
next
  case (store img d1 err)
  then show ?thesis
    using store_documents [OF scan_valid [OF store(1)] store(3)] by (simp add: scan_contents)
next
  case (documents img d1 d2 w)
  have v: "valid (contents d) img" by (rule scan_valid [OF documents(1)])
  have c1: "contents d1 = contents d" by (rule scan_contents [OF documents(1)])
  have r': "rootDir i' = root" using add_version_root [OF documents(2)] root by simp
  have "stored root (contents d') it" if it: "it \<in> set (items_of img)" "apart img" for it
    by (rule stored_written [OF v c1 [symmetric] it(2,1) documents(3,4) r'])
  with v show ?thesis by blast
qed

text \<open>A well-formed index stays well formed, whatever fails, and is never found without its maps.\<close>

lemma keeps_ok:
  assumes run: "run_state (import_with scan (\<lambda>img. add_version tz (md_of img) aliases (items_of img)) store ar i) d
      = ((i', e), d')"
    and ok: "index_ok i"
  shows "index_ok i' \<and> set (listed i) \<subseteq> set (listed i')"
  using run
proof (cases rule: import_with_cases)
  case (store img d1 err)
  then show ?thesis using add_version_ok [OF ok] by (metis Inr_inject subset_insertI)
next
  case (documents img d1 d2 w)
  then show ?thesis using add_version_ok [OF ok] by (metis Inr_inject subset_insertI)
qed (use ok in auto)

end

section \<open>Container images\<close>

text \<open>What an archive with the given content is as a container image, and where its only file goes.\<close>

definition container_image :: "Archives \<Rightarrow> string \<Rightarrow> (ImportMetadata \<times> containerImageInfo) option" where
  "container_image ar c =
     (case ar_Open ar c of
        Inl _ \<Rightarrow> None
      | Inr t \<Rightarrow> (case find_metadata ar (ts_end t) (ts_entries t) of
           Inl _ \<Rightarrow> None
         | Inr md \<Rightarrow> if md_Architecture md = '''' then None else Some (md, \<lparr>ci_Sha256 = sha256 c, ci_Size = length c\<rparr>)))"

definition container_file :: "string \<Rightarrow> ImportMetadata \<times> containerImageInfo \<Rightarrow> string" where
  "container_file root img = Join_path [root, container_target (fst img) (snd img)]"

lemma container_image_info: "container_image ar c = Some img \<Longrightarrow> snd img = \<lparr>ci_Sha256 = sha256 c, ci_Size = length c\<rparr>"
  by (auto simp: container_image_def split: sum.splits if_splits)

lemma last_elem_container_file:
  assumes "container_image ar c = Some img"
  shows "last_elem (container_file root img) = sha256 c @ ''.incus_combined.tar.gz''"
  using last_elem_target(2) [of "sha256 c @ ''.incus_combined.tar.gz''"] container_image_info [OF assms]
  by (simp add: container_file_def container_target_def)

lemma scan_container_image:
  "wp (scan_container ar path) (\<lambda>r d'. \<forall>img. r = Inr img \<longrightarrow> Option.bind (contents d path) (container_image ar) = Some img) d"
  by (auto simp: scan_container_def open_archive_def getContainerImageInfo_def wp_simps os_defs if_exists_def disk_simps
      container_image_def split: sum.splits option.splits prod.splits if_splits)

lemma touches_copyFile [touches_intros]: "P dst \<Longrightarrow> touches P (copyFile src dst)"
  unfolding copyFile_def by (intro touches_intros)

lemma copyFile_copies:
  assumes "src \<noteq> dst" and "contents d src = Some c"
  shows "wp (copyFile src dst) (\<lambda>r d'. r = Inr () \<longrightarrow> contents d' dst = Some c) d"
  using assms
  by (auto simp: copyFile_def wp_simps os_defs if_exists_def disk_simps split: sum.splits option.splits prod.splits)

lemma container_items_path:
  "it \<in> set (container_items incus lxd img) \<Longrightarrow> item_path root it = container_file root img
     \<and> HashSha256 it = ci_Sha256 (snd img) \<and> Size it = ci_Size (snd img)"
  by (cases img) (auto simp: container_items_def item_path_def container_file_def Let_def split: if_splits)

interpretation ctr: importer "scan_container ar path" fst "container_items incus lxd" "store_container root path" root
  "\<lambda>img. {container_file root img}" "\<lambda>fs img. Option.bind (fs path) (container_image ar) = Some img"
  "\<lambda>img. path \<noteq> container_file root img"
  for ar path incus lxd root
proof
  show "touches (\<lambda>_. False) (scan_container ar path)"
    unfolding scan_container_def open_archive_def getContainerImageInfo_def by (intro touches_intros)
  show "run_state (scan_container ar path) d = (Inr img, d') \<Longrightarrow>
      Option.bind (contents d path) (container_image ar) = Some img" for d img d'
    using wpD [OF scan_container_image] by blast
  show "distinct (map FileType (container_items incus lxd img))" for img
    by (cases img) (simp add: container_items_def Let_def ftype_defs)
  show "touches (\<lambda>p. p \<in> {container_file root img}) (store_container root path img)" for img
    by (cases img) (auto simp: store_container_def container_file_def intro!: touches_intros)
  show "Option.bind (fs path) (container_image ar) = Some img \<Longrightarrow> p \<in> {container_file root img} \<Longrightarrow>
      last_elem p \<noteq> ''index.json'' \<and> last_elem p \<noteq> ''images.json''" for fs img p
    using hash_name_not_document by (auto simp: bind_eq_Some_conv last_elem_container_file)
  show "stored root (contents d') it"
    if v: "Option.bind (contents d path) (container_image ar) = Some img" and a: "path \<noteq> container_file root img"
      and run: "run_state (store_container root path img) d = (Inr (), d')" and it: "it \<in> set (container_items incus lxd img)"
    for d img d' it
  proof -
    obtain c where c: "contents d path = Some c" "container_image ar c = Some img" using v by (auto simp: bind_eq_Some_conv)
    have "run_state (copyFile path (container_file root img)) d = (Inr (), d')"
      using run by (cases img) (auto simp: store_container_def container_file_def run_state_guard_err split: prod.splits sum.splits)
    then have "contents d' (container_file root img) = Some c"
      using wpD [OF copyFile_copies [OF a c(1)]] by blast
    then show ?thesis
      using container_items_path [OF it] container_image_info [OF c(2)] by (simp add: stored_def)
  qed
  show "it \<in> set (container_items incus lxd img) \<Longrightarrow> item_path root it \<in> {container_file root img}" for it img
    using container_items_path by blast
qed

section \<open>Virtual machine images\<close>

definition vm_image_of :: "Archives \<Rightarrow> string \<Rightarrow> vm_image option" where
  "vm_image_of ar c =
     (case ar_Open ar c of
        Inl _ \<Rightarrow> None
      | Inr t \<Rightarrow> (case split_image ar t of Inl _ \<Rightarrow> None | Inr v \<Rightarrow> Some v))"

definition vm_files :: "string \<Rightarrow> vm_image \<Rightarrow> string set" where
  "vm_files root v = {Join_path [root, rootfs_target v], Join_path [root, metadata_target v]}"

lemma vm_image_info:
  assumes "vm_image_of ar c = Some v"
  shows "vm_info v = \<lparr>vi_MetaSize = length (vm_outMetadata v), vi_MetaSha256 = sha256 (vm_outMetadata v),
    vi_RootSize = length (vm_outRootfs v), vi_RootSha256 = sha256 (vm_outRootfs v),
    vi_CombinedSha256 = sha256 (vm_outMetadata v @ vm_outRootfs v)\<rparr>"
  using assms
  by (auto simp: vm_image_of_def split_image_def getVirtualMachineImageInfo_def Let_def
      split: sum.splits option.splits if_splits)

lemma last_elem_vm_files:
  assumes "vm_image_of ar c = Some v"
  shows "last_elem (Join_path [root, rootfs_target v]) = sha256 (vm_outMetadata v) @ ''.disk-kvm.img''"
    and "last_elem (Join_path [root, metadata_target v]) = sha256 (vm_outMetadata v) @ ''.incus.tar.xz''"
  using vm_image_info [OF assms] last_elem_target(2) [of "sha256 (vm_outMetadata v) @ ''.disk-kvm.img''"]
    last_elem_target(2) [of "sha256 (vm_outMetadata v) @ ''.incus.tar.xz''"]
  by (simp_all add: rootfs_target_def metadata_target_def)

lemma vm_files_differ:
  assumes "vm_image_of ar c = Some v"
  shows "Join_path [root, rootfs_target v] \<noteq> Join_path [root, metadata_target v]"
  by (rule notI, drule arg_cong [where f = last_elem]) (simp add: last_elem_vm_files [OF assms])

lemma scan_vm_image:
  "wp (scan_vm ar root path) (\<lambda>r d'. \<forall>v. r = Inr v \<longrightarrow> Option.bind (contents d path) (vm_image_of ar) = Some v) d"
  by (auto simp: scan_vm_def open_archive_def wp_simps os_defs if_exists_def disk_simps vm_image_of_def
      split: sum.splits option.splits prod.splits if_splits)

lemma store_vm_stores:
  assumes "Join_path [root, rootfs_target v] \<noteq> Join_path [root, metadata_target v]"
  shows "wp (store_vm root v) (\<lambda>r d'. r = Inr () \<longrightarrow>
      contents d' (Join_path [root, rootfs_target v]) = Some (vm_outRootfs v)
    \<and> contents d' (Join_path [root, metadata_target v]) = Some (vm_outMetadata v)) d"
  using assms by (auto simp: store_vm_def wp_simps os_defs disk_simps split: sum.splits option.splits prod.splits)

interpretation vm: importer "scan_vm ar root path" vm_metadata "vm_items incus lxd" "store_vm root" root
  "vm_files root" "\<lambda>fs v. Option.bind (fs path) (vm_image_of ar) = Some v" "\<lambda>_. True"
  for ar path incus lxd root
proof
  show "touches (\<lambda>_. False) (scan_vm ar root path)"
    unfolding scan_vm_def open_archive_def by (intro touches_intros)
  show "run_state (scan_vm ar root path) d = (Inr v, d') \<Longrightarrow> Option.bind (contents d path) (vm_image_of ar) = Some v" for d v d'
    using wpD [OF scan_vm_image] by blast
  show "distinct (map FileType (vm_items incus lxd v))" for v
    by (cases incus; cases lxd) (simp_all add: vm_items_def Let_def ftype_defs)
  show "touches (\<lambda>p. p \<in> vm_files root v) (store_vm root v)" for v
    unfolding store_vm_def by (intro touches_intros) (simp_all add: vm_files_def)
  show "Option.bind (fs path) (vm_image_of ar) = Some v \<Longrightarrow> p \<in> vm_files root v \<Longrightarrow>
      last_elem p \<noteq> ''index.json'' \<and> last_elem p \<noteq> ''images.json''" for fs v p
    using hash_name_not_document by (auto simp: bind_eq_Some_conv vm_files_def last_elem_vm_files)
  show "stored root (contents d') it"
    if v: "Option.bind (contents d path) (vm_image_of ar) = Some v"
      and run: "run_state (store_vm root v) d = (Inr (), d')" and it: "it \<in> set (vm_items incus lxd v)"
    for d v d' it
  proof -
    obtain c where c: "vm_image_of ar c = Some v" using v by (auto simp: bind_eq_Some_conv)
    then show ?thesis
      using wpD [OF store_vm_stores run] vm_files_differ [OF c] vm_image_info [OF c] it
      by (auto simp: stored_def item_path_def vm_items_def Let_def split: if_splits)
  qed
  show "it \<in> set (vm_items incus lxd v) \<Longrightarrow> item_path root it \<in> vm_files root v" for it v
    by (auto simp: vm_items_def Let_def item_path_def vm_files_def split: if_splits)
qed

section \<open>Importing either kind\<close>

text \<open>What an archive is to an import of the given type: metadata and the items to publish.\<close>

definition image_of :: "Archives \<Rightarrow> string \<Rightarrow> bool \<Rightarrow> bool \<Rightarrow> string \<Rightarrow> (ImportMetadata \<times> ProductVersionItem list) option" where
  "image_of ar ty incus lxd c =
     (if ty = Container then map_option (\<lambda>img. (fst img, container_items incus lxd img)) (container_image ar c)
      else if ty = VirtualMachine then map_option (\<lambda>v. (vm_metadata v, vm_items incus lxd v)) (vm_image_of ar c)
      else None)"

text \<open>The file a container image is copied from must not be the one it is copied to.\<close>

definition own_name :: "string \<Rightarrow> string" where
  "own_name c = sha256 c @ ''.incus_combined.tar.gz''"

lemma container_source:
  assumes "Option.bind (fs path) (container_image ar) = Some img" and "ty = Container"
  shows "\<exists>c. fs path = Some c \<and> image_of ar ty incus lxd c = Some (fst img, container_items incus lxd img)
       \<and> (\<forall>it \<in> set (container_items incus lxd img). item_path root it = container_file root img)"
  using assms container_items_path by (cases img) (auto simp: bind_eq_Some_conv image_of_def)

lemma import_type_success:
  assumes "run_state (import_type ar tz i ty path aliases incus lxd) d = ((i', None), d')"
  shows "\<exists>c md items. contents d path = Some c \<and> image_of ar ty incus lxd c = Some (md, items)
       \<and> catalog i' = publish (productName md) (versionName tz md) items (catalog i)
       \<and> written ar i' (contents d') \<and> rootDir i' = rootDir i
       \<and> (\<forall>it \<in> set items. path \<noteq> item_path (rootDir i) it \<longrightarrow> stored (rootDir i) (contents d') it)"
proof -
  consider (c) "ty = Container" | (v) "ty \<noteq> Container" "ty = VirtualMachine"
    using assms by (auto simp: import_type_def split: if_splits)
  then show ?thesis
  proof cases
    case c
    with assms have "run_state (importContainerUnifiedTarball ar tz i path aliases incus lxd) d = ((i', None), d')"
      by (simp add: import_type_def)
    from ctr.success [OF this [unfolded importContainerUnifiedTarball_def] refl]
    obtain img where v: "Option.bind (contents d path) (container_image ar) = Some img"
      and r: "catalog i' = publish (productName (fst img)) (versionName tz (fst img)) (container_items incus lxd img) (catalog i)"
        "written ar i' (contents d')" "rootDir i' = rootDir i"
        "path \<noteq> container_file (rootDir i) img \<longrightarrow> (\<forall>it\<in>set (container_items incus lxd img). stored (rootDir i) (contents d') it)"
      by blast
    with container_source [where fs = "contents d" and root = "rootDir i" and incus = incus and lxd = lxd, OF v c] show ?thesis by metis
  next
    case v
    with assms have "run_state (importVirtualMachineUnifiedTarball ar tz i path aliases incus lxd) d = ((i', None), d')"
      by (simp add: import_type_def)
    from vm.success [OF this [unfolded importVirtualMachineUnifiedTarball_def] refl] v
    show ?thesis by (fastforce simp: bind_eq_Some_conv image_of_def)
  qed
qed

text \<open>The document with the products changes only after the new items are stored.\<close>

lemma import_type_publishes_last:
  assumes run: "run_state (import_type ar tz i ty path aliases incus lxd) d = ((i', e), d')"
    and "contents d' (images_path (rootDir i)) \<noteq> contents d (images_path (rootDir i))"
  shows "\<exists>c md items. contents d path = Some c \<and> image_of ar ty incus lxd c = Some (md, items)
       \<and> (\<forall>it \<in> set items. path \<noteq> item_path (rootDir i) it \<longrightarrow> stored (rootDir i) (contents d') it)"
proof (cases e)
  case None
  with import_type_success run show ?thesis by blast
next
  case (Some err)
  consider (c) "ty = Container" | (v) "ty \<noteq> Container" "ty = VirtualMachine"
    using assms by (auto simp: import_type_def split: if_splits)
  then show ?thesis
  proof cases
    case c
    with run Some have "run_state (importContainerUnifiedTarball ar tz i path aliases incus lxd) d = ((i', Some err), d')"
      by (simp add: import_type_def)
    from ctr.failure [OF this [unfolded importContainerUnifiedTarball_def] refl] assms(2)
    obtain img where v: "Option.bind (contents d path) (container_image ar) = Some img"
      and r: "path \<noteq> container_file (rootDir i) img \<longrightarrow> (\<forall>it\<in>set (container_items incus lxd img). stored (rootDir i) (contents d') it)"
      by blast
    with container_source [where fs = "contents d" and root = "rootDir i" and incus = incus and lxd = lxd, OF v c] show ?thesis by metis
  next
    case v
    with run Some have "run_state (importVirtualMachineUnifiedTarball ar tz i path aliases incus lxd) d = ((i', Some err), d')"
      by (simp add: import_type_def)
    from vm.failure [OF this [unfolded importVirtualMachineUnifiedTarball_def] refl] v assms(2)
    show ?thesis by (fastforce simp: bind_eq_Some_conv image_of_def)
  qed
qed

lemma import_type_ok:
  assumes "run_state (import_type ar tz i ty path aliases incus lxd) d = ((i', e), d')" and "index_ok i"
  shows "index_ok i' \<and> set (listed i) \<subseteq> set (listed i')"
  using assms ctr.keeps_ok vm.keeps_ok
  unfolding import_type_def importContainerUnifiedTarball_def importVirtualMachineUnifiedTarball_def
  by (fastforce split: if_splits)

text \<open>The files that an import can change, whatever fails: the documents and files named after a hash.\<close>

definition tarball_in_zip :: "Archives \<Rightarrow> string \<Rightarrow> string option" where
  "tarball_in_zip ar b =
     (case ar_Zip ar b of
        Some [(name, Inr (Inr t))] \<Rightarrow> if HasSuffix name ''.tar.gz'' then Some t else None
      | _ \<Rightarrow> None)"

definition source_of :: "Archives \<Rightarrow> file_view \<Rightarrow> string \<Rightarrow> string \<Rightarrow> bool" where
  "source_of ar fs path c \<longleftrightarrow>
     fs path = Some c \<or> (HasSuffix path ''.zip'' \<and> Option.bind (fs path) (tarball_in_zip ar) = Some c)"

lemma extract_result:
  "wp (maybeExtractUnifiedTarballFromZIP ar path) (\<lambda>r d'.
     (\<forall>p. last_elem p \<noteq> ''image.tar.gz'' \<longrightarrow> contents d' p = contents d p) \<and> same_oracles d d'
   \<and> (r = Inr None \<longrightarrow> contents d' = contents d)
   \<and> (\<forall>tb tmp. r = Inr (Some (tb, tmp)) \<longrightarrow> HasSuffix path ''.zip'' \<and> last_elem tb = ''image.tar.gz''
        \<and> (\<exists>n. tmp = dk_temp d n) \<and> contents d' tb = Option.bind (contents d path) (tarball_in_zip ar))) d"
proof -
  have t: "last_elem (Join_path [tmp, ''image.tar.gz'']) = ''image.tar.gz''" for tmp
    using last_elem_Join_path [of "''image.tar.gz''" "''image.tar.gz''" "[tmp]"] by simp
  show ?thesis
    by (auto simp: maybeExtractUnifiedTarballFromZIP_def wp_simps os_defs if_exists_def disk_simps Let_def t
        tarball_in_zip_def leave_def split: sum.splits option.splits prod.splits list.splits if_splits)
qed

text \<open>
  The import of an image, with a temporary directory in which a tarball may have been extracted.
  The documents survive when they are not kept inside of such a directory.
\<close>

definition clear_of_temp :: "'z disk_scheme \<Rightarrow> string \<Rightarrow> bool" where
  "clear_of_temp d root \<longleftrightarrow> (\<forall>n. \<not> within (dk_temp d n) (index_path root) \<and> \<not> within (dk_temp d n) (images_path root))"

lemma ImportImage_cases:
  assumes "run_state (ImportImage ar tz i ty path aliases incus lxd) d = ((i', e), d')"
  obtains (failed) err where "i' = i" and "e = Some err"
      and "\<And>p. last_elem p \<noteq> ''image.tar.gz'' \<Longrightarrow> contents d' p = contents d p"
  | (ran) path' d1 d2 where "run_state (import_type ar tz i ty path' aliases incus lxd) d1 = ((i', e), d2)"
      and "\<And>p. last_elem p \<noteq> ''image.tar.gz'' \<Longrightarrow> contents d1 p = contents d p" and "same_oracles d d1"
      and "\<And>c. contents d1 path' = Some c \<Longrightarrow> source_of ar (contents d) path c"
      and "\<And>p. (\<And>n. \<not> within (dk_temp d n) p) \<Longrightarrow> contents d' p = contents d2 p"
      and "path' = path \<or> last_elem path' = ''image.tar.gz''"
proof -
  obtain r d1 where ex: "run_state (maybeExtractUnifiedTarballFromZIP ar path) d = (r, d1)" by fastforce
  note x = wpD [OF extract_result ex]
  show thesis
  proof (cases r)
    case (Inl err)
    with assms ex x show thesis by (intro failed) (auto simp: ImportImage_def)
  next
    case r: (Inr o1)
    show thesis
    proof (cases o1)
      case None
      with assms ex r have "run_state (import_type ar tz i ty path aliases incus lxd) d1 = ((i', e), d')"
        by (simp add: ImportImage_def)
      then show thesis using x r None by (intro ran [of path d1 d']) (auto simp: source_of_def)
    next
      case (Some p)
      then obtain tb tmp where p: "o1 = Some (tb, tmp)" by (cases p) auto
      obtain res d2 where t: "run_state (import_type ar tz i ty tb aliases incus lxd) d1 = (res, d2)" by fastforce
      obtain u d3 where u: "run_state (RemoveAll tmp) d2 = (u, d3)" by fastforce
      have "res = (i', e)" "d3 = d'" using assms ex r p t u by (auto simp: ImportImage_def)
      moreover have "contents d' q = contents d2 q" if "\<not> within tmp q" for q
        using that touchesD(1) [OF touches_removes(1) u, of "within tmp" q] \<open>d3 = d'\<close> by simp
      ultimately show thesis
        using x r p t by (intro ran [of tb d1 d2]) (auto simp: source_of_def)
    qed
  qed
qed

lemma import_writes:
  assumes "run_state (ImportImage ar tz i ty path aliases incus lxd) d = ((i', None), d')"
    and "clear_of_temp d (rootDir i)"
  shows "\<exists>c md items. source_of ar (contents d) path c \<and> image_of ar ty incus lxd c = Some (md, items)
       \<and> catalog i' = publish (productName md) (versionName tz md) items (catalog i)
       \<and> written ar i' (contents d') \<and> rootDir i' = rootDir i"
  using assms(1)
proof (cases rule: ImportImage_cases)
  case (ran path' d1 d2)
  from import_type_success [OF ran(1)] obtain c md items where
    r: "contents d1 path' = Some c" "image_of ar ty incus lxd c = Some (md, items)"
      "catalog i' = publish (productName md) (versionName tz md) items (catalog i)"
      "written ar i' (contents d2)" "rootDir i' = rootDir i" by blast
  moreover have "written ar i' (contents d')"
    using r(4,5) ran(5) assms(2) by (auto simp: written_def clear_of_temp_def split: sum.splits)
  ultimately show ?thesis using ran(4) by blast
qed simp

text \<open>C21: A successful import publishes exactly the items of the image: the catalog of the index is
  updated at one product and one version, everything else is kept, and both documents on the disk
  describe the new index.\<close>

theorem import_publishes:
  assumes "run_state (ImportImage ar tz i ty path aliases incus lxd) d = ((i', None), d')"
    and "clear_of_temp d (rootDir i)"
  shows "\<exists>c md items. source_of ar (contents d) path c \<and> image_of ar ty incus lxd c = Some (md, items)
       \<and> catalog i' = publish (productName md) (versionName tz md) items (catalog i)
       \<and> written ar i' (contents d')"
  using import_writes [OF assms] by blast

text \<open>C23: A well-formed index (the products listed in order, once each, and exactly those with an entry; every
  item under its own file type) stays well formed through an import, whether it succeeds or fails,
  and a listed product is never dropped.  This is the index in memory, which the caller goes on with; what is on disk after an error is
  another matter.\<close>

theorem import_keeps_index:
  assumes "run_state (ImportImage ar tz i ty path aliases incus lxd) d = ((i', e), d')" and "index_ok i"
  shows "index_ok i' \<and> set (listed i) \<subseteq> set (listed i')"
  using assms(1)
proof (cases rule: ImportImage_cases)
  case (ran path' d1 d2)
  then show ?thesis using import_type_ok assms(2) by blast
qed (use assms(2) in simp)

lemma item_names:
  assumes "image_of ar ty incus lxd c = Some (md, items)" and "it \<in> set items"
  shows "length (last_elem (item_path root it)) > 64"
proof (cases "ty = Container")
  case True
  with assms obtain img where "container_image ar c = Some img" "it \<in> set (container_items incus lxd img)"
    by (auto simp: image_of_def)
  then show ?thesis using container_items_path [of it incus lxd img root] last_elem_container_file [of ar c img root] by simp
next
  case False
  with assms obtain v where v: "vm_image_of ar c = Some v" and "it \<in> set (vm_items incus lxd v)"
    by (auto simp: image_of_def split: if_splits)
  then have "item_path root it \<in> vm_files root v" by (auto simp: vm_items_def Let_def item_path_def vm_files_def split: if_splits)
  then show ?thesis using last_elem_vm_files [OF v] by (auto simp: vm_files_def)
qed

text \<open>C22: Files first: when an import, whether it succeeds or fails, has changed the document that publishes the products, then the
  file at the given path was (or, for a zip archive, held) an image, and every item of that image is in place, with the size and
  the hash it announces, unless its file is the very file the image was imported from, or lies in a temporary directory.  The documents
  themselves are supposed not to be kept in a temporary directory.\<close>

theorem import_stores_before_publishing:
  assumes "run_state (ImportImage ar tz i ty path aliases incus lxd) d = ((i', e), d')"
    and changed: "contents d' (images_path (rootDir i)) \<noteq> contents d (images_path (rootDir i))"
    and clear: "clear_of_temp d (rootDir i)"
  shows "\<exists>c md items. source_of ar (contents d) path c \<and> image_of ar ty incus lxd c = Some (md, items)
       \<and> (\<forall>it \<in> set items. item_path (rootDir i) it \<noteq> path \<and> (\<forall>n. \<not> within (dk_temp d n) (item_path (rootDir i) it))
            \<longrightarrow> stored (rootDir i) (contents d') it)"
  using assms(1)
proof (cases rule: ImportImage_cases)
  case (failed err)
  with changed show ?thesis by simp
next
  case (ran path' d1 d2)
  have "contents d2 (images_path (rootDir i)) \<noteq> contents d1 (images_path (rootDir i))"
    using changed ran(2,5) clear by (simp add: clear_of_temp_def)
  from import_type_publishes_last [OF ran(1) this] obtain c md items where
      c: "contents d1 path' = Some c" and img: "image_of ar ty incus lxd c = Some (md, items)"
    and st: "\<forall>it \<in> set items. path' \<noteq> item_path (rootDir i) it \<longrightarrow> stored (rootDir i) (contents d2) it" by blast
  have "stored (rootDir i) (contents d') it"
    if it: "it \<in> set items" "item_path (rootDir i) it \<noteq> path" "\<forall>n. \<not> within (dk_temp d n) (item_path (rootDir i) it)" for it
  proof -
    have "path' \<noteq> item_path (rootDir i) it" using ran(6) it(2) item_names [OF img it(1), of "rootDir i"] by auto
    with st it(1) have "stored (rootDir i) (contents d2) it" by blast
    then show ?thesis using ran(5) it(3) by (simp add: stored_def)
  qed
  with ran(4) [OF c] img show ?thesis by blast
qed

section \<open>Opening an index again\<close>

lemma load_document_quiet:
  assumes "quiet d"
  shows "run_state (load_document path name new unmarshal) d =
     (case contents d path of
        None \<Rightarrow> Inr new
      | Some json \<Rightarrow> (case unmarshal json of
           Inl err \<Rightarrow> Inl (Errorf (''failed to parse '' @ name @ '': '') err) | Inr x \<Rightarrow> Inr x), tick d)"
  using assms
  by (auto simp: load_document_def ReadFile_def run_os_op_quiet if_exists_def disk_simps IsNotExist_def
      split: option.splits sum.splits)

text \<open>The directory of an index: the current one, if none is named.\<close>

definition index_root :: "'z disk_scheme \<Rightarrow> string \<Rightarrow> string" where
  "index_root d dir = (if dir = '''' then dk_cwd d else dir)"

lemma cwd_disk [disk_simps]: "dk_cwd (tick d) = dk_cwd d"
  by (simp add: tick_def)

lemma GetOrCreateIndex_reads:
  assumes "quiet d" and "written ar i (contents d)" and "json_law ar" and "rootDir i = index_root d dir"
  shows "\<exists>j. fst (run_state (GetOrCreateIndex ar dir) d) = Inr j \<and> same_index i j"
proof -
  let ?root = "index_root d dir"
  obtain a b where "ar_MarshalIndex ar (ix_Index i) = Inr a" "ar_MarshalProducts ar (ix_Products i) = Inr b"
      "contents d (index_path ?root) = Some a" "contents d (images_path ?root) = Some b"
    using assms(2,4) by (auto simp: written_def split: sum.splits)
  moreover obtain x y where "ar_UnmarshalIndex ar a = Inr x" "same_stream (ix_Index i) x"
      "ar_UnmarshalProducts ar b = Inr y" "same_products (ix_Products i) y"
    using calculation assms(3) unfolding json_law_def by blast
  ultimately show ?thesis
    using assms(1,4)
    by (simp add: GetOrCreateIndex_def run_state_guard_err MkdirAll_def Getwd_def run_os_op_quiet load_document_quiet
        quiet_tick disk_simps id_def same_index_def index_root_def split: if_splits)
qed

text \<open>After a successful import, opening the directory again gives the index the import left in memory.\<close>

theorem import_then_open:
  assumes "run_state (ImportImage ar tz i ty path aliases incus lxd) d = ((i', None), d')"
    and "clear_of_temp d (rootDir i)" and "rootDir i \<noteq> ''''" and "quiet d'" and "json_law ar"
  shows "\<exists>j. fst (run_state (GetOrCreateIndex ar (rootDir i)) d') = Inr j \<and> same_index i' j"
  using import_writes [OF assms(1,2)] GetOrCreateIndex_reads [OF assms(4) _ assms(5)] assms(3)
  unfolding index_root_def by metis

section \<open>Imports on a sound disk\<close>

lemma scan_container_quiet:
  assumes "quiet d" and "contents d path = Some c" and "container_image ar c = Some img"
  shows "wp (scan_container ar path) (\<lambda>r d'. r = Inr img \<and> contents d' = contents d \<and> quiet d') d"
  using assms
  by (auto simp: scan_container_def open_archive_def getContainerImageInfo_def quiet_simps container_image_def split: sum.splits if_splits)

lemma store_container_quiet:
  assumes "quiet d" and "contents d path = Some c" and "path \<noteq> container_file root img"
  shows "wp (store_container root path img) (\<lambda>r d'. r = Inr () \<and> quiet d') d"
  using assms
  by (cases img) (simp add: store_container_def copyFile_def container_file_def quiet_simps)

lemma write_index_quiet:
  assumes "quiet d" and "ar_MarshalIndex ar (ix_Index i) = Inr a" and "ar_MarshalProducts ar (ix_Products i) = Inr b"
  shows "wp (write_index ar i) (\<lambda>r d'. r = Inr () \<and> quiet d') d"
  using assms
  by (simp add: write_index_def write_document_def quiet_simps)

lemma import_with_quiet:
  assumes "wp scan (\<lambda>r d1. r = Inr img \<and> P d1) d" and "add img i = Inr i'"
    and "\<And>d1. P d1 \<Longrightarrow> wp (store img) (\<lambda>r d2. r = Inr () \<and> Q d2) d1"
    and "\<And>d2. Q d2 \<Longrightarrow> wp (write_index ar i') (\<lambda>r d3. r = Inr () \<and> R d3) d2"
  shows "wp (import_with scan add store ar i) (\<lambda>(j, e) d'. e = None \<and> R d') d"
proof -
  obtain r d1 d2 d3 w v where r: "run_state scan d = (r, d1)" "run_state (store img) d1 = (w, d2)"
      "run_state (write_index ar i') d2 = (v, d3)" by fastforce
  then have "r = Inr img" "P d1" using wpD [OF assms(1) r(1)] by auto
  moreover from this have "w = Inr ()" "Q d2" using wpD [OF assms(3) r(2)] by auto
  moreover from this have "v = Inr ()" "R d3" using wpD [OF assms(4) r(3)] by auto
  ultimately show ?thesis
    using r assms(2) by (simp add: import_with_def wp_def run_state_guard_err)
qed

lemma container_import_runs:
  assumes "quiet d" and "contents d path = Some c" and "container_image ar c = Some img"
    and "index_ok i" and "\<not> HasSuffix path ''.zip''" and "last_elem path \<noteq> own_name c"
    and enc: "\<And>i'. add_version tz (fst img) aliases (container_items incus lxd img) i = Inr i' \<Longrightarrow>
      (\<exists>a. ar_MarshalIndex ar (ix_Index i') = Inr a) \<and> (\<exists>b. ar_MarshalProducts ar (ix_Products i') = Inr b)"
  shows "wp (ImportImage ar tz i Container path aliases incus lxd) (\<lambda>(i', e) d'. e = None \<and> quiet d') d"
proof -
  obtain i' where i': "add_version tz (fst img) aliases (container_items incus lxd img) i = Inr i'"
    using add_version_ok [OF assms(4)] by blast
  obtain a b where ab: "ar_MarshalIndex ar (ix_Index i') = Inr a" "ar_MarshalProducts ar (ix_Products i') = Inr b"
    using enc [OF i'] by blast
  have apart: "path \<noteq> container_file (rootDir i) img"
    using last_elem_container_file [OF assms(3)] assms(6) by (auto simp: own_name_def)
  have "wp (importContainerUnifiedTarball ar tz i path aliases incus lxd) (\<lambda>(j, e) d'. e = None \<and> quiet d') d"
    unfolding importContainerUnifiedTarball_def
  proof (rule import_with_quiet [where Q = quiet and add = "\<lambda>img. add_version tz (fst img) aliases (container_items incus lxd img)",
      OF scan_container_quiet [OF assms(1-3)] i'])
    fix d1 :: "'a disk_scheme" assume "contents d1 = contents d \<and> quiet d1"
    then show "wp (store_container (rootDir i) path img) (\<lambda>r d2. r = Inr () \<and> quiet d2) d1"
      using assms(2) apart by (intro store_container_quiet) auto
  qed (rule write_index_quiet [OF _ ab])
  then show ?thesis
    using assms(5) by (simp add: ImportImage_def maybeExtractUnifiedTarballFromZIP_def import_type_def wp_simps)
qed

text \<open>On a disk where nothing fails, importing a well-made container image into a well-formed index succeeds.\<close>

theorem container_import_completes:
  assumes "quiet d" and "contents d path = Some c" and "container_image ar c = Some img"
    and "index_ok i" and "\<not> HasSuffix path ''.zip''" and "last_elem path \<noteq> own_name c"
    and enc: "\<And>i'. add_version tz (fst img) aliases (container_items incus lxd img) i = Inr i' \<Longrightarrow>
      (\<exists>a. ar_MarshalIndex ar (ix_Index i') = Inr a) \<and> (\<exists>b. ar_MarshalProducts ar (ix_Products i') = Inr b)"
  shows "wp (ImportImage ar tz i Container path aliases incus lxd) (\<lambda>(i', e) d'. e = None \<and> quiet d') d"
  using assms by (rule container_import_runs)

section \<open>Files of earlier images\<close>

text \<open>
  Container images are kept under the name of their hash, so a successful import never spoils the file
  of an image that was published before.
\<close>

definition intact :: "string \<Rightarrow> file_view \<Rightarrow> ProductVersionItem \<Rightarrow> bool" where
  "intact root fs it \<longleftrightarrow> (case fs (item_path root it) of None \<Rightarrow> False | Some c \<Rightarrow> sha256 c = HashSha256 it)"

lemma container_import_keeps_files:
  assumes run: "run_state (importContainerUnifiedTarball ar tz i path aliases True lxd) d = ((i', None), d')"
    and path: "\<And>c. last_elem path \<noteq> own_name c"
    and name: "last_elem (item_path (rootDir i) it) = HashSha256 it @ ''.incus_combined.tar.gz''"
    and old: "intact (rootDir i) (contents d) it"
  shows "intact (rootDir i) (contents d') it"
proof -
  let ?root = "rootDir i"
  from ctr.success [OF run [unfolded importContainerUnifiedTarball_def] refl]
  obtain img where v: "Option.bind (contents d path) (container_image ar) = Some img"
    and st: "path \<noteq> container_file ?root img \<longrightarrow> (\<forall>it\<in>set (container_items True lxd img). stored ?root (contents d') it)"
    and rest: "\<forall>p. p \<notin> {container_file ?root img} \<union> {index_path ?root, images_path ?root} \<longrightarrow> contents d' p = contents d p"
    by blast
  obtain c where c: "container_image ar c = Some img" using v by (auto simp: bind_eq_Some_conv)
  note fname = last_elem_container_file [OF c, of ?root]
  show ?thesis
  proof (cases "item_path ?root it = container_file ?root img")
    case True
    then have h: "HashSha256 it = sha256 c" using name fname by simp
    have "path \<noteq> container_file ?root img" using path fname by (auto simp: own_name_def)
    moreover obtain new where new: "new \<in> set (container_items True lxd img)"
      by (cases img) (auto simp: container_items_def Let_def)
    ultimately have "stored ?root (contents d') new" using st by blast
    then show ?thesis
      using True h container_items_path [OF new, of ?root] container_image_info [OF c]
      by (auto simp: intact_def stored_def split: option.splits)
  next
    case False
    moreover have "HashSha256 it @ ''.incus_combined.tar.gz'' \<noteq> ''index.json''"
      "HashSha256 it @ ''.incus_combined.tar.gz'' \<noteq> ''images.json''" by (auto dest: arg_cong [where f = length])
    then have "item_path ?root it \<noteq> index_path ?root" "item_path ?root it \<noteq> images_path ?root"
      using name last_elem_documents by metis+
    ultimately show ?thesis using rest old by (simp add: intact_def)
  qed
qed

text \<open>
  The root file system of a virtual machine image is kept under the hash of the metadata instead:
  importing an image with the same metadata and another root file system replaces the file of the
  earlier one, whose published hash is then wrong.
\<close>

theorem vm_import_replaces_rootfs:
  assumes run: "run_state (importVirtualMachineUnifiedTarball ar tz i path aliases True lxd) d = ((i', None), d')"
    and new: "contents d path = Some c'" "vm_image_of ar c' = Some v'"
    and old: "vm_image_of ar c = Some v" "vm_metadata v = vm_metadata v'" "vm_outMetadata v = vm_outMetadata v'"
    and differ: "sha256 (vm_outRootfs v) \<noteq> sha256 (vm_outRootfs v')"
    and it: "it \<in> set (vm_items True lxd v)" "FileType it = vmRootfsFTypeIncus"
  shows "\<not> stored (rootDir i) (contents d') it"
proof -
  have same: "rootfs_target v = rootfs_target v'"
    using old vm_image_info [OF old(1)] vm_image_info [OF new(2)] by (simp add: rootfs_target_def)
  obtain it' where it': "it' \<in> set (vm_items True lxd v')" "FileType it' = vmRootfsFTypeIncus"
      "Path it' = rootfs_target v'" "HashSha256 it' = vi_RootSha256 (vm_info v')"
    by (rule that [of "hd (vm_items True lxd v')"]) (simp_all add: vm_items_def Let_def)
  from vm.success [OF run [unfolded importVirtualMachineUnifiedTarball_def] refl] new
  have "stored (rootDir i) (contents d') it'" using it'(1) by (auto simp: bind_eq_Some_conv)
  moreover have "Path it = rootfs_target v" "HashSha256 it = vi_RootSha256 (vm_info v)"
    using it by (auto simp: vm_items_def Let_def ftype_defs split: if_splits)
  ultimately show ?thesis
    using same it'(3,4) differ vm_image_info [OF old(1)] vm_image_info [OF new(2)]
    by (auto simp: stored_def item_path_def split: option.splits)
qed

section \<open>A sample import\<close>

text \<open>
  An archive library that knows one image and the documents of the index before and after
  importing it, and a disk on which nothing fails.
\<close>

definition sample_md :: ImportMetadata where
  "sample_md = \<lparr>md_Architecture = ''x86_64'', md_Properties = [(''os'', ''ubuntu''), (''release'', ''24.04''), (''architecture'', ''amd64'')],
     md_Templates = [], md_CreationDate = 0\<rparr>"

definition sample_before :: Index where
  "sample_before = \<lparr>ix_Index = new_index, ix_Products = new_products, rootDir = ''/srv''\<rparr>"

definition sample_items :: "ProductVersionItem list" where
  "sample_items = container_items True False (sample_md, \<lparr>ci_Sha256 = sha256 ''tarball'', ci_Size = 7\<rparr>)"

definition sample_after :: Index where
  "sample_after = projr (add_version (\<lambda>_. 0) sample_md [] sample_items sample_before)"

definition sample_archives :: Archives where
  "sample_archives = \<lparr>
     ar_Open = (\<lambda>c. if c = ''tarball'' then Inr \<lparr>ts_entries = [(\<lparr>th_Name = ''metadata.yaml'', th_Size = 4\<rparr>, Inr ''meta'')], ts_end = None\<rparr>
                    else Inl (Err ''gzip: invalid header'')),
     ar_WriteHeader = (\<lambda>_. None), ar_Write = (\<lambda>_ _. None), ar_CloseTar = (\<lambda>_. None), ar_CloseGzip = (\<lambda>_. None),
     ar_Pack = (\<lambda>_. ''packed''), ar_Zip = (\<lambda>_. None),
     ar_Metadata = (\<lambda>_ _. Inr sample_md),
     ar_MarshalIndex = (\<lambda>x. if x = ix_Index sample_after then Inr ''index'' else Inl (Err ''unknown document'')),
     ar_UnmarshalIndex = (\<lambda>s. if s = ''index'' then Inr (ix_Index sample_after) else Inl (Err ''invalid json'')),
     ar_MarshalProducts = (\<lambda>x. if x = ix_Products sample_after then Inr ''products'' else Inl (Err ''unknown document'')),
     ar_UnmarshalProducts = (\<lambda>s. if s = ''products'' then Inr (ix_Products sample_after) else Inl (Err ''invalid json''))\<rparr>"

definition sample_disk :: disk where
  "sample_disk = \<lparr>dk_files = [(''/home/image.tar.gz'', ''tarball'')], dk_links = [], dk_env = [], dk_cwd = ''/home'',
     dk_temp = (\<lambda>n. ''/tmp/'' @ fmt_nat n), dk_faults = (\<lambda>_. None), dk_ticks = 0\<rparr>"

definition sample_import :: "(unit, Index \<times> go_error option) os" where
  "sample_import = ImportImage sample_archives (\<lambda>_. 0) sample_before Container ''/home/image.tar.gz'' [] True False"

lemma sample_json_law: "json_law sample_archives"
  by (auto simp: json_law_def sample_archives_def split: if_splits)

lemma sample_before_ok: "index_ok sample_before"
  by (simp add: sample_before_def new_index_ok)

lemma sample_add: "add_version (\<lambda>_. 0) sample_md [] sample_items sample_before = Inr sample_after"
  using add_version_ok [OF sample_before_ok] by (metis sample_after_def sum.sel(2))

lemma sample_container: "container_image sample_archives ''tarball'' = Some (sample_md, \<lparr>ci_Sha256 = sha256 ''tarball'', ci_Size = 7\<rparr>)"
  by (simp add: container_image_def sample_archives_def read_metadata_def sample_md_def)

lemma sample_clear: "clear_of_temp sample_disk ''/srv''"
proof -
  have "Join_path [''/srv'', ''streams'', ''v1'', ''index.json''] = ''/srv/streams/v1/index.json''"
    "Join_path [''/srv'', ''streams'', ''v1'', ''images.json''] = ''/srv/streams/v1/images.json''"
    by code_simp+
  then show ?thesis
    by (simp add: clear_of_temp_def index_path_def images_path_def within_def sample_disk_def HasPrefix_def)
qed

lemma sample_hash: "''image.tar.gz'' \<noteq> own_name c"
  using hash_name_not_document(3) [of c] by (simp add: own_name_def eq_commute)

lemma sample_contents: "contents sample_disk ''/home/image.tar.gz'' = Some ''tarball''"
  by (simp add: sample_disk_def contents_def)

lemma sample_quiet: "quiet sample_disk"
  by (simp add: sample_disk_def quiet_def)

lemma sample_path: "last_elem ''/home/image.tar.gz'' = ''image.tar.gz''" "last_elem ''home/image.tar.gz'' = ''image.tar.gz''"
  by code_simp+

lemma sample_encodes:
  "add_version (\<lambda>_. 0) (fst (sample_md, \<lparr>ci_Sha256 = sha256 ''tarball'', ci_Size = 7\<rparr>)) []
     (container_items True False (sample_md, \<lparr>ci_Sha256 = sha256 ''tarball'', ci_Size = 7\<rparr>)) sample_before = Inr i' \<Longrightarrow>
   (\<exists>a. ar_MarshalIndex sample_archives (ix_Index i') = Inr a)
   \<and> (\<exists>b. ar_MarshalProducts sample_archives (ix_Products i') = Inr b)"
  using sample_add by (simp add: sample_items_def) (simp add: sample_archives_def)

theorem container_import_completes_witness:
  "wp sample_import (\<lambda>(i', e) d'. e = None \<and> quiet d') sample_disk"
  unfolding sample_import_def
  by (rule container_import_completes [OF sample_quiet sample_contents sample_container sample_before_ok _ _ sample_encodes])
    (simp_all add: sample_path sample_hash HasSuffix_def)

lemma sample_runs: "\<exists>i' d'. run_state sample_import sample_disk = ((i', None), d') \<and> quiet d'"
proof -
  have "wp sample_import (\<lambda>(i', e) d'. e = None \<and> quiet d') sample_disk"
    unfolding sample_import_def
    by (rule container_import_runs [OF sample_quiet sample_contents sample_container sample_before_ok _ _ sample_encodes])
      (simp_all add: sample_path sample_hash HasSuffix_def)
  then show ?thesis by (auto simp: wp_def split: prod.splits)
qed

lemma sample_type: "sample_import = import_type sample_archives (\<lambda>_. 0) sample_before Container ''/home/image.tar.gz'' [] True False"
  by (simp add: sample_import_def ImportImage_def maybeExtractUnifiedTarballFromZIP_def HasSuffix_def)

lemma sample_root: "rootDir sample_before = ''/srv''"
  by (simp add: sample_before_def)

theorem import_publishes_witness:
  "\<exists>i' d'. run_state sample_import sample_disk = ((i', None), d') \<and> clear_of_temp sample_disk (rootDir sample_before)
     \<and> (\<exists>c md items. source_of sample_archives (contents sample_disk) ''/home/image.tar.gz'' c
          \<and> image_of sample_archives Container True False c = Some (md, items)
          \<and> catalog i' = publish (productName md) (versionName (\<lambda>_. 0) md) items (catalog sample_before)
          \<and> written sample_archives i' (contents d'))"
proof -
  obtain i' d' where run: "run_state sample_import sample_disk = ((i', None), d')" and q: "quiet d'" using sample_runs by blast
  show ?thesis
    using import_publishes [OF run [unfolded sample_import_def]] run sample_clear sample_root by auto
qed

theorem import_keeps_index_witness:
  "\<exists>i' d'. run_state sample_import sample_disk = ((i', None), d') \<and> index_ok sample_before
     \<and> index_ok i' \<and> set (listed sample_before) \<subseteq> set (listed i')"
proof -
  obtain i' d' where run: "run_state sample_import sample_disk = ((i', None), d')" and q: "quiet d'" using sample_runs by blast
  show ?thesis using import_keeps_index [OF run [unfolded sample_import_def] sample_before_ok] run sample_before_ok by blast
qed

lemma sample_item_paths:
  assumes "it \<in> set sample_items"
  shows "\<exists>n. item_path ''/srv'' it = ''/srv/images/ubuntu/24.04/amd64/'' @ n"
proof -
  define n where "n = sha256 ''tarball'' @ ''.incus_combined.tar.gz''"
  have "length n > 2" by (simp add: n_def)
  then have n: "CHR ''/'' \<notin> set n" "n \<noteq> ''''" "n \<noteq> ''.''" "n \<noteq> ''..''"
    using sha256_no_slash by (auto simp: n_def)
  have "Split ''images/ubuntu/24.04/amd64'' ''/'' = [''images'', ''ubuntu'', ''24.04'', ''amd64'']"
    "Split ''/srv/images/ubuntu/24.04/amd64'' ''/'' = ['''', ''srv'', ''images'', ''ubuntu'', ''24.04'', ''amd64'']"
    by code_simp+
  then have c: "Clean (''images/ubuntu/24.04/amd64/'' @ n) = ''images/ubuntu/24.04/amd64/'' @ n"
    "Clean (''/srv/images/ubuntu/24.04/amd64/'' @ n) = ''/srv/images/ubuntu/24.04/amd64/'' @ n"
    using Split_append [of "''images/ubuntu/24.04/amd64''" n] Split_append [of "''/srv/images/ubuntu/24.04/amd64''" n] n
    by (simp_all add: Clean_def clean_step_def Split_single_absent)
  have "target sample_md n = ''images/ubuntu/24.04/amd64/'' @ n"
    using c(1) by (simp add: target_def Join_path_def sample_md_def prop_of_def get_str_def)
  moreover have "Path it = target sample_md n"
    using assms by (auto simp: sample_items_def container_items_def container_target_def n_def Let_def)
  ultimately show ?thesis using c(2) by (simp add: item_path_def Join_path_def)
qed

theorem import_stores_before_publishing_witness:
  "\<exists>i' d'. run_state sample_import sample_disk = ((i', None), d')
     \<and> contents d' (images_path (rootDir sample_before)) \<noteq> contents sample_disk (images_path (rootDir sample_before))
     \<and> (\<exists>c md items. contents sample_disk ''/home/image.tar.gz'' = Some c
          \<and> image_of sample_archives Container True False c = Some (md, items)
          \<and> items \<noteq> [] \<and> (\<forall>it \<in> set items. stored (rootDir sample_before) (contents d') it))"
proof -
  obtain i' d' where run: "run_state sample_import sample_disk = ((i', None), d')" using sample_runs by blast
  note run' = run [unfolded sample_type]
  have "written sample_archives i' (contents d')" "rootDir i' = rootDir sample_before"
    using import_type_success [OF run'] by blast+
  then have "contents d' (images_path (rootDir sample_before)) \<noteq> None" by (auto simp: written_def split: sum.splits)
  moreover have "contents sample_disk (images_path (rootDir sample_before)) = None"
  proof -
    have "images_path (rootDir sample_before) \<noteq> ''/home/image.tar.gz''"
      by (rule notI, drule arg_cong [where f = last_elem]) (simp add: sample_path)
    then show ?thesis by (simp add: contents_def sample_disk_def)
  qed
  ultimately have c: "contents d' (images_path (rootDir sample_before)) \<noteq> contents sample_disk (images_path (rootDir sample_before))"
    by simp
  have src: "source_of sample_archives (contents sample_disk) ''/home/image.tar.gz'' c \<longleftrightarrow> c = ''tarball''" for c
    using sample_contents by (auto simp: source_of_def HasSuffix_def)
  have items: "image_of sample_archives Container True False ''tarball'' = Some (sample_md, sample_items)"
    by (simp add: image_of_def sample_container sample_items_def)
  have away: "item_path ''/srv'' it \<noteq> ''/home/image.tar.gz'' \<and> (\<forall>n. \<not> within (dk_temp sample_disk n) (item_path ''/srv'' it))"
    if "it \<in> set sample_items" for it
    using sample_item_paths [OF that] by (auto simp: within_def sample_disk_def HasPrefix_def)
  have "sample_items \<noteq> []" by (simp add: sample_items_def container_items_def Let_def)
  then show ?thesis
    using import_stores_before_publishing [OF run [unfolded sample_import_def] c] run c src items away sample_clear sample_root
    by (auto simp: sample_root sample_contents)
qed

theorem import_then_open_witness:
  "\<exists>i' d'. run_state sample_import sample_disk = ((i', None), d') \<and> clear_of_temp sample_disk (rootDir sample_before)
     \<and> rootDir sample_before \<noteq> '''' \<and> quiet d' \<and> json_law sample_archives
     \<and> (\<exists>j. fst (run_state (GetOrCreateIndex sample_archives (rootDir sample_before)) d') = Inr j \<and> same_index i' j)"
proof -
  obtain i' d' where run: "run_state sample_import sample_disk = ((i', None), d')" and q: "quiet d'" using sample_runs by blast
  have c: "clear_of_temp sample_disk (rootDir sample_before)" "rootDir sample_before \<noteq> ''''"
    using sample_clear sample_root by simp_all
  show ?thesis
    using import_then_open [OF run [unfolded sample_import_def] c q sample_json_law] run c q sample_json_law by blast
qed

end
