(* ===== verification/Simplestreams_Command.thy ===== *)
theory Simplestreams_Command
  imports Simplestreams_Import
begin

text \<open>
  The commands of \<^verbatim>\<open>cmd/exp/simplestreams/cmd\<close>: importing one image, importing the images of a release and
  showing an index.  A command is a function of its flags; \<^verbatim>\<open>PreRunE\<close> comes first and stops it.  What
  \<^verbatim>\<open>show\<close> prints is the list of its lines.  The indented JSON encodings are parameters.
\<close>

section \<open>Importing\<close>

record import_image_flags =
  ii_rootDir :: string
  ii_imagePath :: string
  ii_imageAliases :: "string list"
  ii_imageType :: string
  ii_incus :: bool
  ii_lxd :: bool

definition import_image_PreRunE :: "import_image_flags \<Rightarrow> go_error option" where
  "import_image_PreRunE flags =
     (if \<not> ii_incus flags \<and> \<not> ii_lxd flags then Some (Err ''at least one of --incus or --lxd must be set'')
      else if ii_imageType flags = VirtualMachine \<or> ii_imageType flags = Container then None
      else Some (Err (''invalid value for --image-type argument '' @ quote (ii_imageType flags)
             @ '', must be one of [container, virtual-machine]'')))"

text \<open>\<^verbatim>\<open>index.ImportImage\<close> as the commands use it: the index is a pointer, its new value is kept.\<close>

definition importing ::
  "('z, Index \<times> go_error option) os \<Rightarrow> string \<Rightarrow> (Index \<Rightarrow> ('z, 'b) os_err) \<Rightarrow> ('z, 'b) os_err" where
  "importing m msg k =
     do { r \<leftarrow> m;
          case r of (i, Some err) \<Rightarrow> ret (Inl (Errorf msg err)) | (i, None) \<Rightarrow> k i }"

definition import_image_RunE :: "Archives \<Rightarrow> (int \<Rightarrow> int) \<Rightarrow> import_image_flags \<Rightarrow> ('z, unit) os_err" where
  "import_image_RunE ar tz flags =
     guard_err (GetOrCreateIndex ar (ii_rootDir flags)) (Errorf ''failed to read simplestreams index: '')
       (\<lambda>i. importing
          (ImportImage ar tz i (ii_imageType flags) (ii_imagePath flags) (ii_imageAliases flags) (ii_incus flags) (ii_lxd flags))
          ''failed to import image into simplestreams index: '' (\<lambda>_. ret (Inr ())))"

definition newImportImageCmd :: "Archives \<Rightarrow> (int \<Rightarrow> int) \<Rightarrow> import_image_flags \<Rightarrow> ('z, unit) os_err" where
  "newImportImageCmd ar tz flags =
     (case import_image_PreRunE flags of Some err \<Rightarrow> ret (Inl err) | None \<Rightarrow> import_image_RunE ar tz flags)"

record import_release_flags =
  ir_rootDir :: string
  ir_alias :: "string list"
  ir_containerImage :: string
  ir_virtualMachineImage :: string

definition import_if_set ::
  "Archives \<Rightarrow> (int \<Rightarrow> int) \<Rightarrow> string \<Rightarrow> string list \<Rightarrow> string \<Rightarrow> string \<Rightarrow> Index \<Rightarrow> ('z, Index) os_err" where
  "import_if_set ar tz ty alias path msg i =
     (if path \<noteq> '''' then importing (ImportImage ar tz i ty path alias True True) msg (\<lambda>i'. ret (Inr i')) else ret (Inr i))"

definition newImportReleaseCmd :: "Archives \<Rightarrow> (int \<Rightarrow> int) \<Rightarrow> import_release_flags \<Rightarrow> ('z, unit) os_err" where
  "newImportReleaseCmd ar tz flags =
     guard_err (GetOrCreateIndex ar (ir_rootDir flags)) (Errorf ''failed to read simplestreams index: '')
       (\<lambda>i. guard_err (import_if_set ar tz Container (ir_alias flags) (ir_containerImage flags) ''failed to import container image: '' i) id
         (\<lambda>i. guard_err (import_if_set ar tz VirtualMachine (ir_alias flags) (ir_virtualMachineImage flags)
                          ''failed to import Incus VM image: '' i) id
           (\<lambda>_. ret (Inr ()))))"

section \<open>Showing an index\<close>

record show_flags =
  sh_rootDir :: string
  sh_output :: string
  sh_product :: string
  sh_os :: string
  sh_release :: string
  sh_arch :: string
  sh_itype :: string
  sh_incus :: bool
  sh_lxd :: bool

definition show_PreRunE :: "show_flags \<Rightarrow> go_error option" where
  "show_PreRunE flags =
     (if sh_output flags \<in> {''images-json'', ''index-json'', ''pretty''} then None
      else Some (Err (''invalid argument value --output='' @ quote (sh_output flags)
             @ ''. Must be one of [pretty, images-json, index-json]'')))"

text \<open>The verbs \<^verbatim>\<open>%-30s\<close> and \<^verbatim>\<open>%4v\<close>.\<close>

definition pad_right :: "nat \<Rightarrow> string \<Rightarrow> string" where
  "pad_right w s = s @ replicate (w - length s) (CHR '' '')"

definition pad_left :: "nat \<Rightarrow> string \<Rightarrow> string" where
  "pad_left w s = replicate (w - length s) (CHR '' '') @ s"

definition show_header :: "string list" where
  "show_header =
    [''| NAME                           | SERIAL       | TYPE            | SRV   | ARCH  |  SIZE   | PATH'',
     ''|--------------------------------|--------------|-----------------|-------|-------|---------|--------------------------------------------------------'']"

text \<open>The filters on products, in the order of the \<^verbatim>\<open>switch\<close>.\<close>

definition skip_product :: "show_flags \<Rightarrow> string \<Rightarrow> Product \<Rightarrow> bool" where
  "skip_product flags name product \<longleftrightarrow>
     sh_product flags \<noteq> '''' \<and> sh_product flags \<noteq> name
   \<or> sh_arch flags \<noteq> '''' \<and> pr_Architecture product \<noteq> sh_arch flags
   \<or> sh_os flags \<noteq> '''' \<and> pr_OperatingSystem product \<noteq> sh_os flags
   \<or> sh_release flags \<noteq> '''' \<and> pr_Release product \<noteq> sh_release flags"

text \<open>The type and the server of the line for an item, when it has one.\<close>

definition show_kind :: "show_flags \<Rightarrow> ProductVersionItem gomap \<Rightarrow> string \<Rightarrow> (string \<times> string) option" where
  "show_kind flags items ftype =
     (if ftype = ''incus_combined.tar.gz'' then
        if \<not> sh_incus flags \<and> sh_lxd flags \<or> sh_itype flags = VirtualMachine then None else Some (''container      '', ''incus'')
      else if ftype = ''lxd_combined.tar.gz'' then
        if \<not> sh_lxd flags \<and> sh_incus flags \<or> sh_itype flags = VirtualMachine then None else Some (''container      '', ''lxd  '')
      else if ftype = ''disk-kvm.img'' then
        if \<not> sh_incus flags \<and> sh_lxd flags \<or> sh_itype flags = Container then None
        else if map_of items ''incus.tar.xz'' = None then None else Some (''virtual-machine'', ''incus'')
      else if ftype = ''disk1.img'' then
        if \<not> sh_lxd flags \<and> sh_incus flags \<or> sh_itype flags = Container then None
        else if map_of items ''lxd.tar.xz'' = None then None else Some (''virtual-machine'', ''lxd  '')
      else None)"

definition show_line :: "string \<Rightarrow> string \<Rightarrow> string \<Rightarrow> string \<times> string \<Rightarrow> ProductVersionItem \<Rightarrow> string" where
  "show_line name version arch kind item =
     ''| '' @ pad_right 30 name @ '' | '' @ version @ '' | '' @ fst kind @ '' | '' @ snd kind @ '' | '' @ arch @ '' | ''
     @ pad_left 4 (fmt_nat (Size item div 1024 div 1024)) @ '' MB | '' @ Path item"

definition zero_Product :: Product where
  "zero_Product = \<lparr>pr_Aliases = [], pr_Architecture = [], pr_OperatingSystem = [], pr_Release = [], pr_ReleaseTitle = [],
     pr_Variant = [], pr_Versions = []\<rparr>"

definition show_version :: "show_flags \<Rightarrow> string \<Rightarrow> Product \<Rightarrow> string \<times> ProductVersion \<Rightarrow> string list" where
  "show_version flags name product = (\<lambda>(version, pv).
     concat (map (\<lambda>(_, item). case show_kind flags (pv_Items pv) (FileType item) of
        None \<Rightarrow> [] | Some kind \<Rightarrow> [show_line name version (pr_Architecture product) kind item]) (pv_Items pv)))"

definition show_product :: "show_flags \<Rightarrow> Index \<Rightarrow> string \<Rightarrow> string list" where
  "show_product flags i name =
     (let product = (case map_of (products_of i) name of None \<Rightarrow> zero_Product | Some p \<Rightarrow> p)
      in if skip_product flags name product then []
         else concat (map (show_version flags name product) (pr_Versions product)))"

definition show_pretty :: "show_flags \<Rightarrow> Index \<Rightarrow> string list" where
  "show_pretty flags i = show_header @ concat (map (show_product flags i) (listed i))"

definition newShowCmd ::
  "Archives \<Rightarrow> (Products \<Rightarrow> go_error + string) \<Rightarrow> (Stream \<Rightarrow> go_error + string) \<Rightarrow> show_flags \<Rightarrow> ('z, string list) os_err" where
  "newShowCmd ar indent_products indent_index flags =
     (case show_PreRunE flags of
        Some err \<Rightarrow> ret (Inl err)
      | None \<Rightarrow>
         guard_err (GetOrCreateIndex ar (sh_rootDir flags)) (Errorf ''failed to read simplestreams index: '')
           (\<lambda>i. if sh_output flags = ''images-json'' then
                  guard_err (ret (indent_products (ix_Products i))) (Errorf ''failed to marshal JSON: '') (\<lambda>b. ret (Inr [b]))
                else if sh_output flags = ''index-json'' then
                  guard_err (ret (indent_index (ix_Index i))) (Errorf ''failed to marshal JSON: '') (\<lambda>b. ret (Inr [b]))
                else if sh_output flags = ''pretty'' then ret (Inr (show_pretty flags i))
                else ret (Inr [])))"

section \<open>What is shown\<close>

text \<open>Each of the four kinds of image a server can be offered: the file that stands for it, its type, its server, and the metadata
  file that must lie beside it.\<close>

definition image_kinds :: "(string \<times> string \<times> string \<times> string option) list" where
  "image_kinds =
     [(''incus_combined.tar.gz'', Container, IncusServer, None), (''lxd_combined.tar.gz'', Container, LXD, None),
      (''disk-kvm.img'', VirtualMachine, IncusServer, Some ''incus.tar.xz''), (''disk1.img'', VirtualMachine, LXD, Some ''lxd.tar.xz'')]"

text \<open>What the flags ask for.  A server is wanted when its flag is given, or neither is; an image type unless the other one is named.\<close>

definition wants :: "show_flags \<Rightarrow> string \<Rightarrow> string \<Rightarrow> bool" where
  "wants flags ty server \<longleftrightarrow>
     (if server = IncusServer then sh_incus flags \<or> \<not> sh_lxd flags else sh_lxd flags \<or> \<not> sh_incus flags)
   \<and> (if ty = Container then sh_itype flags \<noteq> VirtualMachine else sh_itype flags \<noteq> Container)"

definition asked_for :: "string \<Rightarrow> string \<Rightarrow> bool" where
  "asked_for flag x \<longleftrightarrow> flag = '''' \<or> flag = x"

text \<open>The row for the file \<^term>\<open>f\<close> of the version \<^term>\<open>v\<close> of the product \<^term>\<open>p\<close> in the catalog of the index, when it has one.\<close>

definition row :: "show_flags \<Rightarrow> Index \<Rightarrow> string \<times> string \<times> string \<rightharpoonup> string" where
  "row flags i = (\<lambda>(p, v, f).
     case (catalog i p v f, map_of (products_of i) p, map_of image_kinds f) of
       (Some it, Some product, Some (ty, server, beside)) \<Rightarrow>
         if asked_for (sh_product flags) p \<and> asked_for (sh_arch flags) (pr_Architecture product)
          \<and> asked_for (sh_os flags) (pr_OperatingSystem product) \<and> asked_for (sh_release flags) (pr_Release product)
          \<and> wants flags ty server \<and> (\<forall>g\<in>set_option beside. catalog i p v g \<noteq> None)
         then Some (''| '' @ pad_right 30 p @ '' | '' @ v @ '' | '' @ pad_right 15 ty @ '' | '' @ pad_right 5 server @ '' | ''
                @ pr_Architecture product @ '' | '' @ pad_left 4 (fmt_nat (Size it div 2 ^ 20)) @ '' MB | '' @ Path it)
         else None
     | _ \<Rightarrow> None)"

text \<open>A nested loop over keyed lists whose body gives at most one result collects, in order, the results of its keys.\<close>

lemma collect_keys:
  fixes ks :: "'k::linorder list"
  assumes "distinct ks" "\<And>k. k \<in> set ks \<Longrightarrow> \<exists>ts. distinct ts \<and> set ts = {t. g (k, t) \<noteq> None} \<and> h k = map (\<lambda>t. the (g (k, t))) ts"
  shows "\<exists>ts. distinct ts \<and> set ts = {(k, t). k \<in> set ks \<and> g (k, t) \<noteq> None} \<and> concat (map h ks) = map (\<lambda>t. the (g t)) ts
    \<and> (sorted ks \<longrightarrow> sorted (map fst ts))"
  using assms
proof (induction ks)
  case (Cons k ks)
  then obtain us where us: "distinct us" "set us = {(k, t). k \<in> set ks \<and> g (k, t) \<noteq> None}"
    "concat (map h ks) = map (\<lambda>t. the (g t)) us" "sorted ks \<longrightarrow> sorted (map fst us)" by auto
  obtain ts where ts: "distinct ts" "set ts = {t. g (k, t) \<noteq> None}" "h k = map (\<lambda>t. the (g (k, t))) ts"
    using Cons.prems by force
  have "distinct (map (Pair k) ts @ us)"
    using Cons.prems(1) ts(1) us(1,2) by (auto simp: distinct_map inj_on_def)
  moreover have "set (map (Pair k) ts @ us) = {(k', t). k' \<in> set (k # ks) \<and> g (k', t) \<noteq> None}"
    using ts(2) us(2) by auto
  moreover have "sorted (k # ks) \<longrightarrow> sorted (map fst (map (Pair k) ts @ us))"
    using us(2,4) by (auto simp: sorted_append comp_def map_replicate_const)
  ultimately show ?case
    using ts(3) us(3) by (intro exI [of _ "map (Pair k) ts @ us"]) (simp add: comp_def)
qed simp

text \<open>The code's filter on items is the table of image kinds.\<close>

lemma show_kind_table:
  "show_kind flags items f =
     (case map_of image_kinds f of
        None \<Rightarrow> None
      | Some (ty, server, beside) \<Rightarrow>
          if wants flags ty server \<and> (\<forall>g\<in>set_option beside. map_of items g \<noteq> None) then Some (pad_right 15 ty, pad_right 5 server)
          else None)"
  by (auto simp: show_kind_def image_kinds_def wants_def Container_def VirtualMachine_def IncusServer_def LXD_def pad_right_def
      numeral_eq_Suc)

lemma skip_product_asked:
  "\<not> skip_product flags name product \<longleftrightarrow>
     asked_for (sh_product flags) name \<and> asked_for (sh_arch flags) (pr_Architecture product)
   \<and> asked_for (sh_os flags) (pr_OperatingSystem product) \<and> asked_for (sh_release flags) (pr_Release product)"
  by (auto simp: skip_product_def asked_for_def)

lemma collect_map:
  fixes m :: "'x gomap"
  assumes "wf_map m" and "\<And>k t. g (k, t) \<noteq> None \<Longrightarrow> map_of m k \<noteq> None"
    and each: "\<And>k x. map_of m k = Some x \<Longrightarrow>
      \<exists>ts. distinct ts \<and> set ts = {t. g (k, t) \<noteq> None} \<and> h (k, x) = map (\<lambda>t. the (g (k, t))) ts"
  shows "\<exists>ts. distinct ts \<and> set ts = dom g \<and> concat (map h m) = map (\<lambda>t. the (g t)) ts"
proof -
  let ?h = "\<lambda>k. h (k, the (map_of m k))"
  have "distinct (map fst m)" using assms(1) by (simp add: wf_map_def)
  then have eq: "map h m = map ?h (map fst m)" by (auto intro!: map_cong)
  have "\<exists>ts. distinct ts \<and> set ts = {(k, t). k \<in> set (map fst m) \<and> g (k, t) \<noteq> None}
      \<and> concat (map ?h (map fst m)) = map (\<lambda>t. the (g t)) ts \<and> (sorted (map fst m) \<longrightarrow> sorted (map fst ts))"
    using \<open>distinct (map fst m)\<close> each
    by (intro collect_keys) (auto simp: dom_map_of_conv_image_fst [symmetric])
  moreover have "{(k, t). k \<in> set (map fst m) \<and> g (k, t) \<noteq> None} = dom g"
    using assms(2) by (fastforce simp: dom_map_of_conv_image_fst [symmetric])
  ultimately show ?thesis unfolding eq by auto
qed

lemma show_version_rows:
  assumes p: "map_of (products_of i) name = Some product" and v: "map_of (pr_Versions product) v = Some pv" and ok: "version_ok pv"
    and "\<not> skip_product flags name product"
  shows "\<exists>ts. distinct ts \<and> set ts = {f. row flags i (name, v, f) \<noteq> None}
    \<and> show_version flags name product (v, pv) = map (\<lambda>f. the (row flags i (name, v, f))) ts"
proof -
  have row: "row flags i (name, v, f) =
      Option.bind (map_of (pv_Items pv) f) (\<lambda>it. map_option (\<lambda>kind. show_line name v (pr_Architecture product) kind it)
        (show_kind flags (pv_Items pv) f))" for f
    using assms(4) p v
    by (auto simp: row_def show_kind_table catalog_def skip_product_asked show_line_def div_mult2_eq [symmetric]
        split: option.splits prod.splits)
  have keys: "distinct (map fst (pv_Items pv))" using ok by (simp add: version_ok_def wf_map_def)
  have item: "FileType (snd x) = fst x" "map_of (pv_Items pv) (fst x) = Some (snd x)" if "x \<in> set (pv_Items pv)" for x
    using ok that by (auto simp: version_ok_def wf_map_def)
  let ?xs = "filter (\<lambda>x. row flags i (name, v, fst x) \<noteq> None) (pv_Items pv)"
  have "concat (map k xs) = map f (filter P xs)" if "\<And>x. x \<in> set xs \<Longrightarrow> k x = (if P x then [f x] else [])"
    for k f P and xs :: "(string \<times> ProductVersionItem) list" using that by (induction xs) auto
  from this [of "pv_Items pv" "\<lambda>(_, it). case show_kind flags (pv_Items pv) (FileType it) of None \<Rightarrow> []
      | Some kind \<Rightarrow> [show_line name v (pr_Architecture product) kind it]" "\<lambda>x. row flags i (name, v, fst x) \<noteq> None"
      "\<lambda>x. the (row flags i (name, v, fst x))"]
  have "show_version flags name product (v, pv) = map (\<lambda>f. the (row flags i (name, v, f))) (map fst ?xs)"
    using item by (force simp: show_version_def row comp_def split: option.splits)
  moreover have "distinct (map fst ?xs)" by (rule distinct_map_filter [OF keys])
  moreover have "set (map fst ?xs) = {f. row flags i (name, v, f) \<noteq> None}"
    by (auto simp: row image_iff bind_eq_Some_conv split: option.splits) (metis map_of_SomeD fst_conv item(2))
  ultimately show ?thesis by blast
qed

lemma show_product_rows:
  assumes "index_ok i" and "name \<in> set (listed i)"
  shows "\<exists>ts. distinct ts \<and> set ts = {t. row flags i (name, t) \<noteq> None}
    \<and> show_product flags i name = map (\<lambda>t. the (row flags i (name, t))) ts"
proof -
  obtain product where p: "map_of (products_of i) name = Some product"
    using assms by (cases "map_of (products_of i) name") (auto simp: index_ok_def map_of_eq_None_iff)
  then have ok: "product_ok product" using assms by (auto simp: index_ok_def dest: map_of_SomeD)
  show ?thesis
  proof (cases "skip_product flags name product")
    case True
    then have "row flags i (name, t) = None" for t
      using p by (cases t) (auto simp: row_def skip_product_asked [THEN iffD2, rotated] split: option.splits prod.splits
          dest: skip_product_asked [THEN iffD2])
    then show ?thesis using True p by (simp add: show_product_def)
  next
    case False
    let ?g = "\<lambda>t. row flags i (name, t)"
    have "\<exists>ts. distinct ts \<and> set ts = dom ?g \<and> concat (map (show_version flags name product) (pr_Versions product))
        = map (\<lambda>t. the (?g t)) ts"
    proof (rule collect_map)
      show "wf_map (pr_Versions product)" using ok by (simp add: product_ok_def)
      show "map_of (pr_Versions product) k \<noteq> None" if "row flags i (name, k, t) \<noteq> None" for k t
        using that p by (auto simp: row_def catalog_def bind_eq_Some_conv split: option.splits)
      show "\<exists>ts. distinct ts \<and> set ts = {t. row flags i (name, k, t) \<noteq> None}
          \<and> show_version flags name product (k, pv) = map (\<lambda>t. the (row flags i (name, k, t))) ts"
        if "map_of (pr_Versions product) k = Some pv" for k pv
        using that ok by (intro show_version_rows [OF p that _ False]) (auto simp: product_ok_def dest: map_of_SomeD)
    qed
    then show ?thesis using False p by (simp add: show_product_def dom_def)
  qed
qed

text \<open>
  C39: The table that \<^verbatim>\<open>show\<close> prints for an index with the invariant of imports is the header followed by exactly one row for each
  image of the catalog that passes the filters, and nothing else, in the sorted order of the products.  An image is one of the four
  kinds of file (a combined tarball, or a disk beside its metadata file); it passes when its product has the name, architecture,
  operating system and release asked for, its server is asked for or no server is, and the other image type is not asked for.  The row
  gives the product, version, type, server, architecture, size in mebibytes and path of that image.
\<close>

theorem show_pretty_exact:
  assumes "index_ok i"
  shows "\<exists>images. distinct images \<and> set images = dom (row flags i) \<and> sorted (map fst images)
    \<and> show_pretty flags i = show_header @ map (\<lambda>t. the (row flags i t)) images"
proof -
  have "\<exists>ts. distinct ts \<and> set ts = {(p, t). p \<in> set (listed i) \<and> row flags i (p, t) \<noteq> None}
      \<and> concat (map (show_product flags i) (listed i)) = map (\<lambda>t. the (row flags i t)) ts \<and> (sorted (listed i) \<longrightarrow> sorted (map fst ts))"
    using assms by (intro collect_keys show_product_rows) (simp_all add: index_ok_def)
  moreover have "p \<in> set (listed i)" if "row flags i (p, t) \<noteq> None" for p t
    using assms that by (cases t) (auto simp: row_def index_ok_def dest!: map_of_SomeD split: option.splits intro: rev_image_eqI)
  then have "{(p, t). p \<in> set (listed i) \<and> row flags i (p, t) \<noteq> None} = dom (row flags i)" by auto
  ultimately show ?thesis using assms by (auto simp: show_pretty_def index_ok_def)
qed

text \<open>An index with a container image, and a disk whose metadata is missing.\<close>

definition shown_file :: "string \<Rightarrow> string \<times> ProductVersionItem" where
  "shown_file f = (f, \<lparr>FileType = f, HashSha256 = [], Size = 3 * 2 ^ 20, Path = ''images/'' @ f, CombinedSha256DiskKvmImg = [], CombinedSha256DiskImg = []\<rparr>)"

definition shown_product :: Product where
  "shown_product = \<lparr>pr_Aliases = [], pr_Architecture = ''amd64'', pr_OperatingSystem = ''ubuntu'', pr_Release = ''24.04'', pr_ReleaseTitle = [],
     pr_Variant = [], pr_Versions = [(''202501010000'', \<lparr>pv_Items = map shown_file [''incus_combined.tar.gz'', ''disk-kvm.img'']\<rparr>)]\<rparr>"

definition shown_index :: Index where
  "shown_index = \<lparr>ix_Index = \<lparr>strm_Format = ''index:1.0'', strm_Index = Some [(''images'', zero_StreamIndex\<lparr>si_Products := [''ubuntu:24.04'']\<rparr>)]\<rparr>,
     ix_Products = new_products\<lparr>ps_Products := Some [(''ubuntu:24.04'', shown_product)]\<rparr>, rootDir = ''/srv''\<rparr>"

definition sample_show :: show_flags where
  "sample_show = \<lparr>sh_rootDir = ''/srv'', sh_output = ''pretty'', sh_product = [], sh_os = [], sh_release = [], sh_arch = ''amd64'',
     sh_itype = [], sh_incus = True, sh_lxd = False\<rparr>"

theorem show_pretty_exact_witness:
  "\<exists>t. dom (row sample_show shown_index) = {t} \<and> show_pretty sample_show shown_index = show_header @ [the (row sample_show shown_index t)]"
proof -
  have ok: "index_ok shown_index"
    by (simp add: index_ok_def shown_index_def listed_def products_of_def images_of_def product_ok_def version_ok_def shown_product_def
        shown_file_def wf_map_def)
  have "length (show_pretty sample_show shown_index) = Suc (length show_header)"
    by (simp add: show_pretty_def show_product_def show_version_def shown_index_def listed_def products_of_def images_of_def shown_product_def
        shown_file_def sample_show_def skip_product_def show_kind_def VirtualMachine_def)
  moreover obtain images where images: "set images = dom (row sample_show shown_index)"
    "show_pretty sample_show shown_index = show_header @ map (\<lambda>t. the (row sample_show shown_index t)) images"
    using show_pretty_exact [OF ok, of sample_show] by blast
  ultimately obtain t where "images = [t]" by (auto simp: length_Suc_conv)
  with images show ?thesis by (intro exI [of _ t]) simp
qed

section \<open>The import command\<close>

lemma GetOrCreateIndex_quiet: "touches (\<lambda>_. False) (GetOrCreateIndex ar dir)"
  unfolding GetOrCreateIndex_def load_document_def by (intro touches_intros)

lemma GetOrCreateIndex_root:
  assumes "run_state (GetOrCreateIndex ar dir) d = (Inr i, d')"
  shows "rootDir i = index_root d dir"
proof -
  have "wp (GetOrCreateIndex ar dir) (\<lambda>r d'. \<forall>i. r = Inr i \<longrightarrow> rootDir i = index_root d dir) d"
    by (cases "dir = ''''")
      (auto simp: GetOrCreateIndex_def load_document_def index_root_def wp_simps os_defs disk_simps split: sum.splits option.splits prod.splits)
  then show ?thesis using assms by (auto dest: wpD)
qed

lemma ImportImage_cwd:
  assumes "run_state (ImportImage ar tz i ty path aliases incus lxd) d = (r, d')"
  shows "dk_cwd d' = dk_cwd d"
proof -
  have "touches (\<lambda>_. True) (maybeExtractUnifiedTarballFromZIP ar path)"
    by (auto simp: touches_def intro: wp_mono [OF extract_result])
  then have "touches (\<lambda>_. True) (ImportImage ar tz i ty path aliases incus lxd)"
    unfolding ImportImage_def import_type_def importContainerUnifiedTarball_def
      importVirtualMachineUnifiedTarball_def import_with_def scan_container_def scan_vm_def open_archive_def getContainerImageInfo_def
      store_container_def store_vm_def write_index_def write_document_def copyFile_def Let_def
    by (intro touches_intros) (auto intro!: touches_intros split: prod.split)
  from touchesD(2) [OF this assms] show ?thesis by (simp add: same_oracles_def)
qed

lemma image_of_items:
  "image_of ar ty incus lxd c = Some (md, items) \<Longrightarrow> incus \<or> lxd \<Longrightarrow> items \<noteq> []"
  by (auto simp: image_of_def container_items_def vm_items_def Let_def split: if_splits)

text \<open>C24: When the import command succeeds, the image that was at the given path has been published in the directory of
  \<^verbatim>\<open>--root-dir\<close>, or in the current one if none is given: opening the index again with the same flag gives the catalog that was there
  before, with the (at least one) items of the image added to one version of one product.  This supposes that the index is not kept in a
  temporary directory, that no operation on the disk fails when the index is opened again, and that the JSON library reads what it wrote.\<close>

theorem import_command_publishes:
  assumes run: "run_state (newImportImageCmd ar tz flags) d = (Inr (), d')"
    and clear: "clear_of_temp d (if ii_rootDir flags = '''' then dk_cwd d else ii_rootDir flags)"
    and quiet: "quiet d'" and json: "json_law ar"
  shows "\<exists>i i' c md items. fst (run_state (GetOrCreateIndex ar (ii_rootDir flags)) d) = Inr i
       \<and> fst (run_state (GetOrCreateIndex ar (ii_rootDir flags)) d') = Inr i'
       \<and> rootDir i = (if ii_rootDir flags = '''' then dk_cwd d else ii_rootDir flags)
       \<and> source_of ar (contents d) (ii_imagePath flags) c
       \<and> image_of ar (ii_imageType flags) (ii_incus flags) (ii_lxd flags) c = Some (md, items) \<and> items \<noteq> []
       \<and> catalog i' = publish (productName md) (versionName tz md) items (catalog i)"
proof -
  have pre: "ii_incus flags \<or> ii_lxd flags" and "run_state (import_image_RunE ar tz flags) d = (Inr (), d')"
    using run by (auto simp: newImportImageCmd_def import_image_PreRunE_def split: option.splits if_splits)
  then obtain i d1 i' where o: "run_state (GetOrCreateIndex ar (ii_rootDir flags)) d = (Inr i, d1)"
    and im: "run_state (ImportImage ar tz i (ii_imageType flags) (ii_imagePath flags) (ii_imageAliases flags)
        (ii_incus flags) (ii_lxd flags)) d1 = ((i', None), d')"
    by (auto simp: import_image_RunE_def importing_def run_state_guard_err split: sum.splits prod.splits option.splits)
  note same = touchesD [OF GetOrCreateIndex_quiet o]
  have c: "contents d1 = contents d" using same by auto
  have r: "rootDir i = index_root d (ii_rootDir flags)" by (rule GetOrCreateIndex_root [OF o])
  have cwd: "dk_cwd d' = dk_cwd d" using ImportImage_cwd [OF im] same(2) by (simp add: same_oracles_def)
  have cl: "clear_of_temp d1 (rootDir i)" using clear same(2) r by (simp add: clear_of_temp_def same_oracles_def index_root_def)
  from import_writes [OF im cl] obtain c' md items where
    *: "source_of ar (contents d1) (ii_imagePath flags) c'"
      "image_of ar (ii_imageType flags) (ii_incus flags) (ii_lxd flags) c' = Some (md, items)"
      "catalog i' = publish (productName md) (versionName tz md) items (catalog i)"
      "written ar i' (contents d')" "rootDir i' = rootDir i" by blast
  have "rootDir i' = index_root d' (ii_rootDir flags)" using *(5) r cwd by (simp add: index_root_def)
  from GetOrCreateIndex_reads [OF quiet *(4) json this] obtain j where
      "fst (run_state (GetOrCreateIndex ar (ii_rootDir flags)) d') = Inr j" "catalog i' = catalog j"
    using same_index_catalog by blast
  with * o c r image_of_items [OF *(2) pre] show ?thesis by (auto simp: index_root_def)
qed

definition sample_flags :: import_image_flags where
  "sample_flags = \<lparr>ii_rootDir = ''/srv'', ii_imagePath = ''/home/image.tar.gz'', ii_imageAliases = [], ii_imageType = Container,
     ii_incus = True, ii_lxd = False\<rparr>"

lemma sample_open: "fst (run_state (GetOrCreateIndex sample_archives ''/srv'') sample_disk) = Inr sample_before"
proof -
  have "images_path ''/srv'' \<noteq> ''/home/image.tar.gz''" "index_path ''/srv'' \<noteq> ''/home/image.tar.gz''"
    by (rule notI, drule arg_cong [where f = last_elem], simp add: sample_path)+
  then have "contents sample_disk (index_path ''/srv'') = None" "contents sample_disk (images_path ''/srv'') = None"
    by (simp_all add: contents_def sample_disk_def)
  then show ?thesis
    by (simp add: GetOrCreateIndex_def run_state_guard_err MkdirAll_def run_os_op_quiet load_document_quiet quiet_tick disk_simps
        sample_quiet sample_before_def)
qed

lemma sample_command_runs:
  "\<exists>d'. run_state (newImportImageCmd sample_archives (\<lambda>_. 0) sample_flags) sample_disk = (Inr (), d') \<and> quiet d'"
proof -
  obtain d1 where o: "run_state (GetOrCreateIndex sample_archives ''/srv'') sample_disk = (Inr sample_before, d1)"
    using sample_open by (metis prod.collapse)
  note same = touchesD [OF GetOrCreateIndex_quiet o]
  have "quiet d1" using same(2) sample_quiet by (auto simp: quiet_def same_oracles_def)
  moreover have "contents d1 ''/home/image.tar.gz'' = Some ''tarball''" using same(1) sample_contents by simp
  ultimately have "wp (ImportImage sample_archives (\<lambda>_. 0) sample_before Container ''/home/image.tar.gz'' [] True False)
      (\<lambda>(i', e) d'. e = None \<and> quiet d') d1"
    by (rule container_import_runs [OF _ _ sample_container sample_before_ok _ _ sample_encodes])
      (simp_all add: sample_path sample_hash HasSuffix_def)
  then show ?thesis
    by (auto simp: wp_def newImportImageCmd_def import_image_PreRunE_def import_image_RunE_def importing_def
        run_state_guard_err sample_flags_def o split: prod.splits)
qed

theorem import_command_publishes_witness:
  "\<exists>d'. run_state (newImportImageCmd sample_archives (\<lambda>_. 0) sample_flags) sample_disk = (Inr (), d')
     \<and> (\<exists>i i' c md items. fst (run_state (GetOrCreateIndex sample_archives ''/srv'') sample_disk) = Inr i
       \<and> fst (run_state (GetOrCreateIndex sample_archives ''/srv'') d') = Inr i'
       \<and> source_of sample_archives (contents sample_disk) ''/home/image.tar.gz'' c
       \<and> image_of sample_archives Container True False c = Some (md, items) \<and> items \<noteq> []
       \<and> catalog i' = publish (productName md) (versionName (\<lambda>_. 0) md) items (catalog i))"
proof -
  obtain d' where run: "run_state (newImportImageCmd sample_archives (\<lambda>_. 0) sample_flags) sample_disk = (Inr (), d')"
    and q: "quiet d'" using sample_command_runs by blast
  have f: "ii_rootDir sample_flags = ''/srv''" "ii_imagePath sample_flags = ''/home/image.tar.gz''"
      "ii_imageType sample_flags = Container" "ii_incus sample_flags = True" "ii_lxd sample_flags = False"
    by (simp_all add: sample_flags_def)
  have "clear_of_temp sample_disk (if ii_rootDir sample_flags = '''' then dk_cwd sample_disk else ii_rootDir sample_flags)"
    using sample_clear f by simp
  from import_command_publishes [OF run this q sample_json_law] run show ?thesis unfolding f by blast
qed

end
