(* ===== verification/Image_Builder.thy ===== *)
theory Image_Builder
  imports Simplestreams_Import LXC_Client
begin

text \<open>
  The actions and stages of \<^verbatim>\<open>internal/exp/image-builder\<close>.  An action is effectful code over a client; those
  that write local files run in a world whose outside holds a disk.  The wait for the agent of a new
  instance is two goroutines that race for a channel; it is a loop on fuel here, with the limit of the
  other goroutine in every round, and the fuel is shown to be enough.
\<close>

section \<open>Actions on instances\<close>

type_synonym 'w Action = "go_context \<Rightarrow> 'w Client \<Rightarrow> (request, 'w, unit) io_err"

text \<open>\<^verbatim>\<open>Chain\<close>: the actions one after the other; an error names the position, counted from zero.\<close>

fun chain_from :: "nat \<Rightarrow> nat \<Rightarrow> 'w Action list \<Rightarrow> 'w Action" where
  "chain_from idx n [] ctx c = ret (Inr ())"
| "chain_from idx n (action # actions) ctx c =
     guard_err (action ctx c) (Errorf (''action '' @ fmt_nat idx @ ''/'' @ fmt_nat n @ '' failed: ''))
       (\<lambda>_. chain_from (Suc idx) n actions ctx c)"

definition Chain :: "'w Action list \<Rightarrow> 'w Action" where
  "Chain actions = chain_from 0 (length actions) actions"

definition DeleteInstance :: "string \<Rightarrow> 'w Action" where
  "DeleteInstance name ctx c =
     guard_err (WaitForDeleteInstance c ctx name) (Errorf ''failed to delete instance: '') (\<lambda>_. ret (Inr ()))"

definition StopInstance :: "string \<Rightarrow> 'w Action" where
  "StopInstance name ctx c =
     guard_err (WaitForStopInstance c ctx name) (Errorf ''failed to stop instance: '') (\<lambda>_. ret (Inr ()))"

definition ExecInstance :: "string \<Rightarrow> string \<Rightarrow> string list \<Rightarrow> 'w Action" where
  "ExecInstance name bashScript args ctx c =
     guard_err (RunCommand c ctx name ([''bash'', ''-s'', ''--''] @ args) (Some bashScript))
       (Errorf ''failed to run script: '') (\<lambda>_. ret (Inr ()))"

definition Wait :: "nat \<Rightarrow> 'w Action" where
  "Wait duration ctx c =
     do { r \<leftarrow> select_after ctx duration; ret (case r of Some err \<Rightarrow> Inl err | None \<Rightarrow> Inr ()) }"

subsection \<open>Launching\<close>

definition root_device :: "StoragePool \<Rightarrow> string gomap gomap" where
  "root_device pool =
     [(''root'', [(''type'', ''disk''), (''pool'', sp_Name pool), (''path'', ''/''), (''size'', ''5GiB'')])]"

definition with_root :: "StoragePool list \<Rightarrow> LaunchOptions \<Rightarrow> LaunchOptions" where
  "with_root pools launchOpts =
     foldl (\<lambda>opts pool. if sp_Status pool = ''Created'' then WithDevices opts (root_device pool) else opts) launchOpts pools"

definition agent_timeout :: nat where
  "agent_timeout = 5 * 60 * second"

definition agent_limit :: "go_context \<Rightarrow> nat \<Rightarrow> nat \<times> go_error" where
  "agent_limit ctx t =
     (case deadline ctx of
        Some u \<Rightarrow> if u \<le> t + agent_timeout then (u, DeadlineExceeded)
                  else (t + agent_timeout, Err ''timed out after 5 minutes'')
      | None \<Rightarrow> (t + agent_timeout, Err ''timed out after 5 minutes''))"

text \<open>
  The polling goroutine against the other one, which sends \<open>err\<close> at time \<open>limit\<close>: a command that succeeds
  only after the limit comes too late.
\<close>

fun wait_agent :: "nat \<Rightarrow> 'w Client \<Rightarrow> go_context \<Rightarrow> string \<Rightarrow> nat \<times> go_error \<Rightarrow> (request, 'w, (go_error + unit) option) io" where
  "wait_agent 0 c ctx name lim = ret None"
| "wait_agent (Suc fuel) c ctx name lim =
     do { r \<leftarrow> RunCommand c ctx name [''echo'', ''hi''] None;
          t \<leftarrow> now;
          if fst lim \<le> t then ret (Some (Inl (snd lim)))
          else case r of
            Inr _ \<Rightarrow> ret (Some (Inr ()))
          | Inl _ \<Rightarrow> do { w \<leftarrow> select_after \<lparr>deadline = Some (fst lim)\<rparr> second;
                         case w of
                           Some _ \<Rightarrow> ret (Some (Inl (snd lim)))
                         | None \<Rightarrow> wait_agent fuel c ctx name lim } }"

definition LaunchInstance :: "string \<Rightarrow> LaunchOptions \<Rightarrow> 'w Action" where
  "LaunchInstance name launchOpts ctx c =
     guard_err (incus_call c ReqGetStoragePools (srv_GetStoragePools (cli_server c))) (Errorf ''failed to list storage pools: '')
       (\<lambda>pools. guard_err (WaitForLaunchInstance c ctx name (with_root pools launchOpts)) (Errorf ''failed to launch instance: '')
         (\<lambda>_. do { t \<leftarrow> now;
                   r \<leftarrow> wait_agent (Suc (agent_timeout div second)) c ctx name (agent_limit ctx t);
                   ret (case r of
                     None \<Rightarrow> out_of_fuel
                   | Some (Inl err) \<Rightarrow> Inl (Errorf ''failed to wait for instance agent to come up: '' err)
                   | Some (Inr _) \<Rightarrow> Inr ()) }))"

section \<open>Actions on images\<close>

record PublishImageInfo =
  pi_Name :: string
  pi_OperatingSystem :: string
  pi_Release :: string
  pi_Variant :: string
  pi_LXCRequireCgroupv2 :: bool

text \<open>The clock counts milliseconds since 1970.\<close>

definition serial_of :: "civil \<Rightarrow> string" where
  "serial_of t = fmt_int (cv_year t) @ pad 2 (cv_month t) @ pad 2 (cv_day t) @ pad 2 (cv_hour t) @ pad 2 (cv_minute t)"

definition publish_properties :: "string \<Rightarrow> PublishImageInfo \<Rightarrow> string \<Rightarrow> string \<Rightarrow> string gomap" where
  "publish_properties goarch info serial instType =
     (let properties = [(''architecture'', goarch), (''name'', pi_Name info),
            (''description'', pi_Name info @ '' ('' @ serial @ '')''), (''os'', pi_OperatingSystem info),
            (''release'', pi_Release info), (''variant'', pi_Variant info), (''serial'', serial)]
      in if pi_LXCRequireCgroupv2 info \<and> instType = Container
         then map_set ''requirements.cgroupv2'' ''true'' properties else properties)"

text \<open>
  The local time zone, the architecture and \<^verbatim>\<open>AddDate(10, 0, 0)\<close> are parameters.  \<open>drop_alias\<close> is the part
  that looks at an existing alias: it answers whether the image of the alias is recent enough.
\<close>

record BuildHost =
  bh_tz :: "int \<Rightarrow> int"
  bh_GOARCH :: string
  bh_AddTenYears :: "int \<Rightarrow> int"

definition drop_alias :: "'w Client \<Rightarrow> Instance \<Rightarrow> string \<Rightarrow> (request, 'w, bool) io_err" where
  "drop_alias c inst imageAliasName =
     do { a \<leftarrow> incus_call c (ReqGetImageAlias imageAliasName) (srv_GetImageAlias (cli_server c) imageAliasName);
          case a of
            Inl _ \<Rightarrow> ret (Inr False)
          | Inr alias \<Rightarrow>
              do { i \<leftarrow> incus_call c (ReqGetImage (ia_Target alias)) (srv_GetImage (cli_server c) (ia_Target alias));
                   if (case i of Inr created \<Rightarrow> in_LastUsedAt inst < created | Inl _ \<Rightarrow> False) then ret (Inr True)
                   else guard_err (incus_call c (ReqDeleteImageAlias imageAliasName) (srv_DeleteImageAlias (cli_server c) imageAliasName))
                          (Errorf (''failed to delete existing image alias '' @ quote imageAliasName @ '': ''))
                          (\<lambda>_. ret (Inr False)) } }"

definition publish_post :: "BuildHost \<Rightarrow> string \<Rightarrow> string \<Rightarrow> PublishImageInfo \<Rightarrow> Instance \<Rightarrow> nat \<Rightarrow> nat \<Rightarrow> ImagesPost" where
  "publish_post h instanceName imageAliasName info inst t t' =
     \<lparr>ip_Properties = publish_properties (bh_GOARCH h) info (serial_of (civil_of (bh_tz h) (int (t div second)))) (in_Type inst),
      ip_Public = True, ip_ExpiresAt = bh_AddTenYears h (int (t' div second)),
      ip_SourceType = ''instance'', ip_SourceName = instanceName, ip_Aliases = [imageAliasName]\<rparr>"

definition PublishImage :: "BuildHost \<Rightarrow> string \<Rightarrow> string \<Rightarrow> PublishImageInfo \<Rightarrow> 'w Action" where
  "PublishImage h instanceName imageAliasName info ctx c =
     guard_err (incus_call c (ReqGetInstance instanceName) (srv_GetInstance (cli_server c) instanceName))
       (Errorf ''failed to get instance: '')
       (\<lambda>inst. guard_err (drop_alias c inst imageAliasName) id
         (\<lambda>recent. if recent then ret (Inr ())
            else do { t \<leftarrow> now;
                      WaitForOperation c ctx ''PublishImage''
                        (do { t' \<leftarrow> now;
                              let post = publish_post h instanceName imageAliasName info inst t t'
                              in incus_call c (ReqCreateImage post) (srv_CreateImage (cli_server c) post) }) }))"

section \<open>Actions on local files\<close>

text \<open>\<^verbatim>\<open>io.Copy(of, reader)\<close> with the reader of an instance file.\<close>

definition CopyInstanceFile :: "string \<Rightarrow> string \<Rightarrow> string \<Rightarrow> 'z disk_scheme Action" where
  "CopyInstanceFile name instanceFile outputFile ctx c =
     guard_err (lift_os (Create_file outputFile)) (Errorf ''failed to create output file: '')
       (\<lambda>_. guard_err (incus_call c (ReqGetInstanceFile name instanceFile) (srv_GetInstanceFile (cli_server c) name instanceFile))
              (Errorf (''failed to read file '' @ quote instanceFile @ '' from instance '' @ quote name @ '': ''))
         (\<lambda>r. guard_err (case read_file r of Inl err \<Rightarrow> ret (Inl err) | Inr b \<Rightarrow> lift_os (Copy_text outputFile b))
              (Errorf ''failed to copy file: '') (\<lambda>_. ret (Inr ()))))"

subsection \<open>Compressing a root file system\<close>

definition qemuCompressImage ::
  "'z disk_scheme Programs \<Rightarrow> go_context \<Rightarrow> string \<Rightarrow> (request, 'z disk_scheme, string) io_err" where
  "qemuCompressImage pg ctx raw =
     guard_err (lift_os MkdirTemp) (Errorf ''failed to create temporary directory: '')
       (\<lambda>tmpDir.
          let uncompressed = Join_path [tmpDir, ''uncompressed.qcow2''];
              compressed = Join_path [tmpDir, ''compressed.qcow2'']
          in do { r \<leftarrow> guard_err (lift_os (WriteFile uncompressed raw))
                         (Errorf ''failed to write uncompressed rootfs to temporary file: '')
                       (\<lambda>_. do { p \<leftarrow> call (LookPath ''qemu-img'') (pg_LookPath pg ''qemu-img'');
                            let qemuImg = (case p of Inr q \<Rightarrow> q | Inl _ \<Rightarrow> ''/opt/incus/bin/qemu-img'');
                                extraEnv = (case p of Inr _ \<Rightarrow> [] | Inl _ \<Rightarrow> [''LD_LIBRARY_PATH=/opt/incus/lib'']);
                                args = [''convert'', ''-O'', ''qcow2'', ''-c'', uncompressed, compressed]
                            in do { x \<leftarrow> call (RunProcess qemuImg args extraEnv) (pg_Run pg ctx qemuImg args extraEnv);
                                    case x of
                                      (stderr, Inl err) \<Rightarrow>
                                        ret (Inl (Errorf (''qemu-img convert -c command failed with stderr='' @ quote stderr @ '': '') err))
                                    | (_, Inr _) \<Rightarrow>
                                        guard_err (lift_os (ReadFile compressed)) (Errorf ''failed to read rootfs after compression: '')
                                          (\<lambda>b. ret (Inr b)) } });
                  _ \<leftarrow> lift_os (RemoveAll tmpDir);
                  ret r })"

definition append_entry ::
  "Archives \<Rightarrow> tar_header \<Rightarrow> string \<Rightarrow> (go_error \<Rightarrow> go_error) \<Rightarrow> (go_error \<Rightarrow> go_error)
   \<Rightarrow> (tar_header \<times> string) list \<Rightarrow> go_error + (tar_header \<times> string) list" where
  "append_entry ar hdr b header_failed write_failed acc =
     (case ar_WriteHeader ar hdr of
        Some err \<Rightarrow> Inl (header_failed err)
      | None \<Rightarrow> (case ar_Write ar hdr b of Some err \<Rightarrow> Inl (write_failed err) | None \<Rightarrow> Inr (acc @ [(hdr, b)])))"

definition copy_entry ::
  "Archives \<Rightarrow> tar_header \<Rightarrow> go_error + string \<Rightarrow> (tar_header \<times> string) list \<Rightarrow> go_error + (tar_header \<times> string) list" where
  "copy_entry ar hdr body acc =
     (case ar_WriteHeader ar hdr of
        Some err \<Rightarrow> Inl (Errorf (''failed to write header for '' @ quote (th_Name hdr) @ '': '') err)
      | None \<Rightarrow> (case body of
           Inl err \<Rightarrow> Inl (Errorf (''failed to copy file '' @ quote (th_Name hdr) @ '': '') err)
         | Inr b \<Rightarrow> append_entry ar hdr b id (Errorf (''failed to copy file '' @ quote (th_Name hdr) @ '': '')) acc))"

fun compress_entries ::
  "'z disk_scheme Programs \<Rightarrow> Archives \<Rightarrow> go_context \<Rightarrow> go_error option \<Rightarrow> (tar_header \<times> (go_error + string)) list
   \<Rightarrow> (tar_header \<times> string) list \<Rightarrow> (request, 'z disk_scheme, (tar_header \<times> string) list) io_err" where
  "compress_entries pg ar ctx fin [] acc =
     ret (case fin of None \<Rightarrow> Inr acc | Some err \<Rightarrow> Inl (Errorf ''failed to read tar.gz archive: '' err))"
| "compress_entries pg ar ctx fin ((hdr, body) # rest) acc =
     (if th_Name hdr \<noteq> ''rootfs.img'' then
        guard_err (ret (copy_entry ar hdr body acc)) id (\<lambda>acc. compress_entries pg ar ctx fin rest acc)
      else
        guard_err (ret body) (Errorf ''failed to read rootfs.img: '')
          (\<lambda>raw. guard_err (qemuCompressImage pg ctx raw) (Errorf ''failed to compress rootfs.img from tarball: '')
            (\<lambda>compressed. guard_err
               (ret (append_entry ar (hdr\<lparr>th_Size := length compressed\<rparr>) compressed
                  (Errorf ''failed to write header for compressed rootfs.img: '') (Errorf ''failed to copy compressed rootfs.img: '') acc)) id
               (\<lambda>acc. compress_entries pg ar ctx fin rest acc))))"

text \<open>
  The writers of the new archive are closed by deferred calls, after the file was moved; their errors
  are dropped.
\<close>

definition compressUnifiedImageTarballRootfs ::
  "'z disk_scheme Programs \<Rightarrow> Archives \<Rightarrow> go_context \<Rightarrow> string \<Rightarrow> (request, 'z disk_scheme, unit) io_err" where
  "compressUnifiedImageTarballRootfs pg ar ctx path =
     guard_err (lift_os MkdirTemp) (Errorf ''failed to create a temporary directory: '')
       (\<lambda>tmpDir. let tmpFile = Join_path [tmpDir, ''image.tar.gz''] in
          do { r \<leftarrow> guard_err (lift_os (open_archive ar path)) id
                 (\<lambda>t. guard_err (lift_os (Create_file tmpFile)) (Errorf ''failed to open: '')
                   (\<lambda>_. guard_err (compress_entries pg ar ctx (ts_end t) (ts_entries t) []) id
                     (\<lambda>es. guard_err (lift_os (Rename tmpFile path)) (Errorf ''failed to move temporary file: '')
                       (\<lambda>_. do { _ \<leftarrow> lift_os (Copy_text path (ar_Pack ar es)); ret (Inr ()) }))));
               _ \<leftarrow> lift_os (RemoveAll tmpDir);
               ret r })"

subsection \<open>Exporting\<close>

definition download ::
  "'z disk_scheme Client \<Rightarrow> string \<Rightarrow> string \<Rightarrow> (request, 'z disk_scheme, nat) io_err" where
  "download c fingerprint outputFile =
     do { f \<leftarrow> incus_call c (ReqGetImageFile fingerprint) (srv_GetImageFile (cli_server c) fingerprint);
          case f of Inl err \<Rightarrow> ret (Inl err) | Inr b \<Rightarrow> lift_os (Copy_text outputFile b) }"

text \<open>\<open>export_file\<close> is what happens between creating the output file and the deferred function.\<close>

definition export_file ::
  "'z disk_scheme Programs \<Rightarrow> Archives \<Rightarrow> ImageAliasesEntry \<Rightarrow> string \<Rightarrow> 'z disk_scheme Action" where
  "export_file pg ar img outputFile ctx c =
     guard_err (download c (ia_Target img) outputFile) (Errorf ''failed to download image: '')
       (\<lambda>size. guard_err (lift_os (Truncate outputFile size)) (Errorf ''failed to truncate output file: '')
         (\<lambda>_. if GetServerName c = IncusServer \<and> ia_Type img = VirtualMachine
              then guard_err (compressUnifiedImageTarballRootfs pg ar ctx outputFile)
                     (Errorf ''failed to compress rootfs.img in unified tarball: '') (\<lambda>_. ret (Inr ()))
              else ret (Inr ())))"

definition ExportImage ::
  "'z disk_scheme Programs \<Rightarrow> Archives \<Rightarrow> string \<Rightarrow> string \<Rightarrow> 'z disk_scheme Action" where
  "ExportImage pg ar imageAliasName outputFile ctx c =
     guard_err (incus_call c (ReqGetImageAlias imageAliasName) (srv_GetImageAlias (cli_server c) imageAliasName))
       (Errorf (''failed to find image for alias '' @ quote imageAliasName @ '': ''))
       (\<lambda>img. guard_err (lift_os (Create_file outputFile)) (Errorf ''failed to create output file: '')
         (\<lambda>_. do { r \<leftarrow> export_file pg ar img outputFile ctx c;
                  _ \<leftarrow> lift_os (Close outputFile);
                  case r of
                    Inl err \<Rightarrow> do { _ \<leftarrow> lift_os (Remove outputFile); ret (Inl err) }
                  | Inr _ \<Rightarrow> ret (Inr ()) }))"

section \<open>Stages\<close>

record 'w Stage =
  stg_Name :: string
  stg_Action :: "'w Action"

fun Run :: "go_context \<Rightarrow> 'w Client \<Rightarrow> string list \<Rightarrow> string list \<Rightarrow> bool \<Rightarrow> 'w Stage list \<Rightarrow> (request, 'w, unit) io_err" where
  "Run ctx c skipStages onlyStages dryRun [] = ret (Inr ())"
| "Run ctx c skipStages onlyStages dryRun (stage # stages) =
     (if dryRun then Run ctx c skipStages onlyStages dryRun stages
      else if stg_Name stage \<in> set skipStages then Run ctx c skipStages onlyStages dryRun stages
      else if length onlyStages > 0 \<and> stg_Name stage \<notin> set onlyStages then Run ctx c skipStages onlyStages dryRun stages
      else guard_err (stg_Action stage ctx c) (Errorf (''failure during stage '' @ quote (stg_Name stage) @ '': ''))
             (\<lambda>_. Run ctx c skipStages onlyStages dryRun stages))"

section \<open>Running stages\<close>

definition selected :: "string list \<Rightarrow> string list \<Rightarrow> bool \<Rightarrow> 'w Stage \<Rightarrow> bool" where
  "selected skipStages onlyStages dryRun stage \<longleftrightarrow>
     \<not> dryRun \<and> stg_Name stage \<notin> set skipStages \<and> (onlyStages = [] \<or> stg_Name stage \<in> set onlyStages)"

definition run_stage :: "go_context \<Rightarrow> 'w Client \<Rightarrow> 'w Stage \<Rightarrow> (request, 'w, unit) io_err" where
  "run_stage ctx c stage =
     guard_err (stg_Action stage ctx c) (Errorf (''failure during stage '' @ quote (stg_Name stage) @ '': ''))
       (\<lambda>_. ret (Inr ()))"

lemma guard_err_unit: "guard_err m wrap (\<lambda>_. k) = guard_err (guard_err m wrap (\<lambda>_. ret (Inr ()))) id (\<lambda>_. k)"
  by (rule state.expand, rule ext) (simp add: run_state_guard_err split: prod.split sum.split)

text \<open>C29: Running a list of stages is running, one after the other and up to the first failure, exactly
  the stages that are selected: none in a dry run, never a skipped one, and only the given ones when any are given.\<close>

theorem Run_selected:
  "Run ctx c skipStages onlyStages dryRun stages
     = for_each (run_stage ctx c) (filter (selected skipStages onlyStages dryRun) stages)"
proof (induction stages)
  case (Cons stage stages)
  show ?case
  proof (cases "selected skipStages onlyStages dryRun stage")
    case True
    then have "Run ctx c skipStages onlyStages dryRun (stage # stages)
        = guard_err (stg_Action stage ctx c) (Errorf (''failure during stage '' @ quote (stg_Name stage) @ '': ''))
            (\<lambda>_. Run ctx c skipStages onlyStages dryRun stages)"
      by (auto simp: selected_def)
    also have "\<dots> = guard_err (run_stage ctx c stage) id (\<lambda>_. Run ctx c skipStages onlyStages dryRun stages)"
      by (subst guard_err_unit) (simp add: run_stage_def)
    finally show ?thesis using True Cons by simp
  next
    case False
    with Cons show ?thesis by (auto simp: selected_def)
  qed
qed simp

section \<open>Waiting for the agent\<close>

lemma RunCommand_clock: "run_state (RunCommand c ctx name cmd stdin) s = (r, s') \<Longrightarrow> clock s \<le> clock s'"
  by (rule issues_clock [where P = "\<lambda>_. True"]) (auto intro: issues_intros)

lemma run_wait_agent_Suc:
  "run_state (wait_agent (Suc fuel) c ctx name lim) s =
     (case run_state (RunCommand c ctx name [''echo'', ''hi''] None) s of (r, s1) \<Rightarrow>
        if fst lim \<le> clock s1 then (Some (Inl (snd lim)), s1)
        else case r of
          Inr _ \<Rightarrow> (Some (Inr ()), s1)
        | Inl _ \<Rightarrow> if fst lim \<le> clock s1 + second then (Some (Inl (snd lim)), s1\<lparr>clock := max (clock s1) (fst lim)\<rparr>)
                   else run_state (wait_agent fuel c ctx name lim) (s1\<lparr>clock := clock s1 + second\<rparr>))"
  by (simp add: now_def select_after_def split: prod.split sum.split)

declare wait_agent.simps(2) [simp del]

lemma wait_agent_returns:
  assumes "fst lim \<le> clock s + n * second"
  shows "\<exists>r s'. run_state (wait_agent (Suc n) c ctx name lim) s = (Some r, s')"
  using assms
proof (induction n arbitrary: s)
  case 0
  obtain r s1 where run: "run_state (RunCommand c ctx name [''echo'', ''hi''] None) s = (r, s1)" by fastforce
  with RunCommand_clock [OF run] 0 show ?case by (simp add: run_wait_agent_Suc)
next
  case (Suc n)
  obtain r s1 where run: "run_state (RunCommand c ctx name [''echo'', ''hi''] None) s = (r, s1)" by fastforce
  have "fst lim \<le> clock (s1\<lparr>clock := clock s1 + second\<rparr>) + n * second"
    using Suc.prems RunCommand_clock [OF run] by simp
  from Suc.IH [OF this] show ?case
    unfolding run_wait_agent_Suc [of "Suc n"] run by (auto split: sum.split)
qed

lemma agent_limit_bound: "fst (agent_limit ctx t) \<le> t + agent_timeout div second * second"
  by (auto simp: agent_limit_def agent_timeout_def second_def split: option.split)

text \<open>
  A command makes progress towards an agent that answers: it takes at most \<open>D\<close>, and while it fails a measure of the
  outside goes down.
\<close>

definition progresses :: "'w Client \<Rightarrow> go_context \<Rightarrow> string \<Rightarrow> nat \<Rightarrow> ('w \<Rightarrow> nat) \<Rightarrow> bool" where
  "progresses c ctx name D m \<longleftrightarrow>
     (\<forall>s. wp (RunCommand c ctx name [''echo'', ''hi''] None)
            (\<lambda>r s'. clock s' \<le> clock s + D \<and> (isl r \<longrightarrow> m (outside s') < m (outside s))) s)"

lemma wait_agent_succeeds:
  assumes "progresses c ctx name D m"
    and "clock s + Suc (m (outside s)) * (D + second) < fst lim" and "m (outside s) \<le> n"
  shows "\<exists>s'. run_state (wait_agent (Suc n) c ctx name lim) s = (Some (Inr ()), s')"
  using assms(2,3)
proof (induction n arbitrary: s)
  case 0
  obtain r s1 where run: "run_state (RunCommand c ctx name [''echo'', ''hi''] None) s = (r, s1)" by fastforce
  have "clock s1 \<le> clock s + D" "isl r \<longrightarrow> m (outside s1) < m (outside s)"
    using wpD [OF _ run] assms(1) by (auto simp: progresses_def)
  with 0 run show ?case by (cases r) (auto simp: run_wait_agent_Suc)
next
  case (Suc n)
  obtain r s1 where run: "run_state (RunCommand c ctx name [''echo'', ''hi''] None) s = (r, s1)" by fastforce
  have p: "clock s1 \<le> clock s + D" "isl r \<longrightarrow> m (outside s1) < m (outside s)"
    using wpD [OF _ run] assms(1) by (auto simp: progresses_def)
  show ?case
  proof (cases r)
    case (Inr u)
    then show ?thesis using p Suc.prems run by (auto simp: run_wait_agent_Suc)
  next
    case (Inl e)
    let ?s = "s1\<lparr>clock := clock s1 + second\<rparr>"
    have less: "Suc (m (outside s1)) \<le> m (outside s)" using p(2) Inl by simp
    have "clock ?s + Suc (m (outside ?s)) * (D + second) \<le> (clock s + D) + second + m (outside s) * (D + second)"
      using p(1) mult_le_mono1 [OF less, of "D + second"] by simp
    also have "\<dots> = clock s + Suc (m (outside s)) * (D + second)" by simp
    finally have t: "clock ?s + Suc (m (outside ?s)) * (D + second) < fst lim" using Suc.prems(1) by simp
    have "m (outside ?s) \<le> n" using less Suc.prems(2) by simp
    from Suc.IH [OF t this] t p(1) Inl show ?thesis unfolding run_wait_agent_Suc [of "Suc n"] run by auto
  qed
qed

text \<open>Launching an instance for a build always returns: the fuel given to the wait for the agent is never used up.\<close>

theorem LaunchInstance_returns:
  "fst (run_state (LaunchInstance name opts ctx c) s) \<noteq> out_of_fuel"
proof -
  have agent: "wp (wait_agent (Suc (agent_timeout div second)) c ctx name (agent_limit ctx (clock s2))) (\<lambda>r _. r \<noteq> None) s2" for s2
    using wait_agent_returns [OF agent_limit_bound [of ctx "clock s2"]] by (metis (mono_tags, lifting) option.distinct(1) wpI prod.inject)
  have "wp (LaunchInstance name opts ctx c) (\<lambda>r _. r \<noteq> out_of_fuel) s"
    unfolding LaunchInstance_def wp_guard_err
    by (rule wpI, auto simp: out_of_fuel_def wp_simps split: sum.split)
      (rule wpI, auto simp: out_of_fuel_def wp_simps split: sum.splits option.splits intro!: wp_mono [OF agent])
  then show ?thesis by (simp add: wp_def split: prod.splits)
qed

text \<open>C20: When the instance could be launched and its agent comes up in time (every attempt takes at most a given time and
  brings it nearer, within five minutes in all), launching succeeds.  The context is one without a deadline of its own, as that of every
  caller.\<close>

theorem LaunchInstance_live:
  assumes "run_state (incus_call c ReqGetStoragePools (srv_GetStoragePools (cli_server c))) s = (Inr pools, s1)"
    and "run_state (WaitForLaunchInstance c ctx name (with_root pools opts)) s1 = (Inr addrs, s2)"
    and "progresses c ctx name D m" and "deadline ctx = None"
    and "Suc (m (outside s2)) * (D + second) < agent_timeout"
  shows "fst (run_state (LaunchInstance name opts ctx c) s) = Inr ()"
proof -
  have lim: "fst (agent_limit ctx (clock s2)) = clock s2 + agent_timeout" using assms(4) by (simp add: agent_limit_def)
  have "Suc (m (outside s2)) * second \<le> Suc (m (outside s2)) * (D + second)"
    by (rule mult_le_mono2) simp
  then have "m (outside s2) \<le> agent_timeout div second" using assms(5) by (simp add: agent_timeout_def second_def)
  moreover have "clock s2 + Suc (m (outside s2)) * (D + second) < fst (agent_limit ctx (clock s2))" using assms(5) lim by simp
  ultimately obtain s3 where "run_state (wait_agent (Suc (agent_timeout div second)) c ctx name (agent_limit ctx (clock s2))) s2
      = (Some (Inr ()), s3)" using wait_agent_succeeds [OF assms(3)] by blast
  then show ?thesis using assms(1,2) by (simp add: LaunchInstance_def run_state_guard_err now_def)
qed

text \<open>A server whose agent refuses as many commands as the number outside says.\<close>

definition slow_agent_server :: "nat InstanceServer" where
  "slow_agent_server = running_server\<lparr>srv_GetStoragePools := \<lambda>_ w. (Inr [], 1, w),
     srv_ExecInstance := \<lambda>_ _ _ _ w. if w = 0 then (Inr ''op'', 1, 0) else (Inl (Err ''agent is not running''), 1, w - 1),
     srv_WaitContext := \<lambda>_ _ _ w. (([], Inr ()), 1, w)\<rparr>"

lemma slow_agent_state: "srv_GetInstanceState slow_agent_server = (\<lambda>_ _ w. (Inr sample_state, 5, w))"
  by (simp add: slow_agent_server_def running_server_def)

lemma slow_agent_progresses: "progresses (sample_client slow_agent_server) Background ''i'' 2 id"
  by (auto simp: progresses_def wp_simps RunCommand_def sample_client_def slow_agent_server_def wait_result_def Let_def
      split: sum.splits)

theorem LaunchInstance_live_witness:
  "progresses (sample_client slow_agent_server) Background ''i'' 2 id
   \<and> fst (run_state (LaunchInstance ''i'' empty_LaunchOptions Background (sample_client slow_agent_server)) (initial_world 3)) = Inr ()"
proof -
  let ?c = "sample_client slow_agent_server"
  obtain s1 where p: "run_state (incus_call ?c ReqGetStoragePools (srv_GetStoragePools (cli_server ?c))) (initial_world 3) = (Inr [], s1)"
      "outside s1 = 3"
    by (simp add: incus_call_def call_def sample_client_def slow_agent_server_def initial_world_def)
  obtain addrs s2 where l: "run_state (WaitForLaunchInstance ?c Background ''i'' (with_root [] empty_LaunchOptions)) s1 = (Inr addrs, s2)"
      "outside s2 = 3"
    using run_launch_state [OF slow_agent_state, of Background "''i''" "with_root [] empty_LaunchOptions" s1] p(2) by auto
  show ?thesis
    using LaunchInstance_live [OF p(1) l(1) slow_agent_progresses] slow_agent_progresses l(2)
    by (simp add: Background_def agent_timeout_def second_def)
qed

section \<open>Exported files\<close>

text \<open>Code that leaves a sound disk sound, whatever it does to the files.\<close>

definition calm :: "('r, 'z disk_scheme, 'a) io \<Rightarrow> bool" where
  "calm m \<longleftrightarrow> (\<forall>s. quiet (outside s) \<longrightarrow> wp m (\<lambda>_ s'. quiet (outside s')) s)"

definition calm_api :: "('z disk_scheme, 'a) api \<Rightarrow> bool" where
  "calm_api f \<longleftrightarrow> (\<forall>w. quiet w \<longrightarrow> quiet (snd (snd (f w))))"

named_theorems calm_intros \<open>code that keeps a disk sound\<close>

lemma calmD: "calm m \<Longrightarrow> quiet (outside s) \<Longrightarrow> run_state m s = (x, s') \<Longrightarrow> quiet (outside s')"
  by (auto simp: calm_def dest: wpD)

lemma calm_ret [calm_intros]: "calm (ret x)"
  by (simp add: calm_def wp_simps)

lemma calm_bind [calm_intros]:
  assumes "calm m" and "\<And>x. calm (f x)"
  shows "calm (State_Monad.bind m f)"
  unfolding calm_def wp_bind
proof (intro allI impI wpI)
  fix s x s1 y s2 assume "quiet (outside s)" "run_state m s = (x, s1)" "run_state (f x) s1 = (y, s2)"
  then show "quiet (outside s2)" using assms by (blast dest: calmD)
qed

lemma calm_guard_err [calm_intros]:
  "calm m \<Longrightarrow> (\<And>x. calm (k x)) \<Longrightarrow> calm (guard_err m wrap k)"
  unfolding guard_err_def by (rule calm_bind) (auto intro: calm_ret split: sum.split)

lemma calm_lift_os [calm_intros]:
  assumes "touches (\<lambda>_. True) m"
  shows "calm (lift_os m)"
  unfolding calm_def wp_lift_os
proof (intro allI impI wpI)
  fix s x d assume "quiet (outside s)" "run_state m (outside s) = (x, d)"
  then show "quiet (outside (s\<lparr>outside := d\<rparr>))"
    using touchesD(2) [OF assms] by (fastforce simp: quiet_def same_oracles_def)
qed

lemma calm_call [calm_intros]: "calm_api f \<Longrightarrow> calm (call r f)"
  by (auto simp: calm_def calm_api_def wp_simps split: prod.splits)

lemma calm_incus_call [calm_intros]: "calm_api (f (cli_target c)) \<Longrightarrow> calm (incus_call c req f)"
  unfolding incus_call_def by (rule calm_call)

lemma calm_cases [calm_intros]:
  "(b \<Longrightarrow> calm m) \<Longrightarrow> (\<not> b \<Longrightarrow> calm n) \<Longrightarrow> calm (if b then m else n)"
  "(\<And>e. r = Inl e \<Longrightarrow> calm (f e)) \<Longrightarrow> (\<And>x. r = Inr x \<Longrightarrow> calm (g x)) \<Longrightarrow> calm (case r of Inl e \<Rightarrow> f e | Inr x \<Rightarrow> g x)"
  "(\<And>x y. q = (x, y) \<Longrightarrow> calm (j x y)) \<Longrightarrow> calm (case q of (x, y) \<Rightarrow> j x y)"
  "calm (h v) \<Longrightarrow> calm (let y = v in h y)"
  by (auto split: sum.split prod.split)

text \<open>What is relied on: downloads and local programs do not make the disk fail.\<close>

definition sound_programs :: "'z disk_scheme Programs \<Rightarrow> bool" where
  "sound_programs pg \<longleftrightarrow> (\<forall>p. calm_api (pg_LookPath pg p)) \<and> (\<forall>ctx p args env. calm_api (pg_Run pg ctx p args env))"

lemma calm_qemu [calm_intros]: "sound_programs pg \<Longrightarrow> calm (qemuCompressImage pg ctx raw)"
  unfolding qemuCompressImage_def sound_programs_def
  by (intro calm_intros touches_intros) auto

lemma calm_compress_entries [calm_intros]: "sound_programs pg \<Longrightarrow> calm (compress_entries pg ar ctx fin es acc)"
proof (induction pg ar ctx fin es acc rule: compress_entries.induct)
  case (1 pg ar ctx fin acc)
  then show ?case by (simp add: calm_ret)
next
  case (2 pg ar ctx fin hdr body rest acc)
  then show ?case by (auto intro!: calm_intros)
qed

lemma touches_open_archive [touches_intros]: "touches P (open_archive ar path)"
  unfolding open_archive_def by (intro touches_intros)

lemma calm_compress [calm_intros]: "sound_programs pg \<Longrightarrow> calm (compressUnifiedImageTarballRootfs pg ar ctx path)"
  unfolding compressUnifiedImageTarballRootfs_def by (intro calm_intros touches_intros) auto

lemma quiet_remove: "quiet d \<Longrightarrow> wp (Remove p) (\<lambda>_ d'. contents d' p = None) d"
  by (auto simp: quiet_simps contents_def tick_def contents_filter split: option.splits)

lemma calm_download [calm_intros]:
  "calm_api (srv_GetImageFile (cli_server c) fp (cli_target c)) \<Longrightarrow> calm (download c fp out)"
  unfolding download_def by (intro calm_intros touches_intros) auto

lemma calm_export_file:
  assumes "sound_programs pg" and "\<And>fp. calm_api (srv_GetImageFile (cli_server c) fp (cli_target c))"
  shows "calm (export_file pg ar img out ctx c)"
  unfolding export_file_def using assms by (intro calm_intros touches_intros) auto

text \<open>An export without compression, from the moment the output file was created.\<close>

lemma export_file_plain:
  assumes "quiet (outside s)" and "srv_GetImageFile (cli_server c) (ia_Target img) (cli_target c) (outside s) = (answer, t, w)" and "quiet w"
    and "\<not> (GetServerName c = IncusServer \<and> ia_Type img = VirtualMachine)"
  shows "wp (export_file pg ar img out ctx c) (\<lambda>r s'. case answer of
      Inl _ \<Rightarrow> r \<noteq> Inr () | Inr b \<Rightarrow> r = Inr () \<and> contents (outside s') out = Some b) s"
  using assms
  by (auto simp: export_file_def download_def wp_incus_call wp_lift_os log_call_def quiet_simps wp_guard_err wp_bind split: sum.splits)

text \<open>C28: Exporting an image is all or nothing, on a disk where nothing fails and with programs and a server that leave it so.
  If the server does not know the alias, the export fails and no file is touched.  If it does, then after any error the output file does not
  exist; and an export that needs no compression succeeds exactly when the server sends the file of the image, and then the output file holds
  exactly what was sent.\<close>

theorem ExportImage_all_or_nothing:
  assumes run: "run_state (ExportImage pg ar aliasName out ctx c) s = (r, s')"
    and asked: "srv_GetImageAlias (cli_server c) aliasName (cli_target c) (outside s) = (answer, t, w)"
    and disk: "quiet w" and progs: "sound_programs pg"
    and srv: "\<And>fp. calm_api (srv_GetImageFile (cli_server c) fp (cli_target c))"
  shows "case answer of
      Inl err \<Rightarrow> r \<noteq> Inr () \<and> contents (outside s') = contents w
    | Inr img \<Rightarrow> (r \<noteq> Inr () \<longrightarrow> contents (outside s') out = None)
        \<and> (\<not> (GetServerName c = IncusServer \<and> ia_Type img = VirtualMachine) \<longrightarrow>
             (case fst (srv_GetImageFile (cli_server c) (ia_Target img) (cli_target c) (put_file out [] (tick w))) of
                Inl _ \<Rightarrow> r \<noteq> Inr () | Inr b \<Rightarrow> r = Inr () \<and> contents (outside s') out = Some b))"
proof -
  have get: "run_state (incus_call c (ReqGetImageAlias aliasName) (srv_GetImageAlias (cli_server c) aliasName)) s
      = (answer, log_call c (ReqGetImageAlias aliasName) t w s)"
    using asked by (simp add: incus_call_def call_def log_call_def)
  show ?thesis
  proof (cases answer)
    case (Inl err)
    then show ?thesis using run get by (auto simp: ExportImage_def run_state_guard_err)
  next
    case (Inr img)
    let ?s1 = "(log_call c (ReqGetImageAlias aliasName) t w s)\<lparr>outside := put_file out [] (tick w)\<rparr>"
    have q1: "quiet (outside ?s1)" using disk by (simp add: disk_simps)
    obtain x s2 where x: "run_state (export_file pg ar img out ctx c) ?s1 = (x, s2)" by fastforce
    have q2: "quiet (outside s2)" by (rule calmD [OF calm_export_file [OF progs srv] q1 x])
    let ?s3 = "s2\<lparr>outside := tick (outside s2)\<rparr>"
    have q3: "quiet (outside ?s3)" using q2 by (simp add: disk_simps)
    have "run_state (lift_os (Create_file out)) (log_call c (ReqGetImageAlias aliasName) t w s) = (Inr (), ?s1)"
      using disk by (simp add: lift_os_def Create_file_def run_os_op_quiet)
    moreover have "run_state (lift_os (Close out)) s2 = (Inr (), ?s3)"
      using q2 by (simp add: lift_os_def Close_def run_os_op_quiet)
    ultimately have run': "(r, s') = (case x of Inr _ \<Rightarrow> (Inr (), ?s3) | Inl err \<Rightarrow> (Inl err, snd (run_state (lift_os (Remove out)) ?s3)))"
      using run x get Inr by (auto simp: ExportImage_def run_state_guard_err split: sum.splits prod.splits)
    have "wp (lift_os (Remove out)) (\<lambda>_ s'. contents (outside s') out = None) ?s3"
      using quiet_remove [OF q3] by (simp add: wp_lift_os)
    then have gone: "contents (outside (snd (run_state (lift_os (Remove out)) ?s3))) out = None"
      by (auto simp: wp_def split: prod.splits)
    obtain a u v where f: "srv_GetImageFile (cli_server c) (ia_Target img) (cli_target c) (outside ?s1) = (a, u, v)" by (metis prod_cases3)
    have "quiet v" using srv [of "ia_Target img", unfolded calm_api_def, rule_format, OF q1] f by simp
    then have plain: "\<not> (GetServerName c = IncusServer \<and> ia_Type img = VirtualMachine) \<longrightarrow>
        (case a of Inl _ \<Rightarrow> x \<noteq> Inr () | Inr b \<Rightarrow> x = Inr () \<and> contents (outside s2) out = Some b)"
      using wpD [OF export_file_plain [OF q1 f] x] by blast
    show ?thesis
    proof (cases x)
      case (Inl err)
      with run' gone plain f show ?thesis unfolding \<open>answer = Inr img\<close> by (simp split: sum.splits)
    next
      case (Inr y)
      with run' plain f show ?thesis unfolding \<open>answer = Inr img\<close> by (simp add: disk_simps split: sum.splits)
    qed
  qed
qed

definition sample_programs :: "disk Programs" where
  "sample_programs = \<lparr>pg_LookPath = \<lambda>_ w. (Inl (Err ''not found''), 0, w), pg_Run = \<lambda>_ _ _ _ w. (([], Inr ()), 1, w)\<rparr>"

definition image_server :: "disk InstanceServer" where
  "image_server = refusing_server\<lparr>srv_GetImageAlias := \<lambda>_ _ w. (Inr \<lparr>ia_Target = ''f'', ia_Type = Container\<rparr>, 1, w),
     srv_GetImageFile := \<lambda>_ _ w. (Inr ''image'', 1, w)\<rparr>"

theorem ExportImage_all_or_nothing_witness:
  "\<exists>s'. run_state (ExportImage sample_programs sample_archives ''a'' ''out'' Background (sample_client image_server)) (initial_world sample_disk)
        = (Inr (), s')
     \<and> quiet sample_disk \<and> sound_programs sample_programs \<and> contents (outside s') ''out'' = Some ''image''"
proof -
  let ?c = "sample_client image_server"
  have p: "sound_programs sample_programs" by (simp add: sound_programs_def sample_programs_def calm_api_def)
  have f: "srv_GetImageAlias (cli_server ?c) ''a'' (cli_target ?c)
      (outside (initial_world sample_disk)) = (Inr \<lparr>ia_Target = ''f'', ia_Type = Container\<rparr>, 1, sample_disk)"
    by (simp add: sample_client_def image_server_def initial_world_def)
  have sent: "srv_GetImageFile (cli_server ?c) fp t w = (Inr ''image'', 1, w)" for fp t w
    by (simp add: sample_client_def image_server_def)
  then have "calm_api (srv_GetImageFile (cli_server ?c) fp (cli_target ?c))" for fp
    by (simp add: calm_api_def)
  note all_or_nothing = ExportImage_all_or_nothing [OF _ f sample_quiet p this]
  obtain r s' where run: "run_state (ExportImage sample_programs sample_archives ''a'' ''out'' Background ?c) (initial_world sample_disk) = (r, s')"
    by fastforce
  have "Container \<noteq> VirtualMachine" by (simp add: Container_def VirtualMachine_def)
  with all_or_nothing [OF run] sent run p sample_quiet show ?thesis by auto
qed

end
