(* ===== verification/Image_Builder_Command.thy ===== *)
theory Image_Builder_Command
  imports Image_Builder LXC_Config
begin

text \<open>
  The commands of \<^verbatim>\<open>cmd/exp/image-builder/cmd\<close>: their flags, \<^verbatim>\<open>PreRunE\<close>, the lists of stages that build
  kubeadm and haproxy images, and \<^verbatim>\<open>RunE\<close>.  The scripts of \<^verbatim>\<open>internal/static\<close> and the check of versions by
  \<^verbatim>\<open>semver.ParseTolerant\<close> are parameters.
\<close>

section \<open>Base images and defaults\<close>

record baseImageInfo =
  bi_fullName :: string
  bi_releaseName :: string
  bi_variantName :: string

definition wellKnownBaseImages :: "baseImageInfo gomap" where
  "wellKnownBaseImages =
    [(''ubuntu:20.04'', \<lparr>bi_fullName = ''ubuntu focal'', bi_releaseName = ''focal'', bi_variantName = ''ubuntu''\<rparr>),
     (''ubuntu:22.04'', \<lparr>bi_fullName = ''ubuntu jammy'', bi_releaseName = ''jammy'', bi_variantName = ''ubuntu''\<rparr>),
     (''ubuntu:24.04'', \<lparr>bi_fullName = ''ubuntu noble'', bi_releaseName = ''noble'', bi_variantName = ''ubuntu''\<rparr>),
     (''debian:12'', \<lparr>bi_fullName = ''debian bookworm'', bi_releaseName = ''bookworm'', bi_variantName = ''debian''\<rparr>),
     (''debian:13'', \<lparr>bi_fullName = ''debian trixie'', bi_releaseName = ''trixie'', bi_variantName = ''debian''\<rparr>)]"

definition base_image :: "string \<Rightarrow> baseImageInfo" where
  "base_image name =
     (case map_of wellKnownBaseImages name of
        None \<Rightarrow> \<lparr>bi_fullName = [], bi_releaseName = [], bi_variantName = []\<rparr> | Some b \<Rightarrow> b)"

text \<open>The check and completion of \<^verbatim>\<open>--base-image\<close> that both commands do.\<close>

definition check_base_image :: "string \<Rightarrow> go_error + string" where
  "check_base_image name =
     (if name = ''debian'' then Inr ''debian:13''
      else if name = ''ubuntu'' then Inr ''ubuntu:24.04''
      else if name \<in> {''debian:12'', ''debian:13'', ''ubuntu:22.04'', ''ubuntu:24.04''} then Inr name
      else Inl (Err (''invalid value for --base-image argument '' @ quote name
             @ '', must be one of [ubuntu:22.04, ubuntu:24.04, debian:12, debian:13]'')))"

record BuildScripts =
  bs_InstallKubeadm :: string
  bs_PullImages :: string
  bs_GenerateManifest :: string
  bs_CleanupInstance :: string
  bs_ValidateKubeadmImage :: string
  bs_InstallHaproxy :: string

text \<open>Everything the commands use besides their flags.\<close>

record 'z BuildEnv =
  be_host :: BuildHost
  be_scripts :: BuildScripts
  be_programs :: "'z disk_scheme Programs"
  be_archives :: Archives
  be_semver :: "string \<Rightarrow> go_error + unit"
  be_config :: Host
  be_connector :: "'z disk_scheme Connector"

section \<open>Kubeadm images\<close>

record kubeadm_flags =
  kf_configFile :: string
  kf_configRemoteName :: string
  kf_baseImage :: string
  kf_instanceName :: string
  kf_instanceProfiles :: "string list"
  kf_instanceType :: string
  kf_validationInstanceName :: string
  kf_imageAlias :: string
  kf_skipStages :: "string list"
  kf_onlyStages :: "string list"
  kf_dryRun :: bool
  kf_instanceStopGracePeriod :: nat
  kf_outputFile :: string
  kf_outputManifestFile :: string
  kf_kubernetesVersion :: string
  kf_pullExtraImages :: "string list"

text \<open>The flags without arguments on the command line, except for the required \<^verbatim>\<open>--kubernetes-version\<close>.\<close>

definition default_kubeadm_flags :: kubeadm_flags where
  "default_kubeadm_flags =
     \<lparr>kf_configFile = [], kf_configRemoteName = [], kf_baseImage = ''ubuntu:24.04'',
      kf_instanceName = ''capn-builder'', kf_instanceProfiles = [''default''], kf_instanceType = Container,
      kf_validationInstanceName = ''capn-validator'', kf_imageAlias = [], kf_skipStages = [], kf_onlyStages = [],
      kf_dryRun = False, kf_instanceStopGracePeriod = 2 * 60 * second, kf_outputFile = ''image.tar.gz'',
      kf_outputManifestFile = ''image.txt'', kf_kubernetesVersion = [],
      kf_pullExtraImages = [''ghcr.io/flannel-io/flannel-cni-plugin:v1.7.1-flannel1'', ''ghcr.io/flannel-io/flannel:v0.27.3'']\<rparr>"

definition kubeadm_PreRunE :: "kubeadm_flags \<Rightarrow> go_error + kubeadm_flags" where
  "kubeadm_PreRunE flags =
     (if kf_instanceType flags \<noteq> Container \<and> kf_instanceType flags \<noteq> VirtualMachine
      then Inl (Err (''invalid value for --instance-type argument '' @ quote (kf_instanceType flags)
             @ '', must be one of [container, virtual-machine]''))
      else case check_base_image (kf_baseImage flags) of
        Inl err \<Rightarrow> Inl err
      | Inr base \<Rightarrow>
          Inr (flags\<lparr>kf_baseImage := base,
             kf_imageAlias := (if kf_imageAlias flags = ''''
               then ''kubeadm-'' @ kf_kubernetesVersion flags @ ''-'' @ kf_instanceType flags else kf_imageAlias flags)\<rparr>))"

definition builder_options :: "string \<Rightarrow> string list \<Rightarrow> ImageFamily option \<Rightarrow> LaunchOptions" where
  "builder_options ty profs image0 =
     WithImage (WithProfiles (WithInstanceType empty_LaunchOptions ty) profs) image0"

definition alias_image :: "string \<Rightarrow> Image" where
  "alias_image a = mk_image [] [] a"

definition kubeadm_info :: "'z BuildEnv \<Rightarrow> kubeadm_flags \<Rightarrow> PublishImageInfo" where
  "kubeadm_info e flags =
     \<lparr>pi_Name = ''kubeadm '' @ kf_kubernetesVersion flags @ '' '' @ bi_fullName (base_image (kf_baseImage flags)) @ '' '' @ bh_GOARCH (be_host e),
      pi_OperatingSystem = ''kubeadm'', pi_Release = kf_kubernetesVersion flags,
      pi_Variant = bi_variantName (base_image (kf_baseImage flags)), pi_LXCRequireCgroupv2 = True\<rparr>"

definition stage :: "string \<Rightarrow> 'w Action \<Rightarrow> 'w Stage" where
  "stage name action = \<lparr>stg_Name = name, stg_Action = action\<rparr>"

definition kubeadm_stages :: "'z BuildEnv \<Rightarrow> kubeadm_flags \<Rightarrow> ImageFamily option \<Rightarrow> 'z disk_scheme Stage list" where
  "kubeadm_stages e flags image0 =
     (let name = kf_instanceName flags; validator = kf_validationInstanceName flags; scripts = be_scripts e in
      [stage ''create-instance'' (LaunchInstance name (builder_options (kf_instanceType flags) (kf_instanceProfiles flags) image0)),
       stage ''install-kubeadm'' (ExecInstance name (bs_InstallKubeadm scripts) [kf_kubernetesVersion flags]),
       stage ''pull-extra-images'' (ExecInstance name (bs_PullImages scripts) (kf_pullExtraImages flags)),
       stage ''generate-manifest'' (ExecInstance name (bs_GenerateManifest scripts) []),
       stage ''export-manifest'' (CopyInstanceFile name ''/opt/manifest.txt'' (kf_outputManifestFile flags)),
       stage ''prepare-instance'' (ExecInstance name (bs_CleanupInstance scripts) []),
       stage ''stop-grace-period'' (Wait (kf_instanceStopGracePeriod flags)),
       stage ''stop-instance'' (StopInstance name),
       stage ''publish-image'' (PublishImage (be_host e) name (kf_imageAlias flags) (kubeadm_info e flags)),
       stage ''export-image'' (ExportImage (be_programs e) (be_archives e) (kf_imageAlias flags) (kf_outputFile flags)),
       stage ''delete-instance'' (DeleteInstance name),
       stage ''validate-image'' (Chain
         [LaunchInstance validator (builder_options (kf_instanceType flags) (kf_instanceProfiles flags)
            (Some (PlainImage (alias_image (kf_imageAlias flags))))),
          ExecInstance validator (bs_ValidateKubeadmImage scripts) [],
          DeleteInstance validator])])"

text \<open>The client that both commands build from the local configuration.\<close>

definition build_client :: "'z BuildEnv \<Rightarrow> string \<Rightarrow> string \<Rightarrow> (request, 'z disk_scheme, 'z disk_scheme Client) io_err" where
  "build_client e configFile remote =
     guard_err (ret (ConfigurationFromLocal (be_config e) configFile remote False)) (Errorf ''failed to read client credentials: '')
       (\<lambda>(opts, _). guard_err (New (be_connector e) (be_config e) opts) (Errorf ''failed to create incus client: '')
         (\<lambda>c. ret (Inr c)))"

definition kubeadm_RunE :: "'z BuildEnv \<Rightarrow> go_context \<Rightarrow> kubeadm_flags \<Rightarrow> (request, 'z disk_scheme, unit) io_err" where
  "kubeadm_RunE e ctx flags =
     guard_err (ret (be_semver e (kf_kubernetesVersion flags)))
       (Errorf (''--kubernetes-version '' @ quote (kf_kubernetesVersion flags) @ '' is not valid semver: ''))
       (\<lambda>_. guard_err (build_client e (kf_configFile flags) (kf_configRemoteName flags)) id
         (\<lambda>c. guard_err (ret (ParseImage (kf_baseImage flags))) (Errorf ''failed to parse base image: '')
           (\<lambda>(image0, _). guard_err
              (Run ctx c (kf_skipStages flags) (kf_onlyStages flags) (kf_dryRun flags) (kubeadm_stages e flags image0))
              (Errorf ''failed to run kubeadm stages: '') (\<lambda>_. ret (Inr ())))))"

definition newKubeadmCmd :: "'z BuildEnv \<Rightarrow> go_context \<Rightarrow> kubeadm_flags \<Rightarrow> (request, 'z disk_scheme, unit) io_err" where
  "newKubeadmCmd e ctx flags =
     (case kubeadm_PreRunE flags of Inl err \<Rightarrow> ret (Inl err) | Inr flags \<Rightarrow> kubeadm_RunE e ctx flags)"

section \<open>Haproxy images\<close>

record haproxy_flags =
  hf_configFile :: string
  hf_configRemoteName :: string
  hf_baseImage :: string
  hf_instanceName :: string
  hf_instanceProfiles :: "string list"
  hf_imageAlias :: string
  hf_skipStages :: "string list"
  hf_onlyStages :: "string list"
  hf_dryRun :: bool
  hf_outputFile :: string

definition haproxy_PreRunE :: "haproxy_flags \<Rightarrow> go_error + haproxy_flags" where
  "haproxy_PreRunE flags =
     (case check_base_image (hf_baseImage flags) of
        Inl err \<Rightarrow> Inl err
      | Inr base \<Rightarrow>
          Inr (flags\<lparr>hf_baseImage := base,
             hf_imageAlias := (if hf_imageAlias flags = ''''
               then ''haproxy-'' @ bi_variantName (base_image base) else hf_imageAlias flags)\<rparr>))"

definition haproxy_info :: "'z BuildEnv \<Rightarrow> haproxy_flags \<Rightarrow> PublishImageInfo" where
  "haproxy_info e flags =
     (let base = base_image (hf_baseImage flags)
      in \<lparr>pi_Name = ''haproxy '' @ bi_fullName base @ '' '' @ bh_GOARCH (be_host e), pi_OperatingSystem = ''haproxy'',
          pi_Release = bi_releaseName base, pi_Variant = bi_variantName base, pi_LXCRequireCgroupv2 = False\<rparr>)"

definition haproxy_stages :: "'z BuildEnv \<Rightarrow> haproxy_flags \<Rightarrow> ImageFamily option \<Rightarrow> 'z disk_scheme Stage list" where
  "haproxy_stages e flags image0 =
     (let name = hf_instanceName flags; scripts = be_scripts e in
      [stage ''create-instance'' (LaunchInstance name (builder_options Container (hf_instanceProfiles flags) image0)),
       stage ''install-haproxy'' (ExecInstance name (bs_InstallHaproxy scripts) []),
       stage ''prepare-instance'' (ExecInstance name (bs_CleanupInstance scripts) []),
       stage ''stop-instance'' (StopInstance name),
       stage ''publish-image'' (PublishImage (be_host e) name (hf_imageAlias flags) (haproxy_info e flags)),
       stage ''export-image'' (ExportImage (be_programs e) (be_archives e) (hf_imageAlias flags) (hf_outputFile flags)),
       stage ''delete-instance'' (DeleteInstance name)])"

definition haproxy_RunE :: "'z BuildEnv \<Rightarrow> go_context \<Rightarrow> haproxy_flags \<Rightarrow> (request, 'z disk_scheme, unit) io_err" where
  "haproxy_RunE e ctx flags =
     guard_err (build_client e (hf_configFile flags) (hf_configRemoteName flags)) id
       (\<lambda>c. guard_err (ret (ParseImage (hf_baseImage flags))) (Errorf ''failed to parse base image: '')
         (\<lambda>(image0, _). guard_err
            (Run ctx c (hf_skipStages flags) (hf_onlyStages flags) (hf_dryRun flags) (haproxy_stages e flags image0))
            (Errorf ''failed to run kubeadm stages: '') (\<lambda>_. ret (Inr ()))))"

definition newHaproxyCmd :: "'z BuildEnv \<Rightarrow> go_context \<Rightarrow> haproxy_flags \<Rightarrow> (request, 'z disk_scheme, unit) io_err" where
  "newHaproxyCmd e ctx flags =
     (case haproxy_PreRunE flags of Inl err \<Rightarrow> ret (Inl err) | Inr flags \<Rightarrow> haproxy_RunE e ctx flags)"

section \<open>What the commands ask for\<close>

text \<open>The commands that run on an instance: the probe for its agent, and scripts.\<close>

definition runs :: "string list \<Rightarrow> string list \<Rightarrow> string option \<Rightarrow> bool" where
  "runs scripts cmd stdin \<longleftrightarrow>
     cmd = [''echo'', ''hi''] \<and> stdin = None
     \<or> (\<exists>script args. script \<in> set scripts \<and> cmd = [''bash'', ''-s'', ''--''] @ args \<and> stdin = Some script)"

text \<open>
  The requests of building an image with alias \<open>a\<close> on instance \<open>n\<close>: about the instance, about the alias, and the
  publication of an image that is made from this instance and carries only this alias.
\<close>

fun builder_request :: "string list \<Rightarrow> string \<Rightarrow> string \<Rightarrow> incus_request \<Rightarrow> bool" where
  "builder_request scripts n a (ReqExecInstance m cmd stdin) = (m = n \<and> runs scripts cmd stdin)"
| "builder_request scripts n a (ReqGetInstance m) = (m = n)"
| "builder_request scripts n a ReqGetStoragePools = True"
| "builder_request scripts n a (ReqGetImageAlias b) = (b = a)"
| "builder_request scripts n a (ReqDeleteImageAlias b) = (b = a)"
| "builder_request scripts n a (ReqGetImage _) = True"
| "builder_request scripts n a (ReqGetImageFile _) = True"
| "builder_request scripts n a (ReqCreateImage p) = (ip_SourceType p = ''instance'' \<and> ip_SourceName p = n \<and> ip_Aliases p = [a])"
| "builder_request scripts n a q = (launch_request n q \<or> delete_request n q)"

text \<open>The requests of validating it on instance \<open>v\<close>, which is only ever created from the alias.\<close>

fun validator_request :: "string list \<Rightarrow> string \<Rightarrow> string \<Rightarrow> incus_request \<Rightarrow> bool" where
  "validator_request scripts v a (ReqExecInstance m cmd stdin) = (m = v \<and> runs scripts cmd stdin)"
| "validator_request scripts v a ReqGetStoragePools = True"
| "validator_request scripts v a (ReqCreateInstance p) = (p_Name p = v \<and> p_Source p = to_InstanceSource (alias_image a))"
| "validator_request scripts v a q = (launch_request v q \<or> delete_request v q)"

text \<open>The processes on the local machine: only \<^verbatim>\<open>qemu-img convert\<close>.\<close>

fun local_request :: "request \<Rightarrow> bool" where
  "local_request (LookPath p) = (p = ''qemu-img'')"
| "local_request (RunProcess _ args _) = (take 4 args = [''convert'', ''-O'', ''qcow2'', ''-c''])"
| "local_request _ = False"

definition incus_only :: "(incus_request \<Rightarrow> bool) \<Rightarrow> request \<Rightarrow> bool" where
  "incus_only P r \<longleftrightarrow> local_request r \<or> (case r of Incus _ q \<Rightarrow> P q | _ \<Rightarrow> False)"

lemma incus_only_Incus [simp]: "incus_only P (Incus t q) \<longleftrightarrow> P q"
  by (simp add: incus_only_def)

text \<open>
  What the shared actions need of a set \<open>P\<close> of requests that is to contain theirs; the builder and the validator provide it.
\<close>

locale instance_requests =
  fixes P :: "incus_request \<Rightarrow> bool" and scripts :: "string list" and n :: string
  assumes pools: "P ReqGetStoragePools"
    and exec: "runs scripts cmd stdin \<Longrightarrow> P (ReqExecInstance n cmd stdin)"
    and launch: "launch_request n q \<Longrightarrow> (\<And>p. q \<noteq> ReqCreateInstance p) \<Longrightarrow> P q"
    and remove: "delete_request n q \<Longrightarrow> P q"
begin

lemma issues_remove:
  "issues (incus_only P) (WaitForStopInstance c ctx n)" "issues (incus_only P) (WaitForDeleteInstance c ctx n)"
  by (rule issues_mono [OF issues_WaitForStopInstance] issues_mono [OF issues_WaitForDeleteInstance];
      auto simp: sends_def intro: remove split: request.splits)+

lemma issues_exec: "runs scripts cmd stdin \<Longrightarrow> issues (incus_only P) (RunCommand c ctx n cmd stdin)"
  by (rule issues_RunCommand) (auto intro: exec remove)

lemma issues_wait_agent: "issues (incus_only P) (wait_agent fuel c ctx n lim)"
  by (induction fuel) (auto simp: wait_agent.simps(2) runs_def intro!: issues_intros issues_exec)

lemma issues_launch:
  assumes "\<And>pools opts' img. complete (with_root pools opts) (GetServerName c) = Inr opts' \<Longrightarrow>
      opt_image opts' = Some (PlainImage img) \<Longrightarrow> P (ReqCreateInstance (launch_post n opts' img))"
  shows "issues (incus_only P) (LaunchInstance n opts ctx c)"
proof -
  have "P q" if "launch_exact c n (with_root pools opts) q" for q pools
    using that launch [of q] create_requestD [of c n "with_root pools opts"] assms by (fastforce simp: launch_exact_def)
  then have "issues (incus_only P) (WaitForLaunchInstance c ctx n (with_root pools opts))" for pools
    by (intro issues_mono [OF issues_launch_exact]) (auto simp: sends_def split: request.splits)
  then show ?thesis
    unfolding LaunchInstance_def by (intro issues_intros issues_wait_agent) (auto intro: pools)
qed

lemma issues_actions:
  "issues (incus_only P) (DeleteInstance n ctx c)" "issues (incus_only P) (StopInstance n ctx c)"
  "script \<in> set scripts \<Longrightarrow> issues (incus_only P) (ExecInstance n script args ctx c)" "issues (incus_only P) (Wait d ctx c)"
  "issues (incus_only P) (CopyInstanceFile n f out ctx c)"
  unfolding DeleteInstance_def StopInstance_def ExecInstance_def Wait_def CopyInstanceFile_def
  by (auto intro!: issues_intros issues_remove issues_exec launch simp: runs_def)

end

interpretation builder: instance_requests "builder_request scripts n a" scripts n for scripts n a
proof
  show "launch_request n q \<Longrightarrow> (\<And>p. q \<noteq> ReqCreateInstance p) \<Longrightarrow> builder_request scripts n a q" for q
    by (cases q) auto
  show "delete_request n q \<Longrightarrow> builder_request scripts n a q" for q
    by (cases q) auto
qed simp_all

interpretation validator: instance_requests "validator_request scripts v a" scripts v for scripts v a
proof
  show "launch_request v q \<Longrightarrow> (\<And>p. q \<noteq> ReqCreateInstance p) \<Longrightarrow> validator_request scripts v a q" for q
    by (cases q) auto
  show "delete_request v q \<Longrightarrow> validator_request scripts v a q" for q
    by (cases q) auto
qed simp_all

lemma issues_builder_launch: "issues (incus_only (builder_request scripts n a)) (LaunchInstance n opts ctx c)"
  by (rule builder.issues_launch) (simp add: launch_post_def)

lemma opt_image_with_root: "opt_image (with_root pools opts) = opt_image opts"
  unfolding with_root_def by (induction pools arbitrary: opts) (auto simp: WithDevices_def)

lemma issues_validator_launch:
  "issues (incus_only (validator_request scripts v a))
     (LaunchInstance v (builder_options ty profs (Some (PlainImage (alias_image a)))) ctx c)"
proof (rule validator.issues_launch)
  fix pools opts' img
  assume "complete (with_root pools (builder_options ty profs (Some (PlainImage (alias_image a))))) (GetServerName c) = Inr opts'"
    and "opt_image opts' = Some (PlainImage img)"
  moreover have "opt_image (with_root pools (builder_options ty profs (Some (PlainImage (alias_image a))))) \<in> {None, Some (PlainImage (alias_image a))}"
    by (simp add: opt_image_with_root builder_options_def WithImage_def WithProfiles_def WithInstanceType_def empty_LaunchOptions_def)
  ultimately have "img = alias_image a"
    by (auto simp: complete_def For_image_def drop_tag_def alias_image_def mk_image_def OCI_def WithDevices_def Let_def
        split: if_splits sum.splits)
  then show "validator_request scripts v a (ReqCreateInstance (launch_post v opts' img))"
    by (simp add: launch_post_def)
qed

lemma issues_PublishImage: "issues (incus_only (builder_request scripts n a)) (PublishImage h n a info ctx c)"
  unfolding PublishImage_def drop_alias_def
  by (auto intro!: issues_intros simp: publish_post_def Let_def)

lemma issues_qemu: "issues (incus_only P) (qemuCompressImage pg ctx raw)"
  unfolding qemuCompressImage_def Let_def by (intro issues_intros) (auto simp: incus_only_def)

lemma issues_compress: "issues (incus_only P) (compressUnifiedImageTarballRootfs pg ar ctx path)"
proof -
  have "issues (incus_only P) (compress_entries pg ar ctx fin es acc)" for fin es acc
    by (induction pg ar ctx fin es acc rule: compress_entries.induct) (auto intro!: issues_intros issues_qemu)
  then show ?thesis
    unfolding compressUnifiedImageTarballRootfs_def Let_def by (intro issues_intros)
qed

lemma issues_ExportImage: "issues (incus_only (builder_request scripts n a)) (ExportImage pg ar a out ctx c)"
  unfolding ExportImage_def export_file_def download_def
  by (auto intro!: issues_intros issues_compress)

lemma issues_chain [issues_intros]:
  "(\<And>act. act \<in> set acts \<Longrightarrow> issues P (act ctx c)) \<Longrightarrow> issues P (Chain acts ctx c)"
proof -
  have "(\<And>act. act \<in> set acts \<Longrightarrow> issues P (act ctx c)) \<Longrightarrow> issues P (chain_from i n acts ctx c)" for i n
    by (induction i n acts ctx c rule: chain_from.induct) (auto intro!: issues_intros)
  then show "(\<And>act. act \<in> set acts \<Longrightarrow> issues P (act ctx c)) \<Longrightarrow> issues P (Chain acts ctx c)" by (simp add: Chain_def)
qed

lemma issues_Run:
  "(\<And>st. st \<in> set stages \<Longrightarrow> issues P (stg_Action st ctx c)) \<Longrightarrow> issues P (Run ctx c skip only dry stages)"
  by (induction stages) (auto intro!: issues_intros)

lemma Run_dry: "Run ctx c skip only True stages = ret (Inr ())"
  by (induction stages) auto

lemma issues_build_client: "issues connects (build_client e f r)"
  unfolding build_client_def New_def connect_https_def connect_unix_def Let_def by (intro issues_intros) simp_all

definition builder_scripts :: "BuildScripts \<Rightarrow> string list" where
  "builder_scripts scripts = [bs_InstallKubeadm scripts, bs_PullImages scripts, bs_GenerateManifest scripts, bs_CleanupInstance scripts]"

definition builds :: "BuildScripts \<Rightarrow> string \<Rightarrow> string \<Rightarrow> string \<Rightarrow> incus_request \<Rightarrow> bool" where
  "builds scripts n v a q \<longleftrightarrow>
     builder_request (builder_scripts scripts) n a q \<or> validator_request [bs_ValidateKubeadmImage scripts] v a q"

lemma issues_builds:
  "issues (incus_only (builder_request (builder_scripts scripts) n a)) m \<Longrightarrow> issues (incus_only (builds scripts n v a)) m"
  "issues (incus_only (validator_request [bs_ValidateKubeadmImage scripts] v a)) m \<Longrightarrow> issues (incus_only (builds scripts n v a)) m"
  by (erule issues_mono; auto simp: incus_only_def builds_def split: request.splits)+

lemma issues_kubeadm_stages:
  assumes "st \<in> set (kubeadm_stages e flags image0)"
  shows "issues (incus_only (builds (be_scripts e) (kf_instanceName flags) (kf_validationInstanceName flags) (kf_imageAlias flags)))
     (stg_Action st ctx c)"
  using assms unfolding kubeadm_stages_def Let_def
  by (auto simp: stage_def builder_scripts_def intro!: issues_chain issues_builds(1) [OF issues_builder_launch]
      issues_builds(1) [OF builder.issues_actions(1)] issues_builds(1) [OF builder.issues_actions(2)]
      issues_builds(1) [OF builder.issues_actions(3)] issues_builds(1) [OF builder.issues_actions(4)]
      issues_builds(1) [OF builder.issues_actions(5)] issues_builds(1) [OF issues_PublishImage]
      issues_builds(1) [OF issues_ExportImage] issues_builds(2) [OF issues_validator_launch] issues_builds(2) [OF validator.issues_actions(1)]
      issues_builds(2) [OF validator.issues_actions(3)])

definition image_alias :: "kubeadm_flags \<Rightarrow> string" where
  "image_alias flags =
     (if kf_imageAlias flags = '''' then ''kubeadm-'' @ kf_kubernetesVersion flags @ ''-'' @ kf_instanceType flags
      else kf_imageAlias flags)"

lemma kubeadm_PreRunE_fields:
  assumes "kubeadm_PreRunE flags = Inr fl"
  shows "kf_instanceName fl = kf_instanceName flags" "kf_validationInstanceName fl = kf_validationInstanceName flags"
    "kf_dryRun fl = kf_dryRun flags" "kf_imageAlias fl = image_alias flags"
  using assms by (auto simp: kubeadm_PreRunE_def image_alias_def split: sum.splits if_splits)

lemma issues_kubeadm_RunE:
  assumes "\<And>f r. issues P (build_client e f r)"
    and "\<And>c skip only image0. issues P (Run ctx c skip only (kf_dryRun fl) (kubeadm_stages e fl image0))"
  shows "issues P (kubeadm_RunE e ctx fl)"
  unfolding kubeadm_RunE_def by (intro issues_intros assms)

definition kubeadm_request :: "'z BuildEnv \<Rightarrow> kubeadm_flags \<Rightarrow> request \<Rightarrow> bool" where
  "kubeadm_request e flags r \<longleftrightarrow>
     connects r
     \<or> \<not> kf_dryRun flags
       \<and> incus_only (builds (be_scripts e) (kf_instanceName flags) (kf_validationInstanceName flags) (image_alias flags)) r"

lemma issues_newKubeadmCmd: "issues (kubeadm_request e flags) (newKubeadmCmd e ctx flags)"
proof -
  have "issues (kubeadm_request e flags) (kubeadm_RunE e ctx fl)" if fl: "kubeadm_PreRunE flags = Inr fl" for fl
  proof (rule issues_kubeadm_RunE)
    show "issues (kubeadm_request e flags) (build_client e f r)" for f r
      by (rule issues_mono [OF issues_build_client]) (simp add: kubeadm_request_def)
    show "issues (kubeadm_request e flags) (Run ctx c skip only (kf_dryRun fl) (kubeadm_stages e fl image0))" for c skip only image0
    proof (cases "kf_dryRun flags")
      case True
      then show ?thesis using kubeadm_PreRunE_fields [OF fl] by (simp add: Run_dry issues_ret)
    next
      case False
      then show ?thesis
        using kubeadm_PreRunE_fields [OF fl] by (intro issues_Run) (erule issues_mono [OF issues_kubeadm_stages], simp add: kubeadm_request_def)
    qed
  qed
  then show ?thesis unfolding newKubeadmCmd_def by (intro issues_intros) auto
qed

text \<open>C31: Whatever happens, building a kubeadm image touches only its own instances and its own alias.  Every request is about
  connecting; or about the builder instance, on which only the probe for its agent and the four scripts of the build are run; or
  about the alias of the image, and an image is only published from the builder and under this alias; or about the validator
  instance, which is only created from this alias and runs only the probe and the validation script; or a local
  \<^verbatim>\<open>qemu-img convert\<close>.  Storage pools, and records and files of images by their fingerprints, are only read.  A dry run only connects.\<close>

theorem kubeadm_own_requests:
  "\<exists>rs. trace (snd (run_state (newKubeadmCmd e ctx flags) s)) = trace s @ rs \<and> list_all (kubeadm_request e flags) rs"
  using issuesD [OF issues_newKubeadmCmd] by (metis prod.collapse)

end
