(* ===== verification/Go_Net.thy ===== *)
theory Go_Net
  imports Go_Prelude
begin

text \<open>
  What the program uses of \<^verbatim>\<open>net/netip\<close>: whether a string is an IPv4 or an IPv6 address
  (\<^verbatim>\<open>netip.ParseAddr\<close> and then \<^verbatim>\<open>Is4\<close> or \<^verbatim>\<open>Is6\<close>), as the parsers of the library decide it.
\<close>

definition is_digit :: "char \<Rightarrow> bool" where
  "is_digit c \<longleftrightarrow> c \<in> set ''0123456789''"

definition is_hex :: "char \<Rightarrow> bool" where
  "is_hex c \<longleftrightarrow> c \<in> set ''0123456789abcdefABCDEF''"

definition decimal :: "string \<Rightarrow> nat" where
  "decimal s = foldl (\<lambda>v c. 10 * v + (of_char c - 48)) 0 s"

definition octet :: "string \<Rightarrow> bool" where
  "octet p \<longleftrightarrow> p \<noteq> [] \<and> list_all is_digit p \<and> (length p = 1 \<or> hd p \<noteq> CHR ''0'') \<and> decimal p \<le> 255"

definition parseIPv4 :: "string \<Rightarrow> bool" where
  "parseIPv4 s \<longleftrightarrow> length (Split s ''.'') = 4 \<and> list_all octet (Split s ''.'')"

text \<open>At the end of the text: with fields left over, there must have been an ellipsis, and only then.\<close>

definition fields_done :: "nat \<Rightarrow> bool \<Rightarrow> bool" where
  "fields_done n ellipsis = (if n > 0 then ellipsis else \<not> ellipsis)"

text \<open>The fields of an IPv6 address: \<open>n\<close> of the eight are left.\<close>

fun parse_fields :: "nat \<Rightarrow> bool \<Rightarrow> string \<Rightarrow> bool" where
  "parse_fields 0 ellipsis s = (s = [] \<and> \<not> ellipsis)"
| "parse_fields (Suc n) ellipsis s =
     (let d = takeWhile is_hex s
      in if d = [] \<or> length d > 4 then False
         else case drop (length d) s of
           [] \<Rightarrow> fields_done n ellipsis
         | c # cs \<Rightarrow>
             if c = CHR ''.'' then (ellipsis \<or> n = 1) \<and> 1 \<le> n \<and> parseIPv4 s \<and> fields_done (n - 1) ellipsis
             else if c \<noteq> CHR '':'' then False
             else case cs of
               [] \<Rightarrow> False
             | c' # cs' \<Rightarrow>
                 if c' = CHR '':'' then
                   if ellipsis then False else if cs' = [] then fields_done n True else parse_fields n True cs'
                 else parse_fields n ellipsis cs)"

definition parseIPv6 :: "string \<Rightarrow> bool" where
  "parseIPv6 s =
     (case Cut s ''%'' of (addr, zone, found) \<Rightarrow>
        if found \<and> zone = '''' then False
        else if HasPrefix addr ''::'' then drop 2 addr = [] \<or> parse_fields 8 True (drop 2 addr)
        else parse_fields 8 False addr)"

definition Is4 :: "string \<Rightarrow> bool" where
  "Is4 s = (case find (\<lambda>c. c \<in> set ''.:%'') s of Some c \<Rightarrow> c = CHR ''.'' \<and> parseIPv4 s | None \<Rightarrow> False)"

definition Is6 :: "string \<Rightarrow> bool" where
  "Is6 s = (case find (\<lambda>c. c \<in> set ''.:%'') s of Some c \<Rightarrow> c = CHR '':'' \<and> parseIPv6 s | None \<Rightarrow> False)"

lemma Is4_not_Is6: "Is4 s \<Longrightarrow> \<not> Is6 s"
  by (auto simp: Is4_def Is6_def split: option.splits)

lemma address_examples:
  "Is4 ''10.0.0.2'' \<and> \<not> Is4 ''10.0.0.256'' \<and> \<not> Is4 ''10.0.0.02'' \<and> \<not> Is4 ''10.0.0''"
  "Is6 ''fd42::1'' \<and> Is6 ''::'' \<and> Is6 ''1:2:3:4:5:6:7:8'' \<and> Is6 ''::ffff:1.2.3.4'' \<and> Is6 ''fe80::1%eth0''"
  "\<not> Is6 ''1:2:3:4:5:6:7'' \<and> \<not> Is6 ''1::2::3'' \<and> \<not> Is6 ''12345::'' \<and> \<not> Is6 ''1:2:3:4:5:6:7:8::''"
  by code_simp+

end
