(* ===== verification/Docker_Shim.thy ===== *)
theory Docker_Shim
  imports Go_Net Simplestreams_Import Load_Balancer
begin

text \<open>
  The docker shim of kini, \<^verbatim>\<open>cmd/exp/kini/docker\<close>: every docker command that kind runs, as a function of its flags and
  arguments.  What a command prints is the list of its lines; the output of commands run inside of
  instances goes straight to the terminal and is not part of it.  Container images and the libraries that load, pull and
  save them, the YAML encoders and the decoder of image manifests are parameters.
\<close>

section \<open>The environment\<close>

text \<open>
  \<open>en_Stdin\<close> is what reading the standard input to its end answers, \<open>en_Client\<close> what connecting answers; \<open>en_Perm\<close> are the permissions of local
  files.  \<open>'i\<close> is the type of container images.
\<close>

record ('z, 'i) Environment =
  en_Stdin :: "go_error + string"
  en_Client :: "(request, 'z disk_scheme, 'z disk_scheme Client) io_err"
  en_Getenv :: "string \<Rightarrow> string"
  en_Perm :: "string \<Rightarrow> int"
  en_ParseReference :: "string \<Rightarrow> go_error + Reference"
  en_scripts :: Scripts
  en_StorageManifest :: string
  en_FlannelManifest :: string
  en_unmarshal :: "string \<Rightarrow> go_error + CloudConfig"
  en_marshal :: "CloudConfig \<Rightarrow> go_error + string"
  en_template :: TemplateEngine
  en_yaml_instance :: "InstanceFull \<Rightarrow> go_error + string"
  en_GetServer :: "('z disk_scheme, go_error + (go_error + string)) api"
  en_Tar :: "string \<Rightarrow> tar_stream"
  en_RepoTags :: "string \<Rightarrow> go_error + string list list"
  en_Load :: "string \<Rightarrow> go_error + 'i"
  en_Pull :: "string \<Rightarrow> ('z disk_scheme, 'i) api_err"
  en_Digest :: "'i \<Rightarrow> go_error + string"
  en_ParsePlatform :: "string \<Rightarrow> go_error + string"
  en_RemoteImage :: "string \<Rightarrow> string option \<Rightarrow> ('z disk_scheme, 'i) api_err"
  en_Cached :: "string \<Rightarrow> 'i \<Rightarrow> 'i"
  en_MultiSave :: "'i gomap \<Rightarrow> string \<Rightarrow> ('z disk_scheme, unit) api_err"

type_synonym ('z, 'a) shim = "(request, 'z disk_scheme, 'a) io_err"

definition Privileged :: "('z, 'i) Environment \<Rightarrow> bool" where
  "Privileged env = (case ParseBool (en_Getenv env ''KINI_UNPRIVILEGED'') of Some v \<Rightarrow> \<not> v | None \<Rightarrow> True)"

definition KindInstances :: "('z, 'i) Environment \<Rightarrow> (request, 'z disk_scheme, bool) io" where
  "KindInstances env =
     (if en_Getenv env ''KINI_MODE'' = ''lxc'' then ret False
      else if en_Getenv env ''KINI_MODE'' = ''oci'' then ret True
      else do { r \<leftarrow> en_Client env;
                ret (case r of Inl _ \<Rightarrow> False | Inr c \<Rightarrow> (case SupportsInstanceOCI c of Inl _ \<Rightarrow> False | Inr _ \<Rightarrow> True)) })"

definition env_WithUnixSocket :: "('z, 'i) Environment \<Rightarrow> bool" where
  "env_WithUnixSocket env = (case ParseBool (en_Getenv env ''KINI_MOUNT_UNIX_SOCKET'') of Some v \<Rightarrow> v | None \<Rightarrow> False)"

definition CacheDir :: "('z, 'i) Environment \<Rightarrow> (request, 'z disk_scheme, string) io" where
  "CacheDir env =
     (let cache = en_Getenv env ''KINI_CACHE''
      in if ParseBool cache = Some False then ret ''''
         else let cache = (if cache = '''' then en_Getenv env ''HOME'' @ ''/.cache/kini'' else cache)
              in do { r \<leftarrow> lift_os (MkdirAll cache); ret (case r of Inl _ \<Rightarrow> '''' | Inr _ \<Rightarrow> cache) })"

definition with_client ::
  "('z, 'i) Environment \<Rightarrow> ('z disk_scheme Client \<Rightarrow> ('z, 'a) shim) \<Rightarrow> ('z, 'a) shim" where
  "with_client env k = guard_err (en_Client env) (Errorf ''failed to initialize client: '') k"

text \<open>How \<^verbatim>\<open>NewCmd\<close> connects: the local configuration, with the project of the environment.\<close>

definition kini_client ::
  "(string \<Rightarrow> string) \<Rightarrow> Host \<Rightarrow> 'w Connector \<Rightarrow> (request, 'w, 'w Client) io_err" where
  "kini_client getenv h con =
     (case ConfigurationFromLocal h (getenv ''KINI_CONFIG'') (getenv ''KINI_REMOTE'') False of
        Inl err \<Rightarrow> ret (Inl (Errorf ''failed to retrieve local configuration: '' err))
      | Inr (opts, _) \<Rightarrow> New con h (opts\<lparr>Project := getenv ''KINI_PROJECT''\<rparr>))"

section \<open>docker run\<close>

definition oci_image :: "OCIImage \<Rightarrow> ImageFamily option" where
  "oci_image img = Some (PlainImage (mk_image OCI (oci_Server img) (oci_Alias img)))"

definition kind_input :: "bool \<Rightarrow> KindLaunchOptionsInput" where
  "kind_input privileged =
     \<lparr>kd_KubernetesVersion = [], kd_Privileged = privileged, kd_SkipProfile = False, kd_PodNetworkCIDR = [],
      kd_CloudInit = [], kd_CloudInitAptInstall = False\<rparr>"

definition lxc_node_options :: "('z, 'i) Environment \<Rightarrow> OCIImage \<Rightarrow> string \<Rightarrow> LaunchOptions" where
  "lxc_node_options env img serverName =
     WithUnixSocket (WithInstanceTemplates
       (KubeadmLaunchOptions (en_scripts env)
          \<lparr>ku_KubernetesVersion = oci_Tag img, ku_InstanceType = Container, ku_Privileged = Privileged env, ku_SkipProfile = False,
           ku_SkipInstallKubeadmScript = True, ku_ServerName = serverName, ku_CloudInit = []\<rparr>)
       [(''/etc/sysconfig/kubelet'', ''KUBELET_EXTRA_ARGS='' @ [char_of (39::nat)] @ ''--cgroup-root='' @ [char_of (39::nat)]),
        (''/kind/product_name'', ''kind''), (''/kind/product_uuid'', ''kind''), (''/kind/version'', oci_Tag img),
        (''/kind/manifests/default-storage.yaml'', en_StorageManifest env),
        (''/kind/manifests/default-cni.yaml'', en_FlannelManifest env)])
     (env_WithUnixSocket env)"

definition launchOptionsForImage :: "('z, 'i) Environment \<Rightarrow> string \<Rightarrow> string \<Rightarrow> ('z, LaunchOptions) shim" where
  "launchOptionsForImage env rawImage serverName =
     (case ParseOCIImage (en_ParseReference env) rawImage of
        Inl err \<Rightarrow> ret (Inl (Errorf (''failed to parse '' @ quote rawImage @ '': '') err))
      | Inr img \<Rightarrow>
          do { kind \<leftarrow> KindInstances env;
               ret (if Contains (oci_Alias img) ''kindest/haproxy'' then
                      if \<not> kind then Inl (Err (''haproxy instances ('' @ quote rawImage @ '') not supported in LXC mode''))
                      else Inr (WithImage HaproxyOCILaunchOptions (oci_image img))
                    else if Contains (oci_Alias img) ''kindest/base'' then
                      if \<not> kind then Inl (Err (''kindest/base instances ('' @ quote rawImage @ '') not supported in LXC mode''))
                      else Inr (WithImage (WithConfig empty_LaunchOptions [(''oci.entrypoint'', ''sleep infinity'')]) (oci_image img))
                    else if kind then
                      (case KindLaunchOptions (en_scripts env) (en_unmarshal env) (en_marshal env) (kind_input (Privileged env)) of
                         Inl err \<Rightarrow> Inl err
                       | Inr opts \<Rightarrow> Inr (WithUnixSocket (WithImage opts (oci_image img)) (env_WithUnixSocket env)))
                    else Inr (lxc_node_options env img serverName)) })"

record run_flags =
  rf_Name :: string
  rf_Environment :: "string list"
  rf_Labels :: "string gomap"
  rf_PublishPorts :: "string list"
  rf_Volumes :: "string list"
  rf_Devices :: "string list"
  rf_Tmpfs :: "string list"
  rf_Sysctl :: "string gomap"

definition run_environment :: "(string \<Rightarrow> string) \<Rightarrow> string list \<Rightarrow> string" where
  "run_environment getenv vs =
     concat (map (\<lambda>v. (if \<not> Contains v ''='' then v @ ''='' @ getenv v else v) @ newline) vs)"

definition prefix_keys :: "string \<Rightarrow> string gomap \<Rightarrow> string gomap" where
  "prefix_keys pre m = foldl (\<lambda>acc (k, v). map_set (pre @ k) v acc) [] m"

text \<open>\<^verbatim>\<open>strings.ToLower\<close> on ASCII text.\<close>

definition to_lower :: "char \<Rightarrow> char" where
  "to_lower c = (let n = (of_char c :: nat) in if 65 \<le> n \<and> n \<le> 90 then char_of (n + 32) else c)"

definition ToLower :: "string \<Rightarrow> string" where
  "ToLower s = map to_lower s"

definition proxy_device :: "string \<Rightarrow> go_error + string gomap" where
  "proxy_device published_port =
     (case Cut (ToLower published_port) ''/'' of (publishPort, protocol, ok) \<Rightarrow>
        if \<not> ok then Inl (Err (''publish port '' @ quote publishPort @ '' does not specify protocol''))
        else (let parts = Split publishPort '':'';
                  device = (\<lambda>listen connect. [(''type'', ''proxy''), (''bind'', ''host''), (''listen'', listen), (''connect'', connect)])
              in if length parts = 2 then
                   Inr (device (protocol @ ''::'' @ parts ! 0) (protocol @ ''::'' @ parts ! 1))
                 else if length parts = 3 then
                   Inr (device (protocol @ '':'' @ parts ! 0 @ '':'' @ parts ! 1) (protocol @ ''::'' @ parts ! 2))
                 else Inl (Err (''publish port '' @ quote publishPort @ '' does not specify listen and connect''))))"

fun proxy_devices :: "nat \<Rightarrow> string list \<Rightarrow> string gomap gomap \<Rightarrow> go_error + string gomap gomap" where
  "proxy_devices idx [] m = Inr m"
| "proxy_devices idx (p # ps) m =
     (case proxy_device p of
        Inl err \<Rightarrow> Inl err
      | Inr d \<Rightarrow> proxy_devices (Suc idx) ps (map_set (''docker-proxy-'' @ fmt_nat idx) d m))"

fun index_devices :: "string \<Rightarrow> (string \<Rightarrow> string gomap option) \<Rightarrow> nat \<Rightarrow> string list \<Rightarrow> string gomap gomap \<Rightarrow> string gomap gomap" where
  "index_devices pre f idx [] m = m"
| "index_devices pre f idx (x # xs) m =
     index_devices pre f (Suc idx) xs (case f x of None \<Rightarrow> m | Some d \<Rightarrow> map_set (pre @ fmt_nat idx) d m)"

definition tmpfs_device :: "string \<Rightarrow> string gomap option" where
  "tmpfs_device path = Some [(''type'', ''disk''), (''path'', path), (''source'', ''tmpfs:'')]"

definition unix_device :: "string \<Rightarrow> string gomap option" where
  "unix_device device = Some [(''type'', ''unix-char''), (''source'', device), (''path'', device)]"

text \<open>A volume with more than three parts keeps the zero values.\<close>

definition volume_device :: "string \<Rightarrow> string gomap option" where
  "volume_device volume =
     (if volume = ''/var'' \<or> volume = ''/lib/modules:/lib/modules:ro'' then None
      else let parts = Split volume '':'';
               (hostPath, containerPath, readOnly, propagation) =
                 (if length parts = 1 then (volume, volume, False, '''')
                  else if length parts = 2 then (parts ! 0, parts ! 1, False, '''')
                  else if length parts = 3 then (parts ! 0, parts ! 1, Contains (parts ! 2) ''ro'',
                         if Contains (parts ! 2) ''rslave'' then ''rslave''
                         else if Contains (parts ! 2) ''rshared'' then ''rshared'' else '''')
                  else ('''', '''', False, ''''))
           in Some [(''type'', ''disk''), (''source'', hostPath), (''path'', containerPath),
                    (''readonly'', FormatBool readOnly), (''propagation'', propagation)])"

definition run_options ::
  "('z, 'i) Environment \<Rightarrow> bool \<Rightarrow> run_flags \<Rightarrow> string gomap gomap \<Rightarrow> LaunchOptions \<Rightarrow> LaunchOptions" where
  "run_options env tmpfs flags proxies opts =
     WithAppendToFiles
       (WithDevices (WithDevices (WithDevices (WithDevices
         (WithConfig (WithConfig opts (prefix_keys ''user.'' (rf_Labels flags))) (prefix_keys ''linux.sysctl.'' (rf_Sysctl flags)))
         proxies)
         (index_devices ''docker-volume-'' volume_device 0 (rf_Volumes flags) []))
         (if tmpfs then index_devices ''docker-tmpfs-'' tmpfs_device 0 (rf_Tmpfs flags) [] else []))
         (index_devices ''docker-device-'' unix_device 0 (rf_Devices flags) []))
       [(''/etc/environment'', newline @ ''# added by kini'' @ newline @ run_environment (en_Getenv env) (rf_Environment flags))]"

definition newDockerRunCmd :: "('z, 'i) Environment \<Rightarrow> go_context \<Rightarrow> run_flags \<Rightarrow> string list \<Rightarrow> ('z, unit) shim" where
  "newDockerRunCmd env ctx flags args =
     with_client env (\<lambda>c. guard_err (ret (proxy_devices 0 (rf_PublishPorts flags) [])) id
       (\<lambda>proxies. guard_err (launchOptionsForImage env (args ! 0) (GetServerName c)) (Errorf ''failed to generate launch options: '')
         (\<lambda>opts. guard_err
            (WaitForLaunchInstance c ctx (rf_Name flags)
               (run_options env (SupportsContainerDiskTmpfs c = Inr ()) flags proxies opts)) id
            (\<lambda>_. ret (Inr ())))))"

section \<open>docker ps, inspect, rm, logs\<close>

definition ps_filter :: "string \<Rightarrow> go_error + (InstanceFull \<Rightarrow> bool)" where
  "ps_filter flt =
     (case CutPrefix flt ''label=io.x-k8s.kind.cluster='' of (clusterName, hasPrefix) \<Rightarrow>
        if hasPrefix then Inr (WithConfig_filter [(''user.io.x-k8s.kind.cluster'', clusterName)])
        else if flt = ''label=io.x-k8s.kind.cluster'' then Inr (WithConfigKeys [''user.io.x-k8s.kind.cluster''])
        else Inl (Err (''unknown filter '' @ quote flt)))"

text \<open>The set of cluster names is listed in the order in which they first come; the program lists it in any order.\<close>

definition cluster_names :: "InstanceFull list \<Rightarrow> string list" where
  "cluster_names is =
     remdups (filter (\<lambda>v. length v > 0) (map (\<lambda>i. get_str (i_Config i) ''user.io.x-k8s.kind.cluster'') is))"

definition newDockerPsCmd :: "('z, 'i) Environment \<Rightarrow> string \<Rightarrow> string \<Rightarrow> ('z, string list) shim" where
  "newDockerPsCmd env format flt =
     with_client env (\<lambda>c. guard_err (ret (ps_filter flt)) id
       (\<lambda>f. guard_err (ListInstances c [f]) (Errorf ''failed to list instances: '')
         (\<lambda>is. ret (if format = ''{{.Names}}'' then Inr (map i_Name is)
                    else if format = ''{{.Label '' @ quote ''io.x-k8s.kind.cluster'' @ ''}}''
                    then Inr [Join (cluster_names is) newline]
                    else Inl (Err (''unknown format '' @ quote format))))))"

text \<open>The published address of port 6443: the first proxy device that listens for it on the host.\<close>

definition published :: "string gomap \<Rightarrow> (string \<times> string) option" where
  "published device =
     (if get_str device ''type'' \<noteq> ''proxy'' then None
      else if get_str device ''bind'' \<noteq> ''host'' then None
      else if get_str device ''connect'' \<noteq> ''tcp::6443'' then None
      else let parts = Split (get_str device ''listen'') '':''
           in if parts ! 0 \<noteq> ''tcp'' \<or> length parts \<noteq> 3 then None else Some (parts ! 1, parts ! 2))"

fun first_published :: "string gomap gomap \<Rightarrow> (string \<times> string) option" where
  "first_published [] = None"
| "first_published ((_, device) # rest) =
     (case published device of Some r \<Rightarrow> Some r | None \<Rightarrow> first_published rest)"

definition tab :: string where
  "tab = [char_of (9::nat)]"

definition last_address :: "(string \<Rightarrow> bool) \<Rightarrow> string list \<Rightarrow> string" where
  "last_address is4 addrs = foldl (\<lambda>acc a. if is4 a then a else acc) [] addrs"

definition format_role :: string where
  "format_role = ''{{ index .Config.Labels '' @ quote ''io.x-k8s.kind.role'' @ ''}}''"

definition format_desktop :: string where
  "format_desktop = ''{{ index .Config.Labels '' @ quote ''desktop.docker.io/ports/6443/tcp'' @ '' }}''"

definition format_port :: string where
  "format_port = ''{{ with (index (index .NetworkSettings.Ports '' @ quote ''6443/tcp'' @ '') 0) }}{{ printf ''
     @ [char_of (34::nat)] @ ''%s'' @ tab @ ''%s'' @ [char_of (34::nat)] @ '' .HostIp .HostPort }}{{ end }}''"

definition format_address :: string where
  "format_address = ''{{range .NetworkSettings.Networks}}{{.IPAddress}},{{.GlobalIPv6Address}}{{end}}''"

definition inspect_output :: "('z, 'i) Environment \<Rightarrow> string \<Rightarrow> InstanceFull \<Rightarrow> go_error + string list" where
  "inspect_output env format inst =
     (if format = '''' then
        (case en_yaml_instance env inst of Inl err \<Rightarrow> Inl (Errorf ''failed to marshal YAML: '' err) | Inr b \<Rightarrow> Inr [b])
      else if format = format_role then Inr [get_str (i_Config inst) ''user.io.x-k8s.kind.role'']
      else if format = format_desktop then Inr []
      else if format = format_port \<or> format = ''test'' then
        Inr (case first_published (i_Devices inst) of None \<Rightarrow> [] | Some (ip, port) \<Rightarrow> [ip @ tab @ port])
      else if format = format_address \<or> format = ''t2'' then
        (let addrs = ParseHostAddresses (i_State inst) in Inr [last_address Is4 addrs @ '','' @ last_address Is6 addrs])
      else Inl (Err (''unknown format '' @ quote format)))"

definition newDockerInspectCmd :: "('z, 'i) Environment \<Rightarrow> string \<Rightarrow> string list \<Rightarrow> ('z, string list) shim" where
  "newDockerInspectCmd env format args =
     with_client env (\<lambda>c. guard_err
       (incus_call c (ReqGetInstanceFull (args ! 0)) (srv_GetInstanceFull (cli_server c) (args ! 0)))
       (Errorf (''failed to retrieve instance '' @ quote (args ! 0) @ '': ''))
       (\<lambda>inst. ret (inspect_output env format inst)))"

definition newDockerRmCmd :: "('z, 'i) Environment \<Rightarrow> go_context \<Rightarrow> string list \<Rightarrow> ('z, unit) shim" where
  "newDockerRmCmd env ctx args =
     with_client env (\<lambda>c. for_each (\<lambda>arg. guard_err (WaitForDeleteInstance c ctx arg)
       (Errorf (''failed to delete instance '' @ quote arg @ '': '')) (\<lambda>_. ret (Inr ()))) args)"

text \<open>The input that is passed on to a command; an input that cannot be read is passed on as none.\<close>

definition stdin_of :: "('z, 'i) Environment \<Rightarrow> string option" where
  "stdin_of env = (case en_Stdin env of Inl _ \<Rightarrow> None | Inr s \<Rightarrow> Some s)"

definition newDockerLogsCmd :: "('z, 'i) Environment \<Rightarrow> go_context \<Rightarrow> bool \<Rightarrow> string list \<Rightarrow> ('z, unit) shim" where
  "newDockerLogsCmd env ctx follow args =
     with_client env (\<lambda>c. RunCommand c ctx (args ! 0)
       ([''journalctl'', ''--boot'', ''--no-tail''] @ (if follow then [''--follow''] else [])) (stdin_of env))"

section \<open>docker exec and cp\<close>

text \<open>The flags are passed through; \<^verbatim>\<open>Args\<close> requires two arguments, so the list is not empty.\<close>

fun drop_exec_flags :: "string list \<Rightarrow> go_error + string list" where
  "drop_exec_flags [] = Inl (Err ''panic: index out of range'')"
| "drop_exec_flags (a # args) =
     (if a = ''--privileged'' \<or> a = ''-i'' then
        if args = [] then Inl (Err ''instance name not specified'') else drop_exec_flags args
      else Inr (a # args))"

definition haproxy_cfg :: string where
  "haproxy_cfg = ''/usr/local/etc/haproxy/haproxy.cfg''"

definition exec_copy :: "('z, 'i) Environment \<Rightarrow> 'z disk_scheme Client \<Rightarrow> string \<Rightarrow> string \<Rightarrow> ('z, unit) shim" where
  "exec_copy env c instanceName path =
     guard_err (ret (en_Stdin env)) (Errorf ''failed to read stdin: '')
       (\<lambda>b. guard_err
          (if path = haproxy_cfg
           then GenerateHaproxyLoadBalancerConfiguration (en_template env) c
                  [WithConfig_filter [(''user.io.x-k8s.kind.cluster'', TrimSuffix instanceName ''-external-load-balancer''),
                                      (''user.io.x-k8s.kind.role'', ''control-plane'')]]
           else ret (Inr b))
          (Errorf ''failed to generate hack haproxy configuration: '')
          (\<lambda>b. let args = zero_file_args\<lparr>fa_Content := b, fa_Type := ''file'', fa_Mode := 420\<rparr>
               in guard_err (incus_call c (ReqCreateInstanceFile instanceName path args)
                               (srv_CreateInstanceFile (cli_server c) instanceName path args))
                    (Errorf (''failed to create file '' @ quote path @ '' on instance '' @ quote instanceName @ '': ''))
                    (\<lambda>_. ret (Inr ()))))"

definition newDockerExecCmd :: "('z, 'i) Environment \<Rightarrow> go_context \<Rightarrow> string list \<Rightarrow> ('z, unit) shim" where
  "newDockerExecCmd env ctx args =
     guard_err (ret (drop_exec_flags args)) id
       (\<lambda>args. with_client env (\<lambda>c.
          if length args = 4 \<and> args ! 1 = ''cp'' \<and> args ! 2 = ''/dev/stdin'' then exec_copy env c (args ! 0) (args ! 3)
          else RunCommand c ctx (args ! 0) (tl args) (stdin_of env)))"

definition newDockerCpCmd :: "('z, 'i) Environment \<Rightarrow> string list \<Rightarrow> ('z, unit) shim" where
  "newDockerCpCmd env args =
     (let src = args ! 0; dst = args ! 1 in
      case Cut src '':'' of (_, _, srcOk) \<Rightarrow>
      case Cut dst '':'' of (dstInstance, dstPath, dstOk) \<Rightarrow>
        if srcOk then ret (Inl (Err (''source '' @ quote src @ '' not supported'')))
        else if \<not> dstOk then ret (Inl (Err (''destination '' @ quote dst @ '' not supported'')))
        else guard_err (lift_os (Stat src)) (Errorf ''failed to stat source: '')
          (\<lambda>_. with_client env (\<lambda>c. guard_err (lift_os (Open src)) (Errorf ''failed to read source: '')
            (\<lambda>_. guard_err (lift_os (ReadFile src)) (Errorf ''failed to copy file to instance: '')
              (\<lambda>b. let fa = zero_file_args\<lparr>fa_Content := b, fa_Mode := en_Perm env src\<rparr>
                   in guard_err (incus_call c (ReqCreateInstanceFile dstInstance dstPath fa)
                                   (srv_CreateInstanceFile (cli_server c) dstInstance dstPath fa))
                        (Errorf ''failed to copy file to instance: '') (\<lambda>_. ret (Inr ())))))))"

section \<open>Images\<close>

definition newDockerImagePullCmd :: "('z, 'i) Environment \<Rightarrow> go_context \<Rightarrow> string list \<Rightarrow> ('z, unit) shim" where
  "newDockerImagePullCmd env ctx args =
     (let imageName = args ! 0 in
      if \<not> Contains imageName ''kindest/node'' then ret (Inr ())
      else with_client env (\<lambda>c. guard_err (ret (ParseOCIImage (en_ParseReference env) imageName))
             (Errorf (''failed to parse OCI image '' @ quote imageName @ '': ''))
        (\<lambda>img. do { kind \<leftarrow> KindInstances env;
            if kind then guard_err (PullImage c ctx (PlainImage (mk_image OCI (oci_Server img) (oci_Alias img))))
                (Errorf (''failed to pull '' @ quote imageName @ '': '')) (\<lambda>_. ret (Inr ()))
            else guard_err (PullImage c ctx (PlainImage (CapnImage (''kubeadm/'' @ oci_Tag img))))
                (Errorf (''failed to pull kubeadm image for version '' @ quote (oci_Tag img) @ '': '')) (\<lambda>_. ret (Inr ())) })))"

definition loaded_file :: "string \<Rightarrow> string \<Rightarrow> string" where
  "loaded_file cacheDir tag = Join_path [cacheDir, ''loaded--'' @ ReplaceAll tag ''/'' ''--'' @ ''.tar'']"

text \<open>\<^verbatim>\<open>crane.Load\<close> reads a local tarball.\<close>

definition crane_Load :: "('z, 'i) Environment \<Rightarrow> string \<Rightarrow> ('z, 'i) shim" where
  "crane_Load env path = guard_err (lift_os (ReadFile path)) id (\<lambda>b. ret (en_Load env b))"

definition newDockerImageInspectCmd :: "('z, 'i) Environment \<Rightarrow> string \<Rightarrow> string list \<Rightarrow> ('z, string list) shim" where
  "newDockerImageInspectCmd env format args =
     (if format \<noteq> ''{{ .Id }}'' then ret (Inl (Err (''invalid format '' @ quote format)))
      else let tag = args ! 0 in
        do { cacheDir \<leftarrow> CacheDir env;
             local \<leftarrow> crane_Load env (loaded_file cacheDir tag);
             guard_err (case local of Inr img \<Rightarrow> ret (Inr img) | Inl _ \<Rightarrow> call (CranePull tag) (en_Pull env tag))
               (Errorf (''could not pull image '' @ quote tag @ '': ''))
               (\<lambda>img. guard_err (ret (en_Digest env img)) (Errorf ''could not get manifest of image: '') (\<lambda>d. ret (Inr [d]))) })"

text \<open>
  The loop of \<^verbatim>\<open>parseImageTag\<close> over the entries of a tarball: an error of the reader other than the end is
  ignored, and the reader answers it again for ever after.  Not returning is \<open>None\<close>.  The dump of the manifest is
  left out of the last error message.
\<close>

definition tar_Next :: "tar_stream \<Rightarrow> (go_error option + tar_header \<times> (go_error + string)) \<times> tar_stream" where
  "tar_Next t =
     (case ts_entries t of [] \<Rightarrow> (Inl (ts_end t), t) | e # es \<Rightarrow> (Inr e, t\<lparr>ts_entries := es\<rparr>))"

partial_function (option) find_manifest :: "tar_stream \<Rightarrow> (go_error + (go_error + string)) option" where
  "find_manifest t =
     (case tar_Next t of
        (Inl None, _) \<Rightarrow> Some (Inl (Err ''no manifest.json found in image tarball''))
      | (Inl (Some err), t') \<Rightarrow> find_manifest t'
      | (Inr (hdr, body), t') \<Rightarrow> if th_Name hdr = ''manifest.json'' then Some (Inr body) else find_manifest t')"

definition first_tag :: "string list list \<Rightarrow> go_error + string" where
  "first_tag ms =
     (case ms of (tag # _) # _ \<Rightarrow> Inr tag
      | _ \<Rightarrow> Inl (Err ''no image tags found in manifest''))"

definition tag_of_tar :: "('z, 'i) Environment \<Rightarrow> string \<Rightarrow> (go_error + string) option" where
  "tag_of_tar env b =
     (case find_manifest (en_Tar env b) of
        None \<Rightarrow> None
      | Some (Inl err) \<Rightarrow> Some (Inl err)
      | Some (Inr (Inl err)) \<Rightarrow> Some (Inl (Errorf ''failed to parse manifest.json: '' err))
      | Some (Inr (Inr json)) \<Rightarrow>
          Some (case en_RepoTags env json of
            Inl err \<Rightarrow> Inl (Errorf ''failed to parse manifest.json: '' err) | Inr ms \<Rightarrow> first_tag ms))"

definition parseImageTag :: "('z, 'i) Environment \<Rightarrow> string \<Rightarrow> (request, 'z disk_scheme, (go_error + string) option) io" where
  "parseImageTag env path =
     do { f \<leftarrow> lift_os (Open path);
          case f of
            Inl err \<Rightarrow> ret (Some (Inl (Errorf ''failed to open file: '' err)))
          | Inr _ \<Rightarrow> do { r \<leftarrow> lift_os (ReadFile path);
                         ret (case r of Inl err \<Rightarrow> None | Inr b \<Rightarrow> tag_of_tar env b) } }"

definition store_loaded :: "('z, 'i) Environment \<Rightarrow> string \<Rightarrow> string \<Rightarrow> (request, 'z disk_scheme, (go_error + unit) option) io" where
  "store_loaded env cacheDir input =
     do { t \<leftarrow> parseImageTag env input;
          case t of
            None \<Rightarrow> ret None
          | Some tag \<Rightarrow> do { r \<leftarrow>
              guard_err (ret tag) (Errorf (''no image tag found in '' @ quote input @ '': ''))
                (\<lambda>imageTag. let outFileName = loaded_file cacheDir imageTag
                  in guard_err (lift_os (Open input)) (Errorf (''failed to open '' @ quote input @ '': ''))
                    (\<lambda>_. guard_err (lift_os (Create_file outFileName)) (Errorf (''failed to create output file '' @ quote outFileName @ '': ''))
                      (\<lambda>_. guard_err (lift_os (Copy_file outFileName input)) (Errorf (''failed to save tarball in '' @ quote outFileName @ '': ''))
                        (\<lambda>_. ret (Inr ())))));
              ret (Some r) } }"

definition newDockerImageLoadCmd :: "('z, 'i) Environment \<Rightarrow> string \<Rightarrow> (request, 'z disk_scheme, (go_error + unit) option) io" where
  "newDockerImageLoadCmd env input =
     do { cacheDir \<leftarrow> CacheDir env;
          if cacheDir = '''' then ret (Some (Inl (Err ''load command requires KINI_CACHE to be set'')))
          else if input = '''' then
            do { f \<leftarrow> lift_os CreateTemp;
                 case f of
                   Inl err \<Rightarrow> ret (Some (Inl (Errorf ''failed to create a temporary file: '' err)))
                 | Inr tmp \<Rightarrow>
                     do { w \<leftarrow> (case en_Stdin env of Inl err \<Rightarrow> ret (Inl err) | Inr b \<Rightarrow> lift_os (Copy_text tmp b));
                          r \<leftarrow> (case w of
                                 Inl err \<Rightarrow> ret (Some (Inl (Errorf ''failed to write stdin to temporary file: '' err)))
                               | Inr _ \<Rightarrow> do { y \<leftarrow> lift_os (Sync tmp);
                                   case y of
                                     Inl err \<Rightarrow> ret (Some (Inl (Errorf ''failed to sync stdin to temporary file: '' err)))
                                   | Inr _ \<Rightarrow> store_loaded env cacheDir tmp });
                          _ \<leftarrow> lift_os (Remove tmp);
                          ret r } }
          else store_loaded env cacheDir input }"

fun save_images ::
  "('z, 'i) Environment \<Rightarrow> string \<Rightarrow> string option \<Rightarrow> string list \<Rightarrow> 'i gomap \<Rightarrow> ('z, 'i gomap) shim" where
  "save_images env cacheDir platform [] imgMap = ret (Inr imgMap)"
| "save_images env cacheDir platform (arg # args) imgMap =
     do { local \<leftarrow> crane_Load env (loaded_file cacheDir arg);
          case local of
            Inr img \<Rightarrow> save_images env cacheDir platform args (map_set arg img imgMap)
          | Inl _ \<Rightarrow>
              guard_err (ret (en_ParseReference env arg)) (Errorf (''failed to parse image '' @ quote arg @ '': ''))
                (\<lambda>_. guard_err (call (RemoteImage arg platform) (en_RemoteImage env arg platform))
                       (Errorf (''failed to get image '' @ quote arg @ '': ''))
                  (\<lambda>img. save_images env cacheDir platform args
                     (map_set arg (if cacheDir \<noteq> '''' then en_Cached env cacheDir img else img) imgMap))) }"

definition newDockerImageSaveCmd :: "('z, 'i) Environment \<Rightarrow> string \<Rightarrow> string \<Rightarrow> string list \<Rightarrow> ('z, unit) shim" where
  "newDockerImageSaveCmd env output platform args =
     do { cacheDir \<leftarrow> CacheDir env;
          guard_err (ret (if platform \<noteq> '''' then map_sum id Some (en_ParsePlatform env platform) else Inr None))
            (Errorf (''invalid platform '' @ quote platform @ '': ''))
            (\<lambda>p. guard_err (save_images env cacheDir p args []) id
              (\<lambda>imgMap. if output = '''' then ret (Inl (Err ''--output flag is required''))
                 else guard_err (call (MultiSave output) (en_MultiSave env imgMap output))
                        (Errorf ''failed to save image: '') (\<lambda>_. ret (Inr ())))) }"

section \<open>docker info and network ls\<close>

definition info_json :: "bool \<Rightarrow> string" where
  "info_json privileged =
     (let q = quote in
      ''{'' @ q ''CgroupDriver'' @ '':'' @ q ''systemd'' @ '','' @ q ''CGroupVersion'' @ '':'' @ q ''2'' @ '','' @ q ''MemoryLimit'' @ '':true,''
      @ q ''CPUShares'' @ '':true,'' @ q ''PidsLimit'' @ '':true,'' @ q ''SecurityOptions'' @ '':''
      @ (if privileged then ''[]'' else ''['' @ q ''name=userns'' @ '','' @ q ''name=rootless'' @ '']'') @ ''}'')"

definition security_options :: "bool \<Rightarrow> string" where
  "security_options privileged =
     (if privileged then ''[]'' else ''['' @ quote ''name=userns'' @ '','' @ quote ''name=rootless'' @ '']'')"

definition newDockerInfoCmd :: "('z, 'i) Environment \<Rightarrow> string \<Rightarrow> ('z, string list) shim" where
  "newDockerInfoCmd env format =
     (if format = '''' then
        with_client env (\<lambda>c. guard_err (incus_call c ReqGetServer (\<lambda>_. en_GetServer env)) (Errorf ''failed to get server info: '')
          (\<lambda>yaml. guard_err (ret yaml) (Errorf ''failed to marshal YAML: '') (\<lambda>b. ret (Inr [b]))))
      else ret (if format = ''{{json .}}'' then Inr [info_json (Privileged env)]
                else if format = [char_of (39::nat)] @ ''{{json .SecurityOptions}}'' @ [char_of (39::nat)]
                then Inr [security_options (Privileged env)]
                else Inl (Err (''unknown format '' @ quote format))))"

definition newDockerNetworkLsCmd :: "string \<Rightarrow> string \<Rightarrow> go_error + string list" where
  "newDockerNetworkLsCmd flt format =
     (if flt \<noteq> ''name=^kind$'' then Inl (Err (''invalid filter '' @ quote flt))
      else if format \<noteq> ''{{.ID}}'' then Inl (Err (''invalid format '' @ quote format))
      else Inr [''kind''])"

section \<open>The tarball of an image\<close>

definition has_manifest :: "tar_stream \<Rightarrow> bool" where
  "has_manifest t = (\<exists>e \<in> set (ts_entries t). th_Name (fst e) = ''manifest.json'')"

lemma find_manifest_end:
  "ts_entries t = [] \<Longrightarrow> ts_end t = None \<Longrightarrow>
     find_manifest t = Some (Inl (Err ''no manifest.json found in image tarball''))"
  by (subst find_manifest.simps) (simp add: tar_Next_def)

lemma find_manifest_entry:
  "ts_entries t = e # es \<Longrightarrow>
     find_manifest t = (if th_Name (fst e) = ''manifest.json'' then Some (Inr (snd e)) else find_manifest (t\<lparr>ts_entries := es\<rparr>))"
  by (subst find_manifest.simps) (simp add: tar_Next_def split: prod.split)

text \<open>
  Fixed-point induction: what returns returns because of an entry named like the manifest or of a tarball that ends.
\<close>

lemma find_manifest_returned:
  assumes "find_manifest t = Some r"
  shows "has_manifest t \<or> ts_end t = None"
proof (rule find_manifest.raw_induct [OF _ assms], goal_cases)
  case (1 find t r)
  show ?case
  proof (cases "ts_entries t")
    case Nil
    show ?thesis
    proof (cases "ts_end t")
      case None
      then show ?thesis by simp
    next
      case (Some err)
      then have "find t = Some r" using 1(2) Nil by (simp add: tar_Next_def)
      then show ?thesis by (rule 1(1))
    qed
  next
    case (Cons e es)
    show ?thesis
    proof (cases "th_Name (fst e) = ''manifest.json''")
      case True
      then show ?thesis using Cons by (simp add: has_manifest_def)
    next
      case False
      then have "find (t\<lparr>ts_entries := es\<rparr>) = Some r"
        using 1(2) Cons by (simp add: tar_Next_def split: prod.splits)
      from 1(1) [OF this] show ?thesis using Cons by (auto simp: has_manifest_def)
    qed
  qed
qed

lemma find_manifest_returns:
  "has_manifest t \<or> ts_end t = None \<Longrightarrow> \<exists>r. find_manifest t = Some r"
proof (induction "ts_entries t" arbitrary: t)
  case Nil
  then show ?case by (simp add: has_manifest_def find_manifest_end)
next
  case (Cons e es)
  let ?t' = "t\<lparr>ts_entries := es\<rparr>"
  show ?case
  proof (cases "th_Name (fst e) = ''manifest.json''")
    case True
    then show ?thesis using find_manifest_entry [OF Cons.hyps(2) [symmetric]] by simp
  next
    case False
    then have "has_manifest ?t' \<or> ts_end ?t' = None"
      using Cons.prems Cons.hyps(2) [symmetric] by (auto simp: has_manifest_def)
    then have "\<exists>r. find_manifest ?t' = Some r" using Cons.hyps(1) [of ?t'] by simp
    then show ?thesis using find_manifest_entry [OF Cons.hyps(2) [symmetric]] False by simp
  qed
qed

text \<open>
  C32: \<^verbatim>\<open>parseImageTag\<close> returns on exactly the tarballs that hold an entry \<^verbatim>\<open>manifest.json\<close> or that the reader gets to
  the end of.  On every other tarball, say one that is cut short or no tarball at all, the loop never ends: \<^verbatim>\<open>docker image load\<close>
  hangs.
\<close>

theorem tag_of_tar_returns_iff:
  "(\<exists>r. tag_of_tar env b = Some r) = (has_manifest (en_Tar env b) \<or> ts_end (en_Tar env b) = None)"
proof -
  have "(\<exists>r. tag_of_tar env b = Some r) = (\<exists>r. find_manifest (en_Tar env b) = Some r)"
    unfolding tag_of_tar_def by (cases "find_manifest (en_Tar env b)") (simp_all split: sum.split)
  also have "\<dots> = (has_manifest (en_Tar env b) \<or> ts_end (en_Tar env b) = None)"
    using find_manifest_returned find_manifest_returns by metis
  finally show ?thesis .
qed

section \<open>Published ports\<close>

text \<open>The address and the port of the host that a published port stands for, when it leads to port 6443 of the instance.\<close>

definition api_address :: "string \<Rightarrow> (string \<times> string) option" where
  "api_address p = (case proxy_device p of Inl _ \<Rightarrow> None | Inr d \<Rightarrow> published d)"

text \<open>The devices that publish port 6443, with the address they publish it at.\<close>

definition pub :: "string gomap gomap \<Rightarrow> (string \<times> string \<times> string) set" where
  "pub m = {(k, r). \<exists>d. (k, d) \<in> set m \<and> published d = Some r}"

lemma pub_simps [simp]:
  "pub [] = {}" "pub (m @ n) = pub m \<union> pub n"
  "pub ((k, d) # m) = (case published d of None \<Rightarrow> {} | Some r \<Rightarrow> {(k, r)}) \<union> pub m"
  by (auto simp: pub_def split: option.splits)

lemma pub_key: "(k, r) \<in> pub m \<Longrightarrow> k \<in> fst ` set m"
  by (force simp: pub_def)

lemma first_published_pub:
  "case first_published m of None \<Rightarrow> pub m = {} | Some r \<Rightarrow> r \<in> snd ` pub m"
  by (induction m rule: first_published.induct) (force split: option.splits)+

lemma first_published_unique:
  "snd ` pub m = {r} \<Longrightarrow> first_published m = Some r" "pub m = {} \<Longrightarrow> first_published m = None"
  using first_published_pub [of m] by (auto split: option.splits)

lemma pub_WithDevices:
  assumes "wf_map new"
  shows "pub (devices x) = {} \<Longrightarrow> pub (devices (WithDevices x new)) = pub new"
    and "pub new = {} \<Longrightarrow> fst ` pub (devices x) \<inter> fst ` set new = {} \<Longrightarrow> pub (devices (WithDevices x new)) = pub (devices x)"
proof -
  let ?y = "devices (WithDevices x new)"
  have y: "set ?y \<subseteq> set (devices x) \<union> set new" "set new \<subseteq> set ?y" "{e \<in> set (devices x). fst e \<notin> fst ` set new} \<subseteq> set ?y"
    using set_maps_Copy [OF assms, of "devices x"] by (auto simp: WithDevices_def)
  have "pub ?y \<subseteq> pub (devices x) \<union> pub new" "pub new \<subseteq> pub ?y"
    using y(1,2) unfolding pub_def by blast+
  moreover have "(k, r) \<in> pub ?y" if kr: "(k, r) \<in> pub (devices x)" and k: "k \<notin> fst ` set new" for k r
  proof -
    obtain d where d: "(k, d) \<in> set (devices x)" "published d = Some r" using kr by (auto simp: pub_def)
    then have "(k, d) \<in> set ?y" using subsetD [OF y(3), of "(k, d)"] k by simp
    then show ?thesis using d(2) by (auto simp: pub_def)
  qed
  ultimately show "pub (devices x) = {} \<Longrightarrow> pub ?y = pub new"
    and "pub new = {} \<Longrightarrow> fst ` pub (devices x) \<inter> fst ` set new = {} \<Longrightarrow> pub ?y = pub (devices x)"
    by (auto simp: disjoint_iff)
qed

text \<open>The names of a group of numbered devices.\<close>

definition numbered :: "string \<Rightarrow> nat \<Rightarrow> string set" where
  "numbered pre n = {pre @ fmt_nat i | i. i < n}"

lemma numbered_Suc: "numbered pre (Suc n) = insert (pre @ fmt_nat n) (numbered pre n)"
  by (auto simp: numbered_def less_Suc_eq)

lemma numbered_next [simp]: "pre @ fmt_nat n \<notin> numbered pre n"
  by (auto simp: numbered_def fmt_nat_inj)

lemma numbered_disjoint: "take n p \<noteq> take n q \<Longrightarrow> n \<le> length p \<Longrightarrow> n \<le> length q \<Longrightarrow> numbered p i \<inter> numbered q j = {}"
  by (auto simp: numbered_def) (metis append_eq_append_conv_if take_append append.right_neutral diff_is_0_eq take0)

lemma proxy_devices_Inr:
  assumes "proxy_devices idx ps m = Inr m'" and "wf_map m" and "fst ` set m \<subseteq> numbered ''docker-proxy-'' idx"
  shows "wf_map m' \<and> fst ` set m' \<subseteq> numbered ''docker-proxy-'' (idx + length ps)
     \<and> snd ` pub m' = snd ` pub m \<union> {r. Some r \<in> api_address ` set ps}"
  using assms
proof (induction idx ps m rule: proxy_devices.induct)
  case (2 idx p ps m)
  obtain d where d: "proxy_device p = Inr d" using 2(2) by (cases "proxy_device p") auto
  let ?k = "''docker-proxy-'' @ fmt_nat idx"
  have new: "?k \<notin> fst ` set m" using 2(4) numbered_next by blast
  have "snd ` pub (m @ [(?k, d)]) = snd ` pub m \<union> {r. api_address p = Some r}"
    using d by (auto simp: api_address_def image_Un split: option.split)
  moreover have "fst ` set (m @ [(?k, d)]) \<subseteq> numbered ''docker-proxy-'' (Suc idx)"
    using 2(4) by (auto simp: numbered_Suc)
  moreover have "wf_map (m @ [(?k, d)])" using 2(3) new by (auto simp: wf_map_def)
  ultimately have "wf_map m' \<and> fst ` set m' \<subseteq> numbered ''docker-proxy-'' (Suc idx + length ps)
     \<and> snd ` pub m' = snd ` pub m \<union> {r. api_address p = Some r} \<union> {r. Some r \<in> api_address ` set ps}"
    using 2(1) [OF d] 2(2) d new by (simp add: map_set_new)
  then show ?case by (auto simp: image_iff)
qed auto

lemma index_devices_props:
  assumes "wf_map m" and "fst ` set m \<subseteq> numbered pre idx" and "pub m = {}"
    and "\<And>x d. f x = Some d \<Longrightarrow> published d = None"
  shows "wf_map (index_devices pre f idx xs m)
     \<and> fst ` set (index_devices pre f idx xs m) \<subseteq> numbered pre (idx + length xs)
     \<and> pub (index_devices pre f idx xs m) = {}"
  using assms
proof (induction pre f idx xs m rule: index_devices.induct)
  case (2 pre f idx x xs m)
  let ?m = "case f x of None \<Rightarrow> m | Some d \<Rightarrow> map_set (pre @ fmt_nat idx) d m"
  have "pre @ fmt_nat idx \<notin> fst ` set m" using 2(3) numbered_next by blast
  then have "wf_map ?m" "fst ` set ?m \<subseteq> numbered pre (Suc idx)" "pub ?m = {}"
    using 2(2-4) 2(5) [of x] by (auto simp: numbered_Suc map_set_new wf_map_def split: option.split)
  then show ?case using 2(1,5) by simp
qed auto

lemma silent_devices:
  "volume_device v = Some d \<Longrightarrow> published d = None" "tmpfs_device v = Some d \<Longrightarrow> published d = None"
  "unix_device v = Some d \<Longrightarrow> published d = None"
  by (auto simp: volume_device_def tmpfs_device_def unix_device_def published_def get_str_def Let_def split: if_splits)

lemma numbered_devices:
  assumes "f \<in> {volume_device, tmpfs_device, unix_device}"
  shows "wf_map (index_devices pre f 0 xs [])" "fst ` set (index_devices pre f 0 xs []) \<subseteq> numbered pre (length xs)"
    "pub (index_devices pre f 0 xs []) = {}"
  using index_devices_props [of "[]" pre 0 f xs] assms silent_devices by auto

text \<open>What \<^verbatim>\<open>docker run\<close> publishes is what the ports stand for: none of the other devices is in the way.\<close>

lemma run_options_pub:
  assumes "proxy_devices 0 (rf_PublishPorts flags) [] = Inr proxies" and "pub (devices opts) = {}"
  shows "snd ` pub (devices (run_options env tmpfs flags proxies opts)) = {r. Some r \<in> api_address ` set (rf_PublishPorts flags)}
     \<and> fst ` pub (devices (run_options env tmpfs flags proxies opts)) \<subseteq> numbered ''docker-proxy-'' (length (rf_PublishPorts flags))"
proof -
  note P = proxy_devices_Inr [OF assms(1), simplified]
  have keys: "fst ` pub proxies \<subseteq> numbered ''docker-proxy-'' (length (rf_PublishPorts flags))"
    using P pub_key by fastforce
  have apart: "fst ` pub proxies \<inter> fst ` set (index_devices (''docker-'' @ c # s) f 0 xs []) = {}"
    if "c \<noteq> CHR ''p''" "f \<in> {volume_device, tmpfs_device, unix_device}" for c s f xs
    using numbered_devices(2) [OF that(2), of "''docker-'' @ c # s" xs] keys that(1) by (fastforce simp: numbered_def)
  have "pub (devices (run_options env tmpfs flags proxies opts)) = pub proxies"
    using P assms(2) apart [of "CHR ''v''" _ "''olume-''"] apart [of "CHR ''t''" _ "''mpfs-''"] apart [of "CHR ''d''" _ "''evice-''"]
    by (simp add: run_options_def pub_WithDevices numbered_devices)
  then show ?thesis using P keys by simp
qed

text \<open>The options of an image publish nothing themselves.\<close>

lemma profile_pub [simp]:
  "pub (pp_Devices (DefaultKindProfile p)) = {}" "pub (pp_Devices (DefaultKubeadmProfile p srv)) = {}"
  "wf_map (pp_Devices (DefaultKindProfile p))" "wf_map (pp_Devices (DefaultKubeadmProfile p srv))"
  by (simp_all add: DefaultKindProfile_def DefaultKubeadmProfile_def profile_defs published_def get_str_def wf_map_def)

lemma kubeadm_options_pub: "pub (devices (KubeadmLaunchOptions sc inp)) = {}"
  by (simp add: KubeadmLaunchOptions_def Let_def pub_WithDevices)

lemma kind_options_pub: "KindLaunchOptions sc u m (kind_input b) = Inr opts \<Longrightarrow> pub (devices opts) = {}"
  by (auto simp: KindLaunchOptions_def kind_input_def kind_finish_def kind_base_options_def Let_def pub_WithDevices)

lemma launchOptionsForImage_pub:
  "run_state (launchOptionsForImage env raw srv) s = (Inr opts, s') \<Longrightarrow> pub (devices opts) = {}"
  by (auto simp: launchOptionsForImage_def lxc_node_options_def HaproxyOCILaunchOptions_def kubeadm_options_pub
      split: sum.splits prod.splits if_splits dest: kind_options_pub)

lemma complete_pub:
  assumes "complete opts srv = Inr opts'" and "fst ` pub (devices opts) \<subseteq> numbered ''docker-proxy-'' n"
  shows "pub (devices opts') = pub (devices opts) \<and> config opts' = config opts"
proof -
  have "''00-unix-socket'' \<notin> fst ` pub (devices opts)"
    using assms(2) by (auto simp: numbered_def)
  then have "pub (devices (WithDevices (opts\<lparr>opt_image := i\<rparr>) [(''00-unix-socket'', unix_socket_device path)])) = pub (devices opts)" for i path
    by (subst pub_WithDevices(2)) (simp_all add: unix_socket_device_def published_def get_str_def)
  then show ?thesis using assms(1) by (auto simp: complete_Inr split: if_splits)
qed

text \<open>Labels become configuration keys of the instance.\<close>

lemma prefix_keys_snoc: "prefix_keys pre (m @ [(k, v)]) = map_set (pre @ k) v (prefix_keys pre m)"
  by (simp add: prefix_keys_def)

lemma prefix_keys_props:
  "wf_map (prefix_keys pre m)" "fst ` set (prefix_keys pre m) \<subseteq> {k. HasPrefix k pre}"
proof (induction m rule: rev_induct)
  case (snoc e m)
  { case 1 show ?case using snoc(1) by (cases e) (simp add: prefix_keys_snoc) }
  { case 2 show ?case using snoc(2) by (cases e) (simp add: prefix_keys_snoc) }
qed (simp_all add: prefix_keys_def)

lemma map_of_prefix_keys:
  assumes "wf_map m"
  shows "map_of (prefix_keys pre m) (pre @ k) = map_of m k"
  using assms
proof (induction m rule: rev_induct)
  case (snoc e m)
  obtain k' v where e: "e = (k', v)" by (cases e)
  have "map_of m k' = None" using snoc.prems e by (simp add: wf_map_def map_of_eq_None_iff)
  then show ?case
    using snoc e by (auto simp: prefix_keys_snoc wf_map_def map_add_def split: option.split)
qed (simp add: prefix_keys_def)

lemma run_options_label:
  assumes "map_of (rf_Labels flags) k = Some v" and "wf_map (rf_Labels flags)"
  shows "map_of (config (run_options env tmpfs flags proxies opts)) (''user.'' @ k) = Some v"
proof -
  have "''user.'' @ k \<notin> fst ` set (prefix_keys ''linux.sysctl.'' (rf_Sysctl flags))"
    using subsetD [OF prefix_keys_props(2) [of "''linux.sysctl.''" "rf_Sysctl flags"], of "''user.'' @ k"]
    by (auto simp: HasPrefix_def)
  moreover have "map_of (config (WithConfig opts (prefix_keys ''user.'' (rf_Labels flags)))) (''user.'' @ k) = Some v"
    using assms map_of_prefix_keys [of "rf_Labels flags" "''user.''" k] by (intro with_config.last_wins prefix_keys_props) simp
  ultimately show ?thesis
    unfolding run_options_def config_frame by (simp add: with_config.keeps prefix_keys_props)
qed

text \<open>An instance as the server shows it after it was created by a request: it has its devices and at least its configuration.\<close>

definition created_by :: "InstancesPost \<Rightarrow> InstanceFull \<Rightarrow> bool" where
  "created_by post inst \<longleftrightarrow> map_of (p_Config post) \<subseteq>\<^sub>m map_of (i_Config inst) \<and> set (i_Devices inst) = set (p_Devices post)"

definition kind_node :: "('z, 'i) Environment \<Rightarrow> string \<Rightarrow> string \<Rightarrow> string \<times> string \<Rightarrow> InstanceFull \<Rightarrow> bool" where
  "kind_node env cluster role address inst \<longleftrightarrow>
     inspect_output env format_port inst = Inr [fst address @ tab @ snd address]
     \<and> inspect_output env format_role inst = Inr [role]
     \<and> (case ps_filter (''label=io.x-k8s.kind.cluster='' @ cluster) of Inl _ \<Rightarrow> False | Inr f \<Rightarrow> f inst)
     \<and> (case ps_filter ''label=io.x-k8s.kind.cluster'' of Inl _ \<Rightarrow> False | Inr f \<Rightarrow> f inst)"

lemma pub_cong: "set m = set n \<Longrightarrow> pub m = pub n"
  by (simp add: pub_def)

lemma formats [simp]: "format_role \<noteq> []" "format_port \<noteq> []" "format_port \<noteq> format_role" "format_port \<noteq> format_desktop"
  by (simp_all add: format_role_def format_port_def format_desktop_def)

lemma launched_kind_node:
  assumes "proxy_devices 0 (rf_PublishPorts flags) [] = Inr proxies" and "pub (devices opts) = {}"
    and "complete (run_options env tmpfs flags proxies opts) srv = Inr opts'"
    and "{a. Some a \<in> api_address ` set (rf_PublishPorts flags)} = {address}"
    and "wf_map (rf_Labels flags)" and "map_of (rf_Labels flags) ''io.x-k8s.kind.cluster'' = Some cluster"
    and "map_of (rf_Labels flags) ''io.x-k8s.kind.role'' = Some role"
    and "created_by (launch_post name opts' img) inst"
  shows "kind_node env cluster role address inst"
proof -
  note run = run_options_pub [OF assms(1,2), of env tmpfs]
  note completed = complete_pub [OF assms(3) conjunct2 [OF run]]
  have "pub (i_Devices inst) = pub (devices (run_options env tmpfs flags proxies opts))"
    using pub_cong [of "i_Devices inst" "devices opts'"] completed assms(8) by (simp add: created_by_def launch_post_def)
  then have port: "first_published (i_Devices inst) = Some address"
    using run assms(4) by (intro first_published_unique(1)) simp
  have label: "map_of (i_Config inst) (''user.'' @ k) = Some v" if "map_of (rf_Labels flags) k = Some v" for k v
    using run_options_label [OF that assms(5), of env tmpfs proxies opts] completed assms(8)
    by (auto simp: created_by_def launch_post_def map_le_def dom_def)
  show ?thesis
    using port label [OF assms(6)] label [OF assms(7)]
    by (simp add: kind_node_def inspect_output_def get_str_def ps_filter_def CutPrefix_def HasPrefix_def
        WithConfig_filter_def WithConfigKeys_def split: prod.split)
qed

lemma creates_connects: "connects r \<Longrightarrow> creates P r"
  by (cases r rule: connects.cases) (simp_all add: creates_def)

text \<open>
  C25: A container that kind starts with \<^verbatim>\<open>docker run\<close> is the one it finds again.  Take labels for a cluster and a role, and published
  ports of which all that lead to port 6443 name one address of the host, as the command's own parser reads it.  Then every instance that \<^verbatim>\<open>docker run\<close> asks the
  server to create, once the server shows it, is listed by \<^verbatim>\<open>docker ps\<close> for that cluster, and \<^verbatim>\<open>docker inspect\<close>
  prints that role, and the address and port of the host for port 6443, whatever the other devices, in
  whichever order the server lists them.
\<close>

theorem docker_run_found_again:
  assumes "issues connects (en_Client env)"
    and "{a. Some a \<in> api_address ` set (rf_PublishPorts flags)} = {address}"
    and "wf_map (rf_Labels flags)" and "map_of (rf_Labels flags) ''io.x-k8s.kind.cluster'' = Some cluster"
    and "map_of (rf_Labels flags) ''io.x-k8s.kind.role'' = Some role"
    and "run_state (newDockerRunCmd env ctx flags args) s = (r, s')"
  shows "\<exists>rs. trace s' = trace s @ rs \<and>
     (\<forall>t post inst. Incus t (ReqCreateInstance post) \<in> set rs \<longrightarrow> created_by post inst \<longrightarrow> kind_node env cluster role address inst)"
proof -
  let ?P = "\<lambda>post. \<forall>inst. created_by post inst \<longrightarrow> kind_node env cluster role address inst"
  have client: "issues (creates ?P) (en_Client env)"
    by (rule issues_mono [OF assms(1) creates_connects])
  have kind: "issues (creates ?P) (KindInstances env)"
    unfolding KindInstances_def by (intro issues_intros client)
  have opts: "issues (creates ?P) (launchOptionsForImage env raw srv)" for raw srv
    unfolding launchOptionsForImage_def by (intro issues_intros kind)
  have "issues (creates ?P) (newDockerRunCmd env ctx flags args)"
    unfolding newDockerRunCmd_def with_client_def
  proof (intro issues_guard_err [OF client] issues_guard_err_result opts issues_ret creates_launch)
    fix c proxies base s1 s2 s3 s4 opts' img
    assume proxies: "run_state (ret (proxy_devices 0 (rf_PublishPorts flags) [])) s1 = (Inr proxies, s2)"
      and base: "run_state (launchOptionsForImage env (args ! 0) (GetServerName c)) s3 = (Inr base, s4)"
      and completed: "complete (run_options env (SupportsContainerDiskTmpfs c = Inr ()) flags proxies base) (GetServerName c) = Inr opts'"
    have "proxy_devices 0 (rf_PublishPorts flags) [] = Inr proxies" using proxies by simp
    from launched_kind_node [OF this launchOptionsForImage_pub [OF base] completed assms(2-5)]
    show "?P (launch_post (rf_Name flags) opts' img)" by blast
  qed
  from issuesD [OF this assms(6)] show ?thesis by (auto simp: list_all_iff creates_def) fastforce
qed

definition sample_docker :: "(unit, string) Environment" where
  "sample_docker =
     \<lparr>en_Stdin = Inr ''input'', en_Client = ret (Inr (sample_client refusing_server)),
      en_Getenv = (\<lambda>v. if v = ''KINI_MODE'' then ''oci'' else if v = ''KINI_CACHE'' then ''/cache'' else ''''),
      en_Perm = (\<lambda>_. 420),
      en_ParseReference = (\<lambda>r. Inr \<lparr>ref_RegistryStr = ''index.docker.io'', ref_Scheme = ''https'', ref_Name = ''index.docker.io/'' @ r\<rparr>),
      en_scripts = sample_scripts, en_StorageManifest = ''storage'', en_FlannelManifest = ''cni'',
      en_unmarshal = (\<lambda>_. Inl (Err ''invalid'')), en_marshal = (\<lambda>_. Inr ''{}''), en_template = no_engine,
      en_yaml_instance = (\<lambda>_. Inr ''{}''), en_GetServer = (\<lambda>w. (Inr (Inr ''{}''), 0, w)),
      en_Tar = (\<lambda>b. \<lparr>ts_entries = [(\<lparr>th_Name = ''layer.tar'', th_Size = 0\<rparr>, Inr ''''), (\<lparr>th_Name = ''manifest.json'', th_Size = 0\<rparr>, Inr b)], ts_end = None\<rparr>),
      en_RepoTags = (\<lambda>_. Inr [[''kindest/base:v1'']]),
      en_Load = (\<lambda>b. Inr b), en_Pull = (\<lambda>_ w. (Inl (Err ''offline''), 0, w)), en_Digest = (\<lambda>i. Inr (''sha256:'' @ i)),
      en_ParsePlatform = Inr, en_RemoteImage = (\<lambda>_ _ w. (Inl (Err ''offline''), 0, w)),
      en_Cached = (\<lambda>_ i. i), en_MultiSave = (\<lambda>_ _ w. (Inr (), 0, w))\<rparr>"

definition sample_run_flags :: run_flags where
  "sample_run_flags =
     \<lparr>rf_Name = ''kind-control-plane'', rf_Environment = [],
      rf_Labels = [(''io.x-k8s.kind.cluster'', ''kind''), (''io.x-k8s.kind.role'', ''control-plane'')],
      rf_PublishPorts = [''0.0.0.0:80:80/tcp'', ''127.0.0.1:4000:6443/TCP''], rf_Volumes = [''/var''], rf_Devices = [], rf_Tmpfs = [],
      rf_Sysctl = []\<rparr>"

lemma sample_ports:
  "map proxy_device (rf_PublishPorts sample_run_flags) =
     [Inr [(''type'', ''proxy''), (''bind'', ''host''), (''listen'', ''tcp:0.0.0.0:80''), (''connect'', ''tcp::80'')],
      Inr [(''type'', ''proxy''), (''bind'', ''host''), (''listen'', ''tcp:127.0.0.1:4000''), (''connect'', ''tcp::6443'')]]"
  "map api_address (rf_PublishPorts sample_run_flags) = [None, Some (''127.0.0.1'', ''4000'')]"
  by code_simp+

definition sample_image :: OCIImage where
  "sample_image = \<lparr>oci_raw = ''kindest/base:v1'', oci_ref =
     \<lparr>ref_RegistryStr = ''index.docker.io'', ref_Scheme = ''https'', ref_Name = ''index.docker.io/kindest/base:v1''\<rparr>\<rparr>"

lemma sample_alias: "oci_Alias sample_image = ''kindest/base:v1''" "\<not> Contains ''kindest/base:v1'' ''kindest/haproxy''"
  "Contains ''kindest/base:v1'' ''kindest/base''"
  by code_simp+

definition sample_base :: LaunchOptions where
  "sample_base = WithImage (WithConfig empty_LaunchOptions [(''oci.entrypoint'', ''sleep infinity'')]) (oci_image sample_image)"

lemma sample_options:
  "run_state (launchOptionsForImage sample_docker ''kindest/base:v1'' srv) s = (Inr sample_base, s)"
  using sample_alias
  by (simp add: launchOptionsForImage_def ParseOCIImage_def KindInstances_def sample_docker_def sample_base_def sample_image_def)

lemma sample_run:
  "\<exists>err s' post. run_state (newDockerRunCmd sample_docker Background sample_run_flags [''kindest/base:v1'']) (initial_world d)
       = (Inl err, s') \<and> Incus [] (ReqCreateInstance post) \<in> set (trace s')"
proof -
  let ?c = "sample_client refusing_server :: disk Client"
  obtain proxies where proxies: "proxy_devices 0 (rf_PublishPorts sample_run_flags) [] = Inr proxies"
    using sample_ports(1) by (auto simp: sample_run_flags_def)
  let ?opts = "run_options sample_docker (SupportsContainerDiskTmpfs ?c = Inr ()) sample_run_flags proxies sample_base"
  have "opt_image ?opts = Some (PlainImage (mk_image OCI (oci_Server sample_image) (oci_Alias sample_image)))"
    by (simp add: run_options_def sample_base_def oci_image_def sample_alias mk_image_def)
  moreover have "instanceType ?opts = [] \<and> \<not> unixSocket ?opts"
    by (simp add: run_options_def sample_base_def empty_LaunchOptions_def WithAppendToFiles_def oci_image_def WithConfig_def [of empty_LaunchOptions])
  ultimately have "complete ?opts ''incus'' = Inr (?opts\<lparr>opt_image := Some (PlainImage (drop_tag (mk_image OCI (oci_Server sample_image) (oci_Alias sample_image))))\<rparr>)"
    by (intro complete_plain) (auto simp: VirtualMachine_def)
  from sample_refused [OF this, of _ Background "rf_Name sample_run_flags" "initial_world d"]
  obtain err s' post where "run_state (WaitForLaunchInstance ?c Background (rf_Name sample_run_flags) ?opts) (initial_world d) = (Inl err, s')"
    and "Incus [] (ReqCreateInstance post) \<in> set (trace s')" by auto
  moreover have "GetServerName ?c = ''incus''" by (simp add: GetServerName_def sample_client_def IncusServer_def)
  moreover have "en_Client sample_docker = ret (Inr ?c)" by (simp add: sample_docker_def)
  ultimately show ?thesis
    using proxies by (simp add: newDockerRunCmd_def with_client_def run_state_guard_err sample_options) blast
qed

theorem docker_run_found_again_witness:
  "\<exists>r s' post. run_state (newDockerRunCmd sample_docker Background sample_run_flags [''kindest/base:v1'']) (initial_world sample_disk)
       = (r, s') \<and> Incus [] (ReqCreateInstance post) \<in> set (trace s')
     \<and> (\<forall>inst. created_by post inst \<longrightarrow> kind_node sample_docker ''kind'' ''control-plane'' (''127.0.0.1'', ''4000'') inst)"
proof -
  obtain err s' post where run: "run_state (newDockerRunCmd sample_docker Background sample_run_flags [''kindest/base:v1'']) (initial_world sample_disk)
       = (Inl err, s')" and post: "Incus [] (ReqCreateInstance post) \<in> set (trace s')"
    using sample_run by blast
  have client: "issues connects (en_Client sample_docker)" by (simp add: sample_docker_def issues_ret)
  have "api_address ` set (rf_PublishPorts sample_run_flags) = {None, Some (''127.0.0.1'', ''4000'')}"
    using arg_cong [OF sample_ports(2), of set] by simp
  then have ports: "{a. Some a \<in> api_address ` set (rf_PublishPorts sample_run_flags)} = {(''127.0.0.1'', ''4000'')}" by auto
  have labels: "wf_map (rf_Labels sample_run_flags)"
    "map_of (rf_Labels sample_run_flags) ''io.x-k8s.kind.cluster'' = Some ''kind''"
    "map_of (rf_Labels sample_run_flags) ''io.x-k8s.kind.role'' = Some ''control-plane''"
    by (simp_all add: sample_run_flags_def wf_map_def)
  show ?thesis
    using docker_run_found_again [OF client ports labels run] run post by auto
qed

section \<open>Loaded images\<close>

text \<open>The cache directory that the environment names; the empty one where caching is disabled.\<close>

definition cache_name :: "('z, 'i) Environment \<Rightarrow> string" where
  "cache_name env =
     (let cache = en_Getenv env ''KINI_CACHE''
      in if ParseBool cache = Some False then '''' else if cache = '''' then en_Getenv env ''HOME'' @ ''/.cache/kini'' else cache)"

lemma wp_CacheDir_quiet:
  assumes "quiet (outside s)" and "\<And>s'. quiet (outside s') \<Longrightarrow> contents (outside s') = contents (outside s) \<Longrightarrow>
     dk_temp (outside s') = dk_temp (outside s) \<Longrightarrow> trace s' = trace s \<Longrightarrow> Q (cache_name env) s'"
  shows "wp (CacheDir env) Q s"
  using assms(1) assms(2) [of s] assms(2) [of "s\<lparr>outside := tick (outside s)\<rparr>"]
  by (cases "ParseBool (en_Getenv env ''KINI_CACHE'') = Some False"; cases "en_Getenv env ''KINI_CACHE'' = ''''")
    (simp_all add: CacheDir_def cache_name_def Let_def quiet_simps wp_lift_os)

lemma store_loaded_quiet:
  assumes "quiet (outside s)" and "contents (outside s) input = Some b" and "tag_of_tar env b = Some (Inr tag)"
    and "input \<noteq> loaded_file dir tag"
  shows "wp (store_loaded env dir input) (\<lambda>r s'. r = Some (Inr ()) \<and> trace s' = trace s \<and> quiet (outside s')
     \<and> contents (outside s') (loaded_file dir tag) = Some b) s"
  using assms
  by (simp add: store_loaded_def parseImageTag_def quiet_simps wp_lift_os Let_def)

lemma wp_CreateTemp_quiet:
  "quiet d \<Longrightarrow> wp CreateTemp Q d = Q (Inr (dk_temp d (dk_ticks (tick d)))) (put_file (dk_temp d (dk_ticks (tick d))) [] (tick d))"
  by (simp add: CreateTemp_def wp_os_op_quiet disk_simps)

lemma contents_Remove_quiet:
  assumes "quiet d" and "p \<noteq> q" and "contents d q = Some c"
    and "\<And>r d'. quiet d' \<Longrightarrow> contents d' q = Some c \<Longrightarrow> Q r d'"
  shows "wp (Remove p) Q d"
proof -
  have "quiet (d\<lparr>dk_files := f\<rparr>) = quiet d" for f by (simp add: quiet_def)
  then show ?thesis
    using assms
    by (auto simp: Remove_def wp_os_op_quiet disk_simps contents_def contents_filter tick_def quiet_def split: option.split)
qed

lemma load_quiet:
  assumes "quiet (outside s)" and "cache_name env \<noteq> ''''" and "tag_of_tar env b = Some (Inr tag)"
    and given: "input \<noteq> '''' \<Longrightarrow> contents (outside s) input = Some b \<and> input \<noteq> loaded_file (cache_name env) tag"
    and stdin: "input = '''' \<Longrightarrow> en_Stdin env = Inr b \<and> (\<forall>n. dk_temp (outside s) n \<noteq> loaded_file (cache_name env) tag)"
  shows "wp (newDockerImageLoadCmd env input) (\<lambda>r s'. r = Some (Inr ()) \<and> trace s' = trace s \<and> quiet (outside s')
     \<and> contents (outside s') (loaded_file (cache_name env) tag) = Some b) s"
  unfolding newDockerImageLoadCmd_def wp_bind
proof (rule wp_CacheDir_quiet [OF assms(1)], goal_cases)
  case (1 s1)
  note q = 1(1)
  let ?Q = "\<lambda>r s'. r = Some (Inr ()) \<and> trace s' = trace s \<and> quiet (outside s')
     \<and> contents (outside s') (loaded_file (cache_name env) tag) = Some b"
  show ?case
  proof (cases "input = ''''")
    case False
    then show ?thesis
      using store_loaded_quiet [OF q, of input b env tag "cache_name env"] given assms(2,3) 1 by simp
  next
    case True
    let ?tmp = "dk_temp (outside s1) (dk_ticks (tick (outside s1)))"
    let ?d = "put_file ?tmp b (tick (put_file ?tmp [] (tick (outside s1))))"
    have tmp: "?tmp \<noteq> loaded_file (cache_name env) tag" using stdin True 1 by simp
    have "wp (store_loaded env (cache_name env) ?tmp) ?Q (s1\<lparr>outside := tick ?d\<rparr>)"
      using store_loaded_quiet [of "s1\<lparr>outside := tick ?d\<rparr>" ?tmp b env tag "cache_name env"] q assms(3) tmp 1(4)
      by (simp add: disk_simps)
    then have "wp (store_loaded env (cache_name env) ?tmp)
        (\<lambda>r. wp (State_Monad.bind (lift_os (Remove ?tmp)) (\<lambda>_. ret r)) ?Q) (s1\<lparr>outside := tick ?d\<rparr>)"
      by (rule wp_mono) (auto simp: wp_bind wp_lift_os wp_ret intro: contents_Remove_quiet [OF _ tmp])
    then show ?thesis
      using True stdin assms(2) q
      by (simp add: wp_bind wp_ret wp_lift_os wp_CreateTemp_quiet wp_os_op_quiet Copy_text_def Sync_def disk_simps wp_if)
  qed
qed

lemma inspect_loaded_quiet:
  assumes "quiet (outside s)" and "contents (outside s) (loaded_file (cache_name env) tag) = Some b"
    and "en_Load env b = Inr img" and "en_Digest env img = Inr digest"
  shows "wp (newDockerImageInspectCmd env ''{{ .Id }}'' [tag]) (\<lambda>r s'. r = Inr [digest] \<and> trace s' = trace s) s"
proof -
  have "wp (CacheDir env) (\<lambda>dir. wp (State_Monad.bind (crane_Load env (loaded_file dir tag)) (\<lambda>local.
      guard_err (case local of Inr img \<Rightarrow> ret (Inr img) | Inl _ \<Rightarrow> call (CranePull tag) (en_Pull env tag))
        (Errorf (''could not pull image '' @ quote tag @ '': ''))
        (\<lambda>img. guard_err (ret (en_Digest env img)) (Errorf ''could not get manifest of image: '') (\<lambda>d. ret (Inr [d])))))
      (\<lambda>r s'. r = Inr [digest] \<and> trace s' = trace s)) s"
    using assms by (intro wp_CacheDir_quiet) (simp_all add: crane_Load_def quiet_simps wp_lift_os)
  then show ?thesis by (simp add: newDockerImageInspectCmd_def wp_bind)
qed

text \<open>
  C27: What \<^verbatim>\<open>docker image load\<close> stores is what \<^verbatim>\<open>docker image inspect\<close> finds.  On a disk where nothing fails, and with the cache enabled
  (\<^verbatim>\<open>KINI_CACHE\<close> is not a false boolean, and not \<^verbatim>\<open>no\<close>, which is documented to disable it), a well-made tarball, given as a file or on the
  standard input, is loaded; asking for the tag in its manifest then prints the digest of that very image, and no registry
  is asked.  The tarball, or the temporary file for the standard input, is supposed not to be the cached file itself.  With a false boolean
  the load fails and says that it requires the cache.
\<close>

theorem image_load_inspect:
  assumes "quiet (outside s)" and "tag_of_tar env b = Some (Inr tag)"
    and "input \<noteq> '''' \<Longrightarrow> contents (outside s) input = Some b \<and> input \<noteq> loaded_file (cache_name env) tag"
    and "input = '''' \<Longrightarrow> en_Stdin env = Inr b \<and> (\<forall>n. dk_temp (outside s) n \<noteq> loaded_file (cache_name env) tag)"
    and "en_Load env b = Inr img" and "en_Digest env img = Inr digest"
  shows "(ParseBool (en_Getenv env ''KINI_CACHE'') \<noteq> Some False \<and> en_Getenv env ''KINI_CACHE'' \<noteq> ''no'' \<longrightarrow>
     wp (do { r \<leftarrow> newDockerImageLoadCmd env input; i \<leftarrow> newDockerImageInspectCmd env ''{{ .Id }}'' [tag]; ret (r, i) })
       (\<lambda>(r, i) s'. r = Some (Inr ()) \<and> i = Inr [digest] \<and> trace s' = trace s) s)
   \<and> (ParseBool (en_Getenv env ''KINI_CACHE'') = Some False \<longrightarrow>
     run_state (newDockerImageLoadCmd env input) s = (Some (Inl (Err ''load command requires KINI_CACHE to be set'')), s))"
proof (intro conjI impI)
  assume "ParseBool (en_Getenv env ''KINI_CACHE'') = Some False"
  then show "run_state (newDockerImageLoadCmd env input) s = (Some (Inl (Err ''load command requires KINI_CACHE to be set'')), s)"
    by (simp add: newDockerImageLoadCmd_def CacheDir_def)
next
  assume "ParseBool (en_Getenv env ''KINI_CACHE'') \<noteq> Some False \<and> en_Getenv env ''KINI_CACHE'' \<noteq> ''no''"
  then have "cache_name env \<noteq> ''''" by (simp add: cache_name_def Let_def)
  let ?found = "\<lambda>s'. trace s' = trace s \<and> quiet (outside s') \<and> contents (outside s') (loaded_file (cache_name env) tag) = Some b"
  have "wp (newDockerImageLoadCmd env input) (\<lambda>r s'. r = Some (Inr ()) \<and> ?found s') s"
    using assms \<open>cache_name env \<noteq> ''''\<close> by (intro load_quiet) auto
  moreover have "wp (newDockerImageInspectCmd env ''{{ .Id }}'' [tag]) (\<lambda>i s'. i = Inr [digest] \<and> trace s' = trace s) s1" if "?found s1" for s1
    using inspect_loaded_quiet [of s1 env tag b img digest] that assms(5,6) by simp
  ultimately show "wp (do { r \<leftarrow> newDockerImageLoadCmd env input; i \<leftarrow> newDockerImageInspectCmd env ''{{ .Id }}'' [tag]; ret (r, i) })
       (\<lambda>(r, i) s'. r = Some (Inr ()) \<and> i = Inr [digest] \<and> trace s' = trace s) s"
    unfolding wp_bind wp_ret by (auto elim!: wp_mono)
qed

lemma sample_tag: "tag_of_tar sample_docker b = Some (Inr ''kindest/base:v1'')"
  by (simp add: tag_of_tar_def sample_docker_def find_manifest_entry first_tag_def)

theorem image_load_inspect_witness:
  "wp (do { r \<leftarrow> newDockerImageLoadCmd sample_docker ''/home/image.tar.gz'';
            i \<leftarrow> newDockerImageInspectCmd sample_docker ''{{ .Id }}'' [''kindest/base:v1'']; ret (r, i) })
     (\<lambda>(r, i) s'. r = Some (Inr ()) \<and> i = Inr [''sha256:tarball''] \<and> trace s' = []) (initial_world sample_disk)"
proof -
  have other: "''/home/image.tar.gz'' \<noteq> loaded_file ''/cache'' ''kindest/base:v1''" by code_simp
  have cache: "cache_name sample_docker = ''/cache''" by (simp add: cache_name_def sample_docker_def ParseBool_def)
  have disk: "outside (initial_world sample_disk) = sample_disk" by (simp add: initial_world_def)
  have on: "ParseBool (en_Getenv sample_docker ''KINI_CACHE'') \<noteq> Some False" "en_Getenv sample_docker ''KINI_CACHE'' \<noteq> ''no''"
    by (simp_all add: sample_docker_def ParseBool_def)
  show ?thesis
    using image_load_inspect [of "initial_world sample_disk" sample_docker "''tarball''" "''kindest/base:v1''" "''/home/image.tar.gz''"
        "''tarball''" "''sha256:tarball''"] sample_quiet sample_contents sample_tag other on
    unfolding cache disk by (simp add: sample_docker_def)
qed

section \<open>The load balancer of a kind cluster\<close>

lemma drop_exec_flags_prefix:
  "set flags \<subseteq> {''--privileged'', ''-i''} \<Longrightarrow> a \<notin> {''--privileged'', ''-i''} \<Longrightarrow>
     drop_exec_flags (flags @ a # args) = Inr (a # args)"
  by (induction flags) auto

lemma TrimSuffix_append: "TrimSuffix (s @ p) p = s"
  by (simp add: TrimSuffix_def HasSuffix_iff)

text \<open>The file that kind copies its haproxy configuration to, with what the shim writes instead.\<close>

definition lb_file :: "string \<Rightarrow> InstanceFileArgs" where
  "lb_file cfg = zero_file_args\<lparr>fa_Content := cfg, fa_Type := ''file'', fa_Mode := 420\<rparr>"

text \<open>
  C26: When kind copies a configuration to the haproxy instance of a cluster, whatever the configuration says, the shim writes the one
  that balances port 6443 over port 6443 of exactly the control plane nodes of that cluster: the instances with an address whose labels, as
  \<^verbatim>\<open>docker run\<close> sets them, name the cluster and the role.  It sends nothing else, and it is successful exactly when the server accepts the file.
  This is about a server that can list its instances, whose names are distinct.
\<close>

theorem exec_haproxy_backends:
  assumes "run_state (en_Client env) s = (Inr c, s1)" and "en_Stdin env = Inr b"
    and "srv_GetInstancesFull (cli_server c) (cli_target c) (outside s1) = (Inr instances, d, w)"
    and "distinct (map i_Name instances)"
    and "set flags \<subseteq> {''--privileged'', ''-i''}"
    and "name = cluster @ ''-external-load-balancer''"
    and run: "run_state (newDockerExecCmd env ctx (flags @ [name, ''cp'', ''/dev/stdin'', haproxy_cfg])) s = (r, s')"
  shows "\<exists>conf. trace s' = trace s1 @ map (Incus (cli_target c))
           [ReqGetInstancesFull, ReqCreateInstanceFile name haproxy_cfg (lb_file (default_haproxy_config conf))]
     \<and> (r = Inr () \<longleftrightarrow>
          fst (srv_CreateInstanceFile (cli_server c) name haproxy_cfg (lb_file (default_haproxy_config conf)) (cli_target c) w) = Inr ())
     \<and> FrontendControlPlanePort conf = ''6443'' \<and> BackendControlPlanePort conf = ''6443''
     \<and> (\<forall>n be. map_of (BackendServers conf) n = Some be \<longleftrightarrow>
          (\<exists>i. i \<in> set instances \<and> i_Name i = n \<and> get_str (i_Config i) ''user.io.x-k8s.kind.cluster'' = cluster
             \<and> get_str (i_Config i) ''user.io.x-k8s.kind.role'' = ''control-plane''
             \<and> (\<exists>rest. ParseHostAddresses (i_State i) = be_Address be # rest) \<and> be_Weight be = 100))"
proof -
  let ?fs = "[WithConfig_filter [(''user.io.x-k8s.kind.cluster'', cluster), (''user.io.x-k8s.kind.role'', ''control-plane'')]]"
  let ?conf = "\<lparr>FrontendControlPlanePort = ''6443'', BackendControlPlanePort = ''6443'',
      BackendServers = add_backends (filter_instances ?fs instances) [], cd_IPv6 = False\<rparr>"
  have "name \<notin> {''--privileged'', ''-i''}"
    using arg_cong [of name _ last] assms(6) by auto
  then have args: "drop_exec_flags (flags @ [name, ''cp'', ''/dev/stdin'', haproxy_cfg]) = Inr [name, ''cp'', ''/dev/stdin'', haproxy_cfg]"
    by (rule drop_exec_flags_prefix [OF assms(5)])
  have "trace s' = trace s1 @ map (Incus (cli_target c))
           [ReqGetInstancesFull, ReqCreateInstanceFile name haproxy_cfg (lb_file (default_haproxy_config ?conf))]
     \<and> (r = Inr () \<longleftrightarrow>
          fst (srv_CreateInstanceFile (cli_server c) name haproxy_cfg (lb_file (default_haproxy_config ?conf)) (cli_target c) w) = Inr ())"
    using assms(1-3) args run
    by (auto simp: newDockerExecCmd_def with_client_def run_state_guard_err exec_copy_def assms(6) TrimSuffix_append
        GenerateHaproxyLoadBalancerConfiguration_def run_getLoadBalancerConfiguration [OF assms(3)] renderHaproxyConfiguration_def
        lb_file_def incus_call_def call_def log_call_def Let_def split: prod.splits sum.splits)
  moreover have "WithConfig_filter [(''user.io.x-k8s.kind.cluster'', cluster), (''user.io.x-k8s.kind.role'', ''control-plane'')] i
      \<longleftrightarrow> get_str (i_Config i) ''user.io.x-k8s.kind.cluster'' = cluster
        \<and> get_str (i_Config i) ''user.io.x-k8s.kind.role'' = ''control-plane''" for i
    by (simp add: WithConfig_filter_def)
  ultimately show ?thesis
    by (intro exI [of _ ?conf]) (simp add: selected_backends [OF assms(4)])
qed

definition sample_node :: "string \<Rightarrow> string \<Rightarrow> InstanceFull" where
  "sample_node name role =
     \<lparr>i_Name = name, i_Type = Container,
      i_Config = [(''user.io.x-k8s.kind.cluster'', ''kind''), (''user.io.x-k8s.kind.role'', role)], i_Devices = [],
      i_State = Some sample_state\<rparr>"

definition kind_nodes :: "InstanceFull list" where
  "kind_nodes = [sample_node ''kind-control-plane'' ''control-plane'', sample_node ''kind-worker'' ''worker'']"

text \<open>A server with these nodes that accepts files.\<close>

definition kind_client :: "disk Client" where
  "kind_client = sample_client (refusing_server\<lparr>srv_GetInstancesFull := \<lambda>_ w. (Inr kind_nodes, 1, w),
     srv_CreateInstanceFile := \<lambda>_ _ _ _ w. (Inr (), 1, w)\<rparr>)"

theorem exec_haproxy_backends_witness:
  "\<exists>conf s'. run_state (newDockerExecCmd (sample_docker\<lparr>en_Client := ret (Inr kind_client)\<rparr>) Background
         ([''--privileged'', ''-i''] @ [''kind-external-load-balancer'', ''cp'', ''/dev/stdin'', haproxy_cfg])) (initial_world sample_disk) = (Inr (), s')
     \<and> trace s' = map (Incus []) [ReqGetInstancesFull,
         ReqCreateInstanceFile ''kind-external-load-balancer'' haproxy_cfg (lb_file (default_haproxy_config conf))]
     \<and> map_of (BackendServers conf) ''kind-control-plane'' = Some \<lparr>be_Address = ''10.0.0.2'', be_Weight = 100\<rparr>
     \<and> map_of (BackendServers conf) ''kind-worker'' = None"
proof -
  let ?env = "sample_docker\<lparr>en_Client := ret (Inr kind_client)\<rparr>"
  have c: "run_state (en_Client ?env) (initial_world sample_disk) = (Inr kind_client, initial_world sample_disk)"
    "srv_GetInstancesFull (cli_server kind_client) (cli_target kind_client) (outside (initial_world sample_disk)) = (Inr kind_nodes, 1, sample_disk)"
    and srv: "cli_target kind_client = []" "srv_CreateInstanceFile (cli_server kind_client) n f a t w = (Inr (), 1, w)" for n f a t w
    by (simp_all add: kind_client_def sample_client_def initial_world_def)
  obtain b where b: "en_Stdin ?env = Inr b" by (simp add: sample_docker_def)
  have names: "distinct (map i_Name kind_nodes)" by (simp add: kind_nodes_def sample_node_def)
  obtain r s' where run: "run_state (newDockerExecCmd ?env Background
      ([''--privileged'', ''-i''] @ [''kind-external-load-balancer'', ''cp'', ''/dev/stdin'', haproxy_cfg])) (initial_world sample_disk) = (r, s')"
    by fastforce
  have "set [''--privileged'', ''-i''] \<subseteq> {''--privileged'', ''-i''}" "''kind-external-load-balancer'' = ''kind'' @ ''-external-load-balancer''"
    by simp_all
  from exec_haproxy_backends [OF c(1) b c(2) names this run] obtain conf where
      t: "trace s' = trace (initial_world sample_disk) @ map (Incus (cli_target kind_client)) [ReqGetInstancesFull,
         ReqCreateInstanceFile ''kind-external-load-balancer'' haproxy_cfg (lb_file (default_haproxy_config conf))]"
    and r: "r = Inr ()"
    and be: "\<forall>n be. map_of (BackendServers conf) n = Some be \<longleftrightarrow>
          (\<exists>i. i \<in> set kind_nodes \<and> i_Name i = n \<and> get_str (i_Config i) ''user.io.x-k8s.kind.cluster'' = ''kind''
             \<and> get_str (i_Config i) ''user.io.x-k8s.kind.role'' = ''control-plane''
             \<and> (\<exists>rest. ParseHostAddresses (i_State i) = be_Address be # rest) \<and> be_Weight be = 100)"
    unfolding srv by auto
  have "map_of (BackendServers conf) ''kind-control-plane'' = Some \<lparr>be_Address = ''10.0.0.2'', be_Weight = 100\<rparr>"
    unfolding be [rule_format]
    by (auto simp: kind_nodes_def sample_node_def get_str_def sample_addresses intro!: exI [of _ "sample_node ''kind-control-plane'' ''control-plane''"])
  moreover have "map_of (BackendServers conf) ''kind-worker'' = None"
  proof (rule ccontr)
    assume "map_of (BackendServers conf) ''kind-worker'' \<noteq> None"
    then obtain be1 where "map_of (BackendServers conf) ''kind-worker'' = Some be1" by blast
    then show False unfolding be [rule_format] by (auto simp: kind_nodes_def sample_node_def get_str_def)
  qed
  ultimately show ?thesis using t r run srv by auto
qed

end
