(* ===== verification/Kini_Setup.thy ===== *)
theory Kini_Setup
  imports Go_OS LXC_Config
begin

text \<open>
  The setup commands of kini: \<^verbatim>\<open>internal/exp/kini/setup.go\<close>, \<^verbatim>\<open>cmd/exp/kini/kini\<close> and its package
  \<^verbatim>\<open>config\<close>, and what \<^verbatim>\<open>main\<close> makes of the name it is called by.  The encoder of secrets and the library that loads and
  saves the configuration file are parameters.
\<close>

section \<open>Shadowing docker and kind\<close>

definition Abs :: "string \<Rightarrow> ('z, string) os_err" where
  "Abs p = (if HasPrefix p ''/'' then ret (Inr (Clean p)) else guard_err Getwd id (\<lambda>wd. ret (Inr (Join_path [wd, p]))))"

definition cleanup :: "string \<Rightarrow> ('z, unit) os_err" where
  "cleanup dir = guard_err (RemoveAll dir) (Errorf ''failed to clean up temporary directory: '') (\<lambda>_. ret (Inr ()))"

text \<open>A step of the setup: when it fails, the directory is cleaned up, whether or not that works.\<close>

definition or_cleanup ::
  "string \<Rightarrow> ('z, 'a) os_err \<Rightarrow> (go_error \<Rightarrow> go_error) \<Rightarrow> ('a \<Rightarrow> ('z, 'b) os_err) \<Rightarrow> ('z, 'b) os_err" where
  "or_cleanup dir m wrap k =
     do { r \<leftarrow> m;
          case r of Inl err \<Rightarrow> do { _ \<leftarrow> cleanup dir; ret (Inl (wrap err)) } | Inr x \<Rightarrow> k x }"

definition set_path :: "string \<Rightarrow> ('z, string) os_err" where
  "set_path dir =
     do { currentPath \<leftarrow> Getenv ''PATH'';
          or_cleanup dir (Setenv ''PATH'' (dir @ '':'' @ currentPath)) (Errorf ''failed to set PATH: '') (\<lambda>_. ret (Inr dir)) }"

text \<open>The answer is the directory, which the cleanup function takes.\<close>

definition SetupEnvironment :: "string \<Rightarrow> bool \<Rightarrow> bool \<Rightarrow> ('z, string) os_err" where
  "SetupEnvironment arg0 docker kind =
     guard_err MkdirTemp (Errorf ''failed to create temporary directory: '')
       (\<lambda>dir. or_cleanup dir (Abs arg0) (Errorf (''failed to identity absolute path to '' @ quote arg0 @ '': ''))
         (\<lambda>self. or_cleanup dir (if docker then Symlink self (Join_path [dir, ''docker'']) else ret (Inr ()))
                   (Errorf ''failed to create symlink as docker for self: '')
           (\<lambda>_. or_cleanup dir (if kind then Symlink self (Join_path [dir, ''kind'']) else ret (Inr ()))
                   (Errorf ''failed to create symlink as kind for self: '')
             (\<lambda>_. set_path dir))))"

definition newKiniSetupActivateEnvironmentCmd :: "string \<Rightarrow> bool \<Rightarrow> bool \<Rightarrow> ('z, string list) os_err" where
  "newKiniSetupActivateEnvironmentCmd arg0 docker kind =
     guard_err (SetupEnvironment arg0 docker kind) (Errorf ''failed to setup environment: '')
       (\<lambda>path. ret (Inr [''export PATH='' @ path @ '':$PATH'']))"

text \<open>
  A command between the hooks that kini gives its setup commands and its kind commands: the hook
  after the command runs only when the command succeeds.
\<close>

definition with_shim ::
  "string \<Rightarrow> string \<Rightarrow> ('z, 'a) os_err \<Rightarrow> ('z, 'a) os_err" where
  "with_shim arg0 failure body =
     guard_err (SetupEnvironment arg0 True False) (Errorf failure)
       (\<lambda>dir. guard_err body id (\<lambda>x. guard_err (cleanup dir) id (\<lambda>_. ret (Inr x))))"

definition kini_command :: "string \<Rightarrow> ('z, 'a) os_err \<Rightarrow> ('z, 'a) os_err" where
  "kini_command arg0 body = with_shim arg0 ''failed to setup environment: '' body"

definition kind_command :: "string \<Rightarrow> ('z, unit) os_err \<Rightarrow> ('z, 'a) os_err \<Rightarrow> ('z, 'a) os_err" where
  "kind_command arg0 kindPreRunE body =
     guard_err kindPreRunE id (\<lambda>_. with_shim arg0 ''failed to configure self as docker: '' body)"

datatype binary = Kini | Docker | Kind

definition main_command :: "string \<Rightarrow> binary" where
  "main_command arg0 =
     (case map_of [(''kini'', Kini), (''docker'', Docker), (''kind'', Kind)] (Base arg0) of Some b \<Rightarrow> b | None \<Rightarrow> Kini)"

section \<open>The local configuration file\<close>

record kini_Manager =
  mg_config :: CliConfig
  mg_path :: string
  mg_mustUpdate :: bool

definition NewManager :: "Host \<Rightarrow> string \<Rightarrow> go_error + kini_Manager" where
  "NewManager h configFile =
     (case ConfigurationFromLocal h configFile '''' False of
        Inl err \<Rightarrow> Inl (Errorf ''failed to read local configuration: '' err)
      | Inr (_, path) \<Rightarrow>
          (case h_LoadConfig h path of
             Inl err \<Rightarrow> Inl (Errorf ''failed to read config file: '' err)
           | Inr cfg \<Rightarrow> Inr \<lparr>mg_config = cfg, mg_path = path, mg_mustUpdate = False\<rparr>))"

definition AddSimplestreamsRemoteIfNotExist :: "kini_Manager \<Rightarrow> string \<Rightarrow> string \<Rightarrow> kini_Manager" where
  "AddSimplestreamsRemoteIfNotExist m name server =
     (if map_of (Remotes (mg_config m)) name \<noteq> None then m
      else m\<lparr>mg_config := (mg_config m)\<lparr>Remotes := map_set name
                \<lparr>r_Addr = server, r_Project = '''', r_Protocol = Simplestreams, r_Public = True\<rparr> (Remotes (mg_config m))\<rparr>,
             mg_mustUpdate := True\<rparr>)"

definition Commit :: "(CliConfig \<Rightarrow> string \<Rightarrow> ('w, go_error + unit) state) \<Rightarrow> kini_Manager \<Rightarrow> ('w, go_error + kini_Manager) state" where
  "Commit SaveConfig m =
     (if \<not> mg_mustUpdate m then ret (Inr m)
      else guard_err (SaveConfig (mg_config m) (mg_path m)) (Errorf ''failed to update config file on disk: '')
             (\<lambda>_. ret (Inr (m\<lparr>mg_mustUpdate := False\<rparr>))))"

text \<open>\<open>host\<close> reads the configuration of the machine from the state that saving changes.\<close>

definition newKiniSetupRemotesCmd ::
  "('w \<Rightarrow> Host) \<Rightarrow> (CliConfig \<Rightarrow> string \<Rightarrow> ('w, go_error + unit) state) \<Rightarrow> string \<Rightarrow> bool \<Rightarrow> ('w, go_error + unit) state" where
  "newKiniSetupRemotesCmd host SaveConfig configFile dryRun =
     do { w \<leftarrow> State_Monad.get;
          guard_err (ret (NewManager (host w) configFile)) (Errorf ''failed to initialize config manager: '')
            (\<lambda>manager. let manager = AddSimplestreamsRemoteIfNotExist manager ''capi'' DefaultSimplestreamsServer;
                           manager = AddSimplestreamsRemoteIfNotExist manager ''capi-stg'' DefaultStagingSimplestreamsServer
              in if dryRun then ret (Inr ())
                 else guard_err (Commit SaveConfig manager) (Errorf ''failed to commit changes: '') (\<lambda>_. ret (Inr ()))) }"

definition newKiniSetupGenerateSecretCmd ::
  "Host \<Rightarrow> (Secret \<Rightarrow> go_error + string) \<Rightarrow> string \<Rightarrow> string \<Rightarrow> string \<Rightarrow> string list \<Rightarrow> go_error + string" where
  "newKiniSetupGenerateSecretCmd h encode configFile remoteName namespace args =
     (case ConfigurationFromLocal h configFile remoteName True of
        Inl err \<Rightarrow> Inl (Errorf ''failed to read local configuration: '' err)
      | Inr (opts, _) \<Rightarrow>
          (case encode (ToSecret opts (args ! 0) namespace) of
             Inl err \<Rightarrow> Inl (Errorf ''failed to encode secret: '' err)
           | Inr b \<Rightarrow> Inr b))"

section \<open>Properties\<close>

subsection \<open>Remotes\<close>

definition saved :: "Host \<Rightarrow> string \<Rightarrow> CliConfig \<Rightarrow> Host" where
  "saved h p c = h\<lparr>h_LoadConfig := (h_LoadConfig h)(p := Inr c)\<rparr>"

lemma load_from_file_remote:
  assumes "h_LoadConfig h f = Inr c" and "n = (if r = '''' then DefaultRemote c else r)" and "map_of (Remotes c) n = Some rm"
  shows "load_from_file h r https f = load_remote h https f c n rm"
  unfolding load_from_file_def Let_def assms(1) sum.case assms(2) [symmetric] assms(3) option.case ..

lemma load_from_file_saved:
  assumes "h_LoadConfig h p = Inr c" and "map_of (Remotes c) \<subseteq>\<^sub>m map_of rs" and "\<not> isl (load_from_file h r https p)"
  shows "load_from_file (saved h p (c\<lparr>Remotes := rs\<rparr>)) r https f = load_from_file h r https f"
proof -
  have cert: "read_cert (saved h p c') = read_cert h" for c'
    by (simp add: saved_def read_cert_def fun_eq_iff)
  have remote: "load_remote (saved h p c') https f (c\<lparr>Remotes := rs\<rparr>) n rm = load_remote h https f c n rm"
    "load_remote (saved h p c') https f c2 n rm = load_remote h https f c2 n rm" for c' c2 n rm
    unfolding load_remote_def cert Let_def by (simp_all split: sum.splits)
  show ?thesis
  proof (cases "f = p")
    case True
    let ?n = "if r = '''' then DefaultRemote c else r"
    obtain rm where rm: "map_of (Remotes c) ?n = Some rm"
      using assms(1,3) by (auto simp: load_from_file_def Let_def split: option.splits)
    then have "map_of rs ?n = Some rm" using assms(2) by (metis domI map_le_def)
    then have "load_from_file (saved h p (c\<lparr>Remotes := rs\<rparr>)) r https p = load_remote (saved h p (c\<lparr>Remotes := rs\<rparr>)) https p (c\<lparr>Remotes := rs\<rparr>) ?n rm"
      by (intro load_from_file_remote) (simp_all add: saved_def)
    then show ?thesis using True load_from_file_remote [OF assms(1) refl rm] remote(1) by metis
  next
    case False
    then have other: "h_LoadConfig (saved h p c') f = h_LoadConfig h f" for c' by (simp add: saved_def)
    show ?thesis unfolding load_from_file_def other remote(2) ..
  qed
qed

lemma ConfigurationFromLocal_saved:
  assumes "ConfigurationFromLocal h f r https = Inr (cfg, p)" and "h_LoadConfig h p = Inr c" and "map_of (Remotes c) \<subseteq>\<^sub>m map_of rs"
  shows "ConfigurationFromLocal (saved h p (c\<lparr>Remotes := rs\<rparr>)) f r https = Inr (cfg, p)"
proof -
  obtain x where "load_from_file h r https x = Inr (cfg, p)"
    using assms(1) unfolding ConfigurationFromLocal_def try_all_spec by (auto split: option.splits)
  then have "load_from_file h r https p = Inr (cfg, p)" using load_from_file_Inr by blast
  then have "load_from_file (saved h p (c\<lparr>Remotes := rs\<rparr>)) r https = load_from_file h r https"
    using load_from_file_saved [OF assms(2,3)] by (auto simp: fun_eq_iff)
  moreover have "tryConfigFiles (saved h p c') f = tryConfigFiles h f" for c'
    by (simp add: tryConfigFiles_def getDefaultConfigFiles_def saved_def)
  ultimately show ?thesis using assms(1) by (simp add: ConfigurationFromLocal_def)
qed

definition with_remotes :: "kini_Manager \<Rightarrow> kini_Manager" where
  "with_remotes m = AddSimplestreamsRemoteIfNotExist
     (AddSimplestreamsRemoteIfNotExist m ''capi'' DefaultSimplestreamsServer) ''capi-stg'' DefaultStagingSimplestreamsServer"

definition image_remotes :: "Remote gomap" where
  "image_remotes =
    [(''capi'', \<lparr>r_Addr = DefaultSimplestreamsServer, r_Project = '''', r_Protocol = Simplestreams, r_Public = True\<rparr>),
     (''capi-stg'', \<lparr>r_Addr = DefaultStagingSimplestreamsServer, r_Project = '''', r_Protocol = Simplestreams, r_Public = True\<rparr>)]"

lemma with_remotes_props:
  "\<exists>rs. mg_config (with_remotes m) = (mg_config m)\<lparr>Remotes := rs\<rparr> \<and> map_of rs = map_of image_remotes ++ map_of (Remotes (mg_config m))"
  "mg_path (with_remotes m) = mg_path m"
  "{''capi'', ''capi-stg''} \<subseteq> dom (map_of (Remotes (mg_config m))) \<Longrightarrow> with_remotes m = m"
  "mg_mustUpdate (with_remotes m) \<or> with_remotes m = m"
proof -
  let ?add = "\<lambda>m n. AddSimplestreamsRemoteIfNotExist m n"
  have one: "\<exists>rs. mg_config (?add m n srv) = (mg_config m)\<lparr>Remotes := rs\<rparr> \<and> map_of rs = [n \<mapsto> \<lparr>r_Addr = srv, r_Project = '''',
      r_Protocol = Simplestreams, r_Public = True\<rparr>] ++ map_of (Remotes (mg_config m))" for m n srv
    by (rule exI [of _ "Remotes (mg_config (?add m n srv))"])
      (auto simp: AddSimplestreamsRemoteIfNotExist_def map_add_def fun_eq_iff split: option.splits)
  show "\<exists>rs. mg_config (with_remotes m) = (mg_config m)\<lparr>Remotes := rs\<rparr> \<and> map_of rs = map_of image_remotes ++ map_of (Remotes (mg_config m))"
  proof -
    let ?m = "?add m ''capi'' DefaultSimplestreamsServer"
    obtain rs where rs: "mg_config ?m = (mg_config m)\<lparr>Remotes := rs\<rparr>" "map_of rs = [''capi'' \<mapsto> \<lparr>r_Addr = DefaultSimplestreamsServer, r_Project = '''',
      r_Protocol = Simplestreams, r_Public = True\<rparr>] ++ map_of (Remotes (mg_config m))" using one by blast
    obtain rs' where rs': "mg_config (with_remotes m) = (mg_config ?m)\<lparr>Remotes := rs'\<rparr>" "map_of rs' = [''capi-stg'' \<mapsto>
      \<lparr>r_Addr = DefaultStagingSimplestreamsServer, r_Project = '''', r_Protocol = Simplestreams, r_Public = True\<rparr>] ++ map_of (Remotes (mg_config ?m))"
      unfolding with_remotes_def using one by blast
    have "map_of rs' = map_of image_remotes ++ map_of (Remotes (mg_config m))"
      by (simp add: rs rs' image_remotes_def map_add_def fun_eq_iff split: option.splits)
    then show ?thesis using rs(1) rs'(1) by auto
  qed
  show "mg_mustUpdate (with_remotes m) \<or> with_remotes m = m"
    by (simp add: with_remotes_def AddSimplestreamsRemoteIfNotExist_def)
qed (auto simp: with_remotes_def AddSimplestreamsRemoteIfNotExist_def)

lemma run_remotes:
  "run_state (newKiniSetupRemotesCmd host save f dry) w =
     (case NewManager (host w) f of
        Inl err \<Rightarrow> (Inl (Errorf ''failed to initialize config manager: '' err), w)
      | Inr m \<Rightarrow> if dry \<or> \<not> mg_mustUpdate (with_remotes m) then (Inr (), w)
                 else case run_state (save (mg_config (with_remotes m)) (mg_path m)) w of
                   (Inl err, w') \<Rightarrow> (Inl (Errorf ''failed to commit changes: '' (Errorf ''failed to update config file on disk: '' err)), w')
                 | (Inr _, w') \<Rightarrow> (Inr (), w'))"
  by (simp add: newKiniSetupRemotesCmd_def with_remotes_def [symmetric] run_state_guard_err Commit_def Let_def
      with_remotes_props(2) State_Monad.get_def split: sum.split prod.split)


definition sample_save :: "CliConfig \<Rightarrow> string \<Rightarrow> (Host, go_error + unit) state" where
  "sample_save c p = State (\<lambda>h. (Inr (), saved h p c))"


subsection \<open>The environment of kind\<close>

lemma env_disk [disk_simps]: "dk_env (tick d) = dk_env d" "dk_links (tick d) = dk_links d"
  by (simp_all add: tick_def)

lemma wp_or_cleanup:
  assumes "wp m (\<lambda>r d1. case r of Inl e \<Rightarrow> dk_env d1 = env | Inr x \<Rightarrow> wp (k x) Q d1) d"
    and "\<And>e d'. dk_env d' = env \<Longrightarrow> Q (Inl e) d'"
  shows "wp (or_cleanup dir m wrap k) Q d"
proof -
  have "wp (case r of Inl err \<Rightarrow> State_Monad.bind (cleanup dir) (\<lambda>_. ret (Inl (wrap err))) | Inr x \<Rightarrow> k x) Q d1"
    if "case r of Inl e \<Rightarrow> dk_env d1 = env | Inr x \<Rightarrow> wp (k x) Q d1" for r d1
    using that assms(2)
    by (auto simp: cleanup_def wp_simps RemoveAll_def disk_simps split: sum.splits option.splits prod.splits)
  then show ?thesis unfolding or_cleanup_def wp_bind by (intro wp_mono [OF assms(1)])
qed

text \<open>A step that makes a link, or none.\<close>

lemma wp_link:
  assumes "\<And>d1. dk_env d1 = dk_env d \<Longrightarrow> dk_links d1 = (if b then map_set link self (dk_links d) else dk_links d) \<Longrightarrow> Q (Inr ()) d1"
    and "\<And>e d1. dk_env d1 = dk_env d \<Longrightarrow> Q (Inl e) d1"
  shows "wp (if b then Symlink self link else ret (Inr ())) Q d"
  using assms by (auto simp: wp_simps Symlink_def disk_simps split: option.split prod.split)

lemma wp_MkdirTemp:
  assumes "\<And>d1. dk_env d1 = dk_env d \<Longrightarrow> dk_links d1 = dk_links d \<Longrightarrow> dk_cwd d1 = dk_cwd d \<Longrightarrow> Q (Inr (dk_temp d (Suc (dk_ticks d)))) d1"
    and "\<And>e d1. dk_env d1 = dk_env d \<Longrightarrow> Q (Inl e) d1"
  shows "wp MkdirTemp Q d"
  using assms by (auto simp: wp_simps MkdirTemp_def disk_simps tick_def split: option.split prod.split)

text \<open>The absolute form of a path.\<close>

definition abs_path :: "string \<Rightarrow> string \<Rightarrow> string" where
  "abs_path wd p = (if HasPrefix p ''/'' then Clean p else Join_path [wd, p])"

lemma wp_Abs:
  assumes "dk_cwd d = wd" and "\<And>d1. dk_env d1 = dk_env d \<Longrightarrow> dk_links d1 = dk_links d \<Longrightarrow> Q (Inr (abs_path wd p)) d1"
    and "\<And>e d1. dk_env d1 = dk_env d \<Longrightarrow> Q (Inl e) d1"
  shows "wp (Abs p) Q d"
  using assms by (auto simp: Abs_def abs_path_def wp_simps Getwd_def disk_simps tick_def split: option.split prod.split)

text \<open>The links of the disk with those of the shim added, and what the setup promises.\<close>

definition shim_links :: "bool \<Rightarrow> bool \<Rightarrow> string \<Rightarrow> string \<Rightarrow> string gomap \<Rightarrow> string \<Rightarrow> string option" where
  "shim_links docker kind self dir links p =
     (if docker \<and> p = Join_path [dir, ''docker''] \<or> kind \<and> p = Join_path [dir, ''kind''] then Some self else map_of links p)"

definition set_up ::
  "string \<Rightarrow> (string \<Rightarrow> string option) \<Rightarrow> string gomap \<Rightarrow> go_error + string \<Rightarrow> 'z disk_scheme \<Rightarrow> bool" where
  "set_up dir links env r d' =
     (case r of
        Inl err \<Rightarrow> dk_env d' = env
      | Inr dir' \<Rightarrow> dir' = dir \<and> dk_env d' = map_set ''PATH'' (dir @ '':'' @ get_str env ''PATH'') env \<and> map_of (dk_links d') = links)"

lemma set_up_failed: "dk_env d' = env \<Longrightarrow> set_up dir links env (Inl e) d'"
  by (simp add: set_up_def)

lemma wp_set_path:
  assumes "dk_env d = env" and "map_of (dk_links d) = links"
  shows "wp (set_path dir) (set_up dir links env) d"
  unfolding set_path_def wp_bind wp_Getenv
  by (rule wp_or_cleanup [where env = env]) (use assms in \<open>auto simp: set_up_def wp_simps Setenv_def disk_simps split: option.splits prod.splits\<close>)

lemma wp_link_step:
  assumes "dk_env d = env"
    and "\<And>d1. dk_env d1 = env \<Longrightarrow> dk_links d1 = (if b then map_set link self (dk_links d) else dk_links d) \<Longrightarrow> wp (k ()) Q d1"
    and "\<And>e d1. dk_env d1 = env \<Longrightarrow> Q (Inl e) d1"
  shows "wp (or_cleanup dir (if b then Symlink self link else ret (Inr ())) wrap k) Q d"
proof (rule wp_or_cleanup [where env = env])
  show "wp (if b then Symlink self link else ret (Inr ())) (\<lambda>r d1. case r of Inl e \<Rightarrow> dk_env d1 = env | Inr x \<Rightarrow> wp (k x) Q d1) d"
    by (rule wp_link) (use assms in auto)
qed (rule assms(3))

lemma wp_links:
  assumes "dk_env d = env"
  shows "wp (or_cleanup dir (if docker then Symlink self (Join_path [dir, ''docker'']) else ret (Inr ())) w1
           (\<lambda>_. or_cleanup dir (if kind then Symlink self (Join_path [dir, ''kind'']) else ret (Inr ())) w2
             (\<lambda>_. set_path dir))) (set_up dir (shim_links docker kind self dir (dk_links d)) env) d"
proof (intro wp_link_step [where env = env] wp_set_path set_up_failed)
  fix d1 d2 :: "'a disk_scheme"
  assume "dk_links d1 = (if docker then map_set (Join_path [dir, ''docker'']) self (dk_links d) else dk_links d)"
    and "dk_links d2 = (if kind then map_set (Join_path [dir, ''kind'']) self (dk_links d1) else dk_links d1)"
  then show "map_of (dk_links d2) = shim_links docker kind self dir (dk_links d)"
    by (auto simp: shim_links_def fun_eq_iff)
qed (use assms in simp_all)

lemma wp_SetupEnvironment:
  "wp (SetupEnvironment arg0 docker kind)
     (set_up (dk_temp d (Suc (dk_ticks d)))
        (shim_links docker kind (abs_path (dk_cwd d) arg0) (dk_temp d (Suc (dk_ticks d))) (dk_links d)) (dk_env d)) d"
  unfolding SetupEnvironment_def wp_guard_err
proof (rule wp_MkdirTemp, goal_cases)
  case (1 d1)
  let ?dir = "dk_temp d (Suc (dk_ticks d))"
  let ?links = "shim_links docker kind (abs_path (dk_cwd d) arg0) ?dir (dk_links d)"
  have links: "wp (or_cleanup ?dir (if docker then Symlink (abs_path (dk_cwd d) arg0) (Join_path [?dir, ''docker'']) else ret (Inr ())) w1
         (\<lambda>_. or_cleanup ?dir (if kind then Symlink (abs_path (dk_cwd d) arg0) (Join_path [?dir, ''kind'']) else ret (Inr ())) w2
           (\<lambda>_. set_path ?dir))) (set_up ?dir ?links (dk_env d)) d2"
    if "dk_env d2 = dk_env d1" "dk_links d2 = dk_links d1" for d2 w1 w2
    using wp_links [of d2 "dk_env d" ?dir docker "abs_path (dk_cwd d) arg0" w1 kind w2] that 1 by (simp split del: if_split)
  have "wp (or_cleanup ?dir (Abs arg0) w (\<lambda>self. or_cleanup ?dir (if docker then Symlink self (Join_path [?dir, ''docker'']) else ret (Inr ())) w1
         (\<lambda>_. or_cleanup ?dir (if kind then Symlink self (Join_path [?dir, ''kind'']) else ret (Inr ())) w2
           (\<lambda>_. set_path ?dir)))) (set_up ?dir ?links (dk_env d)) d1" for w w1 w2
    by (intro wp_or_cleanup [where env = "dk_env d"] wp_Abs [where wd = "dk_cwd d"] set_up_failed) (use links 1 in \<open>simp_all split del: if_split\<close>)
  then show ?case by simp
qed (simp add: set_up_def)

text \<open>
  C33: \<^verbatim>\<open>SetupEnvironment\<close>, whatever fails.  On success it answers the directory that \<^verbatim>\<open>MkdirTemp\<close> made, and that directory comes first in the
  search path.  If the program was called by a path (a name with a slash), the commands that were asked for, and no others, are links in it to the
  absolute form of that path, which is the current binary, and no other link changed.  On failure the search path is as it was.
\<close>

theorem SetupEnvironment_correct:
  assumes "run_state (SetupEnvironment arg0 docker kind) d = (r, d')"
  shows "case r of
      Inl err \<Rightarrow> dk_env d' = dk_env d
    | Inr dir \<Rightarrow> dir = dk_temp d (Suc (dk_ticks d))
        \<and> dk_env d' = map_set ''PATH'' (dir @ '':'' @ get_str (dk_env d) ''PATH'') (dk_env d)
        \<and> (CHR ''/'' \<in> set arg0 \<longrightarrow>
             (\<forall>p. map_of (dk_links d') p =
                (if docker \<and> p = Join_path [dir, ''docker''] \<or> kind \<and> p = Join_path [dir, ''kind'']
                 then Some (if HasPrefix arg0 ''/'' then Clean arg0 else Join_path [dk_cwd d, arg0])
                 else map_of (dk_links d) p)))"
  using wpD [OF wp_SetupEnvironment assms] by (auto simp: set_up_def shim_links_def abs_path_def split: sum.splits)

definition clean_disk :: disk where
  "clean_disk = \<lparr>dk_files = [], dk_links = [], dk_env = [(''PATH'', ''/bin'')], dk_cwd = ''/home'',
     dk_temp = (\<lambda>n. ''/tmp/kini''), dk_faults = (\<lambda>_. None), dk_ticks = 0\<rparr>"

lemma quiet_setup:
  assumes "quiet d" and "dk_temp d (Suc (dk_ticks d)) = dir"
  shows "wp (SetupEnvironment arg0 docker kind) (\<lambda>r d'. r = Inr dir \<and> quiet d') d"
proof -
  have q: "quiet (d\<lparr>dk_links := l\<rparr>) = quiet d" "quiet (d\<lparr>dk_env := e\<rparr>) = quiet d" for d :: "'a disk_scheme" and l e
    by (simp_all add: quiet_def)
  have "dk_ticks (tick d) = Suc (dk_ticks d)" by (simp add: tick_def)
  then show ?thesis
    using assms by (simp add: SetupEnvironment_def set_path_def or_cleanup_def Abs_def quiet_simps wp_Getenv q)
qed

theorem SetupEnvironment_correct_witness:
  "\<exists>d'. run_state (SetupEnvironment ''bin/kini'' True False) clean_disk = (Inr ''/tmp/kini'', d')
     \<and> dk_env d' = [(''PATH'', ''/tmp/kini:/bin'')]
     \<and> map_of (dk_links d') ''/tmp/kini/docker'' = Some ''/home/bin/kini''
     \<and> map_of (dk_links d') ''/tmp/kini/kind'' = None"
proof -
  have "wp (SetupEnvironment ''bin/kini'' True False) (\<lambda>r d'. r = Inr ''/tmp/kini'' \<and> quiet d') clean_disk"
    by (rule quiet_setup) (simp_all add: clean_disk_def quiet_def)
  then obtain d' where run: "run_state (SetupEnvironment ''bin/kini'' True False) clean_disk = (Inr ''/tmp/kini'', d')"
    by (auto simp: wp_def split: prod.splits)
  have "Join_path [''/tmp/kini'', ''docker''] = ''/tmp/kini/docker''" "Join_path [''/home'', ''bin/kini''] = ''/home/bin/kini''"
      "\<not> HasPrefix ''bin/kini'' ''/''"
    by code_simp+
  then show ?thesis using SetupEnvironment_correct [OF run] run by (auto simp: clean_disk_def get_str_def)
qed

text \<open>
  A command that fails leaves the temporary directory behind, and one that succeeds removes it but keeps it in the search
  path: the hook after a command does not run after an error, and nothing reverts the search path.
\<close>

theorem with_shim_leftovers:
  assumes "quiet d"
  shows "wp (with_shim arg0 msg (ret (Inl err))) (\<lambda>r d'. r = Inl err
       \<and> (\<exists>dir self. map_of (dk_links d') (Join_path [dir, ''docker'']) = Some self)) d"
    and "wp (with_shim arg0 msg (ret (Inr x))) (\<lambda>r d'. r = Inr x
       \<and> (\<exists>dir. dk_env d' = map_set ''PATH'' (dir @ '':'' @ get_str (dk_env d) ''PATH'') (dk_env d)
            \<and> (\<forall>p. within dir p \<longrightarrow> map_of (dk_links d') p = None))) d"
proof -
  obtain dir d1 where run: "run_state (SetupEnvironment arg0 True False) d = (Inr dir, d1)" and q: "quiet d1"
    using quiet_setup [OF assms refl, of arg0 True False] by (auto simp: wp_def split: prod.splits)
  note made = wpD [OF wp_SetupEnvironment run]
  show "wp (with_shim arg0 msg (ret (Inl err))) (\<lambda>r d'. r = Inl err
       \<and> (\<exists>dir self. map_of (dk_links d') (Join_path [dir, ''docker'']) = Some self)) d"
    using run made by (auto simp: with_shim_def wp_def run_state_guard_err set_up_def shim_links_def)
  show "wp (with_shim arg0 msg (ret (Inr x))) (\<lambda>r d'. r = Inr x
       \<and> (\<exists>dir. dk_env d' = map_set ''PATH'' (dir @ '':'' @ get_str (dk_env d) ''PATH'') (dk_env d)
            \<and> (\<forall>p. within dir p \<longrightarrow> map_of (dk_links d') p = None))) d"
    using run made q
    by (auto simp: with_shim_def cleanup_def wp_def run_state_guard_err set_up_def RemoveAll_def run_os_op_quiet contents_filter disk_simps)
qed

end
