(* ===== verification/Spec2Isabelle.thy ===== *)
theory Spec2Isabelle
  imports Controller_Manager Machine_Store Deep_Copy LB_Inspect LB_Templates Simplestreams_Command Image_Builder_Command
    Docker_Shim Kini_Setup
begin

text \<open>
  A verification of cluster-api-provider-incus, a Cluster API infrastructure provider that runs
  Kubernetes clusters on Incus, LXD and compatible servers.

  \<^bold>\<open>The program.\<close>  A Kubernetes controller watches two kinds of objects.  The LXCCluster controller
  (\<^verbatim>\<open>internal/controller/lxccluster\<close>) provisions the load balancer of a cluster and surfaces its address
  as the control plane endpoint.  The LXCMachine controller (\<^verbatim>\<open>internal/controller/lxcmachine\<close>) launches
  one instance per machine, gives the machine a provider ID, and keeps the load balancer configured with
  the control plane instances.  Both reach the server through the client of \<^verbatim>\<open>internal/lxc\<close>, which launches,
  starts, stops and deletes instances; launch options are put together by \<^verbatim>\<open>internal/instances\<close> from the
  profiles and scripts of \<^verbatim>\<open>internal/static\<close>; load balancers are managed by \<^verbatim>\<open>internal/loadbalancer\<close>.

  Three tools come with it.  The image builder (\<^verbatim>\<open>cmd/exp/image-builder\<close>) makes images of nodes by running stages on a
  builder instance; simplestreams (\<^verbatim>\<open>cmd/exp/simplestreams\<close>) publishes such images in an index on the disk, which
  the servers download from; kini (\<^verbatim>\<open>cmd/exp/kini\<close>) puts itself in the place of the docker command so that kind
  creates its nodes on Incus.  They use the same client and the same launch options as the controllers.

  \<^bold>\<open>Theories and sources.\<close>
  \<^item> \<^verbatim>\<open>Go_Prelude\<close>: the parts of the Go library the sources use (\<^verbatim>\<open>strings\<close>, \<^verbatim>\<open>strconv\<close>, \<^verbatim>\<open>path\<close>, formatting,
    maps), with their laws.  \<^verbatim>\<open>Go_OS\<close>, \<^verbatim>\<open>Go_Time\<close>, \<^verbatim>\<open>Go_Net\<close>: files, links and environment variables on a disk where
    any operation may fail (\<open>quiet\<close> is a disk where none does); calendar dates; host addresses.  A Go map is an association list with distinct keys: its order is the order in
    which one run of the program visits it.
  \<^item> \<^verbatim>\<open>Go_Effects\<close>: errors with wrapping and the terminal marker (\<^verbatim>\<open>internal/utils/errors.go\<close>), and
    stateful code in the state monad over a world that records every request (\<open>trace\<close>), the time (\<open>clock\<close>)
    and an arbitrary outside; deadlines of contexts; the predicate transformer \<open>wp\<close> and the trace predicate
    \<open>issues\<close> with their rules, on which most proofs rest.
  \<^item> \<^verbatim>\<open>Go_Crypto\<close>: SHA-256 on 32-bit words, used by the name of a load balancer instance.
  \<^item> \<^verbatim>\<open>CAPN_API\<close>: \<^verbatim>\<open>api/v1alpha2\<close>, the objects and their methods.  Device specifications are accepted exactly
    in their documented form and survive a round trip; load balancer names have a bounded shape.
  \<^item> \<^verbatim>\<open>External_API\<close>: the interfaces of code that is not in the repository (Incus API, registries, Kubernetes
    client, Cluster API helpers), as records of functions, with the laws that some theorems assume of them.
  \<^item> \<^verbatim>\<open>LXC_Images\<close>, \<^verbatim>\<open>LXC_Launch\<close>, \<^verbatim>\<open>LXC_Client\<close>, \<^verbatim>\<open>LXC_Config\<close>: \<^verbatim>\<open>internal/lxc\<close> (images; launch options and
    their completion; the client; its configuration) and \<^verbatim>\<open>internal/utils/oci_image.go\<close>.  Launching puts all
    configuration on an instance that is not there before it starts, and only starts one that is; deletion stops a running instance before it
    deletes; waiting ends.
  \<^item> \<^verbatim>\<open>Instances\<close>: \<^verbatim>\<open>internal/instances\<close>, \<^verbatim>\<open>internal/static\<close>, \<^verbatim>\<open>internal/cloudinit\<close>.  Nodes are privileged
    exactly when asked for, carry their cloud-init data and pod network, and their options can be completed.
  \<^item> \<^verbatim>\<open>Load_Balancer\<close>: \<^verbatim>\<open>internal/loadbalancer\<close>, five managers behind one interface.  The contract of the
    interface is the locale \<open>lb_manager\<close>, interpreted for every manager.  Backends are exactly the control
    plane instances of the cluster; a foreign network load balancer is never taken over.  \<^verbatim>\<open>LB_Inspect\<close>: the reports
    of the managers, which only read.  \<^verbatim>\<open>Go_Template\<close>, \<^verbatim>\<open>LB_Templates\<close>: a lexer, parser and interpreter for the part of
    \<^verbatim>\<open>text/template\<close> that the two default templates use, and the equivalence of their execution with the rendering functions.
  \<^item> \<^verbatim>\<open>Controllers\<close>: what the two controllers share (connecting, the deferred patch, listing machines).
  \<^item> \<^verbatim>\<open>Cluster_Controller\<close>, \<^verbatim>\<open>Machine_Controller\<close>: the two reconcilers.  Finalizers are removed only after the
    resources are gone; normal reconciliation deletes nothing; failures are classified as terminal or
    transient; the life of a machine is a step relation with an invariant.  \<^verbatim>\<open>Machine_Store\<close>: machines as the API server stores
    them, under any interleaving of reconciliations that read outdated versions, of patches of which a half may be lost, and of
    changes by others.  \<^verbatim>\<open>Controller_Manager\<close>: \<^verbatim>\<open>cmd/main.go\<close> and \<^verbatim>\<open>SetupWithManager\<close>, flags, watches and the order of
    starting: a plan of requests (\<open>startup\<close>) from the parsed flags, of which a run makes the part up to the first failure, so that the
    manager runs only when both controllers and both checks are in place.
  \<^item> \<^verbatim>\<open>Go_Memory\<close>, \<^verbatim>\<open>Deep_Copy\<close>: an explicit memory with pointers, slices and maps, and \<^verbatim>\<open>api/v1alpha2/zz_generated.deepcopy.go\<close> on it, with
    the templates and lists of the API.  A copy has the value of its original and shares no memory with it.  The other theories use the same objects as
    values, which this justifies: no two of their owners share a part.
  \<^item> \<^verbatim>\<open>Simplestreams\<close>, \<^verbatim>\<open>Simplestreams_Import\<close>: \<^verbatim>\<open>internal/exp/simplestreams/index\<close>, the operations and their theorems.  The
    abstract state of an index is its \<open>catalog\<close>, and an import is a \<open>publish\<close> on it; a well-formed index stays well formed;
    the files of an image are in place before the documents name them.  \<^verbatim>\<open>Simplestreams_Command\<close>: the commands around it; what is
    imported can be loaded again, and is shown, a row for each image that passes the filters.
  \<^item> \<^verbatim>\<open>Image_Builder\<close>: \<^verbatim>\<open>internal/exp/image-builder\<close>, the actions on the server and on local files, and the stages.  Waiting
    for the agent of an instance ends, and succeeds when the agent comes up in time; a failed export leaves no file.
    \<^verbatim>\<open>Image_Builder_Command\<close>: the two build commands, which touch nothing but their own instances and alias, and publish
    from the builder alone.
  \<^item> \<^verbatim>\<open>Docker_Shim\<close>: \<^verbatim>\<open>cmd/exp/kini/docker\<close>, the docker commands that kind issues.  What one command makes, the other
    commands find again, and the load balancer of a kind cluster balances over its control plane nodes.  \<^verbatim>\<open>Kini_Setup\<close>: \<^verbatim>\<open>internal/exp/kini\<close>, \<^verbatim>\<open>cmd/exp/kini\<close>, shadowing docker on the search path and
    the set-up of the local configuration, which can be repeated.

  \<^bold>\<open>Correspondence.\<close>  Structs are records, interfaces with several implementations are datatypes, one
  definition per function; a longer function is split into definitions named after its parts.  Names are
  those of the sources, with a prefix or suffix where one name has several owners (\<^verbatim>\<open>reconcileNormal_c\<close> and
  \<^verbatim>\<open>reconcileNormal_m\<close> are the methods of the two reconcilers).  A function that returns an error answers
  \<open>go_error + 'a\<close>.  Every call of the outside answers anything its type allows, takes any time and changes
  the outside in any way, so a theorem about a run holds whatever the server and Kubernetes do, and
  interleavings with other clients are changes of the outside between two calls.

  \<^bold>\<open>Interfaces.\<close>  The locales are \<open>condition_setter\<close> (conditions of objects), \<open>image_family\<close> (images per
  server), \<open>overlay\<close> (builders that lay a map over a map), \<open>lb_manager\<close> (load balancers), \<open>object_patch\<close>
  (reconcile and patch), \<open>importer\<close> (what the container and the virtual machine importers share), \<open>instance_requests\<close> (actions that stay within the requests for one instance) and \<open>deep_copy\<close> (copies that share nothing); each is interpreted on the definitions of the program.

  \<^bold>\<open>Errors.\<close>  Every error that the code returns is a value with its message.  A panic (a write to a nil map, a nil reader or network) is
  an error value too, whose message begins with \<^verbatim>\<open>panic:\<close>.

  \<^bold>\<open>Bounds.\<close>  Two loops poll the server, \<open>waitForInstanceAddress\<close> and \<open>wait_agent\<close>, and take fuel.  In the first, a round takes at least a second
  and the context ends at most \<open>instanceStartTimeout\<close> after the start, so
  \<open>instanceStartTimeout div second\<close> rounds are enough; that the fuel never runs out is proved, and with it
  that starting an instance always returns.  In the second, the limit is \<open>agent_timeout\<close>, with the same argument.  The
  loop of \<open>parseImageTag\<close> may run for ever and is a partial function; when it returns is proved.  Time is counted in milliseconds as a natural number.

  \<^bold>\<open>Not modelled.\<close>  Logging; the machinery of controller-runtime behind the watches; the registration of commands and flags with
  cobra and klog; custom haproxy templates, which may use all of \<^verbatim>\<open>text/template\<close> (a
  parameter); scripts, YAML, JSON, the archive formats, qemu-img, the registry client and kind (parameters).
  A reader that fails has delivered nothing, and the two goroutines that wait for an agent are one loop that stops at the limit.

  What a patch does to a stored object, and that the helpers of Cluster API touch only their own fields, is taken from their
  documentation (theory \<^verbatim>\<open>Machine_Store\<close>).  The end-to-end tests are programs against a live server and have no part here.
\<close>

end
